(* ===== verification/Go_Prelude.thy ===== *)
theory Go_Prelude
  imports Main "HOL-Library.Word"
begin

text \<open>
  What the program uses of the Go language and its standard library, shared by every
  component.

  \<^item> A Go \<^verbatim>\<open>string\<close> is a sequence of bytes, here \<^typ>\<open>string\<close>. The
    case functions (\<^verbatim>\<open>strings.ToLower\<close> and its kin) act on the ASCII letters, the
    only ones the program applies them to.
  \<^item> An \<^verbatim>\<open>int\<close> or \<^verbatim>\<open>int64\<close> is an \<^typ>\<open>int\<close> whose arithmetic
    goes through \<open>wrap64\<close>; a conversion to \<^verbatim>\<open>int32\<close> is \<open>wrap32\<close>.
  \<^item> A function that may panic returns a value of \<open>'a go\<close>; an \<^verbatim>\<open>error\<close>
    result is the left side of a sum.
  \<^item> A nil-able pointer to a value is an \<open>option\<close>.
\<close>

section \<open>Panics\<close>

datatype 'a go = Ret 'a | Panic string

text \<open>The text of the panic at a nil pointer.\<close>

definition nil_deref :: string where
  "nil_deref = ''invalid memory address or nil pointer dereference''"

fun go_bind :: "'a go \<Rightarrow> ('a \<Rightarrow> 'b go) \<Rightarrow> 'b go" where
  "go_bind (Ret a) f = f a"
| "go_bind (Panic m) f = Panic m"

text \<open>Sequencing a step that may panic or return an error.\<close>

definition try_bind :: "('e + 'a) go \<Rightarrow> ('a \<Rightarrow> ('e + 'b) go) \<Rightarrow> ('e + 'b) go" where
  "try_bind m f =
     (case m of Panic p \<Rightarrow> Panic p | Ret (Inl e) \<Rightarrow> Ret (Inl e) | Ret (Inr a) \<Rightarrow> f a)"

fun returns :: "'a go \<Rightarrow> bool" where
  "returns (Ret a) = True"
| "returns (Panic m) = False"

section \<open>Machine integers\<close>

definition wrap64 :: "int \<Rightarrow> int" where
  "wrap64 i = (i + 2 ^ 63) mod 2 ^ 64 - 2 ^ 63"

definition wrap32 :: "int \<Rightarrow> int" where
  "wrap32 i = (i + 2 ^ 31) mod 2 ^ 32 - 2 ^ 31"

definition max_int64 :: int where
  "max_int64 = 2 ^ 63 - 1"

definition min_int64 :: int where
  "min_int64 = - (2 ^ 63)"

section \<open>Package strings\<close>

definition trim :: "char \<Rightarrow> string \<Rightarrow> string" where
  "trim c s = rev (dropWhile (\<lambda>x. x = c) (rev (dropWhile (\<lambda>x. x = c) s)))"

definition is_space :: "char \<Rightarrow> bool" where
  "is_space c \<longleftrightarrow> of_char c \<in> {9, 10, 11, 12, 13, 32 :: nat}"

definition trim_space :: "string \<Rightarrow> string" where
  "trim_space s = rev (dropWhile is_space (rev (dropWhile is_space s)))"

fun split_on :: "char \<Rightarrow> string \<Rightarrow> string list" where
  "split_on c [] = [[]]"
| "split_on c (x # xs) =
     (if x = c then [] # split_on c xs
      else (case split_on c xs of [] \<Rightarrow> [[x]] | p # ps \<Rightarrow> (x # p) # ps))"

fun join :: "string \<Rightarrow> string list \<Rightarrow> string" where
  "join sep [] = []"
| "join sep [p] = p"
| "join sep (p # q # ps) = p @ sep @ join sep (q # ps)"

definition has_prefix :: "string \<Rightarrow> string \<Rightarrow> bool" where
  "has_prefix s p \<longleftrightarrow> take (length p) s = p"

definition has_suffix :: "string \<Rightarrow> string \<Rightarrow> bool" where
  "has_suffix s p \<longleftrightarrow> has_prefix (rev s) (rev p)"

definition trim_suffix :: "string \<Rightarrow> string \<Rightarrow> string" where
  "trim_suffix s p = (if has_suffix s p then take (length s - length p) s else s)"

fun contains :: "string \<Rightarrow> string \<Rightarrow> bool" where
  "contains [] p = (p = [])"
| "contains (x # xs) p = (has_prefix (x # xs) p \<or> contains xs p)"

text \<open>\<^verbatim>\<open>strings.Replace(s, old, new, -1)\<close> for a non-empty \<^verbatim>\<open>old\<close>.\<close>

fun replace_all :: "string \<Rightarrow> string \<Rightarrow> string \<Rightarrow> string" where
  "replace_all old new [] = []"
| "replace_all old new (x # xs) =
     (if old \<noteq> [] \<and> has_prefix (x # xs) old
      then new @ replace_all old new (drop (length old - 1) xs)
      else x # replace_all old new xs)"

definition lower_char :: "char \<Rightarrow> char" where
  "lower_char c =
     (if 65 \<le> (of_char c :: nat) \<and> of_char c \<le> (90 :: nat) then char_of (of_char c + 32 :: nat) else c)"

definition upper_char :: "char \<Rightarrow> char" where
  "upper_char c =
     (if 97 \<le> (of_char c :: nat) \<and> of_char c \<le> (122 :: nat) then char_of (of_char c - 32 :: nat) else c)"

definition to_lower :: "string \<Rightarrow> string" where
  "to_lower = map lower_char"

definition to_upper :: "string \<Rightarrow> string" where
  "to_upper = map upper_char"

text \<open>
  Folding of case. Two characters outside ASCII fold to letters of ASCII, the long s (U+017F) and the
  sign of the Kelvin (U+212A). That makes \<open>equal_fold\<close> the library's \<^verbatim>\<open>EqualFold\<close> where one of
  the two texts is ASCII, as it is wherever the program compares with a name of its own; the folding of
  letters outside ASCII among each other is not modelled.
\<close>

fun fold_case :: "string \<Rightarrow> string" where
  "fold_case [] = []"
| "fold_case (c # s) =
     (if has_prefix (c # s) [CHR 0xC5, CHR 0xBF] then CHR ''s'' # fold_case (drop 1 s)
      else if has_prefix (c # s) [CHR 0xE2, CHR 0x84, CHR 0xAA] then CHR ''k'' # fold_case (drop 2 s)
      else lower_char c # fold_case s)"

definition equal_fold :: "string \<Rightarrow> string \<Rightarrow> bool" where
  "equal_fold a b \<longleftrightarrow> fold_case a = fold_case b"

section \<open>Package strconv\<close>

definition digit_char :: "nat \<Rightarrow> char" where
  "digit_char d = char_of (48 + d)"

fun itoa_nat :: "nat \<Rightarrow> string" where
  "itoa_nat n = (if n < 10 then [digit_char n] else itoa_nat (n div 10) @ [digit_char (n mod 10)])"

declare itoa_nat.simps [simp del]

definition itoa :: "int \<Rightarrow> string" where
  "itoa i = (if i < 0 then CHR ''-'' # itoa_nat (nat (- i)) else itoa_nat (nat i))"

definition digit_val :: "char \<Rightarrow> nat option" where
  "digit_val c =
     (if 48 \<le> (of_char c :: nat) \<and> of_char c \<le> (57 :: nat) then Some (of_char c - 48) else None)"

fun digits_val :: "nat \<Rightarrow> string \<Rightarrow> nat option" where
  "digits_val acc [] = Some acc"
| "digits_val acc (c # cs) =
     (case digit_val c of None \<Rightarrow> None | Some d \<Rightarrow> digits_val (10 * acc + d) cs)"

text \<open>
  \<^verbatim>\<open>strconv.Atoi\<close> and \<^verbatim>\<open>strconv.ParseInt(s, 10, 0)\<close> on a 64-bit platform: the
  value together with whether the error is nil. A syntax error gives 0, an out-of-range
  number gives the nearest bound.
\<close>

definition parse_int :: "string \<Rightarrow> int \<times> bool" where
  "parse_int s =
     (let neg = (s \<noteq> [] \<and> hd s = CHR ''-'');
          body = (if s \<noteq> [] \<and> hd s \<in> {CHR ''-'', CHR ''+''} then tl s else s)
      in if body = [] then (0, False)
         else (case digits_val 0 body of
                 None \<Rightarrow> (0, False)
               | Some n \<Rightarrow>
                   if neg then (if - int n < min_int64 then (min_int64, False) else (- int n, True))
                   else (if max_int64 < int n then (max_int64, False) else (int n, True))))"

section \<open>Package fmt\<close>

text \<open>
  \<^verbatim>\<open>fmt.Sprintf\<close> for the verbs the program uses (\<^verbatim>\<open>%s\<close>,
  \<^verbatim>\<open>%d\<close>, \<^verbatim>\<open>%v\<close>, \<^verbatim>\<open>%%\<close>), with what the library prints for a
  missing argument, a surplus argument and a verb that does not fit its argument. Flags,
  widths and argument indexes occur in no format of the program.
\<close>

datatype fmt_arg = FStr string | FInt int | FStrs "string list"

fun fmt_type :: "fmt_arg \<Rightarrow> string" where
  "fmt_type (FStr s) = ''string''"
| "fmt_type (FInt i) = ''int''"
| "fmt_type (FStrs ss) = ''[]string''"

fun fmt_v :: "fmt_arg \<Rightarrow> string" where
  "fmt_v (FStr s) = s"
| "fmt_v (FInt i) = itoa i"
| "fmt_v (FStrs ss) = ''['' @ join '' '' ss @ '']''"

definition bad_verb :: "char \<Rightarrow> fmt_arg \<Rightarrow> string" where
  "bad_verb v a = ''%!'' @ [v] @ ''('' @ fmt_type a @ ''='' @ fmt_v a @ '')''"

fun fmt_verb :: "char \<Rightarrow> fmt_arg \<Rightarrow> string" where
  "fmt_verb v (FStr s) = (if v = CHR ''s'' \<or> v = CHR ''v'' then s else bad_verb v (FStr s))"
| "fmt_verb v (FInt i) = (if v = CHR ''d'' \<or> v = CHR ''v'' then itoa i else bad_verb v (FInt i))"
| "fmt_verb v (FStrs ss) =
     (if v = CHR ''s'' \<or> v = CHR ''v'' then fmt_v (FStrs ss)
      else ''['' @ join '' '' (map (\<lambda>s. bad_verb v (FStr s)) ss) @ '']'')"

definition fmt_extra :: "fmt_arg list \<Rightarrow> string" where
  "fmt_extra as =
     (if as = [] then []
      else ''%!(EXTRA '' @ join '', '' (map (\<lambda>a. fmt_type a @ ''='' @ fmt_v a) as) @ '')'')"

fun sprintf :: "string \<Rightarrow> fmt_arg list \<Rightarrow> string" where
  "sprintf [] as = fmt_extra as"
| "sprintf [c] as = (if c = CHR ''%'' then ''%!(NOVERB)'' @ fmt_extra as else c # fmt_extra as)"
| "sprintf (c # v # f) as =
     (if c \<noteq> CHR ''%'' then c # sprintf (v # f) as
      else if v = CHR ''%'' then CHR ''%'' # sprintf f as
      else (case as of
              [] \<Rightarrow> ''%!'' @ [v] @ ''(MISSING)'' @ sprintf f []
            | a # as' \<Rightarrow> fmt_verb v a @ sprintf f as'))"

section \<open>Facts\<close>

lemma go_bind_Ret_iff [simp]: "go_bind m f = Ret b \<longleftrightarrow> (\<exists>a. m = Ret a \<and> f a = Ret b)"
  by (cases m) auto

lemma go_bind_Panic_iff: "go_bind m f = Panic e \<longleftrightarrow> m = Panic e \<or> (\<exists>a. m = Ret a \<and> f a = Panic e)"
  by (cases m) auto

lemma try_bind_simps [simp]:
  "try_bind (Ret (Inr a)) f = f a"
  "try_bind (Ret (Inl e)) f = Ret (Inl e)"
  "try_bind (Panic p) f = Panic p"
  by (simp_all add: try_bind_def)

lemma try_bind_Inr_iff:
  "try_bind m f = Ret (Inr b) \<longleftrightarrow> (\<exists>a. m = Ret (Inr a) \<and> f a = Ret (Inr b))"
  by (auto simp: try_bind_def split: go.splits sum.splits)

lemma try_bind_Inl_iff:
  "try_bind m f = Ret (Inl e) \<longleftrightarrow>
     m = Ret (Inl e) \<or> (\<exists>a. m = Ret (Inr a) \<and> f a = Ret (Inl e))"
  by (auto simp: try_bind_def split: go.splits sum.splits)

named_theorems go_iffs \<open>when a sequence of steps that may fail ends well\<close>

declare try_bind_Inr_iff [go_iffs]

lemma sum_case_Ret_iff [go_iffs]:
  "(case s of Inl e \<Rightarrow> Ret (Inl (h e)) | Inr a \<Rightarrow> f a) = Ret (Inr b) \<longleftrightarrow>
     (\<exists>a. s = Inr a \<and> f a = Ret (Inr b))"
  by (cases s) auto

lemma sum_case_Inr_iff [go_iffs]:
  "(case s of Inl e \<Rightarrow> Inl (h e) | Inr a \<Rightarrow> f a) = Inr b \<longleftrightarrow> (\<exists>a. s = Inr a \<and> f a = Inr b)"
  by (cases s) auto

lemma option_case_Ret_iff [go_iffs]:
  "(case s of None \<Rightarrow> Ret (Inl e) | Some a \<Rightarrow> f a) = Ret (Inr b) \<longleftrightarrow>
     (\<exists>a. s = Some a \<and> f a = Ret (Inr b))"
  by (cases s) auto

lemma go_case_Ret_iff [go_iffs]:
  "(case m of Panic p \<Rightarrow> Panic p | Ret a \<Rightarrow> f a) = Ret b \<longleftrightarrow> (\<exists>a. m = Ret a \<and> f a = Ret b)"
  by (cases m) auto

lemma try_bind_cong [fundef_cong]:
  "m = m' \<Longrightarrow> (\<And>a. m' = Ret (Inr a) \<Longrightarrow> f a = f' a) \<Longrightarrow> try_bind m f = try_bind m' f'"
  by (auto simp: try_bind_def split: go.splits sum.splits)

lemma returns_iff: "returns m \<longleftrightarrow> (\<exists>a. m = Ret a)"
  by (cases m) auto

lemma wrap64_range: "min_int64 \<le> wrap64 i \<and> wrap64 i \<le> max_int64"
  by (simp add: wrap64_def min_int64_def max_int64_def)

lemma wrap64_id: "min_int64 \<le> i \<Longrightarrow> i \<le> max_int64 \<Longrightarrow> wrap64 i = i"
  by (simp add: wrap64_def min_int64_def max_int64_def)

lemma wrap32_range: "- (2 ^ 31) \<le> wrap32 i \<and> wrap32 i < 2 ^ 31"
  by (simp add: wrap32_def)

lemma wrap32_id: "- (2 ^ 31) \<le> i \<Longrightarrow> i < 2 ^ 31 \<Longrightarrow> wrap32 i = i"
  by (simp add: wrap32_def)

lemma split_on_ne [simp]: "split_on c s \<noteq> []"
  by (induction s) (auto split: list.splits)

lemma join_Cons: "ps \<noteq> [] \<Longrightarrow> join sep (p # ps) = p @ sep @ join sep ps"
  by (cases ps) auto

lemma join_split_on [simp]: "join [c] (split_on c s) = s"
proof (induction s)
  case Nil
  then show ?case by simp
next
  case (Cons x xs)
  show ?case
  proof (cases "x = c")
    case True
    with Cons show ?thesis by (simp add: join_Cons)
  next
    case False
    obtain p ps where s: "split_on c xs = p # ps"
      by (cases "split_on c xs") auto
    with Cons False show ?thesis by (cases ps) auto
  qed
qed

lemma split_on_pieces: "p \<in> set (split_on c s) \<Longrightarrow> c \<notin> set p"
  by (induction s arbitrary: p) (auto split: list.splits if_splits)

lemma split_on_notin: "c \<notin> set s \<Longrightarrow> split_on c s = [s]"
  by (induction s) auto

lemma split_on_append:
  "c \<notin> set a \<Longrightarrow> split_on c (a @ c # b) = a # split_on c b"
  by (induction a) auto

lemma split_on_join:
  assumes "ps \<noteq> []" and "\<forall>p\<in>set ps. c \<notin> set p"
  shows "split_on c (join [c] ps) = ps"
  using assms
proof (induction ps rule: list_nonempty_induct)
  case (single p)
  then show ?case by (simp add: split_on_notin)
next
  case (cons p ps)
  then show ?case by (simp add: join_Cons split_on_append)
qed

lemma length_split_on: "length (split_on c s) = Suc (count_list s c)"
proof (induction s)
  case Nil
  then show ?case by simp
next
  case (Cons x xs)
  then show ?case by (cases "split_on c xs") auto
qed

lemma split_on_single_iff: "length (split_on c s) = 1 \<longleftrightarrow> c \<notin> set s"
  by (simp add: length_split_on count_list_0_iff)

lemma set_dropWhile_sub: "set (dropWhile P s) \<subseteq> set s"
  by (auto dest: set_dropWhileD)

lemma set_trim: "set (trim c s) \<subseteq> set s"
  unfolding trim_def by (auto dest!: set_dropWhileD)

lemma dropWhile_idem_hd: "dropWhile P (dropWhile P s) = dropWhile P s"
  by (induction s) auto

lemma hd_dropWhile_rev:
  assumes "s \<noteq> []" and "\<not> P (hd s)" and "rev (dropWhile P (rev s)) \<noteq> []"
  shows "hd (rev (dropWhile P (rev s))) = hd s"
proof -
  obtain x xs where s: "s = x # xs" using assms(1) by (cases s) auto
  have "dropWhile P (rev xs @ [x]) = dropWhile P (rev xs) @ [x]"
    if "\<not> P x" using that by (induction xs rule: rev_induct) auto
  with s assms(2) show ?thesis by simp
qed

lemma trim_ends:
  assumes "trim c s \<noteq> []"
  shows "hd (trim c s) \<noteq> c" and "last (trim c s) \<noteq> c"
proof -
  let ?l = "dropWhile (\<lambda>x. x = c) s"
  let ?t = "dropWhile (\<lambda>x. x = c) (rev ?l)"
  have t: "trim c s = rev ?t" by (simp add: trim_def)
  with assms have ne: "?t \<noteq> []" by auto
  then have l: "?l \<noteq> []" by (metis dropWhile.simps(1) rev.simps(1))
  then have hl: "hd ?l \<noteq> c" by (rule hd_dropWhile [of "\<lambda>x. x = c" s])
  have "hd (rev ?t) = hd ?l"
    using hd_dropWhile_rev [of ?l "\<lambda>x. x = c"] l hl ne by simp
  with hl t show "hd (trim c s) \<noteq> c" by simp
  have "hd ?t \<noteq> c" using ne by (rule hd_dropWhile [of "\<lambda>x. x = c" "rev ?l"])
  with t ne show "last (trim c s) \<noteq> c" by (simp add: last_rev)
qed

lemma trim_id:
  assumes "s = [] \<or> (hd s \<noteq> c \<and> last s \<noteq> c)"
  shows "trim c s = s"
proof (cases "s = []")
  case True
  then show ?thesis by (simp add: trim_def)
next
  case False
  have keep: "dropWhile (\<lambda>x. x = c) t = t" if "t = [] \<or> hd t \<noteq> c" for t :: string
    using that by (cases t) auto
  from assms False have "dropWhile (\<lambda>x. x = c) s = s" by (intro keep) simp
  moreover from assms False have "dropWhile (\<lambda>x. x = c) (rev s) = rev s"
    by (intro keep) (simp add: hd_rev)
  ultimately show ?thesis by (simp add: trim_def)
qed

lemma trim_trim [simp]: "trim c (trim c s) = trim c s"
  using trim_ends [of c s] by (intro trim_id) auto

lemma trim_Nil [simp]: "trim c [] = []"
  by (simp add: trim_def)

lemma has_prefix_append [simp]: "has_prefix (p @ s) p"
  by (simp add: has_prefix_def)

lemma has_prefix_iff: "has_prefix s p \<longleftrightarrow> (\<exists>r. s = p @ r)"
proof
  assume "has_prefix s p"
  then have "s = p @ drop (length p) s"
    unfolding has_prefix_def by (metis append_take_drop_id)
  then show "\<exists>r. s = p @ r" ..
qed auto

lemma has_suffix_iff: "has_suffix s p \<longleftrightarrow> (\<exists>r. s = r @ p)"
proof -
  have "has_suffix s p \<longleftrightarrow> (\<exists>r. rev s = rev p @ r)"
    by (simp add: has_suffix_def has_prefix_iff)
  also have "\<dots> \<longleftrightarrow> (\<exists>r. s = rev r @ p)"
    by (metis rev_append rev_rev_ident)
  also have "\<dots> \<longleftrightarrow> (\<exists>r. s = r @ p)"
    by (metis rev_rev_ident)
  finally show ?thesis .
qed

lemma trim_suffix_append [simp]: "trim_suffix (s @ p) p = s"
  by (auto simp: trim_suffix_def has_suffix_iff)

lemma trim_suffix_notin: "\<not> has_suffix s p \<Longrightarrow> trim_suffix s p = s"
  by (simp add: trim_suffix_def)

lemma contains_iff: "contains s p \<longleftrightarrow> (\<exists>a b. s = a @ p @ b)"
proof (induction s)
  case Nil
  then show ?case by auto
next
  case (Cons x xs)
  show ?case
  proof
    assume "contains (x # xs) p"
    then consider "has_prefix (x # xs) p" | "contains xs p" by auto
    then show "\<exists>a b. x # xs = a @ p @ b"
    proof cases
      case 1
      then obtain r where "x # xs = p @ r" by (auto simp: has_prefix_iff)
      then have "x # xs = [] @ p @ r" by simp
      then show ?thesis by blast
    next
      case 2
      then obtain a b where "xs = a @ p @ b" using Cons.IH by blast
      then have "x # xs = (x # a) @ p @ b" by simp
      then show ?thesis by blast
    qed
  next
    assume "\<exists>a b. x # xs = a @ p @ b"
    then obtain a b where ab: "x # xs = a @ p @ b" by blast
    show "contains (x # xs) p"
    proof (cases a)
      case Nil
      with ab have "has_prefix (x # xs) p" by (auto simp: has_prefix_iff)
      then show ?thesis by simp
    next
      case (Cons y a')
      with ab have "xs = a' @ p @ b" by simp
      then have "contains xs p" using Cons.IH by blast
      then show ?thesis by simp
    qed
  qed
qed

lemma of_char_digit_char: "d < 10 \<Longrightarrow> of_char (digit_char d) = 48 + d"
  by (simp add: digit_char_def of_char_of)

lemma digit_val_digit_char [simp]: "d < 10 \<Longrightarrow> digit_val (digit_char d) = Some d"
  by (simp add: digit_val_def of_char_digit_char)

lemma digits_val_append:
  "digits_val a (s @ t) = (case digits_val a s of None \<Rightarrow> None | Some b \<Rightarrow> digits_val b t)"
  by (induction s arbitrary: a) (auto split: option.splits)

lemma digits_val_itoa_nat: "digits_val 0 (itoa_nat n) = Some n"
proof (induction n rule: itoa_nat.induct)
  case (1 n)
  show ?case
  proof (cases "n < 10")
    case True
    then show ?thesis by (subst itoa_nat.simps) simp
  next
    case False
    with 1 show ?thesis by (subst itoa_nat.simps) (simp add: digits_val_append)
  qed
qed

lemma itoa_nat_ne [simp]: "itoa_nat n \<noteq> []"
  by (subst itoa_nat.simps) simp

lemma itoa_nat_digits: "c \<in> set (itoa_nat n) \<Longrightarrow> \<exists>d<10. c = digit_char d"
proof (induction n rule: itoa_nat.induct)
  case (1 n)
  show ?case
  proof (cases "n < 10")
    case True
    with "1.prems" show ?thesis by (subst (asm) itoa_nat.simps) auto
  next
    case False
    with "1.prems" have "c \<in> set (itoa_nat (n div 10)) \<or> c = digit_char (n mod 10)"
      by (subst (asm) itoa_nat.simps) auto
    moreover have "n mod 10 < 10" by simp
    ultimately show ?thesis using False "1.IH" by blast
  qed
qed

lemma digit_char_not_sign: "d < 10 \<Longrightarrow> digit_char d \<noteq> CHR ''-'' \<and> digit_char d \<noteq> CHR ''+''"
proof -
  assume d: "d < 10"
  have "of_char (digit_char d) = 48 + d" using d by (rule of_char_digit_char)
  then show ?thesis by auto
qed

lemma hd_itoa_nat: "hd (itoa_nat n) \<noteq> CHR ''-'' \<and> hd (itoa_nat n) \<noteq> CHR ''+''"
proof -
  have "hd (itoa_nat n) \<in> set (itoa_nat n)" by (rule hd_in_set) simp
  then show ?thesis using itoa_nat_digits digit_char_not_sign by metis
qed

lemma parse_int_itoa:
  assumes "min_int64 \<le> i" and "i \<le> max_int64"
  shows "parse_int (itoa i) = (i, True)"
proof (cases "i < 0")
  case True
  with assms show ?thesis
    by (simp add: parse_int_def itoa_def Let_def digits_val_itoa_nat)
next
  case False
  with assms show ?thesis
    using hd_itoa_nat [of "nat i"]
    by (simp add: parse_int_def itoa_def Let_def digits_val_itoa_nat)
qed

lemma parse_int_range: "min_int64 \<le> fst (parse_int s) \<and> fst (parse_int s) \<le> max_int64"
proof -
  have "min_int64 \<le> 0" and "(0::int) \<le> max_int64"
    by (simp_all add: min_int64_def max_int64_def)
  then show ?thesis
    by (auto simp: parse_int_def Let_def split: option.splits)
qed

lemma itoa_nat_inj: "itoa_nat m = itoa_nat n \<Longrightarrow> m = n"
  by (metis digits_val_itoa_nat option.inject)

lemma itoa_nat_no_sign: "CHR ''-'' # itoa_nat m \<noteq> itoa_nat n"
  using hd_itoa_nat [of n] by (metis list.sel(1))

lemma itoa_inj:
  assumes "itoa i = itoa j"
  shows "i = j"
proof (cases "i < 0"; cases "j < 0")
  assume "i < 0" and "j < 0"
  with assms have "nat (- i) = nat (- j)" by (simp add: itoa_def itoa_nat_inj)
  with \<open>i < 0\<close> \<open>j < 0\<close> show ?thesis by simp
next
  assume "\<not> i < 0" and "\<not> j < 0"
  with assms have "nat i = nat j" by (simp add: itoa_def itoa_nat_inj)
  with \<open>\<not> i < 0\<close> \<open>\<not> j < 0\<close> show ?thesis by simp
qed (use assms itoa_nat_no_sign in \<open>simp_all add: itoa_def, metis+\<close>)

lemma sprintf_plain: "CHR ''%'' \<notin> set f \<Longrightarrow> sprintf f as = f @ fmt_extra as"
  by (induction f as rule: sprintf.induct) auto

lemma fmt_extra_Nil [simp]: "fmt_extra [] = []"
  by (simp add: fmt_extra_def)

lemma to_lower_idem [simp]: "to_lower (to_lower s) = to_lower s"
proof -
  have "lower_char (lower_char c) = lower_char c" for c
    by (auto simp: lower_char_def of_char_of)
  then show ?thesis by (simp add: to_lower_def)
qed

lemma equal_fold_refl [simp]: "equal_fold s s"
  by (simp add: equal_fold_def)

lemma equal_fold_sym: "equal_fold a b \<Longrightarrow> equal_fold b a"
  by (simp add: equal_fold_def)

end
