(* ===== verification/Service_Errors.thy ===== *)
theory Service_Errors
  imports Go_Prelude
begin

text \<open>
  Package \<^verbatim>\<open>pkg/errors\<close>: the service error codes and their table, the constructor
  \<open>New\<close> and its wrappers, the texts derived from a code, and the error classification of
  \<^verbatim>\<open>pkg/services/util.go\<close>. The two package variables that
  \<^verbatim>\<open>trex.Init\<close> sets are the record \<open>error_config\<close>.
\<close>

section \<open>Package variables\<close>

record error_config =
  errorCodePrefix :: string
  errorHref :: string

definition default_error_config :: error_config where
  "default_error_config =
     \<lparr>errorCodePrefix = ''rh-trex'', errorHref = ''/api/rh-trex/v1/errors/''\<rparr>"

definition SetErrorCodePrefix :: "string \<Rightarrow> error_config \<Rightarrow> error_config" where
  "SetErrorCodePrefix prefix g = g\<lparr>errorCodePrefix := prefix\<rparr>"

definition SetErrorHref :: "string \<Rightarrow> error_config \<Rightarrow> error_config" where
  "SetErrorHref href g = g\<lparr>errorHref := href\<rparr>"

section \<open>Codes and the error table\<close>

abbreviation ErrorInvalidToken :: int where "ErrorInvalidToken \<equiv> 1"
abbreviation ErrorForbidden :: int where "ErrorForbidden \<equiv> 4"
abbreviation ErrorConflict :: int where "ErrorConflict \<equiv> 6"
abbreviation ErrorNotFound :: int where "ErrorNotFound \<equiv> 7"
abbreviation ErrorValidation :: int where "ErrorValidation \<equiv> 8"
abbreviation ErrorGeneral :: int where "ErrorGeneral \<equiv> 9"
abbreviation ErrorNotImplemented :: int where "ErrorNotImplemented \<equiv> 10"
abbreviation ErrorUnauthorized :: int where "ErrorUnauthorized \<equiv> 11"
abbreviation ErrorUnauthenticated :: int where "ErrorUnauthenticated \<equiv> 15"
abbreviation ErrorMalformedRequest :: int where "ErrorMalformedRequest \<equiv> 17"
abbreviation ErrorBadRequest :: int where "ErrorBadRequest \<equiv> 21"
abbreviation ErrorFailedToParseSearch :: int where "ErrorFailedToParseSearch \<equiv> 23"
abbreviation ErrorDatabaseAdvisoryLock :: int where "ErrorDatabaseAdvisoryLock \<equiv> 26"

record service_error =
  Code :: int
  Reason :: string
  HttpCode :: int

definition mk_error :: "int \<Rightarrow> string \<Rightarrow> int \<Rightarrow> service_error" where
  "mk_error c r h = \<lparr>Code = c, Reason = r, HttpCode = h\<rparr>"

definition Errors :: "service_error list" where
  "Errors =
    [mk_error ErrorInvalidToken ''Invalid token provided'' 403,
     mk_error ErrorForbidden ''Forbidden to perform this action'' 403,
     mk_error ErrorConflict ''An entity with the specified unique values already exists'' 409,
     mk_error ErrorNotFound ''Resource not found'' 404,
     mk_error ErrorValidation ''General validation failure'' 400,
     mk_error ErrorGeneral ''Unspecified error'' 500,
     mk_error ErrorNotImplemented ''HTTP Method not implemented for this endpoint'' 405,
     mk_error ErrorUnauthorized ''Account is unauthorized to perform this action'' 403,
     mk_error ErrorUnauthenticated ''Account authentication could not be verified'' 401,
     mk_error ErrorMalformedRequest ''Unable to read request body'' 400,
     mk_error ErrorBadRequest ''Bad request'' 400,
     mk_error ErrorFailedToParseSearch ''Failed to parse search query'' 400,
     mk_error ErrorDatabaseAdvisoryLock ''Database advisory lock error'' 500]"

definition Find :: "int \<Rightarrow> service_error option" where
  "Find code = List.find (\<lambda>err. Code err = code) Errors"

section \<open>Constructors\<close>

definition New :: "int \<Rightarrow> string \<Rightarrow> fmt_arg list \<Rightarrow> service_error" where
  "New code reason values =
     (let err = (case Find code of
                   None \<Rightarrow> mk_error ErrorGeneral ''Unspecified error'' 500
                 | Some e \<Rightarrow> e)
      in if reason \<noteq> [] then err\<lparr>Reason := sprintf reason values\<rparr> else err)"

definition NotFound :: "string \<Rightarrow> fmt_arg list \<Rightarrow> service_error" where
  "NotFound = New ErrorNotFound"

definition GeneralError :: "string \<Rightarrow> fmt_arg list \<Rightarrow> service_error" where
  "GeneralError = New ErrorGeneral"

definition Unauthorized :: "string \<Rightarrow> fmt_arg list \<Rightarrow> service_error" where
  "Unauthorized = New ErrorUnauthorized"

definition Unauthenticated :: "string \<Rightarrow> fmt_arg list \<Rightarrow> service_error" where
  "Unauthenticated = New ErrorUnauthenticated"

definition Forbidden :: "string \<Rightarrow> fmt_arg list \<Rightarrow> service_error" where
  "Forbidden = New ErrorForbidden"

definition NotImplemented :: "string \<Rightarrow> fmt_arg list \<Rightarrow> service_error" where
  "NotImplemented = New ErrorNotImplemented"

definition Conflict :: "string \<Rightarrow> fmt_arg list \<Rightarrow> service_error" where
  "Conflict = New ErrorConflict"

definition Validation :: "string \<Rightarrow> fmt_arg list \<Rightarrow> service_error" where
  "Validation = New ErrorValidation"

definition MalformedRequest :: "string \<Rightarrow> fmt_arg list \<Rightarrow> service_error" where
  "MalformedRequest = New ErrorMalformedRequest"

definition BadRequest :: "string \<Rightarrow> fmt_arg list \<Rightarrow> service_error" where
  "BadRequest = New ErrorBadRequest"

definition FailedToParseSearch :: "string \<Rightarrow> fmt_arg list \<Rightarrow> service_error" where
  "FailedToParseSearch reason values =
     (let message = sprintf ''Failed to parse search query: %s'' [FStr reason]
      in New ErrorFailedToParseSearch message values)"

section \<open>Methods of a service error\<close>

definition CodeStr :: "error_config \<Rightarrow> int \<Rightarrow> string" where
  "CodeStr g code = sprintf ''%s-%d'' [FStr (errorCodePrefix g), FInt code]"

definition Href :: "error_config \<Rightarrow> int \<Rightarrow> string" where
  "Href g code = sprintf ''%s%d'' [FStr (errorHref g), FInt code]"

definition error_text :: "error_config \<Rightarrow> service_error \<Rightarrow> string" where
  "error_text g e = sprintf ''%s: %s'' [FStr (CodeStr g (Code e)), FStr (Reason e)]"

definition Is404 :: "service_error \<Rightarrow> bool" where
  "Is404 e \<longleftrightarrow> Code e = Code (NotFound [] [])"

definition IsConflict :: "service_error \<Rightarrow> bool" where
  "IsConflict e \<longleftrightarrow> Code e = Code (Conflict [] [])"

definition IsForbidden :: "service_error \<Rightarrow> bool" where
  "IsForbidden e \<longleftrightarrow> Code e = Code (Forbidden [] [])"

record openapi_error =
  oe_Kind :: "string option"
  oe_Id :: "string option"
  oe_Href :: "string option"
  oe_Code :: "string option"
  oe_Reason :: "string option"
  oe_OperationId :: "string option"
  oe_CreatedAt :: "int option"
  oe_UpdatedAt :: "int option"

definition AsOpenapiError :: "error_config \<Rightarrow> string \<Rightarrow> service_error \<Rightarrow> openapi_error" where
  "AsOpenapiError g operationID e =
     \<lparr>oe_Kind = Some ''Error'', oe_Id = Some (itoa (Code e)), oe_Href = Some (Href g (Code e)),
      oe_Code = Some (CodeStr g (Code e)), oe_Reason = Some (Reason e),
      oe_OperationId = Some operationID, oe_CreatedAt = None, oe_UpdatedAt = None\<rparr>"

section \<open>Go error values\<close>

text \<open>
  The dynamic values of type \<^verbatim>\<open>error\<close> that reach the services: gorm's
  \<^verbatim>\<open>ErrRecordNotFound\<close>, an error that only carries a text, and a service error.
  No code of the repository wraps an error, so \<^verbatim>\<open>errors.Is\<close> is a comparison.
\<close>

datatype go_error = ErrRecordNotFound | TextError string | SvcError service_error

fun Error :: "error_config \<Rightarrow> go_error \<Rightarrow> string" where
  "Error g ErrRecordNotFound = ''record not found''"
| "Error g (TextError t) = t"
| "Error g (SvcError e) = error_text g e"

definition AsError :: "error_config \<Rightarrow> service_error \<Rightarrow> go_error" where
  "AsError g e = TextError (sprintf ''%s'' [FStr (error_text g e)])"

definition DatabaseAdvisoryLock :: "error_config \<Rightarrow> go_error \<Rightarrow> service_error" where
  "DatabaseAdvisoryLock g err = New ErrorDatabaseAdvisoryLock (Error g err) [FStrs []]"

section \<open>Classification of storage errors\<close>

definition piiFields :: "string list" where
  "piiFields = [''username'', ''first_name'', ''last_name'', ''email'', ''address'']"

definition HandleGetError ::
    "error_config \<Rightarrow> string \<Rightarrow> string \<Rightarrow> string \<Rightarrow> go_error \<Rightarrow> service_error" where
  "HandleGetError g resourceType field value err =
     (let value = (if field \<in> set piiFields then ''<redacted>'' else value)
      in if err = ErrRecordNotFound
         then NotFound ''%s with %s='%v' not found'' [FStr resourceType, FStr field, FStr value]
         else GeneralError ''Unable to find %s with %s='%v': %s''
                [FStr resourceType, FStr field, FStr value, FStr (Error g err)])"

definition HandleCreateError :: "error_config \<Rightarrow> string \<Rightarrow> go_error \<Rightarrow> service_error" where
  "HandleCreateError g resourceType err =
     (if contains (Error g err) ''violates unique constraint''
      then Conflict ''This %s already exists'' [FStr resourceType]
      else GeneralError ''Unable to create %s: %s'' [FStr resourceType, FStr (Error g err)])"

definition HandleUpdateError :: "error_config \<Rightarrow> string \<Rightarrow> go_error \<Rightarrow> service_error" where
  "HandleUpdateError g resourceType err =
     (if contains (Error g err) ''violates unique constraint''
      then Conflict ''Changes to %s conflict with existing records'' [FStr resourceType]
      else GeneralError ''Unable to update %s: %s'' [FStr resourceType, FStr (Error g err)])"

definition HandleDeleteError :: "error_config \<Rightarrow> string \<Rightarrow> go_error \<Rightarrow> service_error" where
  "HandleDeleteError g resourceType err =
     GeneralError ''Unable to delete %s: %s'' [FStr resourceType, FStr (Error g err)]"

section \<open>Facts\<close>

lemmas error_ctor_defs = NotFound_def GeneralError_def Unauthorized_def Unauthenticated_def
  Forbidden_def NotImplemented_def Conflict_def Validation_def MalformedRequest_def BadRequest_def

lemma mk_error_sel [simp]:
  "Code (mk_error c r h) = c" "Reason (mk_error c r h) = r" "HttpCode (mk_error c r h) = h"
  by (simp_all add: mk_error_def)

lemma Find_Some: "Find c = Some e \<Longrightarrow> e \<in> set Errors \<and> Code e = c"
  by (auto simp: Find_def find_Some_iff)

lemma Find_known [simp]:
  "Find ErrorInvalidToken = Some (mk_error ErrorInvalidToken ''Invalid token provided'' 403)"
  "Find ErrorForbidden = Some (mk_error ErrorForbidden ''Forbidden to perform this action'' 403)"
  "Find ErrorConflict =
     Some (mk_error ErrorConflict ''An entity with the specified unique values already exists'' 409)"
  "Find ErrorNotFound = Some (mk_error ErrorNotFound ''Resource not found'' 404)"
  "Find ErrorValidation = Some (mk_error ErrorValidation ''General validation failure'' 400)"
  "Find ErrorGeneral = Some (mk_error ErrorGeneral ''Unspecified error'' 500)"
  "Find ErrorNotImplemented =
     Some (mk_error ErrorNotImplemented ''HTTP Method not implemented for this endpoint'' 405)"
  "Find ErrorUnauthorized =
     Some (mk_error ErrorUnauthorized ''Account is unauthorized to perform this action'' 403)"
  "Find ErrorUnauthenticated =
     Some (mk_error ErrorUnauthenticated ''Account authentication could not be verified'' 401)"
  "Find ErrorMalformedRequest = Some (mk_error ErrorMalformedRequest ''Unable to read request body'' 400)"
  "Find ErrorBadRequest = Some (mk_error ErrorBadRequest ''Bad request'' 400)"
  "Find ErrorFailedToParseSearch =
     Some (mk_error ErrorFailedToParseSearch ''Failed to parse search query'' 400)"
  "Find ErrorDatabaseAdvisoryLock =
     Some (mk_error ErrorDatabaseAdvisoryLock ''Database advisory lock error'' 500)"
  by (simp_all add: Find_def Errors_def)

lemma distinct_codes: "distinct (map Code Errors)"
  by (simp add: Errors_def)

lemma Find_complete: "e \<in> set Errors \<Longrightarrow> Find (Code e) = Some e"
  by (auto simp: Errors_def)

lemma New_Reason: "reason \<noteq> [] \<Longrightarrow> Reason (New code reason values) = sprintf reason values"
  by (simp add: New_def Let_def)

lemma New_Code: "Code (New code reason values) = (if Find code = None then ErrorGeneral else code)"
  by (auto simp: New_def Let_def dest: Find_Some)

lemma New_HttpCode:
  "HttpCode (New code reason values) =
     (case Find code of None \<Rightarrow> 500 | Some e \<Rightarrow> HttpCode e)"
  by (simp add: New_def Let_def split: option.splits)

lemma New_in_table: "\<exists>e \<in> set Errors. Code (New code reason values) = Code e
    \<and> HttpCode (New code reason values) = HttpCode e"
proof (cases "Find code")
  case None
  have "mk_error ErrorGeneral ''Unspecified error'' 500 \<in> set Errors" by (simp add: Errors_def)
  with None show ?thesis
    by (intro bexI [of _ "mk_error ErrorGeneral ''Unspecified error'' 500"])
       (simp_all add: New_Code New_HttpCode)
next
  case (Some e)
  with Find_Some [OF Some] show ?thesis
    by (intro bexI [of _ e]) (simp_all add: New_Code New_HttpCode)
qed

lemma Errors_HttpCode: "e \<in> set Errors \<Longrightarrow> 400 \<le> HttpCode e \<and> HttpCode e \<le> 500"
  by (auto simp: Errors_def)

lemma ctor_Code [simp]:
  "Code (NotFound r v) = ErrorNotFound" "Code (GeneralError r v) = ErrorGeneral"
  "Code (Unauthorized r v) = ErrorUnauthorized" "Code (Unauthenticated r v) = ErrorUnauthenticated"
  "Code (Forbidden r v) = ErrorForbidden" "Code (NotImplemented r v) = ErrorNotImplemented"
  "Code (Conflict r v) = ErrorConflict" "Code (Validation r v) = ErrorValidation"
  "Code (MalformedRequest r v) = ErrorMalformedRequest" "Code (BadRequest r v) = ErrorBadRequest"
  "Code (DatabaseAdvisoryLock g err) = ErrorDatabaseAdvisoryLock"
  by (simp_all add: error_ctor_defs DatabaseAdvisoryLock_def New_Code)

lemma ctor_HttpCode [simp]:
  "HttpCode (NotFound r v) = 404" "HttpCode (GeneralError r v) = 500"
  "HttpCode (Unauthorized r v) = 403" "HttpCode (Unauthenticated r v) = 401"
  "HttpCode (Forbidden r v) = 403" "HttpCode (NotImplemented r v) = 405"
  "HttpCode (Conflict r v) = 409" "HttpCode (Validation r v) = 400"
  "HttpCode (MalformedRequest r v) = 400" "HttpCode (BadRequest r v) = 400"
  "HttpCode (DatabaseAdvisoryLock g err) = 500"
  by (simp_all add: error_ctor_defs DatabaseAdvisoryLock_def New_HttpCode)

lemma CodeStr_eq: "CodeStr g c = errorCodePrefix g @ ''-'' @ itoa c"
  by (simp add: CodeStr_def)

lemma Href_eq: "Href g c = errorHref g @ itoa c"
  by (simp add: Href_def)

lemma error_text_eq: "error_text g e = errorCodePrefix g @ ''-'' @ itoa (Code e) @ '': '' @ Reason e"
  by (simp add: error_text_def CodeStr_eq)

end
