(* ===== verification/Advisory_Locks.thy ===== *)
theory Advisory_Locks
  imports Service_Errors
begin

text \<open>
  \<^verbatim>\<open>pkg/db/advisory_locks.go\<close>, its mock \<^verbatim>\<open>pkg/db/mocks/advisory_locks.go\<close>
  and the counters of \<^verbatim>\<open>pkg/db/metrics_collector.go\<close>. PostgreSQL, reached through gorm,
  is the record \<open>pg_lib\<close> of operations on a database state \<open>'w\<close>, a parameter; what the
  code relies on is the predicate \<open>pg_laws\<close>. A blocking call that has not returned has the
  answer \<open>Waiting\<close>, and the operation that makes it has no result (None).
\<close>

section \<open>The hash\<close>

unbundle bit_operations_syntax

text \<open>
  The 32-bit FNV-1a hash. The conversion of \<^verbatim>\<open>Sum32\<close> to \<^verbatim>\<open>int32\<close> keeps
  the bits, so the hash is the word itself.
\<close>

definition fnv_step :: "32 word \<Rightarrow> char \<Rightarrow> 32 word" where
  "fnv_step h c = (h XOR of_nat (of_char c)) * 16777619"

definition hash :: "string \<Rightarrow> 32 word" where
  "hash s = fold (\<lambda>c h. fnv_step h c) s 2166136261"

section \<open>State\<close>

datatype lock_answer = Granted | LockError go_error | Waiting

record 'w pg_lib =
  pgBegin :: "'w \<Rightarrow> (go_error + nat) \<times> 'w"
  pgTxid :: "nat \<Rightarrow> 'w \<Rightarrow> int"
  pgLock :: "nat \<Rightarrow> 32 word \<Rightarrow> 32 word \<Rightarrow> 'w \<Rightarrow> lock_answer \<times> 'w"
  pgTryLock :: "nat \<Rightarrow> 32 word \<Rightarrow> 32 word \<Rightarrow> 'w \<Rightarrow> (go_error + string) \<times> 'w"
  pgCommit :: "nat \<Rightarrow> 'w \<Rightarrow> go_error option \<times> 'w"

record advisory_lock =
  alG2 :: "nat option"
  alTxid :: int
  alUuid :: "string option"
  alId :: "string option"
  alLockType :: "string option"
  alStartTime :: int

text \<open>
  The factory together with what it acts on: the database, the supply of UUIDs (the \<open>n\<close>th
  call of \<^verbatim>\<open>uuid.New\<close> gives \<open>uuid n\<close>), the clock and the two metrics, as the list
  of their updates.
\<close>

record 'w lock_world =
  lwDb :: 'w
  lwLocks :: "string \<rightharpoonup> advisory_lock"
  lwUuids :: nat
  lwNow :: int
  lwCount :: "(string \<times> string) list"
  lwDuration :: "((string \<times> string) \<times> int) list"

definition Migrations :: string where "Migrations = ''migrations''"
definition Events :: string where "Events = ''events''"

definition NewAdvisoryLockFactory :: "'w \<Rightarrow> int \<Rightarrow> 'w lock_world" where
  "NewAdvisoryLockFactory w now =
     \<lparr>lwDb = w, lwLocks = (\<lambda>_. None), lwUuids = 0, lwNow = now, lwCount = [], lwDuration = []\<rparr>"

definition UpdateAdvisoryLockCountMetric :: "string \<Rightarrow> string \<Rightarrow> 'w lock_world \<Rightarrow> 'w lock_world" where
  "UpdateAdvisoryLockCountMetric lockType status S = S\<lparr>lwCount := (lockType, status) # lwCount S\<rparr>"

definition UpdateAdvisoryLockDurationMetric ::
    "string \<Rightarrow> string \<Rightarrow> int \<Rightarrow> 'w lock_world \<Rightarrow> 'w lock_world" where
  "UpdateAdvisoryLockDurationMetric lockType status startTime S =
     S\<lparr>lwDuration := ((lockType, status), lwNow S - startTime) # lwDuration S\<rparr>"

definition ResetAdvisoryLockMetricsCollectors :: "'w lock_world \<Rightarrow> 'w lock_world" where
  "ResetAdvisoryLockMetricsCollectors S = S\<lparr>lwCount := [], lwDuration := []\<rparr>"

section \<open>One lock\<close>

definition newAdvisoryLock :: "'w pg_lib \<Rightarrow> 'w lock_world \<Rightarrow> (go_error + advisory_lock) \<times> 'w lock_world" where
  "newAdvisoryLock pg S =
     (case pgBegin pg (lwDb S) of
        (Inl err, w) \<Rightarrow> (Inl err, S\<lparr>lwDb := w\<rparr>)
      | (Inr tx, w) \<Rightarrow>
          (Inr \<lparr>alG2 = Some tx, alTxid = pgTxid pg tx w, alUuid = None, alId = None,
                alLockType = None, alStartTime = lwNow S\<rparr>, S\<lparr>lwDb := w\<rparr>))"

text \<open>The keys of a lock, or what is missing.\<close>

definition lock_keys :: "advisory_lock \<Rightarrow> go_error + nat \<times> 32 word \<times> 32 word" where
  "lock_keys l =
     (case alG2 l of
        None \<Rightarrow> Inl (TextError ''AdvisoryLock: transaction is missing'')
      | Some tx \<Rightarrow>
          (case alId l of
             None \<Rightarrow> Inl (TextError ''AdvisoryLock: id is missing'')
           | Some i \<Rightarrow>
               (case alLockType l of
                  None \<Rightarrow> Inl (TextError ''AdvisoryLock: lockType is missing'')
                | Some ty \<Rightarrow> Inr (tx, hash i, hash ty))))"

definition lock :: "'w pg_lib \<Rightarrow> advisory_lock \<Rightarrow> 'w \<Rightarrow> lock_answer \<times> 'w" where
  "lock pg l w =
     (case lock_keys l of
        Inl err \<Rightarrow> (LockError err, w)
      | Inr (tx, idAsInt, typeAsInt) \<Rightarrow> pgLock pg tx idAsInt typeAsInt w)"

definition nonBlockingLock :: "'w pg_lib \<Rightarrow> advisory_lock \<Rightarrow> 'w \<Rightarrow> (go_error + bool) \<times> 'w" where
  "nonBlockingLock pg l w =
     (case lock_keys l of
        Inl err \<Rightarrow> (Inl err, w)
      | Inr (tx, idAsInt, typeAsInt) \<Rightarrow>
          (case pgTryLock pg tx idAsInt typeAsInt w of
             (Inl err, w) \<Rightarrow> (Inl err, w)
           | (Inr result, w) \<Rightarrow> (Inr (result = ''true''), w)))"

definition unlock :: "'w pg_lib \<Rightarrow> advisory_lock \<Rightarrow> 'w \<Rightarrow> go_error option \<times> advisory_lock \<times> 'w" where
  "unlock pg l w =
     (case alG2 l of
        None \<Rightarrow> (Some (TextError ''AdvisoryLock: transaction is missing''), l, w)
      | Some tx \<Rightarrow>
          (case pgCommit pg tx w of
             (err, w) \<Rightarrow>
               (err, l\<lparr>alG2 := None, alUuid := None, alId := None, alLockType := None\<rparr>, w)))"

section \<open>The factory\<close>

definition newLock ::
    "(nat \<Rightarrow> string) \<Rightarrow> 'w pg_lib \<Rightarrow> string \<Rightarrow> string \<Rightarrow> 'w lock_world
     \<Rightarrow> (go_error + advisory_lock) \<times> 'w lock_world" where
  "newLock uuid pg lid lockType S =
     (let lockOwnerID = uuid (lwUuids S);
          S = S\<lparr>lwUuids := Suc (lwUuids S)\<rparr>
      in case newAdvisoryLock pg S of
           (Inl err, S) \<Rightarrow> (Inl err, S)
         | (Inr l, S) \<Rightarrow>
             (Inr (l\<lparr>alUuid := Some lockOwnerID, alId := Some lid, alLockType := Some lockType\<rparr>), S))"

definition lock_error_text :: "error_config \<Rightarrow> string \<Rightarrow> string \<Rightarrow> string \<Rightarrow> go_error \<Rightarrow> go_error" where
  "lock_error_text g fmt lid lockType err =
     TextError (sprintf fmt [FStr lid, FStr lockType, FStr (Error g err)])"

text \<open>
  \<^verbatim>\<open>NewAdvisoryLock\<close> after the transaction has begun: obtain the lock, register it. The
  UUID pointer is never nil here, as \<open>newLock\<close> has set it.
\<close>

definition obtain_lock ::
    "error_config \<Rightarrow> 'w pg_lib \<Rightarrow> string \<Rightarrow> string \<Rightarrow> advisory_lock \<Rightarrow> 'w lock_world
     \<Rightarrow> ((string \<times> go_error option) \<times> 'w lock_world) option" where
  "obtain_lock g pg lid lockType l S =
     (let owner = (case alUuid l of Some u \<Rightarrow> u | None \<Rightarrow> [])
      in case lock pg l (lwDb S) of
           (Waiting, w) \<Rightarrow> None
         | (LockError err, w) \<Rightarrow>
             Some ((owner, Some (lock_error_text g
                      ''error obtaining the advisory lock for id %s type %s, %v'' lid lockType err)),
                   UpdateAdvisoryLockCountMetric lockType ''lock error'' (S\<lparr>lwDb := w\<rparr>))
         | (Granted, w) \<Rightarrow>
             Some ((owner, None), S\<lparr>lwDb := w, lwLocks := (lwLocks S)(owner \<mapsto> l)\<rparr>))"

definition NewAdvisoryLock ::
    "(nat \<Rightarrow> string) \<Rightarrow> error_config \<Rightarrow> 'w pg_lib \<Rightarrow> string \<Rightarrow> string \<Rightarrow> 'w lock_world
     \<Rightarrow> ((string \<times> go_error option) \<times> 'w lock_world) option" where
  "NewAdvisoryLock uuid g pg lid lockType S =
     (case newLock uuid pg lid lockType S of
        (Inl err, S) \<Rightarrow> Some (([], Some err), S)
      | (Inr l, S) \<Rightarrow> obtain_lock g pg lid lockType l S)"

text \<open>
  \<^verbatim>\<open>NewNonBlockingLock\<close> after the transaction has begun: try the lock, and register it whether it
  has been acquired or not.
\<close>

definition try_obtain ::
    "error_config \<Rightarrow> 'w pg_lib \<Rightarrow> string \<Rightarrow> string \<Rightarrow> advisory_lock \<Rightarrow> 'w lock_world
     \<Rightarrow> (string \<times> bool \<times> go_error option) \<times> 'w lock_world" where
  "try_obtain g pg lid lockType l S =
     (let owner = (case alUuid l of Some u \<Rightarrow> u | None \<Rightarrow> [])
      in case nonBlockingLock pg l (lwDb S) of
           (Inl err, w) \<Rightarrow>
             ((owner, False, Some (lock_error_text g
                 ''error obtaining the non blocking advisory lock for id %s type %s, %v''
                 lid lockType err)),
              UpdateAdvisoryLockCountMetric lockType ''lock error'' (S\<lparr>lwDb := w\<rparr>))
         | (Inr acquired, w) \<Rightarrow>
             ((owner, acquired, None), S\<lparr>lwDb := w, lwLocks := (lwLocks S)(owner \<mapsto> l)\<rparr>))"

definition NewNonBlockingLock ::
    "(nat \<Rightarrow> string) \<Rightarrow> error_config \<Rightarrow> 'w pg_lib \<Rightarrow> string \<Rightarrow> string \<Rightarrow> 'w lock_world
     \<Rightarrow> (string \<times> bool \<times> go_error option) \<times> 'w lock_world" where
  "NewNonBlockingLock uuid g pg lid lockType S =
     (case newLock uuid pg lid lockType S of
        (Inl err, S) \<Rightarrow> (([], False, Some err), S)
      | (Inr l, S) \<Rightarrow> try_obtain g pg lid lockType l S)"

text \<open>
  A registered lock always has its type (the code dereferences it), as \<open>newLock\<close> sets it.
\<close>

definition Unlock :: "'w pg_lib \<Rightarrow> string \<Rightarrow> 'w lock_world \<Rightarrow> 'w lock_world" where
  "Unlock pg uuid S =
     (if uuid = [] then S
      else (case lwLocks S uuid of
              None \<Rightarrow> S
            | Some l \<Rightarrow>
                (let lockType = (case alLockType l of Some ty \<Rightarrow> ty | None \<Rightarrow> [])
                 in case unlock pg l (lwDb S) of
                      (err, l', w) \<Rightarrow>
                        (let S = S\<lparr>lwDb := w, lwLocks := (lwLocks S)(uuid \<mapsto> l')\<rparr>;
                             S = (if err \<noteq> None
                                  then UpdateAdvisoryLockCountMetric lockType ''unlock error'' S else S);
                             S = UpdateAdvisoryLockCountMetric lockType ''OK'' S;
                             S = UpdateAdvisoryLockDurationMetric lockType ''OK'' (alStartTime l) S
                         in S\<lparr>lwLocks := (lwLocks S)(uuid := None)\<rparr>))))"

section \<open>The mock factory\<close>

record mock_locks =
  mlLocks :: "string \<rightharpoonup> string"
  mlUuids :: nat

definition NewMockAdvisoryLockFactory :: mock_locks where
  "NewMockAdvisoryLockFactory = \<lparr>mlLocks = (\<lambda>_. None), mlUuids = 0\<rparr>"

definition Mock_NewAdvisoryLock ::
    "(nat \<Rightarrow> string) \<Rightarrow> string \<Rightarrow> string \<Rightarrow> mock_locks
     \<Rightarrow> ((string \<times> go_error option) \<times> mock_locks) option" where
  "Mock_NewAdvisoryLock uuid lid lockType f =
     (let lockOwnerID = uuid (mlUuids f);
          f = f\<lparr>mlUuids := Suc (mlUuids f)\<rparr>;
          key = sprintf ''%s-%s'' [FStr lid, FStr lockType]
      in if mlLocks f key \<noteq> None then Some ((lockOwnerID, None), f)
         else Some ((lockOwnerID, None), f\<lparr>mlLocks := (mlLocks f)(key \<mapsto> lockOwnerID)\<rparr>))"

definition Mock_NewNonBlockingLock ::
    "(nat \<Rightarrow> string) \<Rightarrow> string \<Rightarrow> string \<Rightarrow> mock_locks
     \<Rightarrow> (string \<times> bool \<times> go_error option) \<times> mock_locks" where
  "Mock_NewNonBlockingLock uuid lid lockType f =
     (let lockOwnerID = uuid (mlUuids f);
          f = f\<lparr>mlUuids := Suc (mlUuids f)\<rparr>;
          key = sprintf ''%s-%s'' [FStr lid, FStr lockType]
      in if mlLocks f key \<noteq> None then ((lockOwnerID, True, None), f)
         else ((lockOwnerID, True, None), f\<lparr>mlLocks := (mlLocks f)(key \<mapsto> lockOwnerID)\<rparr>))"

definition Mock_Unlock :: "string \<Rightarrow> mock_locks \<Rightarrow> mock_locks" where
  "Mock_Unlock uuid f =
     f\<lparr>mlLocks := (\<lambda>k. if mlLocks f k = Some uuid then None else mlLocks f k)\<rparr>"

section \<open>The interface and its contract\<close>

record 's lock_factory =
  lfNew :: "string \<Rightarrow> string \<Rightarrow> 's \<Rightarrow> ((string \<times> go_error option) \<times> 's) option"
  lfTry :: "string \<Rightarrow> string \<Rightarrow> 's \<Rightarrow> (string \<times> bool \<times> go_error option) \<times> 's"
  lfUnlock :: "string \<Rightarrow> 's \<Rightarrow> 's"

definition AdvisoryLockFactory :: "(nat \<Rightarrow> string) \<Rightarrow> error_config \<Rightarrow> 'w pg_lib \<Rightarrow> 'w lock_world lock_factory" where
  "AdvisoryLockFactory uuid g pg =
     \<lparr>lfNew = NewAdvisoryLock uuid g pg, lfTry = NewNonBlockingLock uuid g pg, lfUnlock = Unlock pg\<rparr>"

definition MockAdvisoryLockFactory :: "(nat \<Rightarrow> string) \<Rightarrow> mock_locks lock_factory" where
  "MockAdvisoryLockFactory uuid =
     \<lparr>lfNew = Mock_NewAdvisoryLock uuid, lfTry = Mock_NewNonBlockingLock uuid, lfUnlock = Mock_Unlock\<rparr>"

text \<open>
  The contract: a call registers at most the owner it returns, which is new; unlocking removes
  one owner.
\<close>

locale lock_owners =
  fixes lf :: "'s lock_factory"
    and owners :: "'s \<Rightarrow> string set"
    and fresh_ok :: "'s \<Rightarrow> bool"
  assumes new_owner:
      "fresh_ok s \<Longrightarrow> lfNew lf i ty s = Some ((u, err), s') \<Longrightarrow>
         fresh_ok s' \<and> u \<notin> owners s \<and> owners s \<subseteq> owners s' \<and> owners s' \<subseteq> insert u (owners s)"
    and new_error:
      "lfNew lf i ty s = Some ((u, Some e), s') \<Longrightarrow> owners s' = owners s"
    and try_owner:
      "fresh_ok s \<Longrightarrow> lfTry lf i ty s = ((u, acq, err), s') \<Longrightarrow>
         fresh_ok s' \<and> u \<notin> owners s \<and> owners s \<subseteq> owners s' \<and> owners s' \<subseteq> insert u (owners s)"
    and unlock_owner: "owners (lfUnlock lf u s) = owners s - {u}"
    and unlock_ok: "fresh_ok s \<Longrightarrow> fresh_ok (lfUnlock lf u s)"
begin

text \<open>A section that takes a lock and gives it back leaves the owners as they were.\<close>

lemma bracket:
  assumes "fresh_ok s" and "lfNew lf i ty s = Some ((u, err), s1)"
    and "owners s2 = owners s1"
  shows "owners (lfUnlock lf u s2) = owners s"
  using new_owner [OF assms(1,2)] assms(3) by (auto simp: unlock_owner)

lemma try_bracket:
  assumes "fresh_ok s" and "lfTry lf i ty s = ((u, acq, err), s1)" and "owners s2 = owners s1"
  shows "owners (lfUnlock lf u s2) = owners s"
  using try_owner [OF assms(1,2)] assms(3) by (auto simp: unlock_owner)

text \<open>Nested sections, the inner one closed first.\<close>

lemma nested_bracket:
  assumes "fresh_ok s" and "lfNew lf i ty s = Some ((u, err), s1)"
    and "lfNew lf j ty' s1 = Some ((v, err'), s2)"
  shows "owners (lfUnlock lf u (lfUnlock lf v s2)) = owners s"
proof -
  have "fresh_ok s1" using new_owner [OF assms(1,2)] by blast
  from bracket [OF this assms(3) refl] have "owners (lfUnlock lf v s2) = owners s1" .
  with bracket [OF assms(1,2)] show ?thesis by blast
qed

text \<open>Unlocking an owner that is not registered, such as one of a failed call, changes no owner.\<close>

lemma unlock_foreign: "u \<notin> owners s \<Longrightarrow> owners (lfUnlock lf u s) = owners s"
  by (simp add: unlock_owner)

end

text \<open>
  Interpretation on the two factories. UUIDs are assumed to be distinct and not empty, as part of
  the condition on states.
\<close>

definition good_uuid :: "(nat \<Rightarrow> string) \<Rightarrow> bool" where
  "good_uuid uuid \<longleftrightarrow> inj uuid \<and> (\<forall>n. uuid n \<noteq> [])"

definition real_owners :: "'w lock_world \<Rightarrow> string set" where
  "real_owners S = dom (lwLocks S) - {[]}"

definition real_fresh :: "(nat \<Rightarrow> string) \<Rightarrow> 'w lock_world \<Rightarrow> bool" where
  "real_fresh uuid S \<longleftrightarrow> good_uuid uuid \<and> (\<forall>n\<ge>lwUuids S. uuid n \<notin> real_owners S)"

lemma newLock_Inr:
  assumes "newLock uuid pg i ty S = (Inr l, S')"
  obtains tx w where "pgBegin pg (lwDb S) = (Inr tx, w)"
    "S' = S\<lparr>lwUuids := Suc (lwUuids S), lwDb := w\<rparr>"
    "alG2 l = Some tx" "alUuid l = Some (uuid (lwUuids S))" "alId l = Some i" "alLockType l = Some ty"
  using assms by (auto simp: newLock_def newAdvisoryLock_def Let_def split: prod.splits sum.splits)

lemma newLock_Inl:
  assumes "newLock uuid pg i ty S = (Inl e, S')"
  obtains w where "S' = S\<lparr>lwUuids := Suc (lwUuids S), lwDb := w\<rparr>"
  using assms by (auto simp: newLock_def newAdvisoryLock_def Let_def split: prod.splits sum.splits)

lemma count_metric_sel [simp]:
  "lwDb (UpdateAdvisoryLockCountMetric ty st S) = lwDb S"
  "lwLocks (UpdateAdvisoryLockCountMetric ty st S) = lwLocks S"
  "lwUuids (UpdateAdvisoryLockCountMetric ty st S) = lwUuids S"
  "lwNow (UpdateAdvisoryLockCountMetric ty st S) = lwNow S"
  "lwDuration (UpdateAdvisoryLockCountMetric ty st S) = lwDuration S"
  by (simp_all add: UpdateAdvisoryLockCountMetric_def)

lemma duration_metric_sel [simp]:
  "lwDb (UpdateAdvisoryLockDurationMetric ty st t S) = lwDb S"
  "lwLocks (UpdateAdvisoryLockDurationMetric ty st t S) = lwLocks S"
  "lwUuids (UpdateAdvisoryLockDurationMetric ty st t S) = lwUuids S"
  "lwCount (UpdateAdvisoryLockDurationMetric ty st t S) = lwCount S"
  by (simp_all add: UpdateAdvisoryLockDurationMetric_def)

lemma Unlock_locks: "u \<noteq> [] \<Longrightarrow> lwLocks (Unlock pg u S) = (lwLocks S)(u := None)"
  by (auto simp: Unlock_def Let_def fun_upd_idem_iff split: option.splits prod.splits)

lemma Unlock_uuids: "lwUuids (Unlock pg u S) = lwUuids S"
  by (auto simp: Unlock_def Let_def split: option.splits prod.splits)

lemma Unlock_Nil [simp]: "Unlock pg [] S = S"
  by (simp add: Unlock_def)

lemma obtain_lock_cases:
  assumes "obtain_lock g pg i ty l S = Some ((u, err), S')" and "alUuid l = Some o1"
  obtains (granted) w where "lock pg l (lwDb S) = (Granted, w)" "u = o1" "err = None"
      "S' = S\<lparr>lwDb := w, lwLocks := (lwLocks S)(o1 \<mapsto> l)\<rparr>"
  | (failed) e w where "lock pg l (lwDb S) = (LockError e, w)" "u = o1" "err \<noteq> None"
      "S' = UpdateAdvisoryLockCountMetric ty ''lock error'' (S\<lparr>lwDb := w\<rparr>)"
  using assms by (auto simp: obtain_lock_def Let_def split: prod.splits lock_answer.splits)

lemma NewAdvisoryLock_owners:
  assumes "NewAdvisoryLock uuid g pg i ty S = Some ((u, err), S')"
  shows "lwUuids S' = Suc (lwUuids S) \<and>
    (u = [] \<and> err \<noteq> None \<and> lwLocks S' = lwLocks S \<or>
     u = uuid (lwUuids S) \<and> err \<noteq> None \<and> lwLocks S' = lwLocks S \<or>
     u = uuid (lwUuids S) \<and> err = None \<and> (\<exists>l. lwLocks S' = (lwLocks S)(u \<mapsto> l)))"
proof (cases "newLock uuid pg i ty S")
  case (Pair r S1)
  show ?thesis
  proof (cases r)
    case (Inl e)
    from newLock_Inl [OF Pair [unfolded Inl]] obtain w where
        "S1 = S\<lparr>lwUuids := Suc (lwUuids S), lwDb := w\<rparr>" .
    with assms Pair Inl show ?thesis by (auto simp: NewAdvisoryLock_def)
  next
    case (Inr l)
    from newLock_Inr [OF Pair [unfolded Inr]] obtain tx w where
        S1: "S1 = S\<lparr>lwUuids := Suc (lwUuids S), lwDb := w\<rparr>" "alUuid l = Some (uuid (lwUuids S))" .
    from assms Pair Inr have "obtain_lock g pg i ty l S1 = Some ((u, err), S')"
      by (simp add: NewAdvisoryLock_def)
    then show ?thesis using S1(2)
      by (rule obtain_lock_cases) (use S1(1) in auto)
  qed
qed

lemma try_obtain_cases:
  assumes "try_obtain g pg i ty l S = ((u, acq, err), S')" and "alUuid l = Some o1"
  obtains (tried) w where "nonBlockingLock pg l (lwDb S) = (Inr acq, w)" "u = o1" "err = None"
      "S' = S\<lparr>lwDb := w, lwLocks := (lwLocks S)(o1 \<mapsto> l)\<rparr>"
  | (failed) e w where "nonBlockingLock pg l (lwDb S) = (Inl e, w)" "u = o1" "err \<noteq> None" "\<not> acq"
      "S' = UpdateAdvisoryLockCountMetric ty ''lock error'' (S\<lparr>lwDb := w\<rparr>)"
  using assms by (auto simp: try_obtain_def Let_def split: prod.splits sum.splits)

lemma NewNonBlockingLock_owners:
  assumes "NewNonBlockingLock uuid g pg i ty S = ((u, acq, err), S')"
  shows "lwUuids S' = Suc (lwUuids S) \<and>
    (u = [] \<and> lwLocks S' = lwLocks S \<or> u = uuid (lwUuids S) \<and> lwLocks S' = lwLocks S \<or>
     u = uuid (lwUuids S) \<and> (\<exists>l. lwLocks S' = (lwLocks S)(u \<mapsto> l)))"
proof (cases "newLock uuid pg i ty S")
  case (Pair r S1)
  show ?thesis
  proof (cases r)
    case (Inl e)
    from newLock_Inl [OF Pair [unfolded Inl]] obtain w where
        "S1 = S\<lparr>lwUuids := Suc (lwUuids S), lwDb := w\<rparr>" .
    with assms Pair Inl show ?thesis by (auto simp: NewNonBlockingLock_def)
  next
    case (Inr l)
    from newLock_Inr [OF Pair [unfolded Inr]] obtain tx w where
        "S1 = S\<lparr>lwUuids := Suc (lwUuids S), lwDb := w\<rparr>" "alUuid l = Some (uuid (lwUuids S))" .
    with assms Pair Inr show ?thesis
      by (auto simp: NewNonBlockingLock_def try_obtain_def Let_def split: prod.splits sum.splits)
  qed
qed

lemma good_uuid_ne: "good_uuid uuid \<Longrightarrow> uuid n \<noteq> []"
  by (simp add: good_uuid_def)

lemma good_uuid_inj: "good_uuid uuid \<Longrightarrow> uuid n = uuid m \<longleftrightarrow> n = m"
  by (auto simp: good_uuid_def inj_def)

lemma real_new_fresh:
  assumes "real_fresh uuid S" and "lwUuids S' = Suc (lwUuids S)"
    and "u = [] \<and> lwLocks S' = lwLocks S \<or> u = uuid (lwUuids S) \<and> lwLocks S' = lwLocks S \<or>
         u = uuid (lwUuids S) \<and> (\<exists>l. lwLocks S' = (lwLocks S)(u \<mapsto> l))"
  shows "real_fresh uuid S' \<and> u \<notin> real_owners S \<and> real_owners S \<subseteq> real_owners S' \<and>
    real_owners S' \<subseteq> insert u (real_owners S)"
proof -
  have g: "good_uuid uuid" using assms(1) by (simp add: real_fresh_def)
  have "u \<notin> real_owners S" using assms(1,3) by (auto simp: real_fresh_def real_owners_def)
  moreover have own: "real_owners S \<subseteq> real_owners S'" "real_owners S' \<subseteq> insert u (real_owners S)"
    using assms(3) by (auto simp: real_owners_def)
  moreover have "uuid n \<notin> real_owners S'" if "Suc (lwUuids S) \<le> n" for n
  proof
    assume "uuid n \<in> real_owners S'"
    with own(2) have "uuid n = u \<or> uuid n \<in> real_owners S" by auto
    with that assms(1,3) good_uuid_ne [OF g, of n] good_uuid_inj [OF g, of n "lwUuids S"] show False
      by (auto simp: real_fresh_def)
  qed
  ultimately show ?thesis using g assms(2) by (auto simp: real_fresh_def)
qed

lemma real_unlock_owners: "real_owners (Unlock pg u S) = real_owners S - {u}"
  by (cases "u = []") (auto simp: real_owners_def Unlock_locks)

interpretation advisory: lock_owners "AdvisoryLockFactory uuid g pg" real_owners "real_fresh uuid" for uuid g pg
proof unfold_locales
  fix s s' :: "'a lock_world" and i ty u err
  assume a: "real_fresh uuid s" "lfNew (AdvisoryLockFactory uuid g pg) i ty s = Some ((u, err), s')"
  then have n: "NewAdvisoryLock uuid g pg i ty s = Some ((u, err), s')"
    by (simp add: AdvisoryLockFactory_def)
  show "real_fresh uuid s' \<and> u \<notin> real_owners s \<and> real_owners s \<subseteq> real_owners s' \<and>
      real_owners s' \<subseteq> insert u (real_owners s)"
    by (rule real_new_fresh [OF a(1)]) (use NewAdvisoryLock_owners [OF n] in auto)
next
  fix s s' :: "'a lock_world" and i ty u e
  assume "lfNew (AdvisoryLockFactory uuid g pg) i ty s = Some ((u, Some e), s')"
  then have "NewAdvisoryLock uuid g pg i ty s = Some ((u, Some e), s')"
    by (simp add: AdvisoryLockFactory_def)
  from NewAdvisoryLock_owners [OF this] show "real_owners s' = real_owners s"
    by (auto simp: real_owners_def)
next
  fix s s' :: "'a lock_world" and i ty u acq err
  assume a: "real_fresh uuid s" "lfTry (AdvisoryLockFactory uuid g pg) i ty s = ((u, acq, err), s')"
  then have n: "NewNonBlockingLock uuid g pg i ty s = ((u, acq, err), s')"
    by (simp add: AdvisoryLockFactory_def)
  show "real_fresh uuid s' \<and> u \<notin> real_owners s \<and> real_owners s \<subseteq> real_owners s' \<and>
      real_owners s' \<subseteq> insert u (real_owners s)"
    by (rule real_new_fresh [OF a(1)]) (use NewNonBlockingLock_owners [OF n] in auto)
qed (auto simp: AdvisoryLockFactory_def real_unlock_owners real_fresh_def Unlock_uuids)

definition mock_owners :: "mock_locks \<Rightarrow> string set" where
  "mock_owners f = ran (mlLocks f)"

definition mock_fresh :: "(nat \<Rightarrow> string) \<Rightarrow> mock_locks \<Rightarrow> bool" where
  "mock_fresh uuid f \<longleftrightarrow> good_uuid uuid \<and> (\<forall>n\<ge>mlUuids f. uuid n \<notin> mock_owners f)"

lemma mock_new_fresh:
  assumes "mock_fresh uuid f" and "u = uuid (mlUuids f)" and "mlUuids f' = Suc (mlUuids f)"
    and "mlLocks f' = mlLocks f \<or> (\<exists>k. mlLocks f k = None \<and> mlLocks f' = (mlLocks f)(k \<mapsto> u))"
  shows "mock_fresh uuid f' \<and> u \<notin> mock_owners f \<and> mock_owners f \<subseteq> mock_owners f' \<and>
    mock_owners f' \<subseteq> insert u (mock_owners f)"
proof -
  have g: "good_uuid uuid" using assms(1) by (simp add: mock_fresh_def)
  have own: "mock_owners f' = mock_owners f \<or> mock_owners f' = insert u (mock_owners f)"
    using assms(4) by (auto simp: mock_owners_def)
  moreover have "uuid n \<notin> mock_owners f'" if "Suc (mlUuids f) \<le> n" for n
    using own that assms(1,2) good_uuid_inj [OF g, of n "mlUuids f"] by (auto simp: mock_fresh_def)
  ultimately show ?thesis using assms by (auto simp: mock_fresh_def)
qed

lemma mock_unlock_owners: "mock_owners (Mock_Unlock u f) = mock_owners f - {u}"
proof (rule set_eqI)
  fix x
  show "x \<in> mock_owners (Mock_Unlock u f) \<longleftrightarrow> x \<in> mock_owners f - {u}"
    by (auto simp: mock_owners_def Mock_Unlock_def ran_def) (metis option.inject)
qed

lemma mock_unlock_uuids: "mlUuids (Mock_Unlock u f) = mlUuids f"
  by (simp add: Mock_Unlock_def)

interpretation mocklocks: lock_owners "MockAdvisoryLockFactory uuid" mock_owners "mock_fresh uuid" for uuid
proof unfold_locales
  fix s s' i ty u err
  assume a: "mock_fresh uuid s" "lfNew (MockAdvisoryLockFactory uuid) i ty s = Some ((u, err), s')"
  show "mock_fresh uuid s' \<and> u \<notin> mock_owners s \<and> mock_owners s \<subseteq> mock_owners s' \<and>
      mock_owners s' \<subseteq> insert u (mock_owners s)"
    by (rule mock_new_fresh [OF a(1)])
       (use a(2) in \<open>auto simp: MockAdvisoryLockFactory_def Mock_NewAdvisoryLock_def Let_def split: if_splits\<close>)
next
  fix s s' i ty u acq err
  assume a: "mock_fresh uuid s" "lfTry (MockAdvisoryLockFactory uuid) i ty s = ((u, acq, err), s')"
  show "mock_fresh uuid s' \<and> u \<notin> mock_owners s \<and> mock_owners s \<subseteq> mock_owners s' \<and>
      mock_owners s' \<subseteq> insert u (mock_owners s)"
    by (rule mock_new_fresh [OF a(1)])
       (use a(2) in \<open>auto simp: MockAdvisoryLockFactory_def Mock_NewNonBlockingLock_def Let_def split: if_splits\<close>)
qed (auto simp: MockAdvisoryLockFactory_def Mock_NewAdvisoryLock_def Let_def mock_unlock_owners
    mock_fresh_def mock_unlock_uuids split: if_splits)

end
