(* ===== verification/Lock_Protocol.thy ===== *)
theory Lock_Protocol
  imports Advisory_Locks
begin

text \<open>
  Several callers of one \<^verbatim>\<open>AdvisoryLockFactory\<close>: a caller begins a transaction
  (\<^verbatim>\<open>newLock\<close>), waits for its lock or, in the non-blocking call, tries it, is inside, and unlocks.
  A caller whose attempt is refused has an owner that is registered all the same; it unlocks that owner
  (\<^verbatim>\<open>KindControllerManager.Handle\<close> does) or leaves without (\<^verbatim>\<open>Replace\<close> in the non-blocking mode). The
  steps of the callers interleave in any order; a blocked call takes no step. The laws of PostgreSQL's advisory locks
  are stated with two observations of the database state: which transaction holds a key, and
  which transactions have ever been opened.
\<close>

section \<open>The laws\<close>

type_synonym lock_key = "32 word \<times> 32 word"

definition grant_law :: "('w \<Rightarrow> lock_key \<Rightarrow> nat option) \<Rightarrow> bool \<Rightarrow> nat \<Rightarrow> lock_key \<Rightarrow> 'w \<Rightarrow> 'w \<Rightarrow> bool" where
  "grant_law holder granted tx k w w' \<longleftrightarrow>
     (if granted then holder w k \<in> {None, Some tx} \<and> holder w' = (holder w)(k \<mapsto> tx)
      else holder w' = holder w)"

definition pg_laws ::
    "'w pg_lib \<Rightarrow> ('w \<Rightarrow> lock_key \<Rightarrow> nat option) \<Rightarrow> ('w \<Rightarrow> nat set) \<Rightarrow> bool" where
  "pg_laws pg holder opened \<longleftrightarrow>
     (\<forall>w tx w'. pgBegin pg w = (Inr tx, w') \<longrightarrow>
        holder w' = holder w \<and> tx \<notin> opened w \<and> opened w' = insert tx (opened w)) \<and>
     (\<forall>w e w'. pgBegin pg w = (Inl e, w') \<longrightarrow> holder w' = holder w \<and> opened w' = opened w) \<and>
     (\<forall>tx k1 k2 w a w'. pgLock pg tx k1 k2 w = (a, w') \<longrightarrow>
        opened w' = opened w \<and> grant_law holder (a = Granted) tx (k1, k2) w w') \<and>
     (\<forall>tx k1 k2 w r w'. pgTryLock pg tx k1 k2 w = (r, w') \<longrightarrow>
        opened w' = opened w \<and> grant_law holder (r = Inr ''true'') tx (k1, k2) w w') \<and>
     (\<forall>tx w e w'. pgCommit pg tx w = (e, w') \<longrightarrow>
        opened w' = opened w \<and>
        holder w' = (\<lambda>k. if holder w k = Some tx then None else holder w k))"

lemma pg_lawsD:
  assumes "pg_laws pg holder opened"
  shows "pgBegin pg w = (Inr tx, w') \<Longrightarrow>
      holder w' = holder w \<and> tx \<notin> opened w \<and> opened w' = insert tx (opened w)"
    and "pgBegin pg w = (Inl e, w') \<Longrightarrow> holder w' = holder w \<and> opened w' = opened w"
    and "pgLock pg tx k1 k2 w = (a, w') \<Longrightarrow>
      opened w' = opened w \<and> grant_law holder (a = Granted) tx (k1, k2) w w'"
    and "pgCommit pg tx w = (e', w') \<Longrightarrow>
      opened w' = opened w \<and> holder w' = (\<lambda>k. if holder w k = Some tx then None else holder w k)"
    and "pgTryLock pg tx k1 k2 w = (r, w') \<Longrightarrow>
      opened w' = opened w \<and> grant_law holder (r = Inr ''true'') tx (k1, k2) w w'"
  using assms unfolding pg_laws_def by simp_all

section \<open>The callers\<close>

datatype phase =
    Outside | Acquiring string string advisory_lock | Inside string string string
  | Refused string \<comment> \<open>with the owner of the lock that was not acquired\<close>

text \<open>\<open>cfRefused\<close> collects the owners that were refused and have not been unlocked since.\<close>

record 'w lock_config =
  cfWorld :: "'w lock_world"
  cfPhase :: "nat \<Rightarrow> phase"
  cfRefused :: "string set"

inductive lock_step ::
    "(nat \<Rightarrow> string) \<Rightarrow> error_config \<Rightarrow> 'w pg_lib \<Rightarrow> 'w lock_config \<Rightarrow> 'w lock_config \<Rightarrow> bool"
  for uuid g pg where
  begin_tx: "cfPhase c t = Outside \<Longrightarrow> newLock uuid pg i ty (cfWorld c) = (Inr l, S) \<Longrightarrow>
    lock_step uuid g pg c (c\<lparr>cfWorld := S, cfPhase := (cfPhase c)(t := Acquiring i ty l)\<rparr>)"
| begin_error: "cfPhase c t = Outside \<Longrightarrow> newLock uuid pg i ty (cfWorld c) = (Inl e, S) \<Longrightarrow>
    lock_step uuid g pg c (c\<lparr>cfWorld := S\<rparr>)"
| acquire: "cfPhase c t = Acquiring i ty l \<Longrightarrow>
    obtain_lock g pg i ty l (cfWorld c) = Some ((u, None), S) \<Longrightarrow>
    lock_step uuid g pg c (c\<lparr>cfWorld := S, cfPhase := (cfPhase c)(t := Inside i ty u)\<rparr>)"
| acquire_error: "cfPhase c t = Acquiring i ty l \<Longrightarrow>
    obtain_lock g pg i ty l (cfWorld c) = Some ((u, Some e), S) \<Longrightarrow>
    lock_step uuid g pg c (c\<lparr>cfWorld := S, cfPhase := (cfPhase c)(t := Outside)\<rparr>)"
| try_acquire: "cfPhase c t = Acquiring i ty l \<Longrightarrow>
    try_obtain g pg i ty l (cfWorld c) = ((u, True, None), S) \<Longrightarrow>
    lock_step uuid g pg c (c\<lparr>cfWorld := S, cfPhase := (cfPhase c)(t := Inside i ty u)\<rparr>)"
| try_refused: "cfPhase c t = Acquiring i ty l \<Longrightarrow>
    try_obtain g pg i ty l (cfWorld c) = ((u, False, None), S) \<Longrightarrow>
    lock_step uuid g pg c
      (c\<lparr>cfWorld := S, cfPhase := (cfPhase c)(t := Refused u), cfRefused := insert u (cfRefused c)\<rparr>)"
| try_error: "cfPhase c t = Acquiring i ty l \<Longrightarrow>
    try_obtain g pg i ty l (cfWorld c) = ((u, acq, Some e), S) \<Longrightarrow>
    lock_step uuid g pg c (c\<lparr>cfWorld := S, cfPhase := (cfPhase c)(t := Outside)\<rparr>)"
| release: "cfPhase c t = Inside i ty u \<Longrightarrow>
    lock_step uuid g pg c (c\<lparr>cfWorld := Unlock pg u (cfWorld c), cfPhase := (cfPhase c)(t := Outside)\<rparr>)"
| refused_unlock: "cfPhase c t = Refused u \<Longrightarrow>
    lock_step uuid g pg c
      (c\<lparr>cfWorld := Unlock pg u (cfWorld c), cfPhase := (cfPhase c)(t := Outside), cfRefused := cfRefused c - {u}\<rparr>)"
| refused_leave: "cfPhase c t = Refused u \<Longrightarrow>
    lock_step uuid g pg c (c\<lparr>cfPhase := (cfPhase c)(t := Outside)\<rparr>)"

definition lock_start :: "'w \<Rightarrow> int \<Rightarrow> 'w lock_config" where
  "lock_start w now = \<lparr>cfWorld = NewAdvisoryLockFactory w now, cfPhase = (\<lambda>_. Outside), cfRefused = {}\<rparr>"

definition lock_reachable ::
    "(nat \<Rightarrow> string) \<Rightarrow> error_config \<Rightarrow> 'w pg_lib \<Rightarrow> 'w \<Rightarrow> int \<Rightarrow> 'w lock_config \<Rightarrow> bool" where
  "lock_reachable uuid g pg w now c \<longleftrightarrow> (lock_step uuid g pg)\<^sup>*\<^sup>* (lock_start w now) c"

section \<open>The invariant\<close>

text \<open>The owner and the transaction of an active caller.\<close>

definition registered :: "(string \<rightharpoonup> advisory_lock) \<Rightarrow> string \<Rightarrow> (string \<times> nat) option" where
  "registered locks u = (case locks u of None \<Rightarrow> None | Some l \<Rightarrow> map_option (\<lambda>tx. (u, tx)) (alG2 l))"

definition held :: "(string \<rightharpoonup> advisory_lock) \<Rightarrow> phase \<Rightarrow> (string \<times> nat) option" where
  "held locks ph =
     (case ph of
        Outside \<Rightarrow> None
      | Acquiring i ty l \<Rightarrow>
          (case (alUuid l, alG2 l) of (Some u, Some tx) \<Rightarrow> Some (u, tx) | _ \<Rightarrow> None)
      | Inside i ty u \<Rightarrow> registered locks u
      | Refused u \<Rightarrow> registered locks u)"

fun phase_ok :: "(lock_key \<Rightarrow> nat option) \<Rightarrow> nat \<Rightarrow> phase \<Rightarrow> bool" where
  "phase_ok holder tx Outside = True"
| "phase_ok holder tx (Acquiring i ty l) \<longleftrightarrow> alId l = Some i \<and> alLockType l = Some ty"
| "phase_ok holder tx (Inside i ty u) \<longleftrightarrow> holder (hash i, hash ty) = Some tx"
| "phase_ok holder tx (Refused u) = True"

definition active_ok ::
    "(nat \<Rightarrow> string) \<Rightarrow> ('w \<Rightarrow> lock_key \<Rightarrow> nat option) \<Rightarrow> ('w \<Rightarrow> nat set) \<Rightarrow> 'w lock_world \<Rightarrow> phase \<Rightarrow> bool" where
  "active_ok uuid holder opened S ph \<longleftrightarrow>
     (\<exists>n tx. held (lwLocks S) ph = Some (uuid n, tx) \<and> n < lwUuids S \<and> tx \<in> opened (lwDb S) \<and>
        phase_ok (holder (lwDb S)) tx ph)"

text \<open>
  The active callers have owners and transactions of their own; what is registered is the owners of the
  callers inside and the refused owners, which no other caller has.
\<close>

definition lock_inv ::
    "(nat \<Rightarrow> string) \<Rightarrow> ('w \<Rightarrow> lock_key \<Rightarrow> nat option) \<Rightarrow> ('w \<Rightarrow> nat set) \<Rightarrow> 'w lock_config \<Rightarrow> bool" where
  "lock_inv uuid holder opened c \<longleftrightarrow>
     (\<forall>t. cfPhase c t \<noteq> Outside \<longrightarrow> active_ok uuid holder opened (cfWorld c) (cfPhase c t)) \<and>
     (\<forall>t t' u tx u' tx'. t \<noteq> t' \<longrightarrow> held (lwLocks (cfWorld c)) (cfPhase c t) = Some (u, tx) \<longrightarrow>
        held (lwLocks (cfWorld c)) (cfPhase c t') = Some (u', tx') \<longrightarrow> u \<noteq> u' \<and> tx \<noteq> tx') \<and>
     (\<forall>u. lwLocks (cfWorld c) u \<noteq> None \<longleftrightarrow> (\<exists>t i ty. cfPhase c t = Inside i ty u) \<or> u \<in> cfRefused c) \<and>
     (\<forall>u \<in> cfRefused c. (\<exists>n < lwUuids (cfWorld c). u = uuid n) \<and>
        (\<forall>t tx. held (lwLocks (cfWorld c)) (cfPhase c t) = Some (u, tx) \<longrightarrow> cfPhase c t = Refused u)) \<and>
     (\<forall>t u. cfPhase c t = Refused u \<longrightarrow> u \<in> cfRefused c)"

lemma lock_invI:
  assumes "\<And>t. ph t \<noteq> Outside \<Longrightarrow> active_ok uuid holder opened S (ph t)"
    and "\<And>t t' u tx u' tx'. t \<noteq> t' \<Longrightarrow> held (lwLocks S) (ph t) = Some (u, tx) \<Longrightarrow>
        held (lwLocks S) (ph t') = Some (u', tx') \<Longrightarrow> u \<noteq> u' \<and> tx \<noteq> tx'"
    and "\<And>u. lwLocks S u \<noteq> None \<longleftrightarrow> (\<exists>t i ty. ph t = Inside i ty u) \<or> u \<in> R"
    and "\<And>u. u \<in> R \<Longrightarrow> \<exists>n < lwUuids S. u = uuid n"
    and "\<And>u t tx. u \<in> R \<Longrightarrow> held (lwLocks S) (ph t) = Some (u, tx) \<Longrightarrow> ph t = Refused u"
    and "\<And>t u. ph t = Refused u \<Longrightarrow> u \<in> R"
  shows "lock_inv uuid holder opened \<lparr>cfWorld = S, cfPhase = ph, cfRefused = R\<rparr>"
  unfolding lock_inv_def lock_config.simps using assms by blast

lemma lock_invD:
  assumes "lock_inv uuid holder opened c"
  shows "cfPhase c t \<noteq> Outside \<Longrightarrow> active_ok uuid holder opened (cfWorld c) (cfPhase c t)"
    and "t \<noteq> t' \<Longrightarrow> held (lwLocks (cfWorld c)) (cfPhase c t) = Some (u, tx) \<Longrightarrow>
        held (lwLocks (cfWorld c)) (cfPhase c t') = Some (u', tx') \<Longrightarrow> u \<noteq> u' \<and> tx \<noteq> tx'"
    and "lwLocks (cfWorld c) u \<noteq> None \<longleftrightarrow> (\<exists>t i ty. cfPhase c t = Inside i ty u) \<or> u \<in> cfRefused c"
    and "u \<in> cfRefused c \<Longrightarrow> \<exists>n < lwUuids (cfWorld c). u = uuid n"
    and "u \<in> cfRefused c \<Longrightarrow> held (lwLocks (cfWorld c)) (cfPhase c t) = Some (u, tx) \<Longrightarrow> cfPhase c t = Refused u"
    and "cfPhase c t = Refused u \<Longrightarrow> u \<in> cfRefused c"
  using assms unfolding lock_inv_def by blast+

lemma registered_iff: "registered locks u = Some (v, tx) \<longleftrightarrow> v = u \<and> (\<exists>l. locks u = Some l \<and> alG2 l = Some tx)"
  by (auto simp: registered_def split: option.splits)

lemma held_simps [simp]:
  "held locks Outside = None"
  "alUuid l = Some u \<Longrightarrow> alG2 l = Some tx \<Longrightarrow> held locks (Acquiring i ty l) = Some (u, tx)"
  "locks u = Some l \<Longrightarrow> alG2 l = Some tx \<Longrightarrow> held locks (Inside i ty u) = Some (u, tx)"
  by (simp_all add: held_def registered_def)

lemma held_not_Outside: "held locks ph = Some p \<Longrightarrow> ph \<noteq> Outside"
  by (auto simp: held_def)

lemma held_Acquiring:
  "held locks (Acquiring i ty l) = Some (u, tx) \<longleftrightarrow> alUuid l = Some u \<and> alG2 l = Some tx"
  by (auto simp: held_def split: option.splits)

lemma held_registered:
  "held locks (Inside i ty v) = Some (u, tx) \<longleftrightarrow> u = v \<and> (\<exists>l. locks v = Some l \<and> alG2 l = Some tx)"
  "held locks (Refused v) = Some (u, tx) \<longleftrightarrow> u = v \<and> (\<exists>l. locks v = Some l \<and> alG2 l = Some tx)"
  by (auto simp: held_def registered_iff)

text \<open>A change of the map at another key keeps what a caller holds.\<close>

lemma held_upd:
  assumes "\<And>i ty. ph \<noteq> Inside i ty v" and "ph \<noteq> Refused v"
  shows "held (locks(v := x)) ph = held locks ph"
  using assms by (auto simp: held_def registered_def split: phase.splits)

lemma lock_start_inv: "lock_inv uuid holder opened (lock_start w now)"
  by (auto simp: lock_start_def NewAdvisoryLockFactory_def intro!: lock_invI)

section \<open>The steps keep the invariant\<close>

text \<open>
  One caller changes its phase; the others keep what they hold, and the keys they hold. The
  hypotheses are what each step has to show.
\<close>

lemma lock_inv_step:
  assumes inv: "lock_inv uuid holder opened c"
    and uuids: "lwUuids (cfWorld c) \<le> lwUuids S"
    and opened: "opened (lwDb (cfWorld c)) \<subseteq> opened (lwDb S)"
    and keep: "\<And>t'. t' \<noteq> t \<Longrightarrow> held (lwLocks S) (cfPhase c t') = held (lwLocks (cfWorld c)) (cfPhase c t')"
    and others: "\<And>t' i ty u tx. t' \<noteq> t \<Longrightarrow> cfPhase c t' = Inside i ty u \<Longrightarrow>
        held (lwLocks (cfWorld c)) (Inside i ty u) = Some (u, tx) \<Longrightarrow>
        holder (lwDb (cfWorld c)) (hash i, hash ty) = Some tx \<Longrightarrow>
        holder (lwDb S) (hash i, hash ty) = Some tx"
    and self: "ph = Outside \<or> active_ok uuid holder opened S ph"
    and dist: "\<And>t' u tx u' tx'. t' \<noteq> t \<Longrightarrow> held (lwLocks S) ph = Some (u, tx) \<Longrightarrow>
        held (lwLocks (cfWorld c)) (cfPhase c t') = Some (u', tx') \<Longrightarrow> u \<noteq> u' \<and> tx \<noteq> tx'"
    and locks: "\<And>u. lwLocks S u \<noteq> None \<longleftrightarrow> (\<exists>t' i ty. ((cfPhase c)(t := ph)) t' = Inside i ty u) \<or> u \<in> R"
    and new: "R \<subseteq> cfRefused c \<or> (\<exists>u tx. ph = Refused u \<and> held (lwLocks S) ph = Some (u, tx) \<and> R = insert u (cfRefused c))"
    and mine: "\<And>u tx. u \<in> R \<Longrightarrow> held (lwLocks S) ph = Some (u, tx) \<Longrightarrow> ph = Refused u"
    and refused: "\<And>t' u. t' \<noteq> t \<Longrightarrow> cfPhase c t' = Refused u \<Longrightarrow> u \<in> R" "\<And>u. ph = Refused u \<Longrightarrow> u \<in> R"
  shows "lock_inv uuid holder opened \<lparr>cfWorld = S, cfPhase = (cfPhase c)(t := ph), cfRefused = R\<rparr>"
proof (rule lock_invI)
  fix t' assume ne: "((cfPhase c)(t := ph)) t' \<noteq> Outside"
  show "active_ok uuid holder opened S (((cfPhase c)(t := ph)) t')"
  proof (cases "t' = t")
    case True
    with self ne show ?thesis by simp
  next
    case False
    with ne lock_invD(1) [OF inv, of t'] obtain n tx where old:
        "held (lwLocks (cfWorld c)) (cfPhase c t') = Some (uuid n, tx)" "n < lwUuids (cfWorld c)"
        "tx \<in> opened (lwDb (cfWorld c))" "phase_ok (holder (lwDb (cfWorld c))) tx (cfPhase c t')"
      by (auto simp: active_ok_def)
    have "phase_ok (holder (lwDb S)) tx (cfPhase c t')"
    proof (cases "cfPhase c t'")
      case (Inside i ty u)
      with others [OF False Inside] old show ?thesis by (auto simp: held_registered)
    qed (use old(4) in simp_all)
    with old keep [OF False] uuids opened False show ?thesis
      unfolding active_ok_def by (intro exI [of _ n] exI [of _ tx]) auto
  qed
next
  fix t1 t2 u tx u' tx'
  assume a: "t1 \<noteq> t2" "held (lwLocks S) (((cfPhase c)(t := ph)) t1) = Some (u, tx)"
    "held (lwLocks S) (((cfPhase c)(t := ph)) t2) = Some (u', tx')"
  consider "t1 = t" | "t2 = t" | "t1 \<noteq> t" "t2 \<noteq> t" by blast
  then show "u \<noteq> u' \<and> tx \<noteq> tx'"
  proof cases
    case 1
    with a keep [of t2] dist [of t2 u tx u' tx'] show ?thesis by simp
  next
    case 2
    with a keep [of t1] dist [of t1 u' tx' u tx] show ?thesis by auto
  next
    case 3
    with a keep lock_invD(2) [OF inv a(1), of u tx u' tx'] show ?thesis by simp
  qed
next
  fix u show "lwLocks S u \<noteq> None \<longleftrightarrow> (\<exists>t' i ty. ((cfPhase c)(t := ph)) t' = Inside i ty u) \<or> u \<in> R"
    by (rule locks)
next
  fix u assume "u \<in> R"
  with new consider "u \<in> cfRefused c" | tx where "ph = Refused u" "held (lwLocks S) ph = Some (u, tx)" by auto
  then show "\<exists>n < lwUuids S. u = uuid n"
  proof cases
    case 1
    with lock_invD(4) [OF inv] uuids show ?thesis by (meson less_le_trans)
  next
    case 2
    with self show ?thesis by (auto simp: active_ok_def)
  qed
next
  fix u t' tx assume u: "u \<in> R" "held (lwLocks S) (((cfPhase c)(t := ph)) t') = Some (u, tx)"
  show "((cfPhase c)(t := ph)) t' = Refused u"
  proof (cases "t' = t")
    case True
    with u mine show ?thesis by simp
  next
    case False
    with u keep have old: "held (lwLocks (cfWorld c)) (cfPhase c t') = Some (u, tx)" by simp
    with u(1) new dist [OF False _ old] have "u \<in> cfRefused c" by auto
    with False lock_invD(5) [OF inv _ old] show ?thesis by simp
  qed
next
  fix t' u assume "((cfPhase c)(t := ph)) t' = Refused u"
  then show "u \<in> R" using refused by (cases "t' = t") simp_all
qed

text \<open>The map of locks changes only at the owner of the caller that steps.\<close>

lemma fun_upd_Inside:
  assumes "\<And>i ty u. cfPhase c t \<noteq> Inside i ty u" and "\<And>i ty u. ph \<noteq> Inside i ty u"
  shows "(\<exists>t' i ty. ((cfPhase c)(t := ph)) t' = Inside i ty u) \<longleftrightarrow> (\<exists>t' i ty. cfPhase c t' = Inside i ty u)"
  by (metis assms fun_upd_apply)

text \<open>The update of a configuration, field by field.\<close>

lemma config_upd:
  "c\<lparr>cfWorld := S, cfPhase := p\<rparr> = \<lparr>cfWorld = S, cfPhase = p, cfRefused = cfRefused c\<rparr>"
  "c\<lparr>cfWorld := S, cfPhase := p, cfRefused := R\<rparr> = \<lparr>cfWorld = S, cfPhase = p, cfRefused = R\<rparr>"
  "c\<lparr>cfWorld := S\<rparr> = \<lparr>cfWorld = S, cfPhase = cfPhase c, cfRefused = cfRefused c\<rparr>"
  "c\<lparr>cfPhase := p\<rparr> = \<lparr>cfWorld = cfWorld c, cfPhase = p, cfRefused = cfRefused c\<rparr>"
  by simp_all

text \<open>What a caller that waits for its lock holds.\<close>

lemma inv_Acquiring:
  assumes "lock_inv uuid holder opened c" and "cfPhase c t = Acquiring i ty l"
  obtains n tx where "alUuid l = Some (uuid n)" "alG2 l = Some tx" "n < lwUuids (cfWorld c)"
    "tx \<in> opened (lwDb (cfWorld c))" "alId l = Some i" "alLockType l = Some ty"
    "lock_keys l = Inr (tx, hash i, hash ty)"
  using lock_invD(1) [OF assms(1), of t] assms(2)
  by (auto simp: active_ok_def held_Acquiring lock_keys_def)

text \<open>The caller that holds an owner is the only one that does.\<close>

lemma inv_only:
  assumes inv: "lock_inv uuid holder opened c" and mine: "held (lwLocks (cfWorld c)) (cfPhase c t) = Some (u, tx)"
    and ne: "t' \<noteq> t"
  shows "\<And>j ty. cfPhase c t' \<noteq> Inside j ty u" and "cfPhase c t' \<noteq> Refused u"
proof -
  have "\<exists>v tx'. held (lwLocks (cfWorld c)) (cfPhase c t') = Some (v, tx') \<and> v \<noteq> u" if "cfPhase c t' \<noteq> Outside"
    using lock_invD(1) [OF inv that] lock_invD(2) [OF inv ne _ mine] unfolding active_ok_def by blast
  then show "\<And>j ty. cfPhase c t' \<noteq> Inside j ty u" and "cfPhase c t' \<noteq> Refused u"
    by (auto simp: held_registered)
qed

lemma lock_step_begin:
  assumes inv: "lock_inv uuid holder opened c" and good: "good_uuid uuid" and pg: "pg_laws pg holder opened"
    and ph: "cfPhase c t = Outside" and new: "newLock uuid pg i ty (cfWorld c) = (Inr l, S)"
  shows "lock_inv uuid holder opened
      \<lparr>cfWorld = S, cfPhase = (cfPhase c)(t := Acquiring i ty l), cfRefused = cfRefused c\<rparr>"
proof -
  let ?W = "cfWorld c"
  obtain tx w where n: "pgBegin pg (lwDb ?W) = (Inr tx, w)"
      "S = ?W\<lparr>lwUuids := Suc (lwUuids ?W), lwDb := w\<rparr>"
      "alG2 l = Some tx" "alUuid l = Some (uuid (lwUuids ?W))" "alId l = Some i" "alLockType l = Some ty"
    using newLock_Inr [OF new] by blast
  note w = pg_lawsD(1) [OF pg n(1)]
  show ?thesis
  proof (rule lock_inv_step [OF inv])
    show "Acquiring i ty l = Outside \<or> active_ok uuid holder opened S (Acquiring i ty l)"
      using n w by (auto simp: active_ok_def held_Acquiring)
    fix t' u tx1 u' tx1'
    assume a: "t' \<noteq> t" "held (lwLocks S) (Acquiring i ty l) = Some (u, tx1)"
      "held (lwLocks ?W) (cfPhase c t') = Some (u', tx1')"
    from lock_invD(1) [OF inv held_not_Outside [OF a(3)]] a(3) obtain m where
        "u' = uuid m" "m < lwUuids ?W" "tx1' \<in> opened (lwDb ?W)" by (auto simp: active_ok_def)
    with a(2) n w good_uuid_inj [OF good] show "u \<noteq> u' \<and> tx1 \<noteq> tx1'"
      by (auto simp: held_Acquiring)
  next
    fix u show "lwLocks S u \<noteq> None \<longleftrightarrow>
        (\<exists>t' j ty'. ((cfPhase c)(t := Acquiring i ty l)) t' = Inside j ty' u) \<or> u \<in> cfRefused c"
      using lock_invD(3) [OF inv, of u] by (subst fun_upd_Inside) (simp_all add: ph n(2))
  next
    fix u tx1 assume "u \<in> cfRefused c" "held (lwLocks S) (Acquiring i ty l) = Some (u, tx1)"
    with lock_invD(4) [OF inv] n(4) good_uuid_inj [OF good] show "Acquiring i ty l = Refused u"
      by (fastforce simp: held_Acquiring)
  next
    show "u \<in> cfRefused c" if "cfPhase c t' = Refused u" for t' u
      using that by (rule lock_invD(6) [OF inv])
  qed (use n w in auto)
qed

text \<open>
  The database answers a caller that waits: the lock is granted or refused, and in both cases it is
  registered under the owner of the caller.
\<close>

lemma lock_step_answer:
  fixes granted :: bool
  defines "ph i ty u \<equiv> if granted then Inside i ty u else Refused u"
  assumes inv: "lock_inv uuid holder opened c"
    and ph: "cfPhase c t = Acquiring i ty l" and l: "alUuid l = Some u" "alG2 l = Some tx"
    and opened: "opened w = opened (lwDb (cfWorld c))"
    and grant: "grant_law holder granted tx (hash i, hash ty) (lwDb (cfWorld c)) w"
    and S: "S = (cfWorld c)\<lparr>lwDb := w, lwLocks := (lwLocks (cfWorld c))(u \<mapsto> l)\<rparr>"
  shows "lock_inv uuid holder opened \<lparr>cfWorld = S, cfPhase = (cfPhase c)(t := ph i ty u),
      cfRefused = (if granted then cfRefused c else insert u (cfRefused c))\<rparr>"
proof -
  let ?W = "cfWorld c"
  obtain n where act: "u = uuid n" "n < lwUuids ?W" "tx \<in> opened (lwDb ?W)"
    using inv_Acquiring [OF inv ph] l by (metis option.inject)
  have mine: "held (lwLocks ?W) (cfPhase c t) = Some (u, tx)"
    using l ph by (simp add: held_Acquiring)
  note foreign = lock_invD(2) [OF inv _ _ mine]
  note not_u = inv_only [OF inv mine]
  have fresh: "u \<notin> cfRefused c" using lock_invD(5) [OF inv _ mine] ph by auto
  have now: "held (lwLocks S) (ph i ty u) = Some (u, tx)"
    using l(2) by (simp add: S ph_def held_registered)
  show ?thesis
  proof (rule lock_inv_step [OF inv])
    show "ph i ty u = Outside \<or> active_ok uuid holder opened S (ph i ty u)"
      using now act opened grant by (auto simp: active_ok_def S ph_def grant_law_def)
    show "held (lwLocks S) (cfPhase c t') = held (lwLocks ?W) (cfPhase c t')" if "t' \<noteq> t" for t'
      using held_upd [OF not_u [OF that]] by (simp add: S)
    show "v \<noteq> v' \<and> tx1 \<noteq> tx1'" if "t' \<noteq> t" "held (lwLocks S) (ph i ty u) = Some (v, tx1)"
      "held (lwLocks ?W) (cfPhase c t') = Some (v', tx1')" for t' v tx1 v' tx1'
      using foreign [OF that(1,3)] that(2) now by auto
    show "holder (lwDb S) (hash j, hash ty') = Some tx'"
      if "t' \<noteq> t" "cfPhase c t' = Inside j ty' v" "held (lwLocks ?W) (Inside j ty' v) = Some (v, tx')"
        "holder (lwDb ?W) (hash j, hash ty') = Some tx'" for t' j ty' v tx'
      using foreign [OF that(1)] that grant by (auto simp: S grant_law_def split: if_splits)
    show "lwLocks S v \<noteq> None \<longleftrightarrow> (\<exists>t' j ty'. ((cfPhase c)(t := ph i ty u)) t' = Inside j ty' v) \<or>
        v \<in> (if granted then cfRefused c else insert u (cfRefused c))" for v
    proof (cases "v = u")
      case True
      show ?thesis by (cases granted) (auto simp: True S ph_def)
    next
      case False
      then have "(\<exists>t' j ty'. ((cfPhase c)(t := ph i ty u)) t' = Inside j ty' v) \<longleftrightarrow>
          (\<exists>t' j ty'. cfPhase c t' = Inside j ty' v)"
        using ph by (auto simp: ph_def split: if_splits) (metis phase.distinct(7))+
      with lock_invD(3) [OF inv, of v] False show ?thesis by (simp add: S)
    qed
    show "ph i ty u = Refused v"
      if "v \<in> (if granted then cfRefused c else insert u (cfRefused c))" "held (lwLocks S) (ph i ty u) = Some (v, tx1)"
      for v tx1
      using that fresh now by (auto simp: ph_def split: if_splits)
    show "v \<in> (if granted then cfRefused c else insert u (cfRefused c))" if "cfPhase c t' = Refused v" for t' v
      using lock_invD(6) [OF inv that] by simp
    show "v \<in> (if granted then cfRefused c else insert u (cfRefused c))" if "ph i ty u = Refused v" for v
      using that by (auto simp: ph_def split: if_splits)
    show "(if granted then cfRefused c else insert u (cfRefused c)) \<subseteq> cfRefused c \<or>
        (\<exists>v tx. ph i ty u = Refused v \<and> held (lwLocks S) (ph i ty u) = Some (v, tx) \<and>
          (if granted then cfRefused c else insert u (cfRefused c)) = insert v (cfRefused c))"
      using now by (auto simp: ph_def)
  qed (use S opened in auto)
qed

lemma lock_step_acquire:
  assumes inv: "lock_inv uuid holder opened c" and pg: "pg_laws pg holder opened"
    and ph: "cfPhase c t = Acquiring i ty l"
    and got: "obtain_lock g pg i ty l (cfWorld c) = Some ((u, None), S)"
  shows "lock_inv uuid holder opened
      \<lparr>cfWorld = S, cfPhase = (cfPhase c)(t := Inside i ty u), cfRefused = cfRefused c\<rparr>"
proof -
  let ?W = "cfWorld c"
  obtain n tx where act: "alUuid l = Some (uuid n)" "alG2 l = Some tx" "lock_keys l = Inr (tx, hash i, hash ty)"
    using inv_Acquiring [OF inv ph] by metis
  from got act(1) obtain w where o: "lock pg l (lwDb ?W) = (Granted, w)" "u = uuid n"
      "S = ?W\<lparr>lwDb := w, lwLocks := (lwLocks ?W)(u \<mapsto> l)\<rparr>"
    by (rule obtain_lock_cases) auto
  from o(1) act(3) have "pgLock pg tx (hash i) (hash ty) (lwDb ?W) = (Granted, w)"
    by (simp add: lock_def)
  from pg_lawsD(3) [OF pg this]
  have "opened w = opened (lwDb ?W)" "grant_law holder True tx (hash i, hash ty) (lwDb ?W) w" by simp_all
  from lock_step_answer [OF inv ph act(1,2) this] o(2,3) show ?thesis by simp
qed

lemma lock_step_try:
  assumes inv: "lock_inv uuid holder opened c" and pg: "pg_laws pg holder opened"
    and ph: "cfPhase c t = Acquiring i ty l"
    and got: "try_obtain g pg i ty l (cfWorld c) = ((u, acq, None), S)"
  shows "lock_inv uuid holder opened
      \<lparr>cfWorld = S, cfPhase = (cfPhase c)(t := (if acq then Inside i ty u else Refused u)),
       cfRefused = (if acq then cfRefused c else insert u (cfRefused c))\<rparr>"
proof -
  let ?W = "cfWorld c"
  obtain n tx where act: "alUuid l = Some (uuid n)" "alG2 l = Some tx" "lock_keys l = Inr (tx, hash i, hash ty)"
    using inv_Acquiring [OF inv ph] by metis
  from got act(1) obtain w where o: "nonBlockingLock pg l (lwDb ?W) = (Inr acq, w)" "u = uuid n"
      "S = ?W\<lparr>lwDb := w, lwLocks := (lwLocks ?W)(u \<mapsto> l)\<rparr>"
    by (rule try_obtain_cases) auto
  from o(1) act(3) obtain r where "pgTryLock pg tx (hash i) (hash ty) (lwDb ?W) = (Inr r, w)" "acq = (r = ''true'')"
    by (auto simp: nonBlockingLock_def split: prod.splits sum.splits)
  with pg_lawsD(5) [OF pg this(1)]
  have "opened w = opened (lwDb ?W)" "grant_law holder acq tx (hash i, hash ty) (lwDb ?W) w" by simp_all
  from lock_step_answer [OF inv ph act(1,2) this] o(2,3) show ?thesis by (cases acq) simp_all
qed

text \<open>A caller goes outside while the map and the holders of the keys stay.\<close>

lemma lock_step_outside:
  assumes inv: "lock_inv uuid holder opened c" and ph: "\<And>i ty u. cfPhase c t \<noteq> Inside i ty u"
    and S: "lwLocks S = lwLocks (cfWorld c)" "lwUuids S = lwUuids (cfWorld c)"
    and w: "opened (lwDb S) = opened (lwDb (cfWorld c))" "holder (lwDb S) = holder (lwDb (cfWorld c))"
  shows "lock_inv uuid holder opened
      \<lparr>cfWorld = S, cfPhase = (cfPhase c)(t := Outside), cfRefused = cfRefused c\<rparr>"
proof (rule lock_inv_step [OF inv])
  fix v show "lwLocks S v \<noteq> None \<longleftrightarrow>
      (\<exists>t' j ty'. ((cfPhase c)(t := Outside)) t' = Inside j ty' v) \<or> v \<in> cfRefused c"
    using lock_invD(3) [OF inv, of v] ph by (subst fun_upd_Inside) (simp_all add: S)
  show "u \<in> cfRefused c" if "cfPhase c t' = Refused u" for t' u
    using that by (rule lock_invD(6) [OF inv])
qed (use S w in auto)

lemma lock_step_acquire_error:
  assumes inv: "lock_inv uuid holder opened c" and pg: "pg_laws pg holder opened"
    and ph: "cfPhase c t = Acquiring i ty l"
    and got: "obtain_lock g pg i ty l (cfWorld c) = Some ((u, Some e), S)"
  shows "lock_inv uuid holder opened
      \<lparr>cfWorld = S, cfPhase = (cfPhase c)(t := Outside), cfRefused = cfRefused c\<rparr>"
proof -
  let ?W = "cfWorld c"
  obtain n tx where act: "alUuid l = Some (uuid n)" "lock_keys l = Inr (tx, hash i, hash ty)"
    using inv_Acquiring [OF inv ph] by metis
  from got act(1) obtain err w where o: "lock pg l (lwDb ?W) = (LockError err, w)"
      "S = UpdateAdvisoryLockCountMetric ty ''lock error'' (?W\<lparr>lwDb := w\<rparr>)"
    by (rule obtain_lock_cases) auto
  from o(1) act(2) have "pgLock pg tx (hash i) (hash ty) (lwDb ?W) = (LockError err, w)"
    by (simp add: lock_def)
  from pg_lawsD(3) [OF pg this] show ?thesis
    by (intro lock_step_outside [OF inv]) (simp_all add: ph o(2) grant_law_def)
qed

lemma lock_step_try_error:
  assumes inv: "lock_inv uuid holder opened c" and pg: "pg_laws pg holder opened"
    and ph: "cfPhase c t = Acquiring i ty l"
    and got: "try_obtain g pg i ty l (cfWorld c) = ((u, acq, Some e), S)"
  shows "lock_inv uuid holder opened
      \<lparr>cfWorld = S, cfPhase = (cfPhase c)(t := Outside), cfRefused = cfRefused c\<rparr>"
proof -
  let ?W = "cfWorld c"
  obtain n tx where act: "alUuid l = Some (uuid n)" "lock_keys l = Inr (tx, hash i, hash ty)"
    using inv_Acquiring [OF inv ph] by metis
  from got act(1) obtain err w where o: "nonBlockingLock pg l (lwDb ?W) = (Inl err, w)"
      "S = UpdateAdvisoryLockCountMetric ty ''lock error'' (?W\<lparr>lwDb := w\<rparr>)"
    by (rule try_obtain_cases) auto
  from o(1) act(2) have "pgTryLock pg tx (hash i) (hash ty) (lwDb ?W) = (Inl err, w)"
    by (auto simp: nonBlockingLock_def split: prod.splits sum.splits)
  from pg_lawsD(5) [OF pg this] show ?thesis
    by (intro lock_step_outside [OF inv]) (simp_all add: ph o(2) grant_law_def)
qed

text \<open>A caller that holds an owner unlocks it: the owner and its transaction are gone.\<close>

lemma lock_step_unlock:
  assumes inv: "lock_inv uuid holder opened c" and good: "good_uuid uuid" and pg: "pg_laws pg holder opened"
    and ph: "cfPhase c t = Inside i ty u \<or> cfPhase c t = Refused u"
  shows "lock_inv uuid holder opened
      \<lparr>cfWorld = Unlock pg u (cfWorld c), cfPhase = (cfPhase c)(t := Outside), cfRefused = cfRefused c - {u}\<rparr>"
    and "cfPhase c t = Inside i ty u \<Longrightarrow> holder (lwDb (Unlock pg u (cfWorld c))) (hash i, hash ty) = None"
proof -
  let ?W = "cfWorld c" and ?S = "Unlock pg u (cfWorld c)"
  have "active_ok uuid holder opened ?W (cfPhase c t)" by (rule lock_invD(1) [OF inv]) (use ph in auto)
  with ph obtain n tx l where act:
      "u = uuid n" "lwLocks ?W u = Some l" "alG2 l = Some tx" "phase_ok (holder (lwDb ?W)) tx (cfPhase c t)"
    by (auto simp: active_ok_def held_registered)
  have ne: "u \<noteq> []" using act(1) good_uuid_ne [OF good] by simp
  obtain e w where com: "pgCommit pg tx (lwDb ?W) = (e, w)" by fastforce
  have S: "lwDb ?S = w" "lwLocks ?S = (lwLocks ?W)(u := None)" "lwUuids ?S = lwUuids ?W"
    using ne act com by (simp_all add: Unlock_locks Unlock_uuids)
      (simp add: Unlock_def unlock_def Let_def)
  note w = pg_lawsD(4) [OF pg com]
  show "holder (lwDb ?S) (hash i, hash ty) = None" if "cfPhase c t = Inside i ty u"
    using S w act(4) that by simp
  have mine: "held (lwLocks ?W) (cfPhase c t) = Some (u, tx)"
    using act ph by (auto simp: held_registered)
  note foreign = lock_invD(2) [OF inv _ _ mine]
  note not_u = inv_only [OF inv mine]
  show "lock_inv uuid holder opened
      \<lparr>cfWorld = ?S, cfPhase = (cfPhase c)(t := Outside), cfRefused = cfRefused c - {u}\<rparr>"
  proof (rule lock_inv_step [OF inv])
    show "held (lwLocks ?S) (cfPhase c t') = held (lwLocks ?W) (cfPhase c t')" if "t' \<noteq> t" for t'
      unfolding S(2) using not_u [OF that] by (rule held_upd)
    show "holder (lwDb ?S) (hash j, hash ty') = Some tx'"
      if "t' \<noteq> t" "cfPhase c t' = Inside j ty' v" "held (lwLocks ?W) (Inside j ty' v) = Some (v, tx')"
        "holder (lwDb ?W) (hash j, hash ty') = Some tx'" for t' j ty' v tx'
      using foreign [OF that(1)] that w S(1) by auto
    show "lwLocks ?S v \<noteq> None \<longleftrightarrow>
        (\<exists>t' j ty'. ((cfPhase c)(t := Outside)) t' = Inside j ty' v) \<or> v \<in> cfRefused c - {u}" for v
    proof (cases "v = u")
      case True
      with not_u show ?thesis by (auto simp: S(2))
    next
      case False
      then have "(\<exists>t' j ty'. ((cfPhase c)(t := Outside)) t' = Inside j ty' v) \<longleftrightarrow>
          (\<exists>t' j ty'. cfPhase c t' = Inside j ty' v)"
        using ph by auto (metis phase.inject(2) phase.distinct(11))+
      with lock_invD(3) [OF inv, of v] False show ?thesis by (simp add: S(2))
    qed
    show "v \<in> cfRefused c - {u}" if "t' \<noteq> t" "cfPhase c t' = Refused v" for t' v
      using lock_invD(6) [OF inv that(2)] not_u(2) [OF that(1)] that(2) by auto
  qed (use S w in auto)
qed

lemma inv_inside:
  assumes inv: "lock_inv uuid holder opened c" and ph: "cfPhase c t = Inside i ty u"
  shows "\<exists>n. u = uuid n" and "u \<notin> cfRefused c"
proof -
  obtain n tx where "held (lwLocks (cfWorld c)) (cfPhase c t) = Some (u, tx)" "u = uuid n"
    using lock_invD(1) [OF inv, of t] ph by (auto simp: active_ok_def held_registered)
  with lock_invD(5) [OF inv _ this(1)] ph show "\<exists>n. u = uuid n" and "u \<notin> cfRefused c" by auto
qed

lemma lock_step_release:
  assumes inv: "lock_inv uuid holder opened c" and good: "good_uuid uuid" and pg: "pg_laws pg holder opened"
    and ph: "cfPhase c t = Inside i ty u"
  shows "lock_inv uuid holder opened
      \<lparr>cfWorld = Unlock pg u (cfWorld c), cfPhase = (cfPhase c)(t := Outside), cfRefused = cfRefused c\<rparr>"
    and "holder (lwDb (Unlock pg u (cfWorld c))) (hash i, hash ty) = None"
proof -
  from inv_inside(2) [OF inv ph] have "cfRefused c - {u} = cfRefused c" by simp
  with lock_step_unlock [OF inv good pg disjI1 [OF ph]] ph
  show "lock_inv uuid holder opened
      \<lparr>cfWorld = Unlock pg u (cfWorld c), cfPhase = (cfPhase c)(t := Outside), cfRefused = cfRefused c\<rparr>"
    and "holder (lwDb (Unlock pg u (cfWorld c))) (hash i, hash ty) = None"
    by simp_all
qed

lemma lock_step_begin_error:
  assumes inv: "lock_inv uuid holder opened c" and pg: "pg_laws pg holder opened"
    and ph: "cfPhase c t = Outside" and new: "newLock uuid pg i ty (cfWorld c) = (Inl e, S)"
  shows "lock_inv uuid holder opened \<lparr>cfWorld = S, cfPhase = cfPhase c, cfRefused = cfRefused c\<rparr>"
proof -
  let ?W = "cfWorld c"
  obtain w where n: "pgBegin pg (lwDb ?W) = (Inl e, w)" "S = ?W\<lparr>lwUuids := Suc (lwUuids ?W), lwDb := w\<rparr>"
    using new by (auto simp: newLock_def newAdvisoryLock_def Let_def split: prod.splits sum.splits)
  note w = pg_lawsD(2) [OF pg n(1)]
  have "lock_inv uuid holder opened \<lparr>cfWorld = S, cfPhase = (cfPhase c)(t := Outside), cfRefused = cfRefused c\<rparr>"
  proof (rule lock_inv_step [OF inv])
    fix v show "lwLocks S v \<noteq> None \<longleftrightarrow>
        (\<exists>t' j ty'. ((cfPhase c)(t := Outside)) t' = Inside j ty' v) \<or> v \<in> cfRefused c"
      using lock_invD(3) [OF inv, of v] ph by (subst fun_upd_Inside) (simp_all add: n)
    show "u \<in> cfRefused c" if "cfPhase c t' = Refused u" for t' u
      using that by (rule lock_invD(6) [OF inv])
  qed (use n w in auto)
  with ph show ?thesis by (simp add: fun_upd_idem)
qed

inductive_cases lock_stepE: "lock_step uuid g pg c c'"

lemma lock_step_inv:
  assumes step: "lock_step uuid g pg c c'" and inv: "lock_inv uuid holder opened c"
    and good: "good_uuid uuid" and pg: "pg_laws pg holder opened"
  shows "lock_inv uuid holder opened c'"
  using step
proof (cases rule: lock_step.cases)
  case (begin_tx t i ty l S)
  then show ?thesis using lock_step_begin [OF inv good pg begin_tx(2,3)] by (simp add: config_upd)
next
  case (begin_error t i ty e S)
  then show ?thesis using lock_step_begin_error [OF inv pg begin_error(2,3)] by (simp add: config_upd)
next
  case (acquire t i ty l u S)
  then show ?thesis using lock_step_acquire [OF inv pg acquire(2,3)] by (simp add: config_upd)
next
  case (acquire_error t i ty l u e S)
  then show ?thesis using lock_step_acquire_error [OF inv pg acquire_error(2,3)] by (simp add: config_upd)
next
  case (try_acquire t i ty l u S)
  then show ?thesis using lock_step_try [OF inv pg try_acquire(2,3)] by (simp add: config_upd)
next
  case (try_refused t i ty l u S)
  then show ?thesis using lock_step_try [OF inv pg try_refused(2,3)] by (simp add: config_upd)
next
  case (try_error t i ty l u acq e S)
  then show ?thesis using lock_step_try_error [OF inv pg try_error(2,3)] by (simp add: config_upd)
next
  case (release t i ty u)
  then show ?thesis using lock_step_release(1) [OF inv good pg release(2)] by (simp add: config_upd)
next
  case (refused_unlock t u)
  then show ?thesis using lock_step_unlock(1) [OF inv good pg disjI2 [OF refused_unlock(2)]] by (simp add: config_upd)
next
  case (refused_leave t u)
  have "lock_inv uuid holder opened
      \<lparr>cfWorld = cfWorld c, cfPhase = (cfPhase c)(t := Outside), cfRefused = cfRefused c\<rparr>"
    by (rule lock_step_outside [OF inv]) (simp_all add: refused_leave(2))
  then show ?thesis using refused_leave(1) by (simp add: config_upd)
qed

lemma lock_reachable_inv:
  assumes "lock_reachable uuid g pg w now c" and "good_uuid uuid" and "pg_laws pg holder opened"
  shows "lock_inv uuid holder opened c"
  using assms(1) unfolding lock_reachable_def
  by (induction rule: rtranclp_induct) (auto intro: lock_start_inv lock_step_inv assms(2,3))

section \<open>A reference database, to instantiate the laws\<close>

record ref_db =
  rdHolder :: "lock_key \<Rightarrow> nat option"
  rdNext :: nat

definition ref_grant :: "nat \<Rightarrow> lock_key \<Rightarrow> ref_db \<Rightarrow> bool" where
  "ref_grant tx k w \<longleftrightarrow> rdHolder w k = None \<or> rdHolder w k = Some tx"

definition ref_pg :: "ref_db pg_lib" where
  "ref_pg =
     \<lparr>pgBegin = (\<lambda>w. (Inr (rdNext w), w\<lparr>rdNext := Suc (rdNext w)\<rparr>)),
      pgTxid = (\<lambda>tx w. int tx),
      pgLock = (\<lambda>tx k1 k2 w.
         if ref_grant tx (k1, k2) w then (Granted, w\<lparr>rdHolder := (rdHolder w)((k1, k2) \<mapsto> tx)\<rparr>)
         else (Waiting, w)),
      pgTryLock = (\<lambda>tx k1 k2 w.
         if ref_grant tx (k1, k2) w then (Inr ''true'', w\<lparr>rdHolder := (rdHolder w)((k1, k2) \<mapsto> tx)\<rparr>)
         else (Inr ''false'', w)),
      pgCommit = (\<lambda>tx w.
         (None, w\<lparr>rdHolder := (\<lambda>k. if rdHolder w k = Some tx then None else rdHolder w k)\<rparr>))\<rparr>"

definition ref_start :: ref_db where
  "ref_start = \<lparr>rdHolder = (\<lambda>_. None), rdNext = 0\<rparr>"

lemma ref_pg_laws: "pg_laws ref_pg rdHolder (\<lambda>w. {..<rdNext w})"
  by (auto simp: pg_laws_def ref_pg_def grant_law_def ref_grant_def split: if_splits)

definition ref_uuid :: "nat \<Rightarrow> string" where
  "ref_uuid n = replicate (Suc n) (CHR ''a'')"

lemma ref_uuid_good: "good_uuid ref_uuid"
  by (auto simp: good_uuid_def ref_uuid_def inj_def)

definition demo_lock :: advisory_lock where
  "demo_lock = \<lparr>alG2 = Some 0, alTxid = 0, alUuid = Some ''a'', alId = Some ''7'',
                alLockType = Some Events, alStartTime = 5\<rparr>"

definition demo_inside :: "ref_db lock_config" where
  "demo_inside =
     \<lparr>cfWorld = (NewAdvisoryLockFactory
          \<lparr>rdHolder = [(hash ''7'', hash Events) \<mapsto> 0], rdNext = 1\<rparr> 5)
          \<lparr>lwUuids := 1, lwLocks := [''a'' \<mapsto> demo_lock]\<rparr>,
      cfPhase = (\<lambda>_. Outside)(0 := Inside ''7'' Events ''a''), cfRefused = {}\<rparr>"

lemma demo_inside_reachable:
  "lock_reachable ref_uuid default_error_config ref_pg ref_start 5 demo_inside"
proof -
  let ?S1 = "(NewAdvisoryLockFactory \<lparr>rdHolder = (\<lambda>_. None), rdNext = 1\<rparr> 5)\<lparr>lwUuids := 1\<rparr>"
  let ?c1 = "\<lparr>cfWorld = ?S1, cfPhase = (cfPhase (lock_start ref_start 5))(0 := Acquiring ''7'' Events demo_lock), cfRefused = {}\<rparr>"
  have "lock_step ref_uuid default_error_config ref_pg (lock_start ref_start 5) ?c1"
    using lock_step.begin_tx [of "lock_start ref_start 5" 0 ref_uuid ref_pg "''7''" Events demo_lock ?S1]
    by (simp add: lock_start_def newLock_def newAdvisoryLock_def ref_pg_def ref_start_def
          NewAdvisoryLockFactory_def demo_lock_def ref_uuid_def)
  moreover have "lock_step ref_uuid default_error_config ref_pg ?c1
      (?c1\<lparr>cfWorld := cfWorld demo_inside, cfPhase := (cfPhase ?c1)(0 := Inside ''7'' Events ''a'')\<rparr>)"
    by (rule lock_step.acquire [where l = demo_lock])
       (simp_all add: Let_def obtain_lock_def lock_def lock_keys_def ref_pg_def ref_grant_def demo_lock_def
          NewAdvisoryLockFactory_def demo_inside_def)
  moreover have "(?c1\<lparr>cfWorld := cfWorld demo_inside, cfPhase := (cfPhase ?c1)(0 := Inside ''7'' Events ''a'')\<rparr>) = demo_inside"
    by (simp add: demo_inside_def lock_start_def)
  ultimately show ?thesis unfolding lock_reachable_def
    by (metis (no_types, lifting) converse_rtranclp_into_rtranclp rtranclp.rtrancl_refl)
qed

lemma inside_unique:
  assumes inv: "lock_inv uuid holder opened c"
    and "cfPhase c t1 = Inside i1 ty1 u1" and "cfPhase c t2 = Inside i2 ty2 u2"
    and "hash i1 = hash i2" and "hash ty1 = hash ty2"
  shows "t1 = t2"
proof (rule ccontr)
  assume ne: "t1 \<noteq> t2"
  from lock_invD(1) [OF inv, of t1] assms(2) obtain tx1 where h1:
      "held (lwLocks (cfWorld c)) (cfPhase c t1) = Some (u1, tx1)"
      "holder (lwDb (cfWorld c)) (hash i1, hash ty1) = Some tx1"
    by (auto simp: active_ok_def held_registered)
  from lock_invD(1) [OF inv, of t2] assms(3) obtain tx2 where h2:
      "held (lwLocks (cfWorld c)) (cfPhase c t2) = Some (u2, tx2)"
      "holder (lwDb (cfWorld c)) (hash i2, hash ty2) = Some tx2"
    by (auto simp: active_ok_def held_registered)
  from lock_invD(2) [OF inv ne h1(1) h2(1)] h1(2) h2(2) assms(4,5) show False by simp
qed

section \<open>The abstract mutex\<close>

text \<open>
  What the locks promise their clients: a table of the caller inside each lock, to which a caller
  that is inside none may be added where there is no entry, and from which it is removed.
\<close>

type_synonym mutex = "string \<times> string \<Rightarrow> nat option"

inductive mutex_step :: "mutex \<Rightarrow> mutex \<Rightarrow> bool" where
  enter: "m k = None \<Longrightarrow> t \<notin> ran m \<Longrightarrow> mutex_step m (m(k \<mapsto> t))"
| leave: "m k = Some t \<Longrightarrow> mutex_step m (m(k := None))"

definition lock_represents :: "'w lock_config \<Rightarrow> mutex \<Rightarrow> bool" where
  "lock_represents c m \<longleftrightarrow> (\<forall>i ty t. m (i, ty) = Some t \<longleftrightarrow> (\<exists>u. cfPhase c t = Inside i ty u))"

lemma representsD: "lock_represents c m \<Longrightarrow> cfPhase c t = Inside i ty u \<Longrightarrow> m (i, ty) = Some t"
  unfolding lock_represents_def by blast

lemma represents_start: "lock_represents (lock_start w now) Map.empty"
  by (simp add: lock_represents_def lock_start_def)

text \<open>A caller that enters no section and leaves none.\<close>

lemma represents_idle:
  assumes "lock_represents c m" and "\<And>i ty u. cfPhase c t \<noteq> Inside i ty u" and "\<And>i ty u. ph \<noteq> Inside i ty u"
  shows "lock_represents \<lparr>cfWorld = S, cfPhase = (cfPhase c)(t := ph), cfRefused = R\<rparr> m"
  using assms by (auto simp: lock_represents_def)

lemma represents_enter:
  assumes rep: "lock_represents c m" and inv: "lock_inv uuid holder opened \<lparr>cfWorld = S, cfPhase = (cfPhase c)(t := Inside i ty u), cfRefused = R\<rparr>"
    and out: "\<And>i ty u. cfPhase c t \<noteq> Inside i ty u"
  shows "mutex_step m (m((i, ty) \<mapsto> t)) \<and>
    lock_represents \<lparr>cfWorld = S, cfPhase = (cfPhase c)(t := Inside i ty u), cfRefused = R\<rparr> (m((i, ty) \<mapsto> t))"
proof -
  have free: "m (i, ty) = None"
  proof (rule ccontr)
    assume "m (i, ty) \<noteq> None"
    then obtain t' u' where in': "cfPhase c t' = Inside i ty u'" using rep by (auto simp: lock_represents_def)
    with out have "t' \<noteq> t" by auto
    with in' inside_unique [OF inv, of t' i ty u' t i ty u] show False by simp
  qed
  have "t \<notin> ran m" using rep out by (auto simp: ran_def lock_represents_def)
  with free have "mutex_step m (m((i, ty) \<mapsto> t))" by (rule mutex_step.enter)
  moreover have "t' \<noteq> t \<Longrightarrow> cfPhase c t' \<noteq> Inside i ty u'" for t' u'
    using representsD [OF rep] free by fastforce
  then have "lock_represents \<lparr>cfWorld = S, cfPhase = (cfPhase c)(t := Inside i ty u), cfRefused = R\<rparr> (m((i, ty) \<mapsto> t))"
    using rep out by (auto simp: lock_represents_def)
  ultimately show ?thesis by blast
qed

lemma represents_entered:
  assumes "lock_represents c m"
    and "lock_inv uuid holder opened \<lparr>cfWorld = S, cfPhase = (cfPhase c)(t := Inside i ty u), cfRefused = R\<rparr>"
    and "cfPhase c t = Acquiring i ty l"
  shows "\<exists>m'. (m' = m \<or> mutex_step m m') \<and>
    lock_represents \<lparr>cfWorld = S, cfPhase = (cfPhase c)(t := Inside i ty u), cfRefused = R\<rparr> m'"
  using represents_enter [OF assms(1,2)] assms(3) by (intro exI [of _ "m((i, ty) \<mapsto> t)"]) simp

lemma represents_leave:
  assumes rep: "lock_represents c m" and "cfPhase c t = Inside i ty u"
  shows "mutex_step m (m((i, ty) := None)) \<and>
    lock_represents \<lparr>cfWorld = S, cfPhase = (cfPhase c)(t := Outside), cfRefused = R\<rparr> (m((i, ty) := None))"
proof -
  have m: "m (i, ty) = Some t" using assms by (rule representsD)
  have "lock_represents \<lparr>cfWorld = S, cfPhase = (cfPhase c)(t := Outside), cfRefused = R\<rparr> (m((i, ty) := None))"
    unfolding lock_represents_def lock_config.simps
  proof (intro allI)
    fix j ty' t'
    have r: "m (j, ty') = Some t' \<longleftrightarrow> (\<exists>u. cfPhase c t' = Inside j ty' u)"
      using rep by (simp add: lock_represents_def)
    show "(m((i, ty) := None)) (j, ty') = Some t' \<longleftrightarrow> (\<exists>u. ((cfPhase c)(t := Outside)) t' = Inside j ty' u)"
    proof (cases "t' = t")
      case True
      with r assms(2) show ?thesis by auto
    next
      case False
      with r m show ?thesis by auto
    qed
  qed
  with mutex_step.leave [where m = m and k = "(i, ty)", OF m] show ?thesis by blast
qed

section \<open>Properties\<close>

text \<open>
  C1: Two callers of the lock factory are never inside the sections of the same lock: in every
  interleaving of their steps, if two callers hold locks whose identifiers and types hash to the
  same keys, they are one caller.
\<close>

theorem lock_mutual_exclusion:
  assumes "pg_laws pg holder opened" and "good_uuid uuid"
    and "lock_reachable uuid g pg w now c"
    and "cfPhase c t1 = Inside i1 ty1 u1" and "cfPhase c t2 = Inside i2 ty2 u2"
    and "hash i1 = hash i2" and "hash ty1 = hash ty2"
  shows "t1 = t2"
  by (rule inside_unique [OF lock_reachable_inv [OF assms(3,2,1)] assms(4-7)])

theorem lock_mutual_exclusion_witness:
  "{t. cfPhase demo_inside t = Inside ''7'' Events ''a''} = {0}"
proof -
  have in0: "cfPhase demo_inside 0 = Inside ''7'' Events ''a''" by (simp add: demo_inside_def)
  have "t = 0" if "cfPhase demo_inside t = Inside ''7'' Events ''a''" for t
    by (rule lock_mutual_exclusion [OF ref_pg_laws ref_uuid_good demo_inside_reachable that in0 refl refl])
  with in0 show ?thesis by blast
qed

text \<open>
  C2: The lock factory refines the abstract mutex: the start represents the empty table, and from
  every reachable configuration each step of a caller is a step of the table that it represents, or
  leaves the table as it is.
\<close>

theorem lock_refines_mutex:
  assumes "pg_laws pg holder opened" and "good_uuid uuid" and "lock_reachable uuid g pg w now c"
    and "lock_represents c m" and "lock_step uuid g pg c c'"
  shows "lock_represents (lock_start w now) Map.empty \<and>
    (\<exists>m'. (m' = m \<or> mutex_step m m') \<and> lock_represents c' m')"
proof -
  note inv = lock_reachable_inv [OF assms(3,2,1)]
  have "\<exists>m'. (m' = m \<or> mutex_step m m') \<and> lock_represents c' m'"
    using assms(5)
  proof (cases rule: lock_step.cases)
    case (begin_tx t i ty l S)
    then show ?thesis using represents_idle [OF assms(4), of t "Acquiring i ty l"] by (auto simp: config_upd)
  next
    case (begin_error t i ty e S)
    then show ?thesis using assms(4) by (auto simp: lock_represents_def)
  next
    case (acquire t i ty l u S)
    show ?thesis unfolding acquire(1) config_upd(1)
      by (rule represents_entered [OF assms(4) lock_step_acquire [OF inv assms(1) acquire(2,3)] acquire(2)])
  next
    case (acquire_error t i ty l u e S)
    then show ?thesis using represents_idle [OF assms(4), of t Outside] by (auto simp: config_upd)
  next
    case (try_acquire t i ty l u S)
    have "lock_inv uuid holder opened
        \<lparr>cfWorld = S, cfPhase = (cfPhase c)(t := Inside i ty u), cfRefused = cfRefused c\<rparr>"
      using lock_step_try [OF inv assms(1) try_acquire(2,3)] by simp
    then show ?thesis unfolding try_acquire(1) config_upd(1)
      by (rule represents_entered [OF assms(4) _ try_acquire(2)])
  next
    case (try_refused t i ty l u S)
    then show ?thesis using represents_idle [OF assms(4), of t "Refused u"] by (auto simp: config_upd)
  next
    case (try_error t i ty l u acq e S)
    then show ?thesis using represents_idle [OF assms(4), of t Outside] by (auto simp: config_upd)
  next
    case (release t i ty u)
    have "mutex_step m (m((i, ty) := None)) \<and> lock_represents c' (m((i, ty) := None))"
      unfolding release(1) config_upd(1) by (rule represents_leave [OF assms(4) release(2)])
    then show ?thesis by (intro exI [of _ "m((i, ty) := None)"] conjI disjI2) simp_all
  next
    case (refused_unlock t u)
    then show ?thesis using represents_idle [OF assms(4), of t Outside] by (auto simp: config_upd)
  next
    case (refused_leave t u)
    then show ?thesis using represents_idle [OF assms(4), of t Outside] by (auto simp: config_upd)
  qed
  then show ?thesis by (intro conjI represents_start)
qed

theorem lock_refines_mutex_witness:
  "\<exists>m'. (m' = [(''7'', Events) \<mapsto> 0] \<or> mutex_step [(''7'', Events) \<mapsto> 0] m') \<and>
     lock_represents \<lparr>cfWorld = Unlock ref_pg ''a'' (cfWorld demo_inside), cfPhase = (\<lambda>_. Outside), cfRefused = {}\<rparr> m'"
proof -
  let ?c = "demo_inside\<lparr>cfWorld := Unlock ref_pg ''a'' (cfWorld demo_inside), cfPhase := (cfPhase demo_inside)(0 := Outside)\<rparr>"
  have step: "lock_step ref_uuid default_error_config ref_pg demo_inside ?c"
    by (rule lock_step.release [where i = "''7''" and ty = Events]) (simp add: demo_inside_def)
  have rep: "lock_represents demo_inside [(''7'', Events) \<mapsto> 0]"
    by (auto simp: lock_represents_def demo_inside_def)
  have "?c = \<lparr>cfWorld = Unlock ref_pg ''a'' (cfWorld demo_inside), cfPhase = (\<lambda>_. Outside), cfRefused = {}\<rparr>"
    by (simp add: demo_inside_def fun_eq_iff)
  with lock_refines_mutex [OF ref_pg_laws ref_uuid_good demo_inside_reachable rep step] show ?thesis by simp
qed



text \<open>
  When obtaining a lock fails after its transaction has begun, the owner id that is returned
  is not registered, so the caller that unlocks it ends no transaction.
\<close>

theorem lock_error_owner_unregistered:
  assumes "real_fresh uuid S" and "NewAdvisoryLock uuid g pg i ty S = Some ((u, Some e), S')"
  shows "Unlock pg u S' = S' \<and> real_owners S' = real_owners S"
proof -
  have new: "lfNew (AdvisoryLockFactory uuid g pg) i ty S = Some ((u, Some e), S')"
    using assms(2) by (simp add: AdvisoryLockFactory_def)
  have "real_owners S' = real_owners S" by (rule advisory.new_error [OF new])
  moreover have "u \<notin> real_owners S" using advisory.new_owner [OF assms(1) new] by blast
  ultimately show ?thesis by (auto simp: real_owners_def Unlock_def split: option.splits)
qed

definition demo_bad_pg :: "ref_db pg_lib" where
  "demo_bad_pg = ref_pg\<lparr>pgLock := (\<lambda>tx k1 k2 w. (LockError (TextError ''timeout''), w))\<rparr>"

theorem lock_error_owner_unregistered_witness:
  "\<exists>S' e. NewAdvisoryLock ref_uuid default_error_config demo_bad_pg ''7'' Events
      (NewAdvisoryLockFactory ref_start 5) = Some ((''a'', Some e), S') \<and>
    Unlock demo_bad_pg ''a'' S' = S' \<and> real_owners S' = real_owners (NewAdvisoryLockFactory ref_start 5)"
proof -
  let ?S = "NewAdvisoryLockFactory ref_start 5"
  have fresh: "real_fresh ref_uuid ?S"
    by (simp add: real_fresh_def ref_uuid_good real_owners_def NewAdvisoryLockFactory_def)
  obtain e S' where run: "NewAdvisoryLock ref_uuid default_error_config demo_bad_pg ''7'' Events ?S =
      Some ((''a'', Some e), S')"
    by (simp add: NewAdvisoryLock_def newLock_def newAdvisoryLock_def demo_bad_pg_def ref_pg_def Let_def
        obtain_lock_def lock_def lock_keys_def NewAdvisoryLockFactory_def ref_uuid_def)
  from lock_error_owner_unregistered [OF fresh run] run show ?thesis by blast
qed

end
