(* ===== verification/Sql_Helpers.thy ===== *)
theory Sql_Helpers
  imports Service_Errors
begin

text \<open>
  \<^verbatim>\<open>pkg/db/sql_helpers.go\<close>: the check of the field names in a search tree and in
  the orderBy arguments. A tree of the search language is a \<open>tsl_node\<close>; the fields
  \<^verbatim>\<open>Left\<close> and \<^verbatim>\<open>Right\<close> are Go interfaces, so a child is any of
  the dynamic values the code distinguishes by a type switch or a type assertion. An
  assertion that fails panics.
\<close>

section \<open>Search trees\<close>

datatype tsl_op = IdentOp | StringOp | NumberOp | OtherOp string

datatype tsl_val = VNil | VStr string | VNode tsl_node | VNodes "tsl_node list" | VOther nat
  and tsl_node = TNode (tnFunc: tsl_op) (tnLeft: tsl_val) (tnRight: tsl_val)

text \<open>Go's zero value of the node type.\<close>

definition zero_node :: tsl_node where
  "zero_node = TNode (OtherOp []) VNil VNil"

primrec nsize :: "tsl_node \<Rightarrow> nat" and vsize :: "tsl_val \<Rightarrow> nat" where
  "nsize (TNode f l r) = Suc (vsize l + vsize r)"
| "vsize VNil = 0"
| "vsize (VStr s) = 0"
| "vsize (VNode n) = Suc (nsize n)"
| "vsize (VNodes ns) = Suc (sum_list (map (\<lambda>n. Suc (nsize n)) ns))"
| "vsize (VOther k) = 0"

lemma nsize_pos [simp]: "Suc 0 \<le> nsize n"
  by (cases n) simp

section \<open>Field names\<close>

definition startsWithProperties :: "string \<Rightarrow> bool" where
  "startsWithProperties s \<longleftrightarrow> has_prefix s ''properties.''"

definition hasProperty :: "tsl_node \<Rightarrow> bool go" where
  "hasProperty n =
     (case tnLeft n of
        VNode l \<Rightarrow>
          (if tnFunc l \<noteq> IdentOp then Ret False
           else (case tnLeft l of
                   VStr s \<Rightarrow> Ret (startsWithProperties s)
                 | _ \<Rightarrow> Panic ''interface conversion: interface is not string''))
      | _ \<Rightarrow> Ret False)"

definition getField :: "string \<Rightarrow> (string \<rightharpoonup> string) \<Rightarrow> service_error + string" where
  "getField name disallowedFields =
     (let trimmedName = trim (CHR '' '') name
      in if has_prefix trimmedName ''properties ->>'' then Inr trimmedName
         else (let fieldParts = split_on (CHR ''.'') trimmedName
               in if length fieldParts > 2
                  then Inl (BadRequest ''%s is not a valid field name'' [FStr name])
                  else (let checkName = (if length fieldParts > 1 then fieldParts ! 1 else trimmedName)
                        in if disallowedFields checkName \<noteq> None
                           then Inl (BadRequest ''%s is not a valid field name'' [FStr name])
                           else Inr trimmedName)))"

definition propertiesNodeConverter :: "tsl_node \<Rightarrow> tsl_node go" where
  "propertiesNodeConverter n =
     (case tnLeft n of
        VNode l \<Rightarrow>
          (case tnLeft l of
             VStr s \<Rightarrow>
               (if length s < 11 then Panic ''slice bounds out of range''
                else (let propertyName = drop 11 s
                      in Ret (TNode (tnFunc n)
                           (VNode (TNode IdentOp
                              (VStr (sprintf (''properties ->> '%s'' @ [CHR 0x27]) [FStr propertyName])) VNil))
                           (tnRight n))))
           | _ \<Rightarrow> Panic ''interface conversion: interface is not string'')
      | _ \<Rightarrow> Ret n)"

section \<open>FieldNameWalk\<close>

text \<open>The first statement of the walk: convert a node with a property on its left.\<close>

definition convert_property :: "tsl_node \<Rightarrow> tsl_node go" where
  "convert_property n =
     (case hasProperty n of
        Panic m \<Rightarrow> Panic m
      | Ret p \<Rightarrow> if p then propertiesNodeConverter n else Ret n)"

lemma nsize_convert_property: "convert_property n = Ret n' \<Longrightarrow> nsize n' \<le> nsize n"
  by (cases n)
     (auto simp: convert_property_def hasProperty_def propertiesNodeConverter_def Let_def
        split: go.splits tsl_val.splits if_splits tsl_node.splits)

lemma vsize_child:
  assumes "convert_property n0 = Ret n"
  shows "vsize (tnLeft n) < nsize n0" and "vsize (tnRight n) < nsize n0"
  using nsize_convert_property [OF assms] by (cases n; simp)+

text \<open>
  The walk proper. The identifier and leaf cases return at once; otherwise the left child is
  walked (a nil left child leaves the zero node), then the right child or children.
\<close>

function (sequential) FieldNameWalk ::
    "(string \<rightharpoonup> string) \<Rightarrow> tsl_node \<Rightarrow> (service_error + tsl_node) go"
  and FieldNameWalk_list ::
    "(string \<rightharpoonup> string) \<Rightarrow> tsl_node list \<Rightarrow> (service_error + tsl_node list) go" where
  "FieldNameWalk dis n0 =
     (case convert_property n0 of
        Panic m \<Rightarrow> Panic m
      | Ret n \<Rightarrow>
          (case tnFunc n of
             IdentOp \<Rightarrow>
               (case tnLeft n of
                  VStr userFieldName \<Rightarrow>
                    (case getField userFieldName dis of
                       Inl err \<Rightarrow> Ret (Inl err)
                     | Inr field \<Rightarrow> Ret (Inr (TNode IdentOp (VStr field) VNil)))
                | _ \<Rightarrow> Ret (Inl (BadRequest ''Identifier name must be a string'' [])))
           | StringOp \<Rightarrow> Ret (Inr (TNode (tnFunc n) (tnLeft n) VNil))
           | NumberOp \<Rightarrow> Ret (Inr (TNode (tnFunc n) (tnLeft n) VNil))
           | OtherOp _ \<Rightarrow>
               (case (case tnLeft n of
                        VNil \<Rightarrow> Ret (Inr zero_node)
                      | VNode l0 \<Rightarrow> FieldNameWalk dis l0
                      | _ \<Rightarrow> Panic ''interface conversion: interface is not tsl.Node'') of
                  Panic m \<Rightarrow> Panic m
                | Ret (Inl err) \<Rightarrow> Ret (Inl err)
                | Ret (Inr l) \<Rightarrow>
                    (case tnRight n of
                       VNil \<Rightarrow> Ret (Inr (TNode (tnFunc n) (VNode l) VNil))
                     | VNode v \<Rightarrow>
                         (case FieldNameWalk dis v of
                            Panic m \<Rightarrow> Panic m
                          | Ret (Inl err) \<Rightarrow> Ret (Inl err)
                          | Ret (Inr r) \<Rightarrow> Ret (Inr (TNode (tnFunc n) (VNode l) (VNode r))))
                     | VNodes v \<Rightarrow>
                         (case FieldNameWalk_list dis v of
                            Panic m \<Rightarrow> Panic m
                          | Ret (Inl err) \<Rightarrow> Ret (Inl err)
                          | Ret (Inr rr) \<Rightarrow> Ret (Inr (TNode (tnFunc n) (VNode l) (VNodes rr))))
                     | _ \<Rightarrow>
                         Ret (Inl (BadRequest ''unsupported right hand side type in search query'' []))))))"
| "FieldNameWalk_list dis [] = Ret (Inr [])"
| "FieldNameWalk_list dis (e # es) =
     (case FieldNameWalk dis e of
        Panic m \<Rightarrow> Panic m
      | Ret (Inl err) \<Rightarrow> Ret (Inl err)
      | Ret (Inr r) \<Rightarrow>
          (case FieldNameWalk_list dis es of
             Panic m \<Rightarrow> Panic m
           | Ret (Inl err) \<Rightarrow> Ret (Inl err)
           | Ret (Inr rr) \<Rightarrow> Ret (Inr (r # rr))))"
  by pat_completeness auto

termination
proof (relation "measure (\<lambda>x. case x of Inl (dis, n) \<Rightarrow> nsize n
    | Inr (dis, ns) \<Rightarrow> sum_list (map (\<lambda>n. Suc (nsize n)) ns))", goal_cases)
  case 1
  then show ?case by simp
next
  case (2 dis n0 n f l)
  then show ?case using vsize_child(1) [of n0 n] by simp
next
  case (3 dis n0 n f l' l v)
  then show ?case using vsize_child(2) [of n0 n] by simp
next
  case (4 dis n0 n f l' l v)
  then show ?case using vsize_child(2) [of n0 n] by simp
qed simp_all

declare FieldNameWalk.simps [simp del]

section \<open>orderBy\<close>

definition cleanOrderBy :: "string \<Rightarrow> (string \<rightharpoonup> string) \<Rightarrow> service_error + string" where
  "cleanOrderBy userArg disallowedFields =
     (let trimedName = trim (CHR '' '') userArg;
          order = split_on (CHR '' '') trimedName;
          fd = (if length order = 1 then (getField (order ! 0) disallowedFields, ''asc'')
                else if length order = 2 then (getField (order ! 0) disallowedFields, order ! 1)
                else (Inr [], ''none valid''))
      in case fd of
           (Inr orderField, direction) \<Rightarrow>
             (if direction \<noteq> ''asc'' \<and> direction \<noteq> ''desc''
              then Inl (BadRequest (''bad order value '%s'' @ [CHR 0x27]) [FStr userArg])
              else Inr (sprintf ''%s %s'' [FStr orderField, FStr direction]))
         | (Inl _, _) \<Rightarrow> Inl (BadRequest (''bad order value '%s'' @ [CHR 0x27]) [FStr userArg]))"

fun ArgsToOrderBy :: "string list \<Rightarrow> (string \<rightharpoonup> string) \<Rightarrow> service_error + string list" where
  "ArgsToOrderBy [] dis = Inr []"
| "ArgsToOrderBy (o1 # os) dis =
     (case cleanOrderBy o1 dis of
        Inl err \<Rightarrow> Inl err
      | Inr order \<Rightarrow>
          (case ArgsToOrderBy os dis of Inl err \<Rightarrow> Inl err | Inr orderBy \<Rightarrow> Inr (order # orderBy)))"

section \<open>Table names\<close>

text \<open>
  What gorm knows of a statement: whether its model parses, the table of its schema, the
  name of the model's type. \<open>plural\<close> is the inflection library.
\<close>

record gorm_model =
  gmParseError :: bool
  gmSchemaTable :: "string option"
  gmTypeName :: string

definition GetTableName :: "(string \<Rightarrow> string) \<Rightarrow> gorm_model \<Rightarrow> string" where
  "GetTableName plural g2 =
     (if gmParseError g2 then ''xxx''
      else (case gmSchemaTable g2 of
              Some t \<Rightarrow> t
            | None \<Rightarrow> plural (to_lower (gmTypeName g2))))"

section \<open>What the walk promises\<close>

text \<open>
  A field passes when it is a property selection, or has at most two dotted parts the last of
  which is not disallowed.
\<close>

definition allowed_field :: "(string \<rightharpoonup> string) \<Rightarrow> string \<Rightarrow> bool" where
  "allowed_field dis f \<longleftrightarrow>
     has_prefix f ''properties ->>'' \<or>
     (length (split_on (CHR ''.'') f) \<le> 2 \<and> dis (last (split_on (CHR ''.'') f)) = None)"

text \<open>The identifiers of a tree, and the trees the search-language parser builds.\<close>

primrec idents :: "tsl_node \<Rightarrow> string list" and vidents :: "tsl_val \<Rightarrow> string list" where
  "idents (TNode f l r) =
     (case f of
        IdentOp \<Rightarrow> (case l of VStr s \<Rightarrow> [s] | _ \<Rightarrow> [])
      | StringOp \<Rightarrow> []
      | NumberOp \<Rightarrow> []
      | OtherOp _ \<Rightarrow> vidents l @ vidents r)"
| "vidents VNil = []"
| "vidents (VStr s) = []"
| "vidents (VNode n) = idents n"
| "vidents (VNodes ns) = concat (map idents ns)"
| "vidents (VOther k) = []"

fun is_vstr :: "tsl_val \<Rightarrow> bool" where
  "is_vstr (VStr s) = True"
| "is_vstr _ = False"

fun is_vnode :: "tsl_val \<Rightarrow> bool" where
  "is_vnode (VNode n) = True"
| "is_vnode _ = False"

primrec wf_node :: "tsl_node \<Rightarrow> bool" and wf_val :: "tsl_val \<Rightarrow> bool" where
  "wf_node (TNode f l r) =
     (case f of
        IdentOp \<Rightarrow> is_vstr l
      | StringOp \<Rightarrow> \<not> is_vnode l
      | NumberOp \<Rightarrow> \<not> is_vnode l
      | OtherOp _ \<Rightarrow> (l = VNil \<or> is_vnode l) \<and> wf_val l \<and> wf_val r)"
| "wf_val VNil = True"
| "wf_val (VStr s) = True"
| "wf_val (VNode n) = wf_node n"
| "wf_val (VNodes ns) = list_all wf_node ns"
| "wf_val (VOther k) = True"

lemma is_vstr_iff: "is_vstr v \<longleftrightarrow> (\<exists>s. v = VStr s)"
  by (cases v) auto

lemma is_vnode_iff: "is_vnode v \<longleftrightarrow> (\<exists>n. v = VNode n)"
  by (cases v) auto

lemma wf_IdentOp: "wf_node l \<Longrightarrow> tnFunc l = IdentOp \<Longrightarrow> \<exists>s. tnLeft l = VStr s"
  by (cases l) (auto simp: is_vstr_iff)

lemma startsWithProperties_length: "startsWithProperties s \<Longrightarrow> 11 \<le> length s"
  by (auto simp: startsWithProperties_def has_prefix_iff)

lemma convert_property_wf:
  assumes "wf_node n"
  obtains n' where "convert_property n = Ret n'" and "wf_node n'" and "tnFunc n' = tnFunc n"
    and "tnRight n' = tnRight n"
proof (cases n)
  case (TNode f l r)
  show thesis
  proof (cases "\<exists>k s. l = VNode k \<and> tnFunc k = IdentOp \<and> tnLeft k = VStr s \<and> startsWithProperties s")
    case True
    then obtain k s where k: "l = VNode k" "tnFunc k = IdentOp" "tnLeft k = VStr s"
      "startsWithProperties s" by blast
    then have len: "\<not> length s < 11" using startsWithProperties_length by fastforce
    obtain op where f: "f = OtherOp op"
      using assms TNode k by (cases f) auto
    from k len TNode have "convert_property n =
      Ret (TNode f (VNode (TNode IdentOp
        (VStr (sprintf (''properties ->> '%s'' @ [CHR 0x27]) [FStr (drop 11 s)])) VNil)) r)"
      by (simp add: convert_property_def hasProperty_def propertiesNodeConverter_def Let_def)
    then show thesis using assms TNode k f by (intro that) auto
  next
    case False
    have "convert_property n = Ret n"
    proof (cases l)
      case (VNode k)
      have "wf_node k" using assms TNode VNode by (cases f) auto
      then show ?thesis using False TNode VNode wf_IdentOp [of k]
        by (auto simp: convert_property_def hasProperty_def split: tsl_val.splits)
    qed (use TNode in \<open>simp_all add: convert_property_def hasProperty_def\<close>)
    then show thesis using assms by (intro that) auto
  qed
qed

lemma getField_cases:
  "getField name dis =
     (if allowed_field dis (trim (CHR '' '') name) then Inr (trim (CHR '' '') name)
      else Inl (BadRequest ''%s is not a valid field name'' [FStr name]))"
proof -
  let ?t = "trim (CHR '' '') name"
  obtain p ps where sp: "split_on (CHR ''.'') ?t = p # ps"
    by (cases "split_on (CHR ''.'') ?t") auto
  have single: "p = ?t" if "ps = []"
    using sp that join_split_on [of "CHR ''.''" ?t] by simp
  show ?thesis
    using sp single
    by (cases ps) (auto simp: getField_def allowed_field_def Let_def neq_Nil_conv)
qed

lemma getField_Inr_iff:
  "getField name dis = Inr f \<longleftrightarrow> f = trim (CHR '' '') name \<and> allowed_field dis f"
  by (auto simp: getField_cases)

lemmas walk_simps = FieldNameWalk.simps FieldNameWalk_list.simps

text \<open>
  \<open>walk_left\<close> names the first half of an inner node's step, so that the two halves can be
  reasoned about one after the other.
\<close>

definition walk_left :: "(string \<rightharpoonup> string) \<Rightarrow> tsl_val \<Rightarrow> (service_error + tsl_node) go" where
  "walk_left dis v =
     (case v of
        VNil \<Rightarrow> Ret (Inr zero_node)
      | VNode l0 \<Rightarrow> FieldNameWalk dis l0
      | _ \<Rightarrow> Panic ''interface conversion: interface is not tsl.Node'')"

lemma walk_OtherOp_Inr:
  assumes "convert_property n0 = Ret n" and "tnFunc n = OtherOp op"
    and "FieldNameWalk dis n0 = Ret (Inr n')"
  obtains l where "walk_left dis (tnLeft n) = Ret (Inr l)" "tnRight n = VNil"
      "n' = TNode (OtherOp op) (VNode l) VNil"
  | l v r where "walk_left dis (tnLeft n) = Ret (Inr l)" "tnRight n = VNode v"
      "FieldNameWalk dis v = Ret (Inr r)" "n' = TNode (OtherOp op) (VNode l) (VNode r)"
  | l v r where "walk_left dis (tnLeft n) = Ret (Inr l)" "tnRight n = VNodes v"
      "FieldNameWalk_list dis v = Ret (Inr r)" "n' = TNode (OtherOp op) (VNode l) (VNodes r)"
  using assms(3)
  by (subst (asm) FieldNameWalk.simps)
     (simp add: assms(1,2) walk_left_def [symmetric] split: go.splits sum.splits tsl_val.splits)

lemma walk_left_Inr:
  assumes "walk_left dis v = Ret (Inr l)"
  obtains "v = VNil" "l = zero_node" | l0 where "v = VNode l0" "FieldNameWalk dis l0 = Ret (Inr l)"
  using assms by (auto simp: walk_left_def split: tsl_val.splits)

lemma idents_zero [simp]: "idents zero_node = []"
  by (simp add: zero_node_def)

text \<open>Every identifier of a walked tree has passed the check.\<close>

lemma walk_idents_allowed:
  "FieldNameWalk dis n = Ret (Inr n') \<Longrightarrow> \<forall>s\<in>set (idents n'). allowed_field dis s"
  "FieldNameWalk_list dis ns = Ret (Inr ns') \<Longrightarrow>
     \<forall>s\<in>set (concat (map idents ns')). allowed_field dis s"
proof (induction dis n and dis ns arbitrary: n' and ns' rule: FieldNameWalk_FieldNameWalk_list.induct)
  case (1 dis n0)
  from "1.prems" obtain n where n: "convert_property n0 = Ret n"
    by (subst (asm) FieldNameWalk.simps) (auto split: go.splits)
  show ?case
  proof (cases "tnFunc n")
    case IdentOp
    with n "1.prems" show ?thesis
      by (subst (asm) FieldNameWalk.simps)
         (auto simp: getField_Inr_iff split: tsl_val.splits sum.splits)
  next
    case (OtherOp op)
    have left: "\<forall>s\<in>set (idents l). allowed_field dis s"
      if "walk_left dis (tnLeft n) = Ret (Inr l)" for l
      using that by (rule walk_left_Inr) (simp, blast dest: "1.IH"(1) [OF n OtherOp])
    from n OtherOp "1.prems" show ?thesis
    proof (cases rule: walk_OtherOp_Inr)
      case (1 l)
      then show ?thesis using left by simp
    next
      case (2 l v r)
      then have "\<forall>s\<in>set (idents r). allowed_field dis s"
        using "1.IH"(2) [OF n OtherOp] by (simp add: walk_left_def)
      with 2 left show ?thesis by auto
    next
      case (3 l v r)
      then have "\<forall>s\<in>set (concat (map idents r)). allowed_field dis s"
        using "1.IH"(3) [OF n OtherOp] by (simp add: walk_left_def)
      with 3 left show ?thesis by auto
    qed
  qed (use n "1.prems" in \<open>subst (asm) FieldNameWalk.simps, auto\<close>)+
next
  case (2 dis)
  then show ?case by (simp add: walk_simps)
next
  case (3 dis e es)
  then show ?case
    by (fastforce simp: FieldNameWalk_list.simps split: sum.splits go.splits)
qed

text \<open>A tree of the parser's shape is walked without a panic.\<close>

lemma walk_returns:
  "wf_node n \<Longrightarrow> returns (FieldNameWalk dis n)"
  "list_all wf_node ns \<Longrightarrow> returns (FieldNameWalk_list dis ns)"
proof (induction dis n and dis ns rule: FieldNameWalk_FieldNameWalk_list.induct)
  case (1 dis n0)
  from "1.prems" obtain n where n: "convert_property n0 = Ret n" "wf_node n"
    by (rule convert_property_wf)
  show ?case
  proof (cases "tnFunc n")
    case IdentOp
    with n show ?thesis
      by (subst FieldNameWalk.simps) (auto split: tsl_val.splits sum.splits)
  next
    case (OtherOp op)
    have l: "tnLeft n = VNil \<or> (\<exists>k. tnLeft n = VNode k \<and> wf_node k)"
      using n(2) OtherOp by (cases n) (auto simp: is_vnode_iff)
    have r: "wf_val (tnRight n)" using n(2) OtherOp by (cases n) auto
    obtain lw where lw: "(case tnLeft n of VNil \<Rightarrow> Ret (Inr zero_node)
        | VNode l0 \<Rightarrow> FieldNameWalk dis l0
        | _ \<Rightarrow> Panic ''interface conversion: interface is not tsl.Node'') = Ret lw"
      using l "1.IH"(1) [OF n(1) OtherOp] by (auto simp: returns_iff)
    show ?thesis
    proof (cases lw)
      case (Inl err)
      then show ?thesis
        by (subst FieldNameWalk.simps) (simp add: n(1) OtherOp lw del: tsl_val.case_distrib)
    next
      case (Inr l1)
      have "returns (FieldNameWalk dis v)" if "tnRight n = VNode v" for v
        using "1.IH"(2) [OF n(1) OtherOp lw Inr that] r that by simp
      moreover have "returns (FieldNameWalk_list dis vs)" if "tnRight n = VNodes vs" for vs
        using "1.IH"(3) [OF n(1) OtherOp lw Inr that] r that by simp
      ultimately show ?thesis
        by (subst FieldNameWalk.simps)
           (auto simp: n(1) OtherOp lw Inr returns_iff split: tsl_val.split sum.split go.split)
    qed
  qed (use n in \<open>subst FieldNameWalk.simps, auto\<close>)+
next
  case (2 dis)
  then show ?case by (simp add: walk_simps)
next
  case (3 dis e es)
  then show ?case
    by (fastforce simp: FieldNameWalk_list.simps returns_iff split: sum.splits go.splits)
qed

subsection \<open>A reference for the walk\<close>

text \<open>
  Without property selections, the walk is a map: it trims the identifiers, drops the right
  side of leaves and fills a missing left child with the zero node. \<open>plain_node\<close> are the
  well-formed trees with no property selection and no unsupported right side.
\<close>

primrec plain_node :: "tsl_node \<Rightarrow> bool" and plain_val :: "tsl_val \<Rightarrow> bool" where
  "plain_node (TNode f l r) =
     (case f of
        IdentOp \<Rightarrow> (case l of VStr s \<Rightarrow> \<not> startsWithProperties s | _ \<Rightarrow> False)
      | StringOp \<Rightarrow> \<not> is_vnode l
      | NumberOp \<Rightarrow> \<not> is_vnode l
      | OtherOp _ \<Rightarrow> (l = VNil \<or> is_vnode l) \<and> plain_val l \<and> plain_val r)"
| "plain_val VNil = True"
| "plain_val (VStr s) = False"
| "plain_val (VNode n) = plain_node n"
| "plain_val (VNodes ns) = list_all plain_node ns"
| "plain_val (VOther k) = False"

primrec clean_node :: "tsl_node \<Rightarrow> tsl_node" and clean_val :: "tsl_val \<Rightarrow> tsl_val" where
  "clean_node (TNode f l r) =
     (case f of
        IdentOp \<Rightarrow>
          TNode IdentOp (case l of VStr s \<Rightarrow> VStr (trim (CHR '' '') s) | _ \<Rightarrow> l) VNil
      | StringOp \<Rightarrow> TNode f l VNil
      | NumberOp \<Rightarrow> TNode f l VNil
      | OtherOp _ \<Rightarrow> TNode f (if l = VNil then VNode zero_node else clean_val l) (clean_val r))"
| "clean_val VNil = VNil"
| "clean_val (VStr s) = VStr s"
| "clean_val (VNode n) = VNode (clean_node n)"
| "clean_val (VNodes ns) = VNodes (map clean_node ns)"
| "clean_val (VOther k) = VOther k"

definition all_allowed :: "(string \<rightharpoonup> string) \<Rightarrow> string list \<Rightarrow> bool" where
  "all_allowed dis fs \<longleftrightarrow> list_all (\<lambda>f. allowed_field dis (trim (CHR '' '') f)) fs"

lemma all_allowed_simps [simp]:
  "all_allowed dis []"
  "all_allowed dis (f # fs) \<longleftrightarrow> allowed_field dis (trim (CHR '' '') f) \<and> all_allowed dis fs"
  "all_allowed dis (fs @ gs) \<longleftrightarrow> all_allowed dis fs \<and> all_allowed dis gs"
  by (simp_all add: all_allowed_def)

lemma plain_convert:
  assumes "plain_node n"
  shows "convert_property n = Ret n"
proof (cases n)
  case (TNode f l r)
  show ?thesis
  proof (cases l)
    case (VNode k)
    with assms TNode have "plain_node k" by (cases f) auto
    then show ?thesis
      by (cases k) (auto simp: TNode VNode convert_property_def hasProperty_def split: tsl_val.splits)
  qed (use TNode in \<open>simp_all add: convert_property_def hasProperty_def\<close>)
qed

text \<open>The outcome of a walk, in one of two shapes.\<close>

definition walk_outcome :: "bool \<Rightarrow> 'a \<Rightarrow> (service_error + 'a) go \<Rightarrow> bool" where
  "walk_outcome ok x r \<longleftrightarrow> (if ok then r = Ret (Inr x) else (\<exists>e. r = Ret (Inl e) \<and> HttpCode e = 400))"

lemma FieldNameWalk_other:
  assumes "plain_node (TNode (OtherOp op) l r)"
  shows "FieldNameWalk dis (TNode (OtherOp op) l r) =
      (case walk_left dis l of
         Panic m \<Rightarrow> Panic m
       | Ret (Inl err) \<Rightarrow> Ret (Inl err)
       | Ret (Inr l') \<Rightarrow>
           (case r of
              VNil \<Rightarrow> Ret (Inr (TNode (OtherOp op) (VNode l') VNil))
            | VNode v \<Rightarrow>
                (case FieldNameWalk dis v of
                   Panic m \<Rightarrow> Panic m
                 | Ret (Inl err) \<Rightarrow> Ret (Inl err)
                 | Ret (Inr r') \<Rightarrow> Ret (Inr (TNode (OtherOp op) (VNode l') (VNode r'))))
            | VNodes v \<Rightarrow>
                (case FieldNameWalk_list dis v of
                   Panic m \<Rightarrow> Panic m
                 | Ret (Inl err) \<Rightarrow> Ret (Inl err)
                 | Ret (Inr rr) \<Rightarrow> Ret (Inr (TNode (OtherOp op) (VNode l') (VNodes rr))))
            | _ \<Rightarrow> Ret (Inl (BadRequest ''unsupported right hand side type in search query'' []))))"
  using plain_convert [OF assms]
  by (subst FieldNameWalk.simps)
     (simp add: walk_left_def cong: go.case_cong sum.case_cong tsl_val.case_cong)

text \<open>An operator, given the outcomes of its operands.\<close>

lemma walk_plain_other:
  assumes "plain_node (TNode (OtherOp op) l r)"
    and left: "\<And>k. l = VNode k \<Longrightarrow> walk_outcome (all_allowed dis (idents k)) (clean_node k) (FieldNameWalk dis k)"
    and right: "\<And>l' v. walk_left dis l = Ret (Inr l') \<Longrightarrow> r = VNode v \<Longrightarrow>
      walk_outcome (all_allowed dis (idents v)) (clean_node v) (FieldNameWalk dis v)"
    and rights: "\<And>l' vs. walk_left dis l = Ret (Inr l') \<Longrightarrow> r = VNodes vs \<Longrightarrow>
      walk_outcome (all_allowed dis (concat (map idents vs))) (map clean_node vs) (FieldNameWalk_list dis vs)"
  shows "walk_outcome (all_allowed dis (idents (TNode (OtherOp op) l r))) (clean_node (TNode (OtherOp op) l r))
    (FieldNameWalk dis (TNode (OtherOp op) l r))"
proof -
  let ?okl = "all_allowed dis (vidents l)"
  let ?cl = "if l = VNil then zero_node else (case l of VNode k \<Rightarrow> clean_node k | _ \<Rightarrow> zero_node)"
  note eq = FieldNameWalk_other [OF assms(1), of dis]
  have l: "l = VNil \<or> (\<exists>k. l = VNode k \<and> plain_node k)" using assms(1) by (auto simp: is_vnode_iff)
  have wl: "walk_outcome ?okl ?cl (walk_left dis l)"
    using l left by (auto simp: walk_outcome_def walk_left_def)
  show ?thesis
  proof (cases ?okl)
    case False
    with wl eq show ?thesis by (auto simp: walk_outcome_def)
  next
    case True
    then have wl: "walk_left dis l = Ret (Inr ?cl)" using wl by (simp add: walk_outcome_def)
    have r: "plain_val r" using assms(1) by simp
    show ?thesis
    proof (cases r)
      case VNil
      with True wl eq l show ?thesis by (auto simp: walk_outcome_def)
    next
      case (VNode v)
      with True wl eq l right [OF wl VNode] show ?thesis by (auto simp: walk_outcome_def)
    next
      case (VNodes v)
      with True wl eq l rights [OF wl VNodes] show ?thesis by (auto simp: walk_outcome_def)
    qed (use r in simp_all)
  qed
qed

lemma walk_plain:
  "plain_node n \<Longrightarrow> walk_outcome (all_allowed dis (idents n)) (clean_node n) (FieldNameWalk dis n)"
  "list_all plain_node ns \<Longrightarrow>
     walk_outcome (all_allowed dis (concat (map idents ns))) (map clean_node ns)
       (FieldNameWalk_list dis ns)"
proof (induction dis n and dis ns rule: FieldNameWalk_FieldNameWalk_list.induct)
  case (1 dis n0)
  note conv = plain_convert [OF "1.prems"]
  obtain f l r where n0: "n0 = TNode f l r" by (cases n0) auto
  show ?case
  proof (cases f)
    case IdentOp
    with "1.prems" n0 obtain s where s: "l = VStr s" by (auto split: tsl_val.splits)
    show ?thesis
      by (subst FieldNameWalk.simps)
         (simp add: conv, simp add: n0 IdentOp s getField_cases walk_outcome_def)
  next
    case (OtherOp op)
    then have op: "tnFunc n0 = OtherOp op" using n0 by simp
    have n: "n0 = TNode (OtherOp op) l r" using n0 OtherOp by simp
    show ?thesis
      unfolding n
    proof (rule walk_plain_other)
      show "plain_node (TNode (OtherOp op) l r)" using "1.prems" n by simp
      show "walk_outcome (all_allowed dis (idents k)) (clean_node k) (FieldNameWalk dis k)" if "l = VNode k" for k
        using that "1.IH"(1) [OF conv op, of k] "1.prems" by (simp add: n)
      show "walk_outcome (all_allowed dis (idents v)) (clean_node v) (FieldNameWalk dis v)"
        if "walk_left dis l = Ret (Inr l')" "r = VNode v" for l' v
        using that "1.IH"(2) [OF conv op] "1.prems" by (simp add: n walk_left_def)
      show "walk_outcome (all_allowed dis (concat (map idents vs))) (map clean_node vs) (FieldNameWalk_list dis vs)"
        if "walk_left dis l = Ret (Inr l')" "r = VNodes vs" for l' vs
        using that "1.IH"(3) [OF conv op] "1.prems" by (simp add: n walk_left_def)
    qed
  qed (use "1.prems" n0 conv in
      \<open>subst FieldNameWalk.simps, simp add: conv, simp add: n0 walk_outcome_def\<close>)+
next
  case (2 dis)
  then show ?case by (simp add: walk_simps walk_outcome_def)
next
  case (3 dis e es)
  show ?case
  proof (cases "all_allowed dis (idents e)")
    case True
    then have "FieldNameWalk dis e = Ret (Inr (clean_node e))"
      using 3 by (simp add: walk_outcome_def)
    moreover have "walk_outcome (all_allowed dis (concat (map idents es))) (map clean_node es)
        (FieldNameWalk_list dis es)"
      using "3.IH"(2) calculation "3.prems" by simp
    ultimately show ?thesis using True
      by (auto simp: walk_outcome_def FieldNameWalk_list.simps)
  next
    case False
    then show ?thesis using "3.IH"(1) "3.prems"
      by (auto simp: walk_outcome_def FieldNameWalk_list.simps)
  qed
qed

subsection \<open>orderBy\<close>

lemma cleanOrderBy_Inr:
  assumes "cleanOrderBy o1 dis = Inr r"
  obtains f d where "r = f @ '' '' @ d" "d = ''asc'' \<or> d = ''desc''" "allowed_field dis f"
    "CHR '' '' \<notin> set f"
proof -
  let ?ps = "split_on (CHR '' '') (trim (CHR '' '') o1)"
  have hd_ps: "CHR '' '' \<notin> set (?ps ! 0)"
    by (rule split_on_pieces [of _ _ "trim (CHR '' '') o1"]) (simp add: nth_mem)
  from assms obtain f d where fd: "r = f @ '' '' @ d" "d = ''asc'' \<or> d = ''desc''"
      "getField (?ps ! 0) dis = Inr f"
    by (auto simp: cleanOrderBy_def Let_def split: if_splits sum.splits)
  then have f: "f = trim (CHR '' '') (?ps ! 0)" and ok: "allowed_field dis f"
    unfolding getField_Inr_iff by blast+
  from f hd_ps set_trim [of "CHR '' ''" "?ps ! 0"] have "CHR '' '' \<notin> set f" by auto
  with fd(1,2) ok show thesis by (rule that)
qed

lemma cleanOrderBy_Inl: "cleanOrderBy o1 dis = Inl e \<Longrightarrow> HttpCode e = 400"
  by (auto simp: cleanOrderBy_def Let_def split: if_splits sum.splits)

lemma ArgsToOrderBy_Inr_iff:
  "ArgsToOrderBy os dis = Inr rs \<longleftrightarrow> list_all2 (\<lambda>a r. cleanOrderBy a dis = Inr r) os rs"
proof (induction os arbitrary: rs)
  case Nil
  then show ?case by auto
next
  case (Cons a os)
  show ?case
    by (cases rs) (auto simp: Cons.IH [symmetric] split: sum.splits)
qed

lemma ArgsToOrderBy_Inl: "ArgsToOrderBy os dis = Inl e \<Longrightarrow> HttpCode e = 400"
  by (induction os) (auto split: sum.splits dest: cleanOrderBy_Inl)

end
