(* ===== verification/Generic_Dao.thy ===== *)
theory Generic_Dao
  imports Sql_Helpers
begin

text \<open>
  \<^verbatim>\<open>pkg/dao/generic.go\<close> and its mock \<^verbatim>\<open>pkg/dao/mocks/generic.go\<close>.
  The Go interface \<^verbatim>\<open>GenericDao\<close> is the record \<open>generic_dao\<close> of its methods
  over a state \<open>'d\<close>; the SQL implementation accumulates the clauses of a gorm statement.
  What gorm does when a statement is finished (\<^verbatim>\<open>Find\<close>, \<^verbatim>\<open>Count\<close>,
  \<^verbatim>\<open>Take\<close>), what it knows of the associations of a model, and the inflection
  library are the record \<open>gorm_lib\<close>, a parameter.
\<close>

section \<open>Clauses and relations\<close>

record 'v where_clause =
  wSql :: string
  wValues :: "'v list"

definition NewWhere :: "string \<Rightarrow> 'v list \<Rightarrow> 'v where_clause" where
  "NewWhere sql values = \<lparr>wSql = sql, wValues = values\<rparr>"

record table_relation =
  TableName :: string
  ColumnName :: string
  ForeignTableName :: string
  ForeignColumnName :: string

text \<open>The state of a gorm statement, as far as the DAO builds it.\<close>

record 'v gorm_stmt =
  gsModel :: gorm_model
  gsPreloads :: "string list"
  gsOrders :: "string list"
  gsJoins :: "string list"
  gsGroups :: "string list"
  gsWheres :: "'v where_clause list"

definition session_stmt :: "gorm_model \<Rightarrow> 'v gorm_stmt" where
  "session_stmt m =
     \<lparr>gsModel = m, gsPreloads = [], gsOrders = [], gsJoins = [], gsGroups = [], gsWheres = []\<rparr>"

definition sql_GetInstanceDao :: "(string \<Rightarrow> gorm_model) \<Rightarrow> string \<Rightarrow> 'v gorm_stmt" where
  "sql_GetInstanceDao gorm_of model = session_stmt (gorm_of model)"

record relationship =
  relType :: string
  relRefs :: "(string \<times> string) list" \<comment> \<open>foreign key and primary key columns\<close>
  relFieldTable :: string
  relForeignTable :: string

record ('v, 'r) gorm_lib =
  glFind :: "'v gorm_stmt \<Rightarrow> int \<Rightarrow> int \<Rightarrow> go_error + 'r list"
  glCount :: "'v gorm_stmt \<Rightarrow> int"
  glTake :: "'v gorm_stmt \<Rightarrow> go_error option"
  glAssociation :: "gorm_model \<Rightarrow> string \<Rightarrow> relationship option"
  glSingular :: "string \<Rightarrow> string"
  glPlural :: "string \<Rightarrow> string"

section \<open>The interface\<close>

record ('d, 'v, 'r) generic_dao =
  gdFetch :: "int \<Rightarrow> int \<Rightarrow> 'd \<Rightarrow> go_error + 'r list"
  gdPreload :: "string \<Rightarrow> 'd \<Rightarrow> 'd"
  gdOrderBy :: "string \<Rightarrow> 'd \<Rightarrow> 'd"
  gdJoins :: "string \<Rightarrow> 'd \<Rightarrow> 'd"
  gdGroup :: "string \<Rightarrow> 'd \<Rightarrow> 'd"
  gdWhere :: "'v where_clause \<Rightarrow> 'd \<Rightarrow> 'd"
  gdCount :: "'d \<Rightarrow> int"
  gdValidate :: "'d \<Rightarrow> go_error option"
  gdGetTableName :: "'d \<Rightarrow> string"
  gdGetTableRelation :: "string \<Rightarrow> 'd \<Rightarrow> table_relation option go"

section \<open>The SQL implementation\<close>

definition sql_Fetch :: "('v, 'r) gorm_lib \<Rightarrow> int \<Rightarrow> int \<Rightarrow> 'v gorm_stmt \<Rightarrow> go_error + 'r list" where
  "sql_Fetch gl offset limit g2 = glFind gl g2 offset limit"

definition sql_Preload :: "string \<Rightarrow> 'v gorm_stmt \<Rightarrow> 'v gorm_stmt" where
  "sql_Preload preload g2 = g2\<lparr>gsPreloads := gsPreloads g2 @ [preload]\<rparr>"

definition sql_OrderBy :: "string \<Rightarrow> 'v gorm_stmt \<Rightarrow> 'v gorm_stmt" where
  "sql_OrderBy orderBy g2 = g2\<lparr>gsOrders := gsOrders g2 @ [orderBy]\<rparr>"

definition sql_Joins :: "string \<Rightarrow> 'v gorm_stmt \<Rightarrow> 'v gorm_stmt" where
  "sql_Joins sql g2 = g2\<lparr>gsJoins := gsJoins g2 @ [sql]\<rparr>"

definition sql_Group :: "string \<Rightarrow> 'v gorm_stmt \<Rightarrow> 'v gorm_stmt" where
  "sql_Group sql g2 = g2\<lparr>gsGroups := gsGroups g2 @ [sql]\<rparr>"

definition sql_Where :: "'v where_clause \<Rightarrow> 'v gorm_stmt \<Rightarrow> 'v gorm_stmt" where
  "sql_Where w g2 = g2\<lparr>gsWheres := gsWheres g2 @ [w]\<rparr>"

text \<open>The count runs in a new session that keeps the joins and the conditions only.\<close>

definition sql_Count :: "('v, 'r) gorm_lib \<Rightarrow> 'v gorm_stmt \<Rightarrow> int" where
  "sql_Count gl g2 =
     (let s0 = session_stmt (gsModel g2);
          s1 = (if length (gsJoins g2) > 0 then s0\<lparr>gsJoins := gsJoins g2\<rparr> else s0);
          s2 = (if gsWheres g2 \<noteq> [] then s1\<lparr>gsWheres := gsWheres g2\<rparr> else s1)
      in glCount gl s2)"

definition sql_Validate :: "('v, 'r) gorm_lib \<Rightarrow> 'v gorm_stmt \<Rightarrow> go_error option" where
  "sql_Validate gl g2 = glTake gl g2"

definition sql_GetTableName :: "('v, 'r) gorm_lib \<Rightarrow> 'v gorm_stmt \<Rightarrow> string" where
  "sql_GetTableName gl g2 = GetTableName (glPlural gl) (gsModel g2)"

definition capitalize :: "string \<Rightarrow> string go" where
  "capitalize s =
     (case s of [] \<Rightarrow> Panic ''slice bounds out of range'' | c # cs \<Rightarrow> Ret (upper_char c # cs))"

definition join_columns :: "relationship \<Rightarrow> table_relation option go" where
  "join_columns rel =
     (if relType rel \<noteq> ''belongs_to'' \<and> relType rel \<noteq> ''has_many'' then Ret None
      else (case relRefs rel of
              [] \<Rightarrow> Panic ''index out of range''
            | (fk, pk) # _ \<Rightarrow>
                (let many = (relType rel = ''has_many'');
                     columnName = (if many then pk else fk);
                     foreignColumnName = (if many then fk else pk)
                 in Ret (Some \<lparr>TableName = relFieldTable rel, ColumnName = columnName,
                               ForeignTableName = relForeignTable rel,
                               ForeignColumnName = foreignColumnName\<rparr>))))"

definition sql_GetTableRelation ::
    "('v, 'r) gorm_lib \<Rightarrow> string \<Rightarrow> 'v gorm_stmt \<Rightarrow> table_relation option go" where
  "sql_GetTableRelation gl fieldName g2 =
     go_bind (capitalize fieldName) (\<lambda>fieldName.
       (case glAssociation gl (gsModel g2) (glSingular gl fieldName) of
          Some rel \<Rightarrow> join_columns rel
        | None \<Rightarrow>
            (case glAssociation gl (gsModel g2) (glPlural gl fieldName) of
               Some rel \<Rightarrow> join_columns rel
             | None \<Rightarrow> Ret None)))"

definition sqlGenericDao :: "('v, 'r) gorm_lib \<Rightarrow> ('v gorm_stmt, 'v, 'r) generic_dao" where
  "sqlGenericDao gl =
     \<lparr>gdFetch = sql_Fetch gl, gdPreload = sql_Preload, gdOrderBy = sql_OrderBy,
      gdJoins = sql_Joins, gdGroup = sql_Group, gdWhere = sql_Where, gdCount = sql_Count gl,
      gdValidate = sql_Validate gl, gdGetTableName = sql_GetTableName gl,
      gdGetTableRelation = sql_GetTableRelation gl\<rparr>"

section \<open>The mock implementation\<close>

record 'v generic_dao_mock =
  gmPreload :: string
  gmOrderBy :: string
  gmJoins :: string
  gmGroup :: string
  gmWheres :: "'v where_clause list"

definition NewGenericDaoMock :: "'v generic_dao_mock" where
  "NewGenericDaoMock =
     \<lparr>gmPreload = [], gmOrderBy = [], gmJoins = [], gmGroup = [], gmWheres = []\<rparr>"

definition genericDaoMock :: "('v generic_dao_mock, 'v, 'r) generic_dao" where
  "genericDaoMock =
     \<lparr>gdFetch = (\<lambda>offset limit g. Inr []),
      gdPreload = (\<lambda>preload g. g\<lparr>gmPreload := preload\<rparr>),
      gdOrderBy = (\<lambda>orderBy g. g\<lparr>gmOrderBy := orderBy\<rparr>),
      gdJoins = (\<lambda>sql g. g\<lparr>gmJoins := sql\<rparr>),
      gdGroup = (\<lambda>sql g. g\<lparr>gmGroup := sql\<rparr>),
      gdWhere = (\<lambda>w g. g\<lparr>gmWheres := gmWheres g @ [w]\<rparr>),
      gdCount = (\<lambda>g. 0),
      gdValidate = (\<lambda>g. None),
      gdGetTableName = (\<lambda>g. []),
      gdGetTableRelation = (\<lambda>fieldName g. Ret None)\<rparr>"

section \<open>The contract of the interface\<close>

text \<open>
  What the list service relies on: building a statement does not change which table it is
  about, nor the relations of that table.
\<close>

locale generic_dao_contract =
  fixes dao :: "('d, 'v, 'r) generic_dao"
  assumes table_Preload: "gdGetTableName dao (gdPreload dao p d) = gdGetTableName dao d"
    and table_OrderBy: "gdGetTableName dao (gdOrderBy dao o1 d) = gdGetTableName dao d"
    and table_Joins: "gdGetTableName dao (gdJoins dao j d) = gdGetTableName dao d"
    and table_Group: "gdGetTableName dao (gdGroup dao g d) = gdGetTableName dao d"
    and table_Where: "gdGetTableName dao (gdWhere dao w d) = gdGetTableName dao d"
    and relation_Preload: "gdGetTableRelation dao f (gdPreload dao p d) = gdGetTableRelation dao f d"
    and relation_OrderBy: "gdGetTableRelation dao f (gdOrderBy dao o1 d) = gdGetTableRelation dao f d"
begin

lemma table_fold_Preload:
  "gdGetTableName dao (fold (gdPreload dao) ps d) = gdGetTableName dao d"
  by (induction ps arbitrary: d) (simp_all add: table_Preload)

lemma table_fold_OrderBy:
  "gdGetTableName dao (fold (gdOrderBy dao) os d) = gdGetTableName dao d"
  by (induction os arbitrary: d) (simp_all add: table_OrderBy)

lemma relation_fold_Preload:
  "gdGetTableRelation dao f (fold (gdPreload dao) ps d) = gdGetTableRelation dao f d"
  by (induction ps arbitrary: d) (simp_all add: relation_Preload)

lemma relation_fold_OrderBy:
  "gdGetTableRelation dao f (fold (gdOrderBy dao) os d) = gdGetTableRelation dao f d"
  by (induction os arbitrary: d) (simp_all add: relation_OrderBy)

end

lemmas sql_dao_defs = sqlGenericDao_def sql_Fetch_def sql_Preload_def sql_OrderBy_def
  sql_Joins_def sql_Group_def sql_Where_def sql_Count_def sql_Validate_def sql_GetTableName_def
  sql_GetTableRelation_def

interpretation sqldao: generic_dao_contract "sqlGenericDao gl" for gl
  by unfold_locales (simp_all add: sql_dao_defs cong: option.case_cong)

interpretation mockdao: generic_dao_contract genericDaoMock
  by unfold_locales (simp_all add: genericDaoMock_def)

section \<open>Facts\<close>

text \<open>The two directions of a relation: the foreign key is on the \<^verbatim>\<open>belongs_to\<close> side.\<close>

lemma join_columns_belongs_to:
  assumes "relType rel = ''belongs_to''" and "relRefs rel = (fk, pk) # rs"
  shows "join_columns rel =
    Ret (Some \<lparr>TableName = relFieldTable rel, ColumnName = fk,
               ForeignTableName = relForeignTable rel, ForeignColumnName = pk\<rparr>)"
  using assms by (simp add: join_columns_def Let_def)

lemma join_columns_has_many:
  assumes "relType rel = ''has_many''" and "relRefs rel = (fk, pk) # rs"
  shows "join_columns rel =
    Ret (Some \<lparr>TableName = relFieldTable rel, ColumnName = pk,
               ForeignTableName = relForeignTable rel, ForeignColumnName = fk\<rparr>)"
  using assms by (simp add: join_columns_def Let_def)

text \<open>The count ignores the ordering, the preloads and the grouping.\<close>

lemma sql_Count_frame:
  "sql_Count gl (g2\<lparr>gsOrders := os, gsPreloads := ps, gsGroups := gs\<rparr>) = sql_Count gl g2"
  by (simp add: sql_Count_def Let_def session_stmt_def)

end
