(* ===== verification/Go_Proc.thy ===== *)
theory Go_Proc
  imports Go_Prelude
begin

text \<open>
  Procedures: functions that read and change a state \<open>'s\<close> and may panic or block. The state
  survives a panic, as deferred calls and the recovery of the HTTP server see it. A procedure
  whose outcome is \<open>Blocked\<close> has not returned: its deferred calls have not run.
\<close>

datatype 'a outcome = Done 'a | Panicked string | Blocked

type_synonym ('s, 'a) proc = "'s \<Rightarrow> 'a outcome \<times> 's"

definition run_ret :: "'a \<Rightarrow> ('s, 'a) proc" where
  "run_ret a s = (Done a, s)"

definition run_bind :: "('s, 'a) proc \<Rightarrow> ('a \<Rightarrow> ('s, 'b) proc) \<Rightarrow> ('s, 'b) proc" where
  "run_bind m f s =
     (case m s of
        (Done a, s') \<Rightarrow> f a s'
      | (Panicked p, s') \<Rightarrow> (Panicked p, s')
      | (Blocked, s') \<Rightarrow> (Blocked, s'))"

text \<open>\<^verbatim>\<open>defer d()\<close> followed by \<open>m\<close>: the deferred call runs when \<open>m\<close> returns or panics.\<close>

definition run_defer :: "('s, unit) proc \<Rightarrow> ('s, 'a) proc \<Rightarrow> ('s, 'a) proc" where
  "run_defer d m s =
     (case m s of
        (Blocked, s') \<Rightarrow> (Blocked, s')
      | (r, s') \<Rightarrow>
          (case d s' of
             (Done u, s'') \<Rightarrow> (r, s'')
           | (Panicked p, s'') \<Rightarrow> (Panicked p, s'')
           | (Blocked, s'') \<Rightarrow> (Blocked, s'')))"

definition run_read :: "('s \<Rightarrow> 'a) \<Rightarrow> ('s, 'a) proc" where
  "run_read f s = (Done (f s), s)"

definition run_modify :: "('s \<Rightarrow> 's) \<Rightarrow> ('s, unit) proc" where
  "run_modify f s = (Done (), f s)"

definition run_go :: "'a go \<Rightarrow> ('s, 'a) proc" where
  "run_go r s = (case r of Ret a \<Rightarrow> (Done a, s) | Panic p \<Rightarrow> (Panicked p, s))"

text \<open>A call with an error result: on an error return, converted by \<open>h\<close>; otherwise go on.\<close>

definition run_try :: "('s, 'e + 'a) proc \<Rightarrow> ('e \<Rightarrow> 'f) \<Rightarrow> ('a \<Rightarrow> ('s, 'f + 'b) proc) \<Rightarrow> ('s, 'f + 'b) proc" where
  "run_try m h f = run_bind m (\<lambda>r. case r of Inl e \<Rightarrow> run_ret (Inl (h e)) | Inr a \<Rightarrow> f a)"

text \<open>A procedure on a part of the state.\<close>

definition run_in :: "('s \<Rightarrow> 't) \<Rightarrow> ('t \<Rightarrow> 's \<Rightarrow> 's) \<Rightarrow> ('t, 'a) proc \<Rightarrow> ('s, 'a) proc" where
  "run_in get put m s = (case m (get s) of (r, t) \<Rightarrow> (r, put t s))"

lemma run_in_iff: "run_in get put m s = (r, s') \<longleftrightarrow> (\<exists>t. m (get s) = (r, t) \<and> s' = put t s)"
  by (auto simp: run_in_def split: prod.splits)

section \<open>Evaluation\<close>

lemma run_simps [simp]:
  "run_ret a s = (Done a, s)"
  "run_read g s = (Done (g s), s)"
  "run_modify k s = (Done (), k s)"
  "run_go (Ret a) s = (Done a, s)"
  "run_go (Panic p) s = (Panicked p, s)"
  by (simp_all add: run_ret_def run_read_def run_modify_def run_go_def)

lemma run_bind_Done: "m s = (Done a, s') \<Longrightarrow> run_bind m f s = f a s'"
  by (simp add: run_bind_def)

lemma run_try_Inr: "m s = (Done (Inr a), s') \<Longrightarrow> run_try m h f s = f a s'"
  by (simp add: run_try_def run_bind_def)

lemma run_try_Inl: "m s = (Done (Inl e), s') \<Longrightarrow> run_try m h f s = (Done (Inl (h e)), s')"
  by (simp add: run_try_def run_bind_def)

lemma run_bind_ret [simp]: "run_bind (run_ret a) f = f a"
  by (simp add: fun_eq_iff run_bind_def)

lemma run_bind_assoc: "run_bind (run_bind m f) g = run_bind m (\<lambda>a. run_bind (f a) g)"
  by (auto simp: fun_eq_iff run_bind_def split: prod.splits outcome.splits)

named_theorems run_elims \<open>how a sequence of procedures can end well\<close>

lemma run_bind_Done_iff [run_elims]:
  "run_bind m f s = (Done b, s') \<longleftrightarrow> (\<exists>a t. m s = (Done a, t) \<and> f a t = (Done b, s'))"
  by (auto simp: run_bind_def split: prod.splits outcome.splits)

lemma run_try_Inr_iff [run_elims]:
  "run_try m h f s = (Done (Inr b), s') \<longleftrightarrow> (\<exists>a t. m s = (Done (Inr a), t) \<and> f a t = (Done (Inr b), s'))"
  by (auto simp: run_try_def run_bind_def split: prod.splits outcome.splits sum.splits)

lemma run_try_Inl_iff:
  "run_try m h f s = (Done (Inl e), s') \<longleftrightarrow>
     (\<exists>e0. m s = (Done (Inl e0), s') \<and> e = h e0) \<or>
     (\<exists>a t. m s = (Done (Inr a), t) \<and> f a t = (Done (Inl e), s'))"
  by (auto simp: run_try_def run_bind_def split: prod.splits outcome.splits sum.splits)

lemma run_sum_None_iff [run_elims]:
  "(case r of Inl e \<Rightarrow> run_ret (Some (h e)) | Inr a \<Rightarrow> f a) s = (Done None, s') \<longleftrightarrow>
     (\<exists>a. r = Inr a \<and> f a s = (Done None, s'))"
  by (cases r) auto

lemma run_option_None_iff [run_elims]:
  "(case r of None \<Rightarrow> m | Some e \<Rightarrow> run_ret (Some (h e))) s = (Done None, s') \<longleftrightarrow>
     r = None \<and> m s = (Done None, s')"
  by (cases r) auto

lemma run_defer_Done_iff [run_elims]:
  "run_defer d m s = (Done a, s') \<longleftrightarrow> (\<exists>t. m s = (Done a, t) \<and> d t = (Done (), s'))"
  by (auto simp: run_defer_def split: prod.splits outcome.splits)

lemma run_defer_modify:
  "run_defer (run_modify k) m s =
     (case m s of (Blocked, s') \<Rightarrow> (Blocked, s') | (r, s') \<Rightarrow> (r, k s'))"
  by (simp add: run_defer_def split: prod.splits outcome.splits)

section \<open>What a procedure keeps\<close>

text \<open>
  \<open>keeps P m\<close>: \<open>m\<close> leads from states with \<open>P\<close> to states with \<open>P\<close>, however it ends.
\<close>

definition keeps :: "('s \<Rightarrow> bool) \<Rightarrow> ('s, 'a) proc \<Rightarrow> bool" where
  "keeps P m \<longleftrightarrow> (\<forall>s. P s \<longrightarrow> P (snd (m s)))"

named_theorems keeps_intros \<open>introduction rules for keeps\<close>

lemma keepsI: "(\<And>s. P s \<Longrightarrow> P (snd (m s))) \<Longrightarrow> keeps P m"
  by (simp add: keeps_def)

lemma keepsD: "keeps P m \<Longrightarrow> P s \<Longrightarrow> m s = (r, s') \<Longrightarrow> P s'"
  by (metis keeps_def snd_conv)

lemma keeps_ret [keeps_intros]: "keeps P (run_ret a)"
  by (simp add: keeps_def)

lemma keeps_read [keeps_intros]: "keeps P (run_read f)"
  by (simp add: keeps_def)

lemma keeps_go [keeps_intros]: "keeps P (run_go r)"
  by (cases r) (simp_all add: keeps_def)

lemma keeps_modify [keeps_intros]: "(\<And>s. P s \<Longrightarrow> P (f s)) \<Longrightarrow> keeps P (run_modify f)"
  by (simp add: keeps_def)

lemma keeps_bind [keeps_intros]: "keeps P m \<Longrightarrow> (\<And>a. keeps P (f a)) \<Longrightarrow> keeps P (run_bind m f)"
  unfolding keeps_def run_bind_def by (auto split: prod.splits outcome.splits)

lemma keeps_try [keeps_intros]: "keeps P m \<Longrightarrow> (\<And>a. keeps P (f a)) \<Longrightarrow> keeps P (run_try m h f)"
  unfolding run_try_def by (rule keeps_bind) (auto intro: keeps_ret split: sum.splits)

lemma keeps_defer [keeps_intros]: "keeps P m \<Longrightarrow> keeps P d \<Longrightarrow> keeps P (run_defer d m)"
  unfolding keeps_def run_defer_def by (auto split: prod.splits outcome.splits)

lemma keeps_if [keeps_intros]: "(b \<Longrightarrow> keeps P m) \<Longrightarrow> (\<not> b \<Longrightarrow> keeps P n) \<Longrightarrow> keeps P (if b then m else n)"
  by simp

end
