(* ===== verification/Http_Handlers.thy ===== *)
theory Http_Handlers
  imports Service_Errors Go_Proc
begin

text \<open>
  Package \<^verbatim>\<open>pkg/handlers\<close> (\<^verbatim>\<open>framework.go\<close>, \<^verbatim>\<open>helpers.go\<close>,
  \<^verbatim>\<open>validation.go\<close>, \<^verbatim>\<open>metadata.go\<close>, \<^verbatim>\<open>openapi.go\<close>) and
  the fixed error responses of \<^verbatim>\<open>pkg/api/error.go\<close>.

  A response writer is a record: the header map, the status once it is sent, and the
  values written to the body. A body entry holds the value the code hands to
  \<^verbatim>\<open>json.Marshal\<close>, not its bytes. The handlers thread a state \<open>'w\<close> through
  the action of their configuration.
\<close>

section \<open>Response writers\<close>

record 'p response =
  rHeader :: "string \<rightharpoonup> string"
  rStatus :: "int option"
  rBody :: "'p list"

definition empty_response :: "'p response" where
  "empty_response = \<lparr>rHeader = Map.empty, rStatus = None, rBody = []\<rparr>"

definition header_set :: "string \<Rightarrow> string \<Rightarrow> 'p response \<Rightarrow> 'p response" where
  "header_set k v r = r\<lparr>rHeader := (rHeader r)(k \<mapsto> v)\<rparr>"

text \<open>
  \<^verbatim>\<open>net/http\<close>: only the first \<^verbatim>\<open>WriteHeader\<close> sends a status; a write
  before it sends 200; a handler that returns without either makes the server send 200.
\<close>

definition write_header :: "int \<Rightarrow> 'p response \<Rightarrow> 'p response" where
  "write_header code r = (case rStatus r of None \<Rightarrow> r\<lparr>rStatus := Some code\<rparr> | Some _ \<Rightarrow> r)"

definition write_body :: "'p \<Rightarrow> 'p response \<Rightarrow> 'p response" where
  "write_body p r = (let r' = write_header 200 r in r'\<lparr>rBody := rBody r' @ [p]\<rparr>)"

definition final_status :: "'p response \<Rightarrow> int" where
  "final_status r = (case rStatus r of None \<Rightarrow> 200 | Some s \<Rightarrow> s)"

datatype 'r body = BResult 'r | BError openapi_error

section \<open>writeJSONResponse\<close>

definition writeJSONResponse :: "int \<Rightarrow> 'p option \<Rightarrow> 'p response \<Rightarrow> 'p response" where
  "writeJSONResponse code payload w =
     (let w1 = header_set ''Content-Type'' ''application/json'' w;
          w2 = header_set ''Vary'' ''Authorization'' w1;
          w3 = write_header code w2
      in case payload of None \<Rightarrow> w3 | Some p \<Rightarrow> write_body p w3)"

definition HandleError ::
    "error_config \<Rightarrow> string \<Rightarrow> service_error \<Rightarrow> 'r body response \<Rightarrow> 'r body response" where
  "HandleError g operationID err w =
     writeJSONResponse (HttpCode err) (Some (BError (AsOpenapiError g operationID err))) w"

section \<open>The handler framework\<close>

text \<open>
  The body, the validators and the action of a configuration are closures over one decoded
  body, here their argument. An error handler of \<open>None\<close> is the nil field.
\<close>

record ('b, 'r, 'w) handler_config =
  hcValidators :: "('b \<Rightarrow> service_error option) list"
  hcAction :: "'b \<Rightarrow> ('w, service_error + 'r option) proc"
  hcErrorHandler :: "(service_error \<Rightarrow> 'r body response \<Rightarrow> 'r body response) option"

definition error_handler ::
    "error_config \<Rightarrow> string \<Rightarrow> ('b, 'r, 'w) handler_config \<Rightarrow> service_error
      \<Rightarrow> 'r body response \<Rightarrow> 'r body response" where
  "error_handler g opid cfg =
     (case hcErrorHandler cfg of None \<Rightarrow> HandleError g opid | Some h \<Rightarrow> h)"

fun first_error :: "('b \<Rightarrow> service_error option) list \<Rightarrow> 'b \<Rightarrow> service_error option" where
  "first_error [] b = None"
| "first_error (v # vs) b = (case v b of None \<Rightarrow> first_error vs b | Some e \<Rightarrow> Some e)"

definition finish ::
    "error_config \<Rightarrow> string \<Rightarrow> ('b, 'r, 'w) handler_config \<Rightarrow> int \<Rightarrow> service_error + 'r option
      \<Rightarrow> 'r body response \<Rightarrow> 'r body response" where
  "finish g opid cfg httpStatus result w =
     (case result of
        Inl e \<Rightarrow> error_handler g opid cfg e w
      | Inr payload \<Rightarrow> writeJSONResponse httpStatus (map_option BResult payload) w)"

text \<open>
  Running the action and writing its result; a panic of the action leaves the response as it is.
\<close>

definition run_action ::
    "error_config \<Rightarrow> string \<Rightarrow> ('b, 'r, 'w) handler_config \<Rightarrow> int \<Rightarrow> 'b \<Rightarrow> 'r body response \<Rightarrow> 'w
      \<Rightarrow> unit outcome \<times> 'r body response \<times> 'w" where
  "run_action g opid cfg httpStatus b w s =
     (case hcAction cfg b s of
        (Done result, s') \<Rightarrow> (Done (), finish g opid cfg httpStatus result w, s')
      | (Panicked p, s') \<Rightarrow> (Panicked p, w, s')
      | (Blocked, s') \<Rightarrow> (Blocked, w, s'))"

text \<open>
  \<open>raw\<close> is the result of reading the request body, \<open>decode\<close> the JSON decoding into the
  body's type: the text of an error or the value.
\<close>

definition Handle ::
    "error_config \<Rightarrow> string \<Rightarrow> (string \<Rightarrow> string + 'b) \<Rightarrow> string + string
      \<Rightarrow> ('b, 'r, 'w) handler_config \<Rightarrow> int \<Rightarrow> 'r body response \<Rightarrow> 'w
      \<Rightarrow> unit outcome \<times> 'r body response \<times> 'w" where
  "Handle g opid decode raw cfg httpStatus w s =
     (case raw of
        Inl err \<Rightarrow>
          (Done (), HandleError g opid (MalformedRequest ''Unable to read request body: %s'' [FStr err]) w, s)
      | Inr bytes \<Rightarrow>
          (case decode bytes of
             Inl err \<Rightarrow>
               (Done (), HandleError g opid (MalformedRequest ''Invalid request format: %s'' [FStr err]) w, s)
           | Inr b \<Rightarrow>
               (case first_error (hcValidators cfg) b of
                  Some e \<Rightarrow> (Done (), error_handler g opid cfg e w, s)
                | None \<Rightarrow> run_action g opid cfg httpStatus b w s)))"

definition HandleDelete ::
    "error_config \<Rightarrow> string \<Rightarrow> 'b \<Rightarrow> ('b, 'r, 'w) handler_config \<Rightarrow> int \<Rightarrow> 'r body response \<Rightarrow> 'w
      \<Rightarrow> unit outcome \<times> 'r body response \<times> 'w" where
  "HandleDelete g opid b cfg httpStatus w s =
     (case first_error (hcValidators cfg) b of
        Some e \<Rightarrow> (Done (), error_handler g opid cfg e w, s)
      | None \<Rightarrow> run_action g opid cfg httpStatus b w s)"

definition HandleGet ::
    "error_config \<Rightarrow> string \<Rightarrow> 'b \<Rightarrow> ('b, 'r, 'w) handler_config \<Rightarrow> 'r body response \<Rightarrow> 'w
      \<Rightarrow> unit outcome \<times> 'r body response \<times> 'w" where
  "HandleGet g opid b cfg w s = run_action g opid cfg 200 b w s"

definition HandleList ::
    "error_config \<Rightarrow> string \<Rightarrow> 'b \<Rightarrow> ('b, 'r, 'w) handler_config \<Rightarrow> 'r body response \<Rightarrow> 'w
      \<Rightarrow> unit outcome \<times> 'r body response \<times> 'w" where
  "HandleList g opid b cfg w s = run_action g opid cfg 200 b w s"

section \<open>Validators\<close>

text \<open>
  A validated field is a string or a pointer to one; \<open>None\<close> is the nil pointer.
\<close>

datatype str_field = FieldString string | FieldPtr "string option"

definition ValidateNotEmpty :: "('b \<Rightarrow> str_field) \<Rightarrow> string \<Rightarrow> 'b \<Rightarrow> service_error option" where
  "ValidateNotEmpty sel field i =
     (case sel i of
        FieldPtr None \<Rightarrow> Some (Validation ''%s is required'' [FStr field])
      | FieldPtr (Some v) \<Rightarrow>
          (if length v = 0 then Some (Validation ''%s is required'' [FStr field]) else None)
      | FieldString v \<Rightarrow>
          (if length v = 0 then Some (Validation ''%s is required'' [FStr field]) else None))"

definition ValidateEmpty :: "('b \<Rightarrow> str_field) \<Rightarrow> string \<Rightarrow> 'b \<Rightarrow> service_error option" where
  "ValidateEmpty sel field i =
     (case sel i of
        FieldPtr None \<Rightarrow> None
      | FieldPtr (Some v) \<Rightarrow>
          (if length v \<noteq> 0 then Some (Validation ''%s must be empty'' [FStr field]) else None)
      | FieldString v \<Rightarrow>
          (if length v \<noteq> 0 then Some (Validation ''%s must be empty'' [FStr field]) else None))"

definition ValidateInclusionIn ::
    "string \<Rightarrow> string list \<Rightarrow> string option \<Rightarrow> service_error option" where
  "ValidateInclusionIn value list category =
     (if \<exists>item \<in> set list. equal_fold value item then None
      else Some (Validation ''%s is not a valid %s''
             [FStr value, FStr (case category of None \<Rightarrow> ''value'' | Some c \<Rightarrow> c)]))"

section \<open>Ranges of non-database resources\<close>

text \<open>
  \<open>range_items low high items\<close> is the loop that appends the items at
  \<^verbatim>\<open>low, ..., high-1\<close>; it panics outside the slice.
\<close>

definition range_items :: "int \<Rightarrow> int \<Rightarrow> 'a list \<Rightarrow> 'a list go" where
  "range_items low high items =
     (if low < high \<and> (low < 0 \<or> int (length items) < high)
      then Panic ''reflect: slice index out of range''
      else Ret (drop (nat low) (take (nat high) items)))"

definition determineListRange :: "'a list \<Rightarrow> int \<Rightarrow> int \<Rightarrow> ('a list \<times> int) go" where
  "determineListRange items page sz =
     (let total = int (length items);
          low = wrap64 (wrap64 (page - 1) * sz);
          high = wrap64 (low + sz);
          reset = (low < 0 \<or> low \<ge> total \<or> high \<ge> total);
          low' = (if reset then 0 else low);
          high' = (if reset then total else high)
      in go_bind (range_items low' high' items) (\<lambda>list. Ret (list, total)))"

section \<open>Metadata and OpenAPI documents\<close>

record metadata =
  md_ID :: string
  md_HREF :: string
  md_Kind :: string
  md_Version :: string
  md_BuildTime :: string

definition SetMetadataID :: "string \<Rightarrow> string \<Rightarrow> string" where
  "SetMetadataID new old = new"

definition MetadataHandler_Get ::
    "string \<Rightarrow> string \<Rightarrow> string \<Rightarrow> string \<Rightarrow> metadata response \<Rightarrow> metadata response" where
  "MetadataHandler_Get metadataID version buildTime urlPath w =
     write_body
       \<lparr>md_ID = metadataID, md_HREF = urlPath, md_Kind = ''API'', md_Version = version,
        md_BuildTime = buildTime\<rparr>
       (header_set ''Content-Type'' ''application/json'' w)"

record openapi_handler =
  openAPIDefinitions :: string
  uiContent :: string

text \<open>\<open>toJSON\<close> and \<open>readUI\<close> are the YAML conversion and the embedded file.\<close>

definition NewOpenAPIHandler ::
    "(string \<Rightarrow> string + string) \<Rightarrow> string + string \<Rightarrow> string \<Rightarrow> service_error + openapi_handler" where
  "NewOpenAPIHandler toJSON readUI specData =
     (case toJSON specData of
        Inl err \<Rightarrow>
          Inl (GeneralError ''can't convert OpenAPI specification from YAML to JSON: %v'' [FStr err])
      | Inr data \<Rightarrow>
          (case readUI of
             Inl err \<Rightarrow>
               Inl (GeneralError ''can't load OpenAPI UI HTML from embedded file: %v'' [FStr err])
           | Inr ui \<Rightarrow> Inr \<lparr>openAPIDefinitions = data, uiContent = ui\<rparr>))"

definition GetOpenAPI :: "openapi_handler \<Rightarrow> string response \<Rightarrow> string response" where
  "GetOpenAPI h w =
     write_body (openAPIDefinitions h)
       (write_header 200 (header_set ''Content-Type'' ''application/json'' w))"

definition GetOpenAPIUI :: "openapi_handler \<Rightarrow> string response \<Rightarrow> string response" where
  "GetOpenAPIUI h w =
     write_body (uiContent h) (write_header 200 (header_set ''Content-Type'' ''text/html'' w))"

section \<open>Fixed error responses\<close>

record api_error =
  ae_Type :: string
  ae_ID :: string
  ae_HREF :: string
  ae_Code :: string
  ae_Reason :: string

datatype api_body = AError api_error | AService service_error

definition SendNotFound :: "error_config \<Rightarrow> string \<Rightarrow> api_body response \<Rightarrow> api_body response" where
  "SendNotFound g urlPath w =
     (let w1 = header_set ''Content-Type'' ''application/json'' w;
          id = ''404'';
          reason = sprintf ''The requested resource '%s' doesn't exist'' [FStr urlPath];
          body = \<lparr>ae_Type = ''Error'', ae_ID = id, ae_HREF = errorHref g @ id,
                  ae_Code = errorCodePrefix g @ ''-'' @ id, ae_Reason = reason\<rparr>
      in write_body (AError body) (write_header 404 w1))"

definition SendUnauthorized :: "string \<Rightarrow> api_body response \<Rightarrow> api_body response" where
  "SendUnauthorized message w =
     (let w1 = header_set ''Content-Type'' ''application/json'' w;
          apiError = Unauthorized ''%s'' [FStr message]
      in write_body (AService apiError) (write_header 401 w1))"

definition getPanicBody :: "error_config \<Rightarrow> api_error" where
  "getPanicBody g =
     (let panicID = ''1000''
      in \<lparr>ae_Type = ''Error'', ae_ID = panicID, ae_HREF = errorHref g @ panicID,
          ae_Code = errorCodePrefix g @ ''-'' @ panicID,
          ae_Reason = ''An unexpected error happened, please check the log of the service ''
            @ ''for details''\<rparr>)"

text \<open>
  \<^verbatim>\<open>panicOnce\<close>: the body is built on the first call, from the package variables of
  that moment, and kept.
\<close>

definition SendPanic ::
    "error_config \<Rightarrow> api_error option \<Rightarrow> api_body response \<Rightarrow> api_body response \<times> api_error option" where
  "SendPanic g panicBody w =
     (let body = (case panicBody of None \<Rightarrow> getPanicBody g | Some b \<Rightarrow> b)
      in (write_body (AError body) (header_set ''Content-Type'' ''application/json'' w), Some body))"

section \<open>Facts\<close>

lemma empty_response_sel [simp]:
  "rStatus empty_response = None" "rBody empty_response = []" "rHeader empty_response = Map.empty"
  by (simp_all add: empty_response_def)

lemma header_set_sel [simp]:
  "rStatus (header_set k v w) = rStatus w" "rBody (header_set k v w) = rBody w"
  "rHeader (header_set k v w) = (rHeader w)(k \<mapsto> v)"
  by (simp_all add: header_set_def)

lemma write_header_sel [simp]:
  "rStatus (write_header c w) = (case rStatus w of None \<Rightarrow> Some c | Some s \<Rightarrow> Some s)"
  "rBody (write_header c w) = rBody w" "rHeader (write_header c w) = rHeader w"
  by (simp_all add: write_header_def split: option.splits)

lemma write_body_sel [simp]:
  "rStatus (write_body p w) = (case rStatus w of None \<Rightarrow> Some 200 | Some s \<Rightarrow> Some s)"
  "rBody (write_body p w) = rBody w @ [p]" "rHeader (write_body p w) = rHeader w"
  by (simp_all add: write_body_def Let_def)

lemma writeJSON_sel [simp]:
  "rStatus (writeJSONResponse c p w) = (case rStatus w of None \<Rightarrow> Some c | Some s \<Rightarrow> Some s)"
  "rBody (writeJSONResponse c p w) = rBody w @ (case p of None \<Rightarrow> [] | Some x \<Rightarrow> [x])"
  "rHeader (writeJSONResponse c p w) =
     (rHeader w)(''Content-Type'' \<mapsto> ''application/json'', ''Vary'' \<mapsto> ''Authorization'')"
  by (simp_all add: writeJSONResponse_def Let_def split: option.splits)

lemma HandleError_sel [simp]:
  "rStatus (HandleError g opid e w) =
     (case rStatus w of None \<Rightarrow> Some (HttpCode e) | Some s \<Rightarrow> Some s)"
  "rBody (HandleError g opid e w) = rBody w @ [BError (AsOpenapiError g opid e)]"
  by (simp_all add: HandleError_def)

lemma first_error_None: "first_error vs b = None \<longleftrightarrow> (\<forall>v\<in>set vs. v b = None)"
  by (induction vs) (auto split: option.splits)

lemma first_error_Some:
  "first_error vs b = Some e \<longleftrightarrow>
     (\<exists>i<length vs. (vs ! i) b = Some e \<and> (\<forall>j<i. (vs ! j) b = None))"
proof (induction vs)
  case Nil
  then show ?case by simp
next
  case (Cons v vs)
  show ?case
  proof (cases "v b")
    case None
    have "(\<exists>i<length vs. (vs ! i) b = Some e \<and> (\<forall>j<i. (vs ! j) b = None)) \<longleftrightarrow>
          (\<exists>i<length (v # vs). ((v # vs) ! i) b = Some e \<and> (\<forall>j<i. ((v # vs) ! j) b = None))"
      (is "?L \<longleftrightarrow> ?R")
    proof
      assume ?L
      then obtain i where "i < length vs" "(vs ! i) b = Some e" "\<forall>j<i. (vs ! j) b = None" by blast
      with None show ?R by (intro exI [of _ "Suc i"]) (auto simp: nth_Cons split: nat.splits)
    next
      assume ?R
      then obtain i where i: "i < length (v # vs)" "((v # vs) ! i) b = Some e"
        "\<forall>j<i. ((v # vs) ! j) b = None" by blast
      with None obtain k where k: "i = Suc k" by (cases i) auto
      have "\<forall>j<k. (vs ! j) b = None"
      proof (intro allI impI)
        fix j assume "j < k"
        with k i(3) have "((v # vs) ! Suc j) b = None" by blast
        then show "(vs ! j) b = None" by simp
      qed
      with k i show ?L by auto
    qed
    with Cons None show ?thesis by simp
  next
    case (Some e')
    have "(\<exists>i<length (v # vs). ((v # vs) ! i) b = Some e \<and> (\<forall>j<i. ((v # vs) ! j) b = None))
          \<longleftrightarrow> e' = e" (is "?R \<longleftrightarrow> _")
    proof
      assume ?R
      then obtain i where i: "((v # vs) ! i) b = Some e" "\<forall>j<i. ((v # vs) ! j) b = None" by blast
      have "i = 0"
      proof (rule ccontr)
        assume "i \<noteq> 0"
        then have "((v # vs) ! 0) b = None" using i(2) by blast
        with Some show False by simp
      qed
      with i(1) Some show "e' = e" by simp
    next
      assume "e' = e"
      with Some show ?R by (intro exI [of _ 0]) simp
    qed
    with Some show ?thesis by auto
  qed
qed

end
