(* ===== verification/Transactions.thy ===== *)
theory Transactions
  imports Http_Handlers
begin

text \<open>
  The request transaction: \<^verbatim>\<open>pkg/db/transaction/transaction.go\<close>,
  \<^verbatim>\<open>pkg/db/transactions.go\<close>, \<^verbatim>\<open>pkg/db/context.go\<close>,
  \<^verbatim>\<open>pkg/db/db_context/db_context.go\<close> and the middleware
  \<^verbatim>\<open>pkg/db/transaction_middleware.go\<close>. \<^verbatim>\<open>database/sql\<close> over the driver is
  the record \<open>sql_lib\<close>, a parameter. A \<^verbatim>\<open>*Transaction\<close> is an address in a
  store of transactions, None when the pointer is nil; a method call that dereferences a nil
  pointer panics.
\<close>

section \<open>transaction.go\<close>

record 'w sql_lib =
  sqBegin :: "'w \<Rightarrow> (go_error + nat) \<times> 'w"
  sqTxid :: "nat \<Rightarrow> 'w \<Rightarrow> (go_error + int) option" \<comment> \<open>None when the row is nil\<close>
  sqCommit :: "nat \<Rightarrow> 'w \<Rightarrow> go_error option \<times> 'w"
  sqRollback :: "nat \<Rightarrow> 'w \<Rightarrow> go_error option \<times> 'w"

record transaction =
  rollbackFlag :: bool
  txTx :: "nat option"
  txId :: int

definition defaultRollbackPolicy :: bool where
  "defaultRollbackPolicy = False"

definition Build :: "nat option \<Rightarrow> int \<Rightarrow> bool \<Rightarrow> transaction" where
  "Build tx txid flag = \<lparr>rollbackFlag = defaultRollbackPolicy, txTx = tx, txId = txid\<rparr>"

definition MarkedForRollback :: "transaction \<Rightarrow> bool" where
  "MarkedForRollback tx = rollbackFlag tx"

definition SetRollbackFlag :: "bool \<Rightarrow> transaction \<Rightarrow> transaction" where
  "SetRollbackFlag flag tx = tx\<lparr>rollbackFlag := flag\<rparr>"

definition not_started :: go_error where
  "not_started = TextError ''db: transaction hasn't been started yet''"

definition Commit :: "'w sql_lib \<Rightarrow> transaction \<Rightarrow> 'w \<Rightarrow> go_error option \<times> transaction \<times> 'w" where
  "Commit sq tx w =
     (case txTx tx of
        None \<Rightarrow> (Some not_started, tx, w)
      | Some t \<Rightarrow> (case sqCommit sq t w of (err, w) \<Rightarrow> (err, tx\<lparr>txTx := None\<rparr>, w)))"

definition Rollback :: "'w sql_lib \<Rightarrow> transaction \<Rightarrow> 'w \<Rightarrow> go_error option \<times> transaction \<times> 'w" where
  "Rollback sq tx w =
     (case txTx tx of
        None \<Rightarrow> (Some not_started, tx, w)
      | Some t \<Rightarrow> (case sqRollback sq t w of (err, w) \<Rightarrow> (err, tx\<lparr>txTx := None\<rparr>, w)))"

section \<open>Contexts\<close>

text \<open>
  A context carries at most one transaction pointer under its key: None is no value, Some None
  a nil pointer of the right type.
\<close>

record req_context =
  ctxTransaction :: "nat option option"

definition background :: req_context where
  "background = \<lparr>ctxTransaction = None\<rparr>"

definition WithTransaction :: "req_context \<Rightarrow> nat option \<Rightarrow> req_context" where
  "WithTransaction ctx tx = ctx\<lparr>ctxTransaction := Some tx\<rparr>"

definition Transaction :: "req_context \<Rightarrow> nat option \<times> bool" where
  "Transaction ctx = (case ctxTransaction ctx of None \<Rightarrow> (None, False) | Some p \<Rightarrow> (p, True))"

record 'w tx_world =
  twDb :: 'w
  twTxs :: "transaction list"

definition TxID :: "req_context \<Rightarrow> 'w tx_world \<Rightarrow> (int \<times> bool) go" where
  "TxID ctx S =
     (case Transaction ctx of
        (p, False) \<Rightarrow> Ret (0, False)
      | (None, True) \<Rightarrow> Panic nil_deref
      | (Some a, True) \<Rightarrow> Ret (txId (twTxs S ! a), True))"

section \<open>transactions.go and context.go\<close>

text \<open>A connection of None is the nil session factory.\<close>

definition newTransaction ::
    "'w sql_lib option \<Rightarrow> 'w tx_world \<Rightarrow> (go_error + nat option) \<times> 'w tx_world" where
  "newTransaction connection S =
     (case connection of
        None \<Rightarrow> (Inr None, S)
      | Some sq \<Rightarrow>
          (case sqBegin sq (twDb S) of
             (Inl err, w) \<Rightarrow> (Inl err, S\<lparr>twDb := w\<rparr>)
           | (Inr tx, w) \<Rightarrow>
               (case sqTxid sq tx w of
                  Some (Inl err) \<Rightarrow> (Inl err, S\<lparr>twDb := w\<rparr>)
                | row \<Rightarrow>
                    (let txid = (case row of Some (Inr i) \<Rightarrow> i | _ \<Rightarrow> 0)
                     in (Inr (Some (length (twTxs S))),
                         S\<lparr>twDb := w, twTxs := twTxs S @ [Build (Some tx) txid defaultRollbackPolicy]\<rparr>)))))"

definition NewContext ::
    "'w sql_lib option \<Rightarrow> req_context \<Rightarrow> 'w tx_world \<Rightarrow> (req_context \<times> go_error option) \<times> 'w tx_world" where
  "NewContext connection ctx S =
     (case newTransaction connection S of
        (Inl err, S) \<Rightarrow> ((ctx, Some err), S)
      | (Inr tx, S) \<Rightarrow> ((WithTransaction ctx tx, None), S))"

definition Resolve :: "'w sql_lib \<Rightarrow> req_context \<Rightarrow> 'w tx_world \<Rightarrow> 'w tx_world go" where
  "Resolve sq ctx S =
     (case Transaction ctx of
        (p, False) \<Rightarrow> Ret S
      | (None, True) \<Rightarrow> Panic nil_deref
      | (Some a, True) \<Rightarrow>
          (let tx = twTxs S ! a
           in case (if MarkedForRollback tx then Rollback sq tx (twDb S) else Commit sq tx (twDb S)) of
                (err, tx, w) \<Rightarrow> Ret (S\<lparr>twDb := w, twTxs := (twTxs S)[a := tx]\<rparr>)))"

definition MarkForRollback :: "req_context \<Rightarrow> 'w tx_world \<Rightarrow> 'w tx_world go" where
  "MarkForRollback ctx S =
     (case Transaction ctx of
        (p, False) \<Rightarrow> Ret S
      | (None, True) \<Rightarrow> Panic nil_deref
      | (Some a, True) \<Rightarrow> Ret (S\<lparr>twTxs := (twTxs S)[a := SetRollbackFlag True (twTxs S ! a)]\<rparr>))"

section \<open>The middleware\<close>

definition db_writeJSONResponse :: "int \<Rightarrow> 'p option \<Rightarrow> 'p response \<Rightarrow> 'p response" where
  "db_writeJSONResponse code payload w =
     (let w1 = write_header code (header_set ''Content-Type'' ''application/json'' w)
      in case payload of None \<Rightarrow> w1 | Some p \<Rightarrow> write_body p w1)"

text \<open>
  \<open>next\<close> is the wrapped handler; it may panic after it has changed the state, and the deferred
  \<^verbatim>\<open>Resolve\<close> runs in both cases. \<open>hub\<close> tells whether the context has a Sentry hub,
  whose scope asks for the transaction id before the deferred call is in place. The driver of a
  nil connection is never called.
\<close>

type_synonym ('w, 'p) tx_handler =
  "req_context \<Rightarrow> 'w tx_world \<times> 'p response \<Rightarrow> unit go \<times> 'w tx_world \<times> 'p response"

definition with_resolve ::
    "'w sql_lib \<Rightarrow> req_context \<Rightarrow> unit go \<times> 'w tx_world \<times> 'p response
     \<Rightarrow> unit go \<times> 'w tx_world \<times> 'p response" where
  "with_resolve sq ctx r =
     (case r of (res, S, w) \<Rightarrow>
        (case Resolve sq ctx S of
           Panic m \<Rightarrow> (Panic m, S, w)
         | Ret S \<Rightarrow> (res, S, w)))"

definition TransactionMiddleware ::
    "error_config \<Rightarrow> string \<Rightarrow> bool \<Rightarrow> ('w, openapi_error) tx_handler \<Rightarrow> 'w sql_lib \<Rightarrow> bool
     \<Rightarrow> ('w, openapi_error) tx_handler" where
  "TransactionMiddleware g operationID hub next sq nil_connection ctx0 Sw =
     (case NewContext (if nil_connection then None else Some sq) ctx0 (fst Sw) of
        ((ctx, Some err), S) \<Rightarrow>
          (let e = GeneralError [] []
           in (Ret (), S, db_writeJSONResponse (HttpCode e) (Some (AsOpenapiError g operationID e)) (snd Sw)))
      | ((ctx, None), S) \<Rightarrow>
          (case (if hub then TxID ctx S else Ret (0, False)) of
             Panic m \<Rightarrow> (Panic m, S, snd Sw)
           | Ret _ \<Rightarrow> with_resolve sq ctx (next ctx (S, snd Sw))))"

section \<open>Facts\<close>

lemma Transaction_With [simp]: "Transaction (WithTransaction ctx p) = (p, True)"
  by (simp add: Transaction_def WithTransaction_def)

lemma newTransaction_Inr:
  assumes "newTransaction (Some sq) S = (Inr p, S')"
  obtains t txid w where "sqBegin sq (twDb S) = (Inr t, w)" "p = Some (length (twTxs S))"
    "S' = S\<lparr>twDb := w, twTxs := twTxs S @ [\<lparr>rollbackFlag = False, txTx = Some t, txId = txid\<rparr>]\<rparr>"
  using assms
  by (auto simp: newTransaction_def Build_def defaultRollbackPolicy_def Let_def
      split: prod.splits sum.splits option.splits)

lemma TxID_newTransaction:
  assumes "newTransaction (Some sq) S = (Inr p, S')"
  shows "returns (TxID (WithTransaction ctx p) S')"
  using assms by (auto elim!: newTransaction_Inr simp: TxID_def returns_iff)

text \<open>Ending a transaction ends it for good.\<close>

lemma Commit_twice:
  assumes "Commit sq tx w = (err, tx', w')"
  shows "Commit sq tx' w' = (Some not_started, tx', w') \<and> Rollback sq tx' w' = (Some not_started, tx', w')"
  using assms by (auto simp: Commit_def Rollback_def split: option.splits prod.splits)

lemma Rollback_twice:
  assumes "Rollback sq tx w = (err, tx', w')"
  shows "Commit sq tx' w' = (Some not_started, tx', w') \<and> Rollback sq tx' w' = (Some not_started, tx', w')"
  using assms by (auto simp: Commit_def Rollback_def split: option.splits prod.splits)

section \<open>Properties\<close>

text \<open>
  What the middleware asks of the handler it wraps: the transactions begun before stay in place,
  and the handler neither ends the request's own nor replaces its driver handle.
\<close>

definition keeps_tx :: "('w, 'p) tx_handler \<Rightarrow> bool" where
  "keeps_tx next \<longleftrightarrow>
     (\<forall>ctx S w a. a < length (twTxs S) \<longrightarrow>
        (case next ctx (S, w) of (r, S', w') \<Rightarrow>
           a < length (twTxs S') \<and> txTx (twTxs S' ! a) = txTx (twTxs S ! a)))"

text \<open>
  C7: A request that gets a transaction runs its handler once, inside the transaction, and then
  ends the transaction, whether the handler returns or panics: it is rolled back when the handler
  has marked it and committed otherwise. The response and the outcome are those of the handler.
\<close>

theorem middleware_resolves:
  assumes "newTransaction (Some sq) S = (Inr p, S1)" and "keeps_tx next"
    and "next (WithTransaction ctx p) (S1, w) = (res, S2, w2)"
  shows "\<exists>a t S3. p = Some a \<and> txTx (twTxs S1 ! a) = Some t \<and>
    TransactionMiddleware g opid hub next sq False ctx (S, w) = (res, S3, w2) \<and>
    txTx (twTxs S3 ! a) = None \<and>
    twDb S3 = snd ((if rollbackFlag (twTxs S2 ! a) then sqRollback sq t else sqCommit sq t) (twDb S2))"
proof -
  obtain t txid db where n: "p = Some (length (twTxs S))"
      "S1 = S\<lparr>twDb := db, twTxs := twTxs S @ [\<lparr>rollbackFlag = False, txTx = Some t, txId = txid\<rparr>]\<rparr>"
    using newTransaction_Inr [OF assms(1)] by blast
  define a where "a = length (twTxs S)"
  have S1: "a < length (twTxs S1)" "txTx (twTxs S1 ! a) = Some t" by (simp_all add: n a_def)
  from assms(2) S1(1) have "a < length (twTxs S2) \<and> txTx (twTxs S2 ! a) = txTx (twTxs S1 ! a)"
    unfolding keeps_tx_def by (metis (mono_tags, lifting) assms(3) case_prod_conv)
  then have S2: "a < length (twTxs S2)" "txTx (twTxs S2 ! a) = Some t" using S1(2) by simp_all
  obtain i where hub: "(if hub then TxID (WithTransaction ctx p) S1 else Ret (0, False)) = Ret i"
    using TxID_newTransaction [OF assms(1), of ctx] unfolding returns_iff by (cases hub) auto
  obtain e db' where ended: "(if rollbackFlag (twTxs S2 ! a) then sqRollback sq t else sqCommit sq t)
      (twDb S2) = (e, db')" by fastforce
  let ?S3 = "S2\<lparr>twDb := db', twTxs := (twTxs S2)[a := (twTxs S2 ! a)\<lparr>txTx := None\<rparr>]\<rparr>"
  have "Resolve sq (WithTransaction ctx p) S2 = Ret ?S3"
    using ended S2 n(1) unfolding a_def [symmetric]
    by (auto simp: Resolve_def MarkedForRollback_def Rollback_def Commit_def Let_def split: if_splits)
  then have "TransactionMiddleware g opid hub next sq False ctx (S, w) = (res, ?S3, w2)"
    using assms(1,3) hub by (simp add: TransactionMiddleware_def NewContext_def with_resolve_def)
  moreover have "txTx (twTxs ?S3 ! a) = None" using S2 by simp
  moreover have "twDb ?S3 = snd ((if rollbackFlag (twTxs S2 ! a) then sqRollback sq t else sqCommit sq t) (twDb S2))"
    using ended by simp
  ultimately show ?thesis using n(1) S1(2) unfolding a_def [symmetric] by blast
qed

text \<open>A reference driver: the list of what was done to its transactions.\<close>

datatype tx_event = Begun nat | Committed nat | RolledBack nat

definition log_sql :: "tx_event list sql_lib" where
  "log_sql =
     \<lparr>sqBegin = (\<lambda>w. (Inr (length w), w @ [Begun (length w)])),
      sqTxid = (\<lambda>t w. Some (Inr (int t))),
      sqCommit = (\<lambda>t w. (None, w @ [Committed t])),
      sqRollback = (\<lambda>t w. (None, w @ [RolledBack t]))\<rparr>"

definition marking_handler :: "('w, openapi_error) tx_handler" where
  "marking_handler ctx Sw =
     (case MarkForRollback ctx (fst Sw) of
        Panic m \<Rightarrow> (Panic m, fst Sw, snd Sw)
      | Ret S \<Rightarrow> (Panic ''boom'', S, snd Sw))"

lemma SetRollbackFlag_tx:
  "a < length ts \<Longrightarrow> txTx (ts[b := SetRollbackFlag f (ts ! b)] ! a) = txTx (ts ! a)"
  by (cases "a = b") (simp_all add: SetRollbackFlag_def)

lemma marking_keeps: "keeps_tx marking_handler"
  by (auto simp: keeps_tx_def marking_handler_def MarkForRollback_def SetRollbackFlag_tx
      split: go.splits prod.splits bool.splits option.splits)

theorem middleware_resolves_witness:
  "TransactionMiddleware default_error_config [] True marking_handler log_sql False background
     (\<lparr>twDb = [], twTxs = []\<rparr>, empty_response) =
   (Panic ''boom'', \<lparr>twDb = [Begun 0, RolledBack 0],
      twTxs = [\<lparr>rollbackFlag = True, txTx = None, txId = 0\<rparr>]\<rparr>, empty_response) \<and>
   (\<exists>a t S3. Some 0 = Some a \<and> Some 0 = Some t \<and>
    TransactionMiddleware default_error_config [] True marking_handler log_sql False background
      (\<lparr>twDb = [], twTxs = []\<rparr>, empty_response) = (Panic ''boom'', S3, empty_response) \<and>
    txTx (twTxs S3 ! a) = None \<and> twDb S3 = [Begun 0, RolledBack 0])"
proof -
  let ?S = "\<lparr>twDb = [], twTxs = []\<rparr>"
  let ?S1 = "\<lparr>twDb = [Begun 0], twTxs = [\<lparr>rollbackFlag = False, txTx = Some 0, txId = 0\<rparr>]\<rparr>"
  let ?S2 = "\<lparr>twDb = [Begun 0], twTxs = [\<lparr>rollbackFlag = True, txTx = Some 0, txId = 0\<rparr>]\<rparr>"
  have run: "newTransaction (Some log_sql) ?S = (Inr (Some 0), ?S1)"
    by (simp add: newTransaction_def log_sql_def Build_def defaultRollbackPolicy_def)
  have nxt: "marking_handler (WithTransaction background (Some 0)) (?S1, empty_response) =
      (Panic ''boom'', ?S2, empty_response)"
    by (simp add: marking_handler_def MarkForRollback_def SetRollbackFlag_def)
  have "TransactionMiddleware default_error_config [] True marking_handler log_sql False background
      (?S, empty_response) = (Panic ''boom'', \<lparr>twDb = [Begun 0, RolledBack 0],
      twTxs = [\<lparr>rollbackFlag = True, txTx = None, txId = 0\<rparr>]\<rparr>, empty_response)"
    using run nxt
    by (simp add: TransactionMiddleware_def NewContext_def TxID_def with_resolve_def Resolve_def
        MarkedForRollback_def Rollback_def log_sql_def Let_def)
  with middleware_resolves [OF run marking_keeps nxt, of default_error_config "[]" True] show ?thesis
    by (auto simp: log_sql_def)
qed

text \<open>
  When no transaction can be begun, the handler does not run: the client gets status 500
  with the general error's code and no detail of the cause.
\<close>

theorem middleware_begin_fails:
  assumes "newTransaction (Some sq) S = (Inl err, S1)" and "rStatus w = None" and "rBody w = []"
  shows "\<exists>w'. TransactionMiddleware g opid hub next sq False ctx (S, w) = (Ret (), S1, w') \<and>
    final_status w' = 500 \<and>
    rBody w' = [AsOpenapiError g opid (GeneralError [] [])]"
  using assms
  by (simp add: TransactionMiddleware_def NewContext_def db_writeJSONResponse_def Let_def
      header_set_def write_header_def write_body_def final_status_def)

theorem middleware_begin_fails_witness:
  "\<exists>w'. TransactionMiddleware default_error_config ''op'' False marking_handler
      (log_sql\<lparr>sqBegin := (\<lambda>w. (Inl (TextError ''refused''), w))\<rparr>) False background
      (\<lparr>twDb = [], twTxs = []\<rparr>, empty_response) = (Ret (), \<lparr>twDb = [], twTxs = []\<rparr>, w') \<and>
    final_status w' = 500 \<and>
    rBody w' = [AsOpenapiError default_error_config ''op'' (GeneralError [] [])]"
  by (rule middleware_begin_fails [where err = "TextError ''refused''"])
     (simp_all add: newTransaction_def empty_response_def)

text \<open>
  With a nil connection the middleware stores a nil transaction, and the request always ends
  in a panic: in the Sentry scope before the handler runs, or in the deferred resolution after it.
\<close>

theorem middleware_nil_connection_panics:
  "fst (TransactionMiddleware g opid hub next sq True ctx Sw) = Panic nil_deref"
  by (simp add: TransactionMiddleware_def NewContext_def newTransaction_def TxID_def with_resolve_def
      Resolve_def split: prod.splits)

end
