(* ===== verification/Api_Types.thy ===== *)
theory Api_Types
  imports Service_Errors
begin

text \<open>
  The data of \<^verbatim>\<open>pkg/api\<close> (\<^verbatim>\<open>Meta\<close>, \<^verbatim>\<open>Event\<close>,
  \<^verbatim>\<open>PagingMeta\<close>), the pointer helpers of \<^verbatim>\<open>pkg/util\<close>, and the
  presenters of \<^verbatim>\<open>pkg/api/presenters\<close> (kinds, paths, object references, times).

  A \<^verbatim>\<open>time.Time\<close> is the number of nanoseconds since Go's zero time.
\<close>

type_synonym time = int

section \<open>Model types\<close>

record meta =
  ID :: string
  CreatedAt :: time
  UpdatedAt :: time
  DeletedAt :: "time option"

definition zero_meta :: meta where
  "zero_meta = \<lparr>ID = [], CreatedAt = 0, UpdatedAt = 0, DeletedAt = None\<rparr>"

datatype event_type = CreateEventType | UpdateEventType | DeleteEventType | OtherEventType string

record event = meta +
  Source :: string
  SourceID :: string
  EventType :: event_type
  ReconciledDate :: "time option"

record paging_meta =
  pmPage :: int
  pmSize :: int
  pmTotal :: int

text \<open>
  \<^verbatim>\<open>EventList.Index\<close> and \<^verbatim>\<open>DinosaurList.Index\<close>: one map entry per
  element in list order, so that a later element with the same ID replaces an earlier one.
\<close>

fun index_by_ID :: "'a meta_scheme list \<Rightarrow> (string \<rightharpoonup> 'a meta_scheme) \<Rightarrow> (string \<rightharpoonup> 'a meta_scheme)" where
  "index_by_ID [] index = index"
| "index_by_ID (o1 # l) index = index_by_ID l (index(ID o1 \<mapsto> o1))"

definition EventList_Index :: "event list \<Rightarrow> (string \<rightharpoonup> event)" where
  "EventList_Index l = index_by_ID l Map.empty"

text \<open>The gorm hook that runs before an event is inserted; \<open>newID\<close> is the generated ksuid.\<close>

definition Event_BeforeCreate :: "string \<Rightarrow> event \<Rightarrow> event" where
  "Event_BeforeCreate newID d = d\<lparr>ID := newID\<rparr>"

section \<open>Pointer helpers\<close>

definition FromPtr :: "'a \<Rightarrow> 'a option \<Rightarrow> 'a" where
  "FromPtr zero v = (case v of None \<Rightarrow> zero | Some x \<Rightarrow> x)"

definition FromEmptyPtr :: "'a \<Rightarrow> 'a option \<Rightarrow> 'a option" where
  "FromEmptyPtr zero v = (case v of None \<Rightarrow> Some zero | Some x \<Rightarrow> Some x)"

definition EmptyStringToNil :: "string \<Rightarrow> string option" where
  "EmptyStringToNil a = (if a = [] then None else Some a)"

definition NilToEmptyString :: "string option \<Rightarrow> string" where
  "NilToEmptyString a = (case a of None \<Rightarrow> [] | Some s \<Rightarrow> s)"

section \<open>Kind and path registries\<close>

text \<open>
  Both registries map the name that \<^verbatim>\<open>%T\<close> prints for a type to a constant
  function, here its value. An object is represented by the name of its type.
\<close>

type_synonym registry = "string \<rightharpoonup> string"

definition RegisterKind :: "string \<Rightarrow> string \<Rightarrow> registry \<Rightarrow> registry" where
  "RegisterKind typeName kindValue reg = reg(typeName \<mapsto> kindValue)"

definition LoadDiscoveredKinds :: "registry \<Rightarrow> string \<Rightarrow> string" where
  "LoadDiscoveredKinds reg typeName = (case reg typeName of Some k \<Rightarrow> k | None \<Rightarrow> [])"

definition is_service_error_type :: "string \<Rightarrow> bool" where
  "is_service_error_type t \<longleftrightarrow> t = ''errors.ServiceError'' \<or> t = ''*errors.ServiceError''"

definition ObjectKind :: "registry \<Rightarrow> string \<Rightarrow> string option" where
  "ObjectKind reg i =
     (let discoveredKind = LoadDiscoveredKinds reg i
      in Some (if discoveredKind \<noteq> [] then discoveredKind
               else if is_service_error_type i then ''Error'' else []))"

definition RegisterPath :: "string \<Rightarrow> string \<Rightarrow> registry \<Rightarrow> registry" where
  "RegisterPath typeName pathValue reg = reg(typeName \<mapsto> pathValue)"

definition LoadDiscoveredPaths :: "registry \<Rightarrow> string \<Rightarrow> string" where
  "LoadDiscoveredPaths reg typeName = (case reg typeName of Some k \<Rightarrow> k | None \<Rightarrow> [])"

definition path_of :: "registry \<Rightarrow> string \<Rightarrow> string" where
  "path_of reg i =
     (let discoveredPath = LoadDiscoveredPaths reg i
      in if discoveredPath \<noteq> [] then discoveredPath
         else if is_service_error_type i then ''errors'' else [])"

definition default_basePath :: string where
  "default_basePath = ''/api/rh-trex/v1''"

definition ObjectPath :: "string \<Rightarrow> registry \<Rightarrow> string \<Rightarrow> string \<Rightarrow> string option" where
  "ObjectPath basePath reg i obj =
     Some (sprintf ''%s/%s/%s'' [FStr basePath, FStr (path_of reg obj), FStr i])"

section \<open>Object references\<close>

datatype ref_id = IdString string | IdStringPtr "string option" | IdOther

record object_reference =
  orId :: "string option"
  orKind :: "string option"
  orHref :: "string option"
  orCreatedAt :: "time option"
  orUpdatedAt :: "time option"

definition makeReferenceId :: "ref_id \<Rightarrow> string \<times> bool" where
  "makeReferenceId r =
     (let refId = (case r of IdString i \<Rightarrow> i | IdStringPtr (Some i) \<Rightarrow> i | _ \<Rightarrow> [])
      in (refId, refId \<noteq> []))"

definition PresentReference ::
    "string \<Rightarrow> registry \<Rightarrow> registry \<Rightarrow> ref_id \<Rightarrow> string \<Rightarrow> object_reference" where
  "PresentReference basePath kinds paths r obj =
     (let (refId, ok) = makeReferenceId r
      in if \<not> ok then \<lparr>orId = None, orKind = None, orHref = None, orCreatedAt = None, orUpdatedAt = None\<rparr>
         else \<lparr>orId = Some refId, orKind = ObjectKind kinds obj,
               orHref = ObjectPath basePath paths refId obj,
               orCreatedAt = None, orUpdatedAt = None\<rparr>)"

definition PresentError :: "error_config \<Rightarrow> service_error \<Rightarrow> openapi_error" where
  "PresentError g err = AsOpenapiError g [] err"

section \<open>Times\<close>

text \<open>\<^verbatim>\<open>Time.Round(d)\<close>: to the nearest multiple of \<open>d\<close>, half-way up.\<close>

definition time_round :: "time \<Rightarrow> int \<Rightarrow> time" where
  "time_round t d = (let r = t mod d in if r + r < d then t - r else t + (d - r))"

definition PresentTime :: "time \<Rightarrow> time option" where
  "PresentTime t = (if t = 0 then Some 0 else Some (time_round t 1000))"

section \<open>Facts\<close>

lemma index_by_ID_eq: "index_by_ID l m = m ++ map_of (rev (map (\<lambda>e. (ID e, e)) l))"
  by (induction l arbitrary: m) (auto simp: map_add_assoc [symmetric] fun_eq_iff map_add_def split: option.splits)

lemma Index_keys: "dom (EventList_Index l) = ID ` set l"
proof -
  have "dom (index_by_ID l m) = dom m \<union> ID ` set l" for m :: "string \<rightharpoonup> event"
    by (induction l arbitrary: m) auto
  then show ?thesis by (simp add: EventList_Index_def)
qed

lemma Index_sound: "EventList_Index l i = Some e \<Longrightarrow> e \<in> set l \<and> ID e = i"
  by (auto simp: EventList_Index_def index_by_ID_eq dest!: map_of_SomeD)

lemma time_round_mult:
  assumes "0 < d"
  shows "d dvd time_round t d"
proof -
  have "t - t mod d = d * (t div d)" by (simp add: minus_mod_eq_mult_div)
  moreover have "t + (d - t mod d) = d * (t div d + 1)"
    using mult_div_mod_eq [of d t] by (simp add: algebra_simps)
  ultimately show ?thesis by (simp add: time_round_def Let_def)
qed

lemma time_round_near:
  assumes "0 < d"
  shows "2 * \<bar>time_round t d - t\<bar> \<le> d"
proof -
  from assms have "0 \<le> t mod d" and "t mod d < d" by simp_all
  then show ?thesis by (auto simp: time_round_def Let_def)
qed

end
