(* ===== verification/Events.thy ===== *)
theory Events
  imports Go_Proc Transactions Api_Types
begin

text \<open>
  Storage of events: the DAO \<^verbatim>\<open>pkg/dao/event.go\<close>, its mock
  \<^verbatim>\<open>pkg/dao/mocks/event.go\<close> and the service \<^verbatim>\<open>pkg/services/event.go\<close>.
  A DAO interface is the record \<open>crud_dao\<close> of its methods over a state \<open>'s\<close>. The table that
  gorm reads and writes is the record \<open>gorm_table\<close>, a parameter over the database state
  \<open>'w\<close>; its documented behaviour is \<open>table_law\<close>, in which a stored row is what the columns keep of
  the entity that is returned (\<open>gtStored\<close>). Each method opens a session of its own: only
  the rollback mark of the request's transaction is touched, never its connection.
\<close>

section \<open>The interface of a DAO\<close>

record ('e, 's) crud_dao =
  daoGet :: "req_context \<Rightarrow> string \<Rightarrow> ('s, go_error + 'e) proc"
  daoCreate :: "req_context \<Rightarrow> 'e \<Rightarrow> ('s, go_error + 'e) proc"
  daoReplace :: "req_context \<Rightarrow> 'e \<Rightarrow> ('s, go_error + 'e) proc"
  daoDelete :: "req_context \<Rightarrow> string \<Rightarrow> ('s, go_error option) proc"
  daoFindByIDs :: "req_context \<Rightarrow> string list \<Rightarrow> ('s, go_error + 'e list) proc"
  daoAll :: "req_context \<Rightarrow> ('s, go_error + 'e list) proc"

section \<open>gorm on one table\<close>

record ('e, 'w) gorm_table =
  gtNewID :: "'w \<Rightarrow> string \<times> 'w" \<comment> \<open>the ksuid generator\<close>
  gtTake :: "string \<Rightarrow> 'w \<Rightarrow> go_error + 'e"
  gtCreate :: "'e \<Rightarrow> 'w \<Rightarrow> (go_error + 'e) \<times> 'w"
  gtSave :: "'e \<Rightarrow> 'w \<Rightarrow> (go_error + 'e) \<times> 'w"
  gtDelete :: "bool \<Rightarrow> string \<Rightarrow> 'w \<Rightarrow> go_error option \<times> 'w" \<comment> \<open>True when unscoped\<close>
  gtFindIn :: "string list \<Rightarrow> 'w \<Rightarrow> go_error + 'e list"
  gtFindEq :: "string \<Rightarrow> string \<Rightarrow> 'w \<Rightarrow> go_error + 'e list"
  gtFind :: "'w \<Rightarrow> go_error + 'e list"
  gtStored :: "'e \<Rightarrow> 'e" \<comment> \<open>what the columns keep of an entity: times are rounded to microseconds\<close>

definition on_db :: "('w \<Rightarrow> 'a \<times> 'w) \<Rightarrow> ('w tx_world, 'a) proc" where
  "on_db f S = (case f (twDb S) of (a, w) \<Rightarrow> (Done a, S\<lparr>twDb := w\<rparr>))"

definition mark_rollback :: "req_context \<Rightarrow> ('w tx_world, unit) proc" where
  "mark_rollback ctx S =
     (case MarkForRollback ctx S of Ret S' \<Rightarrow> (Done (), S') | Panic m \<Rightarrow> (Panicked m, S))"

text \<open>\<^verbatim>\<open>db.MarkForRollback(ctx, err); return nil, err\<close>, or go on.\<close>

definition mark_on_error ::
    "req_context \<Rightarrow> ('w tx_world, go_error + 'a) proc \<Rightarrow> ('a \<Rightarrow> ('w tx_world, go_error + 'b) proc)
     \<Rightarrow> ('w tx_world, go_error + 'b) proc" where
  "mark_on_error ctx m f =
     run_bind m (\<lambda>r. case r of
       Inl err \<Rightarrow> run_bind (mark_rollback ctx) (\<lambda>_. run_ret (Inl err))
     | Inr a \<Rightarrow> f a)"

section \<open>event.go\<close>

text \<open>\<open>exec\<close> is \<^verbatim>\<open>g2.Exec\<close> of a statement without parameters.\<close>

definition notify_sql :: "event \<Rightarrow> string" where
  "notify_sql e =
     sprintf (''select pg_notify('' @ [CHR 0x27] @ ''%s'' @ [CHR 0x27] @ '', '' @ [CHR 0x27] @ ''%s'' @
              [CHR 0x27] @ '')'') [FStr ''events'', FStr (ID e)]"

definition EventDao_Get ::
    "(event, 'w) gorm_table \<Rightarrow> req_context \<Rightarrow> string \<Rightarrow> ('w tx_world, go_error + event) proc" where
  "EventDao_Get t ctx eid = run_read (\<lambda>S. gtTake t eid (twDb S))"

definition EventDao_Create ::
    "(event, 'w) gorm_table \<Rightarrow> (string \<Rightarrow> 'w \<Rightarrow> go_error option \<times> 'w) \<Rightarrow> req_context \<Rightarrow> event
     \<Rightarrow> ('w tx_world, go_error + event) proc" where
  "EventDao_Create t exec ctx e =
     run_bind (on_db (gtNewID t)) (\<lambda>newID.
     mark_on_error ctx (on_db (gtCreate t (Event_BeforeCreate newID e))) (\<lambda>e.
     run_bind (on_db (exec (notify_sql e))) (\<lambda>err.
       case err of Some err \<Rightarrow> run_ret (Inl err) | None \<Rightarrow> run_ret (Inr e))))"

definition EventDao_Replace ::
    "(event, 'w) gorm_table \<Rightarrow> req_context \<Rightarrow> event \<Rightarrow> ('w tx_world, go_error + event) proc" where
  "EventDao_Replace t ctx e = mark_on_error ctx (on_db (gtSave t e)) (\<lambda>e. run_ret (Inr e))"

definition delete_row ::
    "('e, 'w) gorm_table \<Rightarrow> bool \<Rightarrow> req_context \<Rightarrow> string \<Rightarrow> ('w tx_world, go_error option) proc" where
  "delete_row t unscoped ctx eid =
     run_bind (on_db (gtDelete t unscoped eid)) (\<lambda>err.
       case err of
         Some err \<Rightarrow> run_bind (mark_rollback ctx) (\<lambda>_. run_ret (Some err))
       | None \<Rightarrow> run_ret None)"

definition EventDao_Delete ::
    "(event, 'w) gorm_table \<Rightarrow> req_context \<Rightarrow> string \<Rightarrow> ('w tx_world, go_error option) proc" where
  "EventDao_Delete t ctx eid = delete_row t True ctx eid"

definition EventDao_FindByIDs ::
    "(event, 'w) gorm_table \<Rightarrow> req_context \<Rightarrow> string list \<Rightarrow> ('w tx_world, go_error + event list) proc" where
  "EventDao_FindByIDs t ctx ids = run_read (\<lambda>S. gtFindIn t ids (twDb S))"

definition EventDao_All ::
    "(event, 'w) gorm_table \<Rightarrow> req_context \<Rightarrow> ('w tx_world, go_error + event list) proc" where
  "EventDao_All t ctx = run_read (\<lambda>S. gtFind t (twDb S))"

definition sqlEventDao ::
    "(event, 'w) gorm_table \<Rightarrow> (string \<Rightarrow> 'w \<Rightarrow> go_error option \<times> 'w) \<Rightarrow> (event, 'w tx_world) crud_dao" where
  "sqlEventDao t exec =
     \<lparr>daoGet = EventDao_Get t, daoCreate = EventDao_Create t exec, daoReplace = EventDao_Replace t,
      daoDelete = EventDao_Delete t, daoFindByIDs = EventDao_FindByIDs t, daoAll = EventDao_All t\<rparr>"

section \<open>The mock\<close>

definition not_implemented :: "error_config \<Rightarrow> string \<Rightarrow> go_error" where
  "not_implemented g what = AsError g (NotImplemented what [])"

fun find_ID :: "string \<Rightarrow> 'm meta_scheme list \<Rightarrow> 'm meta_scheme option" where
  "find_ID i [] = None"
| "find_ID i (e # es) = (if ID e = i then Some e else find_ID i es)"

definition mock_get :: "string \<Rightarrow> ('m meta_scheme list, go_error + 'm meta_scheme) proc" where
  "mock_get i = run_read (\<lambda>es. case find_ID i es of Some e \<Rightarrow> Inr e | None \<Rightarrow> Inl ErrRecordNotFound)"

definition mock_append :: "'m meta_scheme \<Rightarrow> ('m meta_scheme list, go_error + 'm meta_scheme) proc" where
  "mock_append e = run_bind (run_modify (\<lambda>es. es @ [e])) (\<lambda>_. run_ret (Inr e))"

definition eventDaoMock :: "error_config \<Rightarrow> (event, event list) crud_dao" where
  "eventDaoMock g =
     \<lparr>daoGet = (\<lambda>ctx i. mock_get i),
      daoCreate = (\<lambda>ctx e. mock_append e),
      daoReplace = (\<lambda>ctx e. run_ret (Inl (not_implemented g ''Event''))),
      daoDelete = (\<lambda>ctx i. run_bind (run_modify (filter (\<lambda>e. ID e \<noteq> i))) (\<lambda>_. run_ret None)),
      daoFindByIDs = (\<lambda>ctx ids. run_ret (Inl (not_implemented g ''Event''))),
      daoAll = (\<lambda>ctx. run_read (\<lambda>es. Inr es))\<rparr>"

section \<open>The service\<close>

record 's event_service =
  esGet :: "req_context \<Rightarrow> string \<Rightarrow> ('s, service_error + event) proc"
  esCreate :: "req_context \<Rightarrow> event \<Rightarrow> ('s, service_error + event) proc"
  esReplace :: "req_context \<Rightarrow> event \<Rightarrow> ('s, service_error + event) proc"
  esDelete :: "req_context \<Rightarrow> string \<Rightarrow> ('s, service_error option) proc"
  esAll :: "req_context \<Rightarrow> ('s, service_error + event list) proc"
  esFindByIDs :: "req_context \<Rightarrow> string list \<Rightarrow> ('s, service_error + event list) proc"

definition EventService_Get ::
    "error_config \<Rightarrow> (event, 's) crud_dao \<Rightarrow> req_context \<Rightarrow> string \<Rightarrow> ('s, service_error + event) proc" where
  "EventService_Get g dao ctx i =
     run_try (daoGet dao ctx i) (HandleGetError g ''Event'' ''id'' i) (\<lambda>e. run_ret (Inr e))"

definition EventService_Create ::
    "error_config \<Rightarrow> (event, 's) crud_dao \<Rightarrow> req_context \<Rightarrow> event \<Rightarrow> ('s, service_error + event) proc" where
  "EventService_Create g dao ctx e =
     run_try (daoCreate dao ctx e) (HandleCreateError g ''Event'') (\<lambda>e. run_ret (Inr e))"

definition EventService_Replace ::
    "error_config \<Rightarrow> (event, 's) crud_dao \<Rightarrow> req_context \<Rightarrow> event \<Rightarrow> ('s, service_error + event) proc" where
  "EventService_Replace g dao ctx e =
     run_try (daoReplace dao ctx e) (HandleUpdateError g ''Event'') (\<lambda>e. run_ret (Inr e))"

definition EventService_Delete ::
    "error_config \<Rightarrow> (event, 's) crud_dao \<Rightarrow> req_context \<Rightarrow> string \<Rightarrow> ('s, service_error option) proc" where
  "EventService_Delete g dao ctx i =
     run_bind (daoDelete dao ctx i) (\<lambda>err.
       case err of
         Some err \<Rightarrow>
           run_ret (Some (HandleDeleteError g ''Event''
             (SvcError (GeneralError ''Unable to delete event: %s'' [FStr (Error g err)]))))
       | None \<Rightarrow> run_ret None)"

definition get_all_error :: "error_config \<Rightarrow> string \<Rightarrow> go_error \<Rightarrow> service_error" where
  "get_all_error g what err = GeneralError (''Unable to get all '' @ what @ '': %s'') [FStr (Error g err)]"

definition EventService_FindByIDs ::
    "error_config \<Rightarrow> (event, 's) crud_dao \<Rightarrow> req_context \<Rightarrow> string list \<Rightarrow> ('s, service_error + event list) proc" where
  "EventService_FindByIDs g dao ctx ids =
     run_try (daoFindByIDs dao ctx ids) (get_all_error g ''events'') (\<lambda>es. run_ret (Inr es))"

definition EventService_All ::
    "error_config \<Rightarrow> (event, 's) crud_dao \<Rightarrow> req_context \<Rightarrow> ('s, service_error + event list) proc" where
  "EventService_All g dao ctx =
     run_try (daoAll dao ctx) (get_all_error g ''events'') (\<lambda>es. run_ret (Inr es))"

definition sqlEventService :: "error_config \<Rightarrow> (event, 's) crud_dao \<Rightarrow> 's event_service" where
  "sqlEventService g dao =
     \<lparr>esGet = EventService_Get g dao, esCreate = EventService_Create g dao,
      esReplace = EventService_Replace g dao, esDelete = EventService_Delete g dao,
      esAll = EventService_All g dao, esFindByIDs = EventService_FindByIDs g dao\<rparr>"

section \<open>The contract of a DAO\<close>

text \<open>
  What the services rely on, for the observation \<open>rows\<close> of the stored entities: a returned
  entity is a stored one; writes change the row they name, to what the store keeps of the entity
  (\<open>stored\<close>), and only on success, except that a failed creation may have stored its row (the event
  DAO stores before it notifies).
\<close>

locale entity_store =
  fixes dao :: "('m meta_scheme, 's, 'z) crud_dao_scheme"
    and rows :: "'s \<Rightarrow> string \<Rightarrow> 'm meta_scheme option"
    and stored :: "'m meta_scheme \<Rightarrow> 'm meta_scheme"
    and store_ok :: "'s \<Rightarrow> bool"
  assumes get_Inr: "store_ok s \<Longrightarrow> daoGet dao ctx i s = (Done (Inr e), s') \<Longrightarrow> s' = s \<and> rows s i = Some e \<and> ID e = i"
    and get_Inl: "store_ok s \<Longrightarrow> daoGet dao ctx i s = (Done (Inl err), s') \<Longrightarrow>
        s' = s \<and> (err = ErrRecordNotFound \<longrightarrow> rows s i = None)"
    and create_Inr: "store_ok s \<Longrightarrow> daoCreate dao ctx e s = (Done (Inr e'), s') \<Longrightarrow>
        store_ok s' \<and> (\<exists>k c u. e' = e\<lparr>ID := k, CreatedAt := c, UpdatedAt := u\<rparr>) \<and>
        (rows s (ID e') = None \<longrightarrow> rows s' = (rows s)(ID e' \<mapsto> stored e'))"
    and create_keeps: "store_ok s \<Longrightarrow> daoCreate dao ctx e s = (r, s') \<Longrightarrow>
        store_ok s' \<and> (\<forall>i x. rows s i = Some x \<longrightarrow> rows s' i = Some x)"
    and replace_Inr: "store_ok s \<Longrightarrow> daoReplace dao ctx e s = (Done (Inr e'), s') \<Longrightarrow>
        store_ok s' \<and> (\<exists>u. e' = e\<lparr>UpdatedAt := u\<rparr>) \<and> rows s' = (rows s)(ID e \<mapsto> stored e')"
    and replace_Inl: "store_ok s \<Longrightarrow> daoReplace dao ctx e s = (Done (Inl err), s') \<Longrightarrow>
        store_ok s' \<and> rows s' = rows s"
    and delete_None: "store_ok s \<Longrightarrow> daoDelete dao ctx i s = (Done None, s') \<Longrightarrow>
        store_ok s' \<and> rows s' = (rows s)(i := None)"
    and delete_Some: "store_ok s \<Longrightarrow> daoDelete dao ctx i s = (Done (Some err), s') \<Longrightarrow>
        store_ok s' \<and> rows s' = rows s"
begin

text \<open>A created entity can be read back, as it was stored, until something else is written.\<close>

lemma create_get:
  assumes "store_ok s" and "daoCreate dao ctx e s = (Done (Inr e'), s')" and "rows s (ID e') = None"
    and "daoGet dao ctx' (ID e') s' = (Done (Inr x), s'')"
  shows "x = stored e'"
proof -
  from create_Inr [OF assms(1,2)] assms(3) have ok: "store_ok s'"
      and upd: "rows s' = (rows s)(ID e' \<mapsto> stored e')" by blast+
  from get_Inr [OF ok assms(4)] have "rows s' (ID e') = Some x" by blast
  then show ?thesis by (simp add: upd)
qed

lemma replace_get:
  assumes "store_ok s" and "daoReplace dao ctx e s = (Done (Inr e'), s')"
    and "daoGet dao ctx' (ID e) s' = (Done (Inr x), s'')"
  shows "x = stored e'"
proof -
  from replace_Inr [OF assms(1,2)] have ok: "store_ok s'"
      and upd: "rows s' = (rows s)(ID e \<mapsto> stored e')" by blast+
  from get_Inr [OF ok assms(3)] have "rows s' (ID e) = Some x" by blast
  then show ?thesis by (simp add: upd)
qed

lemma delete_get:
  assumes "store_ok s" and "daoDelete dao ctx i s = (Done None, s')"
  shows "daoGet dao ctx' i s' \<noteq> (Done (Inr x), s'')"
proof
  assume got: "daoGet dao ctx' i s' = (Done (Inr x), s'')"
  from delete_None [OF assms] have ok: "store_ok s'" and upd: "rows s' = (rows s)(i := None)" by blast+
  from get_Inr [OF ok got] upd show False by simp
qed

end

text \<open>The documented behaviour of gorm on a table, for the observation \<open>rows\<close> of its live rows.\<close>

definition table_law :: "('m meta_scheme, 'w) gorm_table \<Rightarrow> ('w \<Rightarrow> string \<Rightarrow> 'm meta_scheme option) \<Rightarrow> bool" where
  "table_law t rows \<longleftrightarrow>
     (\<forall>w i w'. gtNewID t w = (i, w') \<longrightarrow> rows w' = rows w) \<and>
     (\<forall>i w e. gtTake t i w = Inr e \<longrightarrow> rows w i = Some e \<and> ID e = i) \<and>
     (\<forall>i w. gtTake t i w = Inl ErrRecordNotFound \<longrightarrow> rows w i = None) \<and>
     (\<forall>e w e' w'. gtCreate t e w = (Inr e', w') \<longrightarrow>
        (\<exists>c u. e' = e\<lparr>CreatedAt := c, UpdatedAt := u\<rparr>) \<and> rows w (ID e) = None \<and>
        rows w' = (rows w)(ID e \<mapsto> gtStored t e')) \<and>
     (\<forall>e w x w'. gtCreate t e w = (Inl x, w') \<longrightarrow> rows w' = rows w) \<and>
     (\<forall>e w e' w'. gtSave t e w = (Inr e', w') \<longrightarrow>
        (\<exists>u. e' = e\<lparr>UpdatedAt := u\<rparr>) \<and> rows w' = (rows w)(ID e \<mapsto> gtStored t e')) \<and>
     (\<forall>e w x w'. gtSave t e w = (Inl x, w') \<longrightarrow> rows w' = rows w) \<and>
     (\<forall>b i w w'. gtDelete t b i w = (None, w') \<longrightarrow> rows w' = (rows w)(i := None)) \<and>
     (\<forall>b i w x w'. gtDelete t b i w = (Some x, w') \<longrightarrow> rows w' = rows w)"

definition exec_law :: "(string \<Rightarrow> 'w \<Rightarrow> go_error option \<times> 'w) \<Rightarrow> ('w \<Rightarrow> 'x) \<Rightarrow> bool" where
  "exec_law exec rows \<longleftrightarrow> (\<forall>sql w r w'. exec sql w = (r, w') \<longrightarrow> rows w' = rows w)"

lemma table_lawD:
  assumes "table_law t rows"
  shows "gtNewID t w = (i, w') \<Longrightarrow> rows w' = rows w"
    and "gtTake t i w = Inr e \<Longrightarrow> rows w i = Some e \<and> ID e = i"
    and "gtTake t i w = Inl ErrRecordNotFound \<Longrightarrow> rows w i = None"
    and "gtCreate t e w = (Inr e', w') \<Longrightarrow> (\<exists>c u. e' = e\<lparr>CreatedAt := c, UpdatedAt := u\<rparr>) \<and>
        rows w (ID e) = None \<and> rows w' = (rows w)(ID e \<mapsto> gtStored t e')"
    and "gtCreate t e w = (Inl x, w') \<Longrightarrow> rows w' = rows w"
    and "gtSave t e w = (Inr e', w') \<Longrightarrow> (\<exists>u. e' = e\<lparr>UpdatedAt := u\<rparr>) \<and>
        rows w' = (rows w)(ID e \<mapsto> gtStored t e')"
    and "gtSave t e w = (Inl x, w') \<Longrightarrow> rows w' = rows w"
    and "gtDelete t b i w = (None, w') \<Longrightarrow> rows w' = (rows w)(i := None)"
    and "gtDelete t b i w = (Some x, w') \<Longrightarrow> rows w' = rows w"
  using assms unfolding table_law_def by simp_all

lemma exec_lawD: "exec_law exec rows \<Longrightarrow> exec sql w = (r, w') \<Longrightarrow> rows w' = rows w"
  by (auto simp: exec_law_def)

text \<open>An entity, and the same with its times rounded.\<close>

definition same_but_times :: "'m meta_scheme \<Rightarrow> 'm meta_scheme \<Rightarrow> bool" where
  "same_but_times e x \<longleftrightarrow> (\<exists>c u v. x = e\<lparr>CreatedAt := c, UpdatedAt := u, DeletedAt := v\<rparr>)"

text \<open>The date of reconciliation is one of the times of an event; whether there is one is kept.\<close>

definition same_event :: "event \<Rightarrow> event \<Rightarrow> bool" where
  "same_event e x \<longleftrightarrow>
     (\<exists>c u v t. x = e\<lparr>CreatedAt := c, UpdatedAt := u, DeletedAt := v, ReconciledDate := t\<rparr> \<and>
        (t = None \<longleftrightarrow> ReconciledDate e = None))"

text \<open>A table of events after one entry has been added, under a key that was free.\<close>

definition logged :: "event \<Rightarrow> (string \<Rightarrow> event option) \<Rightarrow> (string \<Rightarrow> event option) \<Rightarrow> bool" where
  "logged e R R' \<longleftrightarrow> (\<exists>k. R k = None \<and> R' = R(k \<mapsto> e))"

lemma same_but_times_refl [simp]: "same_but_times e e"
  unfolding same_but_times_def by (intro exI [of _ "CreatedAt e"] exI [of _ "UpdatedAt e"] exI [of _ "DeletedAt e"]) simp

lemma same_event_refl [simp]: "same_event e e"
  unfolding same_event_def
  by (intro exI [of _ "CreatedAt e"] exI [of _ "UpdatedAt e"] exI [of _ "DeletedAt e"] exI [of _ "ReconciledDate e"]) simp

section \<open>Interpretation on the two DAOs\<close>

lemma on_db_Done_iff [run_elims]:
  "on_db f S = (Done a, S') \<longleftrightarrow> (\<exists>w. f (twDb S) = (a, w) \<and> S' = S\<lparr>twDb := w\<rparr>)"
  by (auto simp: on_db_def split: prod.splits)

lemma MarkForRollback_db: "MarkForRollback ctx S = Ret S' \<Longrightarrow> twDb S' = twDb S"
  by (auto simp: MarkForRollback_def split: prod.splits bool.splits option.splits)

lemma mark_rollback_db: "twDb (snd (mark_rollback ctx S)) = twDb S"
  by (auto simp: mark_rollback_def split: go.splits dest: MarkForRollback_db)

lemma mark_rollback_Done: "mark_rollback ctx S = (r, S') \<Longrightarrow> twDb S' = twDb S"
  using mark_rollback_db [of ctx S] by simp

lemma mark_on_error_Inr_iff [run_elims]:
  "mark_on_error ctx m f s = (Done (Inr b), s') \<longleftrightarrow>
     (\<exists>a t. m s = (Done (Inr a), t) \<and> f a t = (Done (Inr b), s'))"
  by (auto simp: mark_on_error_def run_bind_def split: prod.splits outcome.splits sum.splits)

lemma mark_on_error_Inl:
  assumes "mark_on_error ctx m f s = (Done (Inl e), s')"
  obtains t where "m s = (Done (Inl e), t)" "twDb s' = twDb t"
  | a t where "m s = (Done (Inr a), t)" "f a t = (Done (Inl e), s')"
  using assms
  by (auto simp: mark_on_error_def run_bind_def split: prod.splits outcome.splits sum.splits
      dest: mark_rollback_Done)

text \<open>A write that is marked on error, and does nothing more when it succeeds.\<close>

lemma mark_on_error_db:
  assumes "mark_on_error ctx (on_db h) f S = (r, S')"
  obtains e w where "h (twDb S) = (Inl e, w)" "twDb S' = w"
  | a w where "h (twDb S) = (Inr a, w)" "f a (S\<lparr>twDb := w\<rparr>) = (r, S')"
  using assms
  by (auto simp: mark_on_error_def run_bind_def on_db_def split: prod.splits outcome.splits sum.splits
      dest: mark_rollback_Done)

definition sql_store_ok ::
    "('m meta_scheme, 'w) gorm_table \<Rightarrow> ('w \<Rightarrow> string \<Rightarrow> 'm meta_scheme option)
     \<Rightarrow> (string \<Rightarrow> 'w \<Rightarrow> go_error option \<times> 'w) \<Rightarrow> 'w tx_world \<Rightarrow> bool" where
  "sql_store_ok t rows exec S \<longleftrightarrow> table_law t rows \<and> exec_law exec rows"

lemma EventDao_Create_step:
  assumes "EventDao_Create t exec ctx e S = (r, S')" and "table_law t rows" and "exec_law exec rows"
  shows "(\<exists>e' i c u. e' = e\<lparr>ID := i, CreatedAt := c, UpdatedAt := u\<rparr> \<and> rows (twDb S) i = None \<and>
      rows (twDb S') = (rows (twDb S))(i \<mapsto> gtStored t e') \<and> (r = Done (Inr e') \<or> (\<exists>err. r = Done (Inl err)))) \<or>
    rows (twDb S') = rows (twDb S) \<and> (\<forall>x. r \<noteq> Done (Inr x))"
proof -
  obtain i w where new: "gtNewID t (twDb S) = (i, w)" by fastforce
  with assms(1) have st: "mark_on_error ctx (on_db (gtCreate t (Event_BeforeCreate i e)))
      (\<lambda>e. run_bind (on_db (exec (notify_sql e)))
         (\<lambda>err. case err of Some err \<Rightarrow> run_ret (Inl err) | None \<Rightarrow> run_ret (Inr e)))
      (S\<lparr>twDb := w\<rparr>) = (r, S')"
    by (simp add: EventDao_Create_def run_bind_def on_db_def)
  note w = table_lawD(1) [OF assms(2) new]
  from st show ?thesis
  proof (rule mark_on_error_db)
    fix err w1 assume "gtCreate t (Event_BeforeCreate i e) (twDb (S\<lparr>twDb := w\<rparr>)) = (Inl err, w1)" "twDb S' = w1"
    then show ?thesis using table_lawD(5) [OF assms(2)] w st
      by (fastforce simp: mark_on_error_def run_bind_def on_db_def mark_rollback_def
          split: prod.splits go.splits)
  next
    fix e1 w1
    assume cr: "gtCreate t (Event_BeforeCreate i e) (twDb (S\<lparr>twDb := w\<rparr>)) = (Inr e1, w1)"
      and rest: "run_bind (on_db (exec (notify_sql e1)))
         (\<lambda>err. case err of Some err \<Rightarrow> run_ret (Inl err) | None \<Rightarrow> run_ret (Inr e1))
         (S\<lparr>twDb := w, twDb := w1\<rparr>) = (r, S')"
    from cr table_lawD(4) [OF assms(2), of "Event_BeforeCreate i e" w e1 w1] w obtain c u where
        e1: "e1 = e\<lparr>ID := i, CreatedAt := c, UpdatedAt := u\<rparr>" "rows (twDb S) i = None"
          "rows w1 = (rows (twDb S))(i \<mapsto> gtStored t e1)"
      by (auto simp: Event_BeforeCreate_def)
    obtain x w2 where ex: "exec (notify_sql e1) w1 = (x, w2)" by fastforce
    with rest exec_lawD [OF assms(3) ex] have "rows (twDb S') = rows w1"
        "r = Done (Inr e1) \<or> (\<exists>err. r = Done (Inl err))"
      by (auto simp: run_bind_def on_db_def split: option.splits)
    with e1 show ?thesis by metis
  qed
qed

lemma save_step:
  assumes "mark_on_error ctx (on_db (gtSave t e)) (\<lambda>e. run_ret (Inr e)) S = (r, S')" and "table_law t rows"
  shows "(\<exists>e' u. e' = e\<lparr>UpdatedAt := u\<rparr> \<and> r = Done (Inr e') \<and>
      rows (twDb S') = (rows (twDb S))(ID e \<mapsto> gtStored t e')) \<or>
    (rows (twDb S') = rows (twDb S) \<and> (\<forall>x. r \<noteq> Done (Inr x)))"
proof (cases "gtSave t e (twDb S)")
  case (Pair x w)
  show ?thesis
  proof (cases x)
    case (Inl err)
    have "twDb S' = w" "\<forall>y. r \<noteq> Done (Inr y)"
      using assms(1) Pair Inl
      by (auto simp: mark_on_error_def run_bind_def on_db_def
          split: prod.splits outcome.splits dest: mark_rollback_Done)
    with table_lawD(7) [OF assms(2) Pair [unfolded Inl]] show ?thesis by simp
  next
    case (Inr e')
    then have "r = Done (Inr e')" "twDb S' = w"
      using assms(1) Pair by (auto simp: mark_on_error_def run_bind_def on_db_def)
    with table_lawD(6) [OF assms(2) Pair [unfolded Inr]] show ?thesis by blast
  qed
qed

lemma EventDao_Replace_step:
  assumes "EventDao_Replace t ctx e S = (r, S')" and "table_law t rows"
  shows "(\<exists>e' u. e' = e\<lparr>UpdatedAt := u\<rparr> \<and> r = Done (Inr e') \<and>
      rows (twDb S') = (rows (twDb S))(ID e \<mapsto> gtStored t e')) \<or>
    (rows (twDb S') = rows (twDb S) \<and> (\<forall>x. r \<noteq> Done (Inr x)))"
  using assms unfolding EventDao_Replace_def by (rule save_step)

lemma delete_row_step:
  assumes "delete_row t b ctx i S = (r, S')" and "table_law t rows"
  shows "(r = Done None \<longrightarrow> rows (twDb S') = (rows (twDb S))(i := None)) \<and>
    (r \<noteq> Done None \<longrightarrow> rows (twDb S') = rows (twDb S))"
proof (cases "gtDelete t b i (twDb S)")
  case (Pair x w)
  show ?thesis
  proof (cases x)
    case (Some err)
    have "twDb S' = w" "r \<noteq> Done None"
      using assms(1) Pair Some
      by (auto simp: delete_row_def run_bind_def on_db_def split: prod.splits outcome.splits
          dest: mark_rollback_Done)
    with table_lawD(9) [OF assms(2) Pair [unfolded Some]] show ?thesis by simp
  next
    case None
    then have "r = Done None" "twDb S' = w"
      using assms(1) Pair by (auto simp: delete_row_def run_bind_def on_db_def)
    with table_lawD(8) [OF assms(2) Pair [unfolded None]] show ?thesis by simp
  qed
qed

interpretation sqlevents: entity_store "sqlEventDao t exec" "\<lambda>S. rows (twDb S)" "gtStored t" "sql_store_ok t rows exec"
  for t exec rows
proof unfold_locales
  fix s s' :: "'a tx_world" and ctx e r
  assume ok: "sql_store_ok t rows exec s" and run: "daoCreate (sqlEventDao t exec) ctx e s = (r, s')"
  have law: "table_law t rows" "exec_law exec rows" using ok by (simp_all add: sql_store_ok_def)
  from run have "EventDao_Create t exec ctx e s = (r, s')" by (simp add: sqlEventDao_def)
  note step = EventDao_Create_step [OF this law]
  show "sql_store_ok t rows exec s' \<and> (\<forall>i x. rows (twDb s) i = Some x \<longrightarrow> rows (twDb s') i = Some x)"
    using step law by (auto simp: sql_store_ok_def)
next
  fix s s' :: "'a tx_world" and ctx e e'
  assume ok: "sql_store_ok t rows exec s"
    and run: "daoCreate (sqlEventDao t exec) ctx e s = (Done (Inr e'), s')"
  have law: "table_law t rows" "exec_law exec rows" using ok by (simp_all add: sql_store_ok_def)
  from run have "EventDao_Create t exec ctx e s = (Done (Inr e'), s')" by (simp add: sqlEventDao_def)
  from EventDao_Create_step [OF this law] obtain i c u where
      "e' = e\<lparr>ID := i, CreatedAt := c, UpdatedAt := u\<rparr>" "rows (twDb s') = (rows (twDb s))(i \<mapsto> gtStored t e')"
    by auto
  then show "sql_store_ok t rows exec s' \<and> (\<exists>k c u. e' = e\<lparr>ID := k, CreatedAt := c, UpdatedAt := u\<rparr>) \<and>
      (rows (twDb s) (ID e') = None \<longrightarrow> rows (twDb s') = (rows (twDb s))(ID e' \<mapsto> gtStored t e'))"
    using law by (auto simp: sql_store_ok_def)
next
  fix s s' :: "'a tx_world" and ctx e e'
  assume ok: "sql_store_ok t rows exec s"
    and run: "daoReplace (sqlEventDao t exec) ctx e s = (Done (Inr e'), s')"
  from run have "EventDao_Replace t ctx e s = (Done (Inr e'), s')" by (simp add: sqlEventDao_def)
  from EventDao_Replace_step [OF this] ok
  show "sql_store_ok t rows exec s' \<and> (\<exists>u. e' = e\<lparr>UpdatedAt := u\<rparr>) \<and>
      rows (twDb s') = (rows (twDb s))(ID e \<mapsto> gtStored t e')"
    by (auto simp: sql_store_ok_def)
next
  fix s s' :: "'a tx_world" and ctx e err
  assume ok: "sql_store_ok t rows exec s"
    and run: "daoReplace (sqlEventDao t exec) ctx e s = (Done (Inl err), s')"
  from run have "EventDao_Replace t ctx e s = (Done (Inl err), s')" by (simp add: sqlEventDao_def)
  from EventDao_Replace_step [OF this] ok
  show "sql_store_ok t rows exec s' \<and> rows (twDb s') = rows (twDb s)"
    by (auto simp: sql_store_ok_def)
next
  fix s s' :: "'a tx_world" and ctx i
  assume ok: "sql_store_ok t rows exec s" and run: "daoDelete (sqlEventDao t exec) ctx i s = (Done None, s')"
  from run have "delete_row t True ctx i s = (Done None, s')" by (simp add: sqlEventDao_def EventDao_Delete_def)
  from delete_row_step [OF this] ok
  show "sql_store_ok t rows exec s' \<and> rows (twDb s') = (rows (twDb s))(i := None)"
    by (auto simp: sql_store_ok_def)
next
  fix s s' :: "'a tx_world" and ctx i err
  assume ok: "sql_store_ok t rows exec s" and run: "daoDelete (sqlEventDao t exec) ctx i s = (Done (Some err), s')"
  from run have "delete_row t True ctx i s = (Done (Some err), s')"
    by (simp add: sqlEventDao_def EventDao_Delete_def)
  from delete_row_step [OF this] ok
  show "sql_store_ok t rows exec s' \<and> rows (twDb s') = rows (twDb s)"
    by (auto simp: sql_store_ok_def)
qed (auto simp: sqlEventDao_def EventDao_Get_def sql_store_ok_def dest: table_lawD(2,3))

lemma find_ID_Some: "find_ID i es = Some e \<Longrightarrow> e \<in> set es \<and> ID e = i"
  by (induction es) (auto split: if_splits)

lemma find_ID_append: "find_ID i (es @ fs) = (case find_ID i es of Some e \<Rightarrow> Some e | None \<Rightarrow> find_ID i fs)"
  by (induction es) auto

lemma find_ID_filter: "find_ID j (filter (\<lambda>e. ID e \<noteq> i) es) = (if j = i then None else find_ID j es)"
  by (induction es) auto

lemma meta_upd_same: "\<exists>k c u. (e :: 'm meta_scheme) = e\<lparr>ID := k, CreatedAt := c, UpdatedAt := u\<rparr>"
  by (cases e) simp

interpretation mockevents: entity_store "eventDaoMock g" "\<lambda>es i. find_ID i es" "\<lambda>e. e" "\<lambda>_. True" for g
  by unfold_locales
     (auto simp: eventDaoMock_def mock_get_def mock_append_def run_bind_def find_ID_append find_ID_filter
        fun_eq_iff intro: meta_upd_same dest: find_ID_Some split: option.splits)

end
