(* ===== verification/Dinosaurs.thy ===== *)
theory Dinosaurs
  imports Events Advisory_Locks
begin

text \<open>
  The dinosaurs plugin below its handlers: \<^verbatim>\<open>plugins/dinosaurs/model.go\<close>,
  \<^verbatim>\<open>dao.go\<close>, \<^verbatim>\<open>mock_dao.go\<close>, \<^verbatim>\<open>service.go\<close>. The service is
  written against three interfaces, the lock factory, the DAO and the event service, all over one
  state \<open>'s\<close>. The entities a DAO returns are values here; that the mock hands out pointers to its
  own entities is not modelled.
\<close>

section \<open>model.go\<close>

record dinosaur = meta +
  Species :: string

definition DinosaurList_Index :: "dinosaur list \<Rightarrow> (string \<rightharpoonup> dinosaur)" where
  "DinosaurList_Index l = index_by_ID l Map.empty"

definition Dinosaur_BeforeCreate :: "string \<Rightarrow> dinosaur \<Rightarrow> dinosaur" where
  "Dinosaur_BeforeCreate newID d = d\<lparr>ID := newID\<rparr>"

section \<open>dao.go\<close>

record 's dinosaur_dao = "(dinosaur, 's) crud_dao" +
  daoFindBySpecies :: "req_context \<Rightarrow> string \<Rightarrow> ('s, go_error + dinosaur list) proc"

definition DinosaurDao_Get ::
    "(dinosaur, 'w) gorm_table \<Rightarrow> req_context \<Rightarrow> string \<Rightarrow> ('w tx_world, go_error + dinosaur) proc" where
  "DinosaurDao_Get t ctx did = run_read (\<lambda>S. gtTake t did (twDb S))"

definition DinosaurDao_Create ::
    "(dinosaur, 'w) gorm_table \<Rightarrow> req_context \<Rightarrow> dinosaur \<Rightarrow> ('w tx_world, go_error + dinosaur) proc" where
  "DinosaurDao_Create t ctx d =
     run_bind (on_db (gtNewID t)) (\<lambda>newID.
     mark_on_error ctx (on_db (gtCreate t (Dinosaur_BeforeCreate newID d))) (\<lambda>d. run_ret (Inr d)))"

definition DinosaurDao_Replace ::
    "(dinosaur, 'w) gorm_table \<Rightarrow> req_context \<Rightarrow> dinosaur \<Rightarrow> ('w tx_world, go_error + dinosaur) proc" where
  "DinosaurDao_Replace t ctx d = mark_on_error ctx (on_db (gtSave t d)) (\<lambda>d. run_ret (Inr d))"

definition DinosaurDao_Delete ::
    "(dinosaur, 'w) gorm_table \<Rightarrow> req_context \<Rightarrow> string \<Rightarrow> ('w tx_world, go_error option) proc" where
  "DinosaurDao_Delete t ctx did = delete_row t False ctx did"

definition DinosaurDao_FindByIDs ::
    "(dinosaur, 'w) gorm_table \<Rightarrow> req_context \<Rightarrow> string list \<Rightarrow> ('w tx_world, go_error + dinosaur list) proc" where
  "DinosaurDao_FindByIDs t ctx ids = run_read (\<lambda>S. gtFindIn t ids (twDb S))"

definition DinosaurDao_FindBySpecies ::
    "(dinosaur, 'w) gorm_table \<Rightarrow> req_context \<Rightarrow> string \<Rightarrow> ('w tx_world, go_error + dinosaur list) proc" where
  "DinosaurDao_FindBySpecies t ctx species = run_read (\<lambda>S. gtFindEq t ''species = ?'' species (twDb S))"

definition DinosaurDao_All ::
    "(dinosaur, 'w) gorm_table \<Rightarrow> req_context \<Rightarrow> ('w tx_world, go_error + dinosaur list) proc" where
  "DinosaurDao_All t ctx = run_read (\<lambda>S. gtFind t (twDb S))"

definition sqlDinosaurDao :: "(dinosaur, 'w) gorm_table \<Rightarrow> 'w tx_world dinosaur_dao" where
  "sqlDinosaurDao t =
     \<lparr>daoGet = DinosaurDao_Get t, daoCreate = DinosaurDao_Create t, daoReplace = DinosaurDao_Replace t,
      daoDelete = DinosaurDao_Delete t, daoFindByIDs = DinosaurDao_FindByIDs t, daoAll = DinosaurDao_All t,
      daoFindBySpecies = DinosaurDao_FindBySpecies t\<rparr>"

section \<open>mock\_dao.go\<close>

definition dinosaurDaoMock :: "error_config \<Rightarrow> dinosaur list dinosaur_dao" where
  "dinosaurDaoMock g =
     \<lparr>daoGet = (\<lambda>ctx i. mock_get i),
      daoCreate = (\<lambda>ctx d. mock_append d),
      daoReplace = (\<lambda>ctx d. run_ret (Inl (not_implemented g ''Dinosaur''))),
      daoDelete = (\<lambda>ctx i. run_ret (Some (not_implemented g ''Dinosaur''))),
      daoFindByIDs = (\<lambda>ctx ids. run_ret (Inl (not_implemented g ''Dinosaur''))),
      daoAll = (\<lambda>ctx. run_read (\<lambda>ds. Inr ds)),
      daoFindBySpecies = (\<lambda>ctx species. run_read (\<lambda>ds. Inr (filter (\<lambda>d. Species d = species) ds)))\<rparr>"

section \<open>service.go\<close>

record 's dinosaur_service =
  dsGet :: "req_context \<Rightarrow> string \<Rightarrow> ('s, service_error + dinosaur) proc"
  dsCreate :: "req_context \<Rightarrow> dinosaur \<Rightarrow> ('s, service_error + dinosaur) proc"
  dsReplace :: "req_context \<Rightarrow> dinosaur \<Rightarrow> ('s, service_error + dinosaur) proc"
  dsDelete :: "req_context \<Rightarrow> string \<Rightarrow> ('s, service_error option) proc"
  dsAll :: "req_context \<Rightarrow> ('s, service_error + dinosaur list) proc"
  dsFindBySpecies :: "req_context \<Rightarrow> string \<Rightarrow> ('s, service_error + dinosaur list) proc"
  dsFindByIDs :: "req_context \<Rightarrow> string list \<Rightarrow> ('s, service_error + dinosaur list) proc"
  dsOnUpsert :: "req_context \<Rightarrow> string \<Rightarrow> ('s, go_error option) proc"
  dsOnDelete :: "req_context \<Rightarrow> string \<Rightarrow> ('s, go_error option) proc"

definition dinosaursLockType :: string where
  "dinosaursLockType = ''dinosaurs''"

text \<open>The package variables that choose the locking.\<close>

record lock_mode =
  DisableAdvisoryLock :: bool
  UseBlockingAdvisoryLock :: bool

definition default_lock_mode :: lock_mode where
  "default_lock_mode = \<lparr>DisableAdvisoryLock = False, UseBlockingAdvisoryLock = True\<rparr>"

definition call_new :: "('s, 'z) lock_factory_scheme \<Rightarrow> string \<Rightarrow> string \<Rightarrow> ('s, string \<times> go_error option) proc" where
  "call_new lf i ty s = (case lfNew lf i ty s of None \<Rightarrow> (Blocked, s) | Some (r, s') \<Rightarrow> (Done r, s'))"

definition call_try ::
    "('s, 'z) lock_factory_scheme \<Rightarrow> string \<Rightarrow> string \<Rightarrow> ('s, string \<times> bool \<times> go_error option) proc" where
  "call_try lf i ty s = (case lfTry lf i ty s of (r, s') \<Rightarrow> (Done r, s'))"

definition dinosaur_event :: "string \<Rightarrow> event_type \<Rightarrow> event" where
  "dinosaur_event did ty =
     \<lparr>ID = [], CreatedAt = 0, UpdatedAt = 0, DeletedAt = None,
      Source = ''Dinosaurs'', SourceID = did, EventType = ty, ReconciledDate = None\<rparr>"

definition OnUpsert :: "'s dinosaur_dao \<Rightarrow> req_context \<Rightarrow> string \<Rightarrow> ('s, go_error option) proc" where
  "OnUpsert dao ctx did =
     run_bind (daoGet dao ctx did) (\<lambda>r. case r of Inl err \<Rightarrow> run_ret (Some err) | Inr d \<Rightarrow> run_ret None)"

definition OnDelete :: "req_context \<Rightarrow> string \<Rightarrow> ('s, go_error option) proc" where
  "OnDelete ctx did = run_ret None"

definition DinosaurService_Get ::
    "error_config \<Rightarrow> 's dinosaur_dao \<Rightarrow> req_context \<Rightarrow> string \<Rightarrow> ('s, service_error + dinosaur) proc" where
  "DinosaurService_Get g dao ctx did =
     run_try (daoGet dao ctx did) (HandleGetError g ''Dinosaur'' ''id'' did) (\<lambda>d. run_ret (Inr d))"

definition DinosaurService_Create ::
    "error_config \<Rightarrow> 's dinosaur_dao \<Rightarrow> 's event_service \<Rightarrow> req_context \<Rightarrow> dinosaur
     \<Rightarrow> ('s, service_error + dinosaur) proc" where
  "DinosaurService_Create g dao ev ctx d =
     run_try (daoCreate dao ctx d) (HandleCreateError g ''Dinosaur'') (\<lambda>d.
     run_try (esCreate ev ctx (dinosaur_event (ID d) CreateEventType))
       (\<lambda>eErr. HandleCreateError g ''Dinosaur'' (SvcError eErr)) (\<lambda>_. run_ret (Inr d)))"

text \<open>The part of \<^verbatim>\<open>Replace\<close> after the lock.\<close>

definition replace_locked ::
    "error_config \<Rightarrow> 's dinosaur_dao \<Rightarrow> 's event_service \<Rightarrow> req_context \<Rightarrow> dinosaur
     \<Rightarrow> ('s, service_error + dinosaur) proc" where
  "replace_locked g dao ev ctx d =
     run_try (daoGet dao ctx (ID d)) (HandleGetError g ''Dinosaur'' ''id'' (ID d)) (\<lambda>found.
       if Species found = Species d then run_ret (Inr found)
       else
         run_try (daoReplace dao ctx (found\<lparr>Species := Species d\<rparr>)) (HandleUpdateError g ''Dinosaur'') (\<lambda>updated.
         run_try (esCreate ev ctx (dinosaur_event (ID updated) UpdateEventType))
           (\<lambda>eErr. HandleUpdateError g ''Dinosaur'' (SvcError eErr)) (\<lambda>_. run_ret (Inr updated))))"

definition DinosaurService_Replace ::
    "error_config \<Rightarrow> lock_mode \<Rightarrow> 's lock_factory \<Rightarrow> 's dinosaur_dao \<Rightarrow> 's event_service
     \<Rightarrow> req_context \<Rightarrow> dinosaur \<Rightarrow> ('s, service_error + dinosaur) proc" where
  "DinosaurService_Replace g mode lf dao ev ctx d =
     (if DisableAdvisoryLock mode then replace_locked g dao ev ctx d
      else if UseBlockingAdvisoryLock mode
      then run_bind (call_new lf (ID d) dinosaursLockType) (\<lambda>(lockOwnerID, err).
             case err of
               Some err \<Rightarrow> run_ret (Inl (DatabaseAdvisoryLock g err))
             | None \<Rightarrow> run_defer (run_modify (lfUnlock lf lockOwnerID)) (replace_locked g dao ev ctx d))
      else run_bind (call_try lf (ID d) dinosaursLockType) (\<lambda>(lockOwnerID, locked, err).
             case err of
               Some err \<Rightarrow> run_ret (Inl (DatabaseAdvisoryLock g err))
             | None \<Rightarrow>
                 if \<not> locked
                 then run_ret (Inl (HandleUpdateError g ''Dinosaur'' (SvcError (New ErrorConflict ''row locked'' []))))
                 else run_defer (run_modify (lfUnlock lf lockOwnerID)) (replace_locked g dao ev ctx d)))"

definition DinosaurService_Delete ::
    "error_config \<Rightarrow> 's dinosaur_dao \<Rightarrow> 's event_service \<Rightarrow> req_context \<Rightarrow> string
     \<Rightarrow> ('s, service_error option) proc" where
  "DinosaurService_Delete g dao ev ctx did =
     run_bind (daoDelete dao ctx did) (\<lambda>err. case err of
       Some err \<Rightarrow> run_ret (Some (HandleDeleteError g ''Dinosaur''
           (SvcError (GeneralError ''Unable to delete dinosaur: %s'' [FStr (Error g err)]))))
     | None \<Rightarrow>
         run_bind (esCreate ev ctx (dinosaur_event did DeleteEventType)) (\<lambda>r. case r of
           Inl err \<Rightarrow> run_ret (Some (HandleDeleteError g ''Dinosaur'' (SvcError err)))
         | Inr _ \<Rightarrow> run_ret None))"

definition DinosaurService_FindByIDs ::
    "error_config \<Rightarrow> 's dinosaur_dao \<Rightarrow> req_context \<Rightarrow> string list \<Rightarrow> ('s, service_error + dinosaur list) proc" where
  "DinosaurService_FindByIDs g dao ctx ids =
     run_try (daoFindByIDs dao ctx ids) (get_all_error g ''dinosaurs'') (\<lambda>ds. run_ret (Inr ds))"

definition DinosaurService_FindBySpecies ::
    "error_config \<Rightarrow> 's dinosaur_dao \<Rightarrow> req_context \<Rightarrow> string \<Rightarrow> ('s, service_error + dinosaur list) proc" where
  "DinosaurService_FindBySpecies g dao ctx species =
     run_try (daoFindBySpecies dao ctx species) (HandleGetError g ''Dinosaur'' ''species'' species)
       (\<lambda>ds. run_ret (Inr ds))"

definition DinosaurService_All ::
    "error_config \<Rightarrow> 's dinosaur_dao \<Rightarrow> req_context \<Rightarrow> ('s, service_error + dinosaur list) proc" where
  "DinosaurService_All g dao ctx =
     run_try (daoAll dao ctx) (get_all_error g ''dinosaurs'') (\<lambda>ds. run_ret (Inr ds))"

definition NewDinosaurService ::
    "error_config \<Rightarrow> lock_mode \<Rightarrow> 's lock_factory \<Rightarrow> 's dinosaur_dao \<Rightarrow> 's event_service \<Rightarrow> 's dinosaur_service" where
  "NewDinosaurService g mode lf dao ev =
     \<lparr>dsGet = DinosaurService_Get g dao, dsCreate = DinosaurService_Create g dao ev,
      dsReplace = DinosaurService_Replace g mode lf dao ev, dsDelete = DinosaurService_Delete g dao ev,
      dsAll = DinosaurService_All g dao, dsFindBySpecies = DinosaurService_FindBySpecies g dao,
      dsFindByIDs = DinosaurService_FindByIDs g dao, dsOnUpsert = OnUpsert dao, dsOnDelete = OnDelete\<rparr>"

end
