(* ===== verification/Dinosaur_Env.thy ===== *)
theory Dinosaur_Env
  imports Dinosaurs
begin

text \<open>
  The dinosaur service in its environment: the contract of the three interfaces it is wired to
  (\<^verbatim>\<open>plugins/dinosaurs/plugin.go\<close>, \<^verbatim>\<open>NewServiceLocator\<close>), what follows
  for the service, and the two environments that provide it, the SQL one and the one of mocks in
  \<^verbatim>\<open>service_test.go\<close>.
\<close>

section \<open>The environment\<close>

text \<open>An event of a type about a dinosaur.\<close>

definition about :: "string \<Rightarrow> event_type \<Rightarrow> event \<Rightarrow> bool" where
  "about did ty e \<longleftrightarrow> Source e = ''Dinosaurs'' \<and> SourceID e = did \<and> EventType e = ty \<and> ReconciledDate e = None"

locale dinosaur_env =
    entity_store dao rows stored ok + lock_owners lf owners ok
    for dao :: "'s dinosaur_dao" and rows :: "'s \<Rightarrow> string \<Rightarrow> dinosaur option"
      and stored :: "dinosaur \<Rightarrow> dinosaur" and ok :: "'s \<Rightarrow> bool"
      and lf :: "'s lock_factory" and owners :: "'s \<Rightarrow> string set" +
  fixes ev :: "'s event_service" and evs :: "'s \<Rightarrow> 'l" and added :: "event \<Rightarrow> 'l \<Rightarrow> 'l \<Rightarrow> bool"
  assumes get_frame: "ok s \<Longrightarrow> daoGet dao ctx i s = (r, s') \<Longrightarrow> ok s' \<and> owners s' = owners s \<and> evs s' = evs s"
    and create_frame: "ok s \<Longrightarrow> daoCreate dao ctx d s = (r, s') \<Longrightarrow>
        ok s' \<and> owners s' = owners s \<and> evs s' = evs s"
    and replace_frame: "ok s \<Longrightarrow> daoReplace dao ctx d s = (r, s') \<Longrightarrow>
        ok s' \<and> owners s' = owners s \<and> evs s' = evs s"
    and delete_frame: "ok s \<Longrightarrow> daoDelete dao ctx i s = (q, s') \<Longrightarrow>
        ok s' \<and> owners s' = owners s \<and> evs s' = evs s"
    and event_frame: "ok s \<Longrightarrow> esCreate ev ctx e s = (x, s') \<Longrightarrow>
        ok s' \<and> owners s' = owners s \<and> rows s' = rows s"
    and event_Inr: "ok s \<Longrightarrow> esCreate ev ctx e s = (Done (Inr e'), s') \<Longrightarrow>
        (\<exists>k c u. e' = e\<lparr>ID := k, CreatedAt := c, UpdatedAt := u\<rparr>) \<and>
        (\<exists>x. same_event e' x \<and> added x (evs s) (evs s'))"
    and new_frame: "ok s \<Longrightarrow> lfNew lf i ty s = Some (p, s') \<Longrightarrow> rows s' = rows s \<and> evs s' = evs s"
    and try_frame: "ok s \<Longrightarrow> lfTry lf i ty s = (t, s') \<Longrightarrow> rows s' = rows s \<and> evs s' = evs s"
    and unlock_frame: "ok s \<Longrightarrow> rows (lfUnlock lf u s) = rows s \<and> evs (lfUnlock lf u s) = evs s"
begin

lemma event_about:
  assumes "ok s" and "esCreate ev ctx (dinosaur_event did ty) s = (Done (Inr e'), s')"
  shows "\<exists>x. about did ty x \<and> added x (evs s) (evs s')"
proof -
  from event_Inr [OF assms] obtain k c u x where e': "e' = (dinosaur_event did ty)\<lparr>ID := k, CreatedAt := c, UpdatedAt := u\<rparr>"
      and x: "same_event e' x" "added x (evs s) (evs s')" by blast
  from x(1) have "about did ty x" by (auto simp: e' same_event_def about_def dinosaur_event_def)
  with x(2) show ?thesis by blast
qed

lemma replace_locked_Inr:
  assumes "ok s" and "replace_locked g dao ev ctx d s = (Done (Inr d'), s')"
  obtains (same) old where "rows s (ID d) = Some old" "Species old = Species d" "d' = old"
      "rows s' = rows s" "evs s' = evs s"
  | (changed) old e where "rows s (ID d) = Some old" "Species old \<noteq> Species d"
      "\<exists>u. d' = old\<lparr>Species := Species d, UpdatedAt := u\<rparr>"
      "rows s' = (rows s)(ID d \<mapsto> stored d')" "added e (evs s) (evs s')" "about (ID d) UpdateEventType e"
proof -
  from assms(2) obtain old t where got: "daoGet dao ctx (ID d) s = (Done (Inr old), t)"
      and rest: "(if Species old = Species d then run_ret (Inr old)
       else
         run_try (daoReplace dao ctx (old\<lparr>Species := Species d\<rparr>)) (HandleUpdateError g ''Dinosaur'') (\<lambda>updated.
         run_try (esCreate ev ctx (dinosaur_event (ID updated) UpdateEventType))
           (\<lambda>eErr. HandleUpdateError g ''Dinosaur'' (SvcError eErr)) (\<lambda>_. run_ret (Inr updated)))) t
        = (Done (Inr d'), s')"
    unfolding replace_locked_def run_try_Inr_iff by blast
  have old: "t = s" "rows s (ID d) = Some old" "ID old = ID d" using get_Inr [OF assms(1) got] by auto
  show thesis
  proof (cases "Species old = Species d")
    case True
    with rest old show thesis by (intro same) auto
  next
    case False
    with rest old obtain upd t1 e t2 where st:
        "daoReplace dao ctx (old\<lparr>Species := Species d\<rparr>) s = (Done (Inr upd), t1)"
        "esCreate ev ctx (dinosaur_event (ID upd) UpdateEventType) t1 = (Done (Inr e), t2)"
        "d' = upd" "s' = t2"
      by (auto simp: run_try_Inr_iff)
    from replace_Inr [OF assms(1) st(1)] obtain u where upd: "ok t1"
        "upd = old\<lparr>Species := Species d, UpdatedAt := u\<rparr>" "rows t1 = (rows s)(ID d \<mapsto> stored upd)"
      using old(3) by auto
    have "evs t1 = evs s" using replace_frame [OF assms(1) st(1)] by simp
    moreover have "rows t2 = rows t1" using event_frame [OF upd(1) st(2)] by simp
    moreover obtain x where "about (ID d) UpdateEventType x" "added x (evs t1) (evs t2)"
      using event_about [OF upd(1) st(2)] upd(2) old(3) by auto
    ultimately show thesis
      using old(2) False upd st(3,4) by (intro changed [of old x]) auto
  qed
qed

text \<open>However it ends, the part after the lock leaves the owners alone.\<close>

definition held_by :: "string set \<Rightarrow> 's \<Rightarrow> bool" where
  "held_by own s \<longleftrightarrow> ok s \<and> owners s = own"

lemma held_keeps:
  assumes "\<And>s r s'. ok s \<Longrightarrow> m s = (r, s') \<Longrightarrow> ok s' \<and> owners s' = owners s"
  shows "keeps (held_by own) m"
proof (rule keepsI)
  fix s assume "held_by own s"
  moreover obtain r s' where "m s = (r, s')" by fastforce
  ultimately show "held_by own (snd (m s))" using assms [of s r s'] by (simp add: held_by_def)
qed

lemma keeps_dao:
  "keeps (held_by own) (daoGet dao ctx i)" "keeps (held_by own) (daoCreate dao ctx d)"
  "keeps (held_by own) (daoReplace dao ctx d)" "keeps (held_by own) (daoDelete dao ctx i)"
  "keeps (held_by own) (esCreate ev ctx e)"
  by (rule held_keeps, frule (1) get_frame, simp)
     (rule held_keeps, frule (1) create_frame, simp,
      rule held_keeps, frule (1) replace_frame, simp,
      rule held_keeps, frule (1) delete_frame, simp,
      rule held_keeps, frule (1) event_frame, simp)

lemma keeps_replace_locked: "keeps (held_by own) (replace_locked g dao ev ctx d)"
  unfolding replace_locked_def by (intro keeps_intros keeps_dao)

lemma replace_locked_owners:
  assumes "ok s" and "replace_locked g dao ev ctx d s = (r, s')"
  shows "ok s' \<and> owners s' = owners s"
  using keepsD [OF keeps_replace_locked [of "owners s"] _ assms(2)] assms(1) by (simp add: held_by_def)

text \<open>The blocking mode gives its lock back however it ends, a panic included.\<close>

lemma replace_blocking_owners:
  assumes "ok s" and "\<not> DisableAdvisoryLock mode" and "UseBlockingAdvisoryLock mode"
    and "DinosaurService_Replace g mode lf dao ev ctx d s = (r, s')" and "r \<noteq> Blocked"
  shows "owners s' = owners s"
proof (cases "lfNew lf (ID d) dinosaursLockType s")
  case None
  with assms show ?thesis by (auto simp: DinosaurService_Replace_def call_new_def run_bind_def)
next
  case (Some q)
  then obtain u err s1 where new: "lfNew lf (ID d) dinosaursLockType s = Some ((u, err), s1)"
    by (cases q) auto
  show ?thesis
  proof (cases err)
    case (Some e)
    with new assms(2-4) have "s' = s1" by (auto simp: DinosaurService_Replace_def call_new_def run_bind_def)
    with new_error [OF new [unfolded Some]] show ?thesis by simp
  next
    case None
    obtain r1 s2 where body: "replace_locked g dao ev ctx d s1 = (r1, s2)" by fastforce
    with new None assms(2-5) have "s' = lfUnlock lf u s2"
      by (auto simp: DinosaurService_Replace_def call_new_def run_bind_def run_defer_modify
          split: outcome.splits)
    moreover have "owners s2 = owners s1"
      using replace_locked_owners [OF _ body] new_owner [OF assms(1) new] by blast
    ultimately show ?thesis using bracket [OF assms(1) new] by blast
  qed
qed

text \<open>What a successful replacement has done, in each locking mode.\<close>

lemma replace_spec:
  assumes "ok s" and "DinosaurService_Replace g mode lf dao ev ctx d s = (Done (Inr d'), s')"
  shows "\<exists>old. rows s (ID d) = Some old \<and> owners s' = owners s \<and>
    (if Species old = Species d then d' = old \<and> rows s' = rows s \<and> evs s' = evs s
     else (\<exists>u e. d' = old\<lparr>Species := Species d, UpdatedAt := u\<rparr> \<and> rows s' = (rows s)(ID d \<mapsto> stored d') \<and>
             about (ID d) UpdateEventType e \<and> added e (evs s) (evs s')))"
proof -
  obtain s1 s2 where run: "ok s1" "rows s1 = rows s" "evs s1 = evs s"
      "replace_locked g dao ev ctx d s1 = (Done (Inr d'), s2)"
      "rows s' = rows s2" "evs s' = evs s2" "owners s' = owners s"
  proof (cases "DisableAdvisoryLock mode")
    case True
    with assms replace_locked_owners [OF assms(1)] that [of s s'] show thesis
      by (simp add: DinosaurService_Replace_def)
  next
    case unlocked: False
    show thesis
    proof (cases "UseBlockingAdvisoryLock mode")
      case True
      from assms(2) unlocked True obtain u s1 s2 where
          new: "lfNew lf (ID d) dinosaursLockType s = Some ((u, None), s1)"
          and body: "replace_locked g dao ev ctx d s1 = (Done (Inr d'), s2)" "s' = lfUnlock lf u s2"
        by (auto simp: DinosaurService_Replace_def call_new_def run_elims split: option.splits)
      from new_owner [OF assms(1) new] have "ok s1" by blast
      with body replace_locked_owners [OF _ body(1)] new_frame [OF assms(1) new] unlock_frame [of s2 u]
        bracket [OF assms(1) new] that [of s1 s2] show thesis by simp
    next
      case False
      from assms(2) unlocked False obtain u s1 s2 where
          new: "lfTry lf (ID d) dinosaursLockType s = ((u, True, None), s1)"
          and body: "replace_locked g dao ev ctx d s1 = (Done (Inr d'), s2)" "s' = lfUnlock lf u s2"
        by (auto simp: DinosaurService_Replace_def call_try_def run_elims split: option.splits prod.splits if_splits)
      from try_owner [OF assms(1) new] have "ok s1" by blast
      with body replace_locked_owners [OF _ body(1)] try_frame [OF assms(1) new] unlock_frame [of s2 u]
        try_bracket [OF assms(1) new] that [of s1 s2] show thesis by simp
    qed
  qed
  from run(1,4) show ?thesis
    by (rule replace_locked_Inr) (use run in auto)
qed

lemma create_spec:
  assumes "ok s" and "DinosaurService_Create g dao ev ctx d s = (Done (Inr d'), s')"
    and "rows s (ID d') = None"
  shows "rows s' = (rows s)(ID d' \<mapsto> stored d') \<and> Species d' = Species d \<and> owners s' = owners s \<and>
    (\<exists>e. about (ID d') CreateEventType e \<and> added e (evs s) (evs s'))"
proof -
  from assms(2) obtain t e where st: "daoCreate dao ctx d s = (Done (Inr d'), t)"
      "esCreate ev ctx (dinosaur_event (ID d') CreateEventType) t = (Done (Inr e), s')"
    by (auto simp: DinosaurService_Create_def run_elims)
  from create_Inr [OF assms(1) st(1)] assms(3) obtain k c u where t: "ok t"
      "d' = d\<lparr>ID := k, CreatedAt := c, UpdatedAt := u\<rparr>" "rows t = (rows s)(ID d' \<mapsto> stored d')" by blast
  from t(2) have "Species d' = Species d" by simp
  with event_frame [OF t(1) st(2)] event_about [OF t(1) st(2)] create_frame [OF assms(1) st(1)] t(3)
  show ?thesis by auto
qed

lemma create_keeps_rows:
  assumes "ok s" and "DinosaurService_Create g dao ev ctx d s = (r, s')"
  shows "owners s' = owners s \<and> (\<forall>i x. rows s i = Some x \<longrightarrow> rows s' i = Some x)"
proof -
  obtain r1 t where st: "daoCreate dao ctx d s = (r1, t)" by fastforce
  note t = create_keeps [OF assms(1) st] create_frame [OF assms(1) st]
  have "s' = t \<or> (\<exists>e x. esCreate ev ctx e t = (x, s'))"
    using assms(2) unfolding DinosaurService_Create_def run_try_def run_bind_def st
    by (auto split: prod.splits outcome.splits sum.splits)
  with t event_frame [of t ctx _ _ s'] show ?thesis by metis
qed

lemma delete_spec:
  assumes "ok s" and "DinosaurService_Delete g dao ev ctx did s = (Done None, s')"
  shows "rows s' = (rows s)(did := None) \<and> owners s' = owners s \<and>
    (\<exists>e. about did DeleteEventType e \<and> added e (evs s) (evs s'))"
proof -
  from assms(2) obtain t e where st: "daoDelete dao ctx did s = (Done None, t)"
      "esCreate ev ctx (dinosaur_event did DeleteEventType) t = (Done (Inr e), s')"
    by (auto simp: DinosaurService_Delete_def run_elims)
  from delete_None [OF assms(1) st(1)] have t: "ok t" "rows t = (rows s)(did := None)" by auto
  with event_frame [OF t(1) st(2)] event_about [OF t(1) st(2)] delete_frame [OF assms(1) st(1)]
  show ?thesis by auto
qed

end

section \<open>DAOs on a part of the state\<close>

definition lift_event_dao ::
    "('s \<Rightarrow> 't) \<Rightarrow> ('t \<Rightarrow> 's \<Rightarrow> 's) \<Rightarrow> (event, 't) crud_dao \<Rightarrow> (event, 's) crud_dao" where
  "lift_event_dao get put d =
     \<lparr>daoGet = (\<lambda>ctx i. run_in get put (daoGet d ctx i)),
      daoCreate = (\<lambda>ctx e. run_in get put (daoCreate d ctx e)),
      daoReplace = (\<lambda>ctx e. run_in get put (daoReplace d ctx e)),
      daoDelete = (\<lambda>ctx i. run_in get put (daoDelete d ctx i)),
      daoFindByIDs = (\<lambda>ctx is. run_in get put (daoFindByIDs d ctx is)),
      daoAll = (\<lambda>ctx. run_in get put (daoAll d ctx))\<rparr>"

definition lift_dinosaur_dao ::
    "('s \<Rightarrow> 't) \<Rightarrow> ('t \<Rightarrow> 's \<Rightarrow> 's) \<Rightarrow> 't dinosaur_dao \<Rightarrow> 's dinosaur_dao" where
  "lift_dinosaur_dao get put d =
     \<lparr>daoGet = (\<lambda>ctx i. run_in get put (daoGet d ctx i)),
      daoCreate = (\<lambda>ctx e. run_in get put (daoCreate d ctx e)),
      daoReplace = (\<lambda>ctx e. run_in get put (daoReplace d ctx e)),
      daoDelete = (\<lambda>ctx i. run_in get put (daoDelete d ctx i)),
      daoFindByIDs = (\<lambda>ctx is. run_in get put (daoFindByIDs d ctx is)),
      daoAll = (\<lambda>ctx. run_in get put (daoAll d ctx)),
      daoFindBySpecies = (\<lambda>ctx x. run_in get put (daoFindBySpecies d ctx x))\<rparr>"

lemma lift_entity_store:
  assumes st: "entity_store dao rows stored law"
    and get_put: "\<And>t s. get (put t s) = t" and put_get: "\<And>s. put (get s) s = s"
    and extra: "\<And>t s. extra (put t s) = extra s"
    and sel: "daoGet dao' = (\<lambda>ctx i. run_in get put (daoGet dao ctx i))"
      "daoCreate dao' = (\<lambda>ctx e. run_in get put (daoCreate dao ctx e))"
      "daoReplace dao' = (\<lambda>ctx e. run_in get put (daoReplace dao ctx e))"
      "daoDelete dao' = (\<lambda>ctx i. run_in get put (daoDelete dao ctx i))"
  shows "entity_store dao' (\<lambda>s. rows (get s)) stored (\<lambda>s. law (get s) \<and> extra s)"
proof
  fix s s' ctx i e assume "law (get s) \<and> extra s" "daoGet dao' ctx i s = (Done (Inr e), s')"
  then show "s' = s \<and> rows (get s) i = Some e \<and> ID e = i"
    using entity_store.get_Inr [OF st, of "get s" ctx i e] put_get by (auto simp: sel run_in_iff)
next
  fix s s' ctx i err assume "law (get s) \<and> extra s" "daoGet dao' ctx i s = (Done (Inl err), s')"
  then show "s' = s \<and> (err = ErrRecordNotFound \<longrightarrow> rows (get s) i = None)"
    using entity_store.get_Inl [OF st, of "get s" ctx i err] put_get by (auto simp: sel run_in_iff)
next
  fix s s' ctx e e' assume a: "law (get s) \<and> extra s" "daoCreate dao' ctx e s = (Done (Inr e'), s')"
  then obtain t where t: "daoCreate dao ctx e (get s) = (Done (Inr e'), t)" "s' = put t s"
    by (auto simp: sel run_in_iff)
  show "(law (get s') \<and> extra s') \<and> (\<exists>k c u. e' = e\<lparr>ID := k, CreatedAt := c, UpdatedAt := u\<rparr>) \<and>
      (rows (get s) (ID e') = None \<longrightarrow> rows (get s') = (rows (get s))(ID e' \<mapsto> stored e'))"
    unfolding t(2) get_put extra using entity_store.create_Inr [OF st conjunct1 [OF a(1)] t(1)] a(1) by blast
next
  fix s s' ctx e r assume a: "law (get s) \<and> extra s" "daoCreate dao' ctx e s = (r, s')"
  then obtain t where t: "daoCreate dao ctx e (get s) = (r, t)" "s' = put t s" by (auto simp: sel run_in_iff)
  show "(law (get s') \<and> extra s') \<and> (\<forall>i x. rows (get s) i = Some x \<longrightarrow> rows (get s') i = Some x)"
    unfolding t(2) get_put extra using entity_store.create_keeps [OF st conjunct1 [OF a(1)] t(1)] a(1) by blast
next
  fix s s' ctx e e' assume a: "law (get s) \<and> extra s" "daoReplace dao' ctx e s = (Done (Inr e'), s')"
  then obtain t where t: "daoReplace dao ctx e (get s) = (Done (Inr e'), t)" "s' = put t s"
    by (auto simp: sel run_in_iff)
  show "(law (get s') \<and> extra s') \<and> (\<exists>u. e' = e\<lparr>UpdatedAt := u\<rparr>) \<and> rows (get s') = (rows (get s))(ID e \<mapsto> stored e')"
    unfolding t(2) get_put extra using entity_store.replace_Inr [OF st conjunct1 [OF a(1)] t(1)] a(1) by blast
next
  fix s s' ctx e err assume a: "law (get s) \<and> extra s" "daoReplace dao' ctx e s = (Done (Inl err), s')"
  then obtain t where t: "daoReplace dao ctx e (get s) = (Done (Inl err), t)" "s' = put t s"
    by (auto simp: sel run_in_iff)
  show "(law (get s') \<and> extra s') \<and> rows (get s') = rows (get s)"
    unfolding t(2) get_put extra using entity_store.replace_Inl [OF st conjunct1 [OF a(1)] t(1)] a(1) by blast
next
  fix s s' ctx i assume a: "law (get s) \<and> extra s" "daoDelete dao' ctx i s = (Done None, s')"
  then obtain t where t: "daoDelete dao ctx i (get s) = (Done None, t)" "s' = put t s"
    by (auto simp: sel run_in_iff)
  show "(law (get s') \<and> extra s') \<and> rows (get s') = (rows (get s))(i := None)"
    unfolding t(2) get_put extra using entity_store.delete_None [OF st conjunct1 [OF a(1)] t(1)] a(1) by blast
next
  fix s s' ctx i err assume a: "law (get s) \<and> extra s" "daoDelete dao' ctx i s = (Done (Some err), s')"
  then obtain t where t: "daoDelete dao ctx i (get s) = (Done (Some err), t)" "s' = put t s"
    by (auto simp: sel run_in_iff)
  show "(law (get s') \<and> extra s') \<and> rows (get s') = rows (get s)"
    unfolding t(2) get_put extra using entity_store.delete_Some [OF st conjunct1 [OF a(1)] t(1)] a(1) by blast
qed

section \<open>The SQL DAO of dinosaurs as a store\<close>

lemma DinosaurDao_Create_step:
  assumes "DinosaurDao_Create t ctx d S = (r, S')" and "table_law t rows"
  shows "(\<exists>d' i c u. d' = d\<lparr>ID := i, CreatedAt := c, UpdatedAt := u\<rparr> \<and> rows (twDb S) i = None \<and>
      rows (twDb S') = (rows (twDb S))(i \<mapsto> gtStored t d') \<and> r = Done (Inr d')) \<or>
    rows (twDb S') = rows (twDb S) \<and> (\<forall>x. r \<noteq> Done (Inr x))"
proof -
  obtain i w where new: "gtNewID t (twDb S) = (i, w)" by fastforce
  obtain x w1 where cr: "gtCreate t (Dinosaur_BeforeCreate i d) w = (x, w1)" by fastforce
  note w = table_lawD(1) [OF assms(2) new]
  show ?thesis
  proof (cases x)
    case (Inl err)
    have "twDb S' = w1" "\<forall>y. r \<noteq> Done (Inr y)"
      using assms(1) new cr Inl
      by (auto simp: DinosaurDao_Create_def mark_on_error_def run_bind_def on_db_def
          split: prod.splits outcome.splits dest: mark_rollback_Done)
    with table_lawD(5) [OF assms(2) cr [unfolded Inl]] w show ?thesis by simp
  next
    case (Inr d')
    then have "r = Done (Inr d')" "twDb S' = w1"
      using assms(1) new cr by (auto simp: DinosaurDao_Create_def mark_on_error_def run_bind_def on_db_def)
    with table_lawD(4) [OF assms(2) cr [unfolded Inr]] w show ?thesis
      by (auto simp: Dinosaur_BeforeCreate_def)
  qed
qed

interpretation sqldinos: entity_store "sqlDinosaurDao t" "\<lambda>S. rows (twDb S)" "gtStored t" "\<lambda>S. table_law t rows" for t rows
proof unfold_locales
  fix s s' :: "'a tx_world" and ctx d r
  assume law: "table_law t rows" and run: "daoCreate (sqlDinosaurDao t) ctx d s = (r, s')"
  show "table_law t rows \<and> (\<forall>i x. rows (twDb s) i = Some x \<longrightarrow> rows (twDb s') i = Some x)"
    using DinosaurDao_Create_step [OF _ law, of ctx d s r s'] run law by (auto simp: sqlDinosaurDao_def)
next
  fix s s' :: "'a tx_world" and ctx d d'
  assume law: "table_law t rows" and run: "daoCreate (sqlDinosaurDao t) ctx d s = (Done (Inr d'), s')"
  show "table_law t rows \<and> (\<exists>k c u. d' = d\<lparr>ID := k, CreatedAt := c, UpdatedAt := u\<rparr>) \<and>
      (rows (twDb s) (ID d') = None \<longrightarrow> rows (twDb s') = (rows (twDb s))(ID d' \<mapsto> gtStored t d'))"
    using DinosaurDao_Create_step [OF _ law, of ctx d s "Done (Inr d')" s'] run law
    by (auto simp: sqlDinosaurDao_def)
next
  fix s s' :: "'a tx_world" and ctx d d'
  assume law: "table_law t rows" and run: "daoReplace (sqlDinosaurDao t) ctx d s = (Done (Inr d'), s')"
  show "table_law t rows \<and> (\<exists>u. d' = d\<lparr>UpdatedAt := u\<rparr>) \<and> rows (twDb s') = (rows (twDb s))(ID d \<mapsto> gtStored t d')"
    using save_step [OF _ law, of ctx d s "Done (Inr d')" s'] run law
    by (auto simp: sqlDinosaurDao_def DinosaurDao_Replace_def)
next
  fix s s' :: "'a tx_world" and ctx d err
  assume law: "table_law t rows" and run: "daoReplace (sqlDinosaurDao t) ctx d s = (Done (Inl err), s')"
  show "table_law t rows \<and> rows (twDb s') = rows (twDb s)"
    using save_step [OF _ law, of ctx d s "Done (Inl err)" s'] run law
    by (auto simp: sqlDinosaurDao_def DinosaurDao_Replace_def)
next
  fix s s' :: "'a tx_world" and ctx i
  assume law: "table_law t rows" and run: "daoDelete (sqlDinosaurDao t) ctx i s = (Done None, s')"
  show "table_law t rows \<and> rows (twDb s') = (rows (twDb s))(i := None)"
    using delete_row_step [OF _ law, of False ctx i s "Done None" s'] run law
    by (auto simp: sqlDinosaurDao_def DinosaurDao_Delete_def)
next
  fix s s' :: "'a tx_world" and ctx i err
  assume law: "table_law t rows" and run: "daoDelete (sqlDinosaurDao t) ctx i s = (Done (Some err), s')"
  show "table_law t rows \<and> rows (twDb s') = rows (twDb s)"
    using delete_row_step [OF _ law, of False ctx i s "Done (Some err)" s'] run law
    by (auto simp: sqlDinosaurDao_def DinosaurDao_Delete_def)
qed (auto simp: sqlDinosaurDao_def DinosaurDao_Get_def dest: table_lawD(2,3))

section \<open>The SQL environment\<close>

text \<open>
  The state of the service wired to the database: the request transactions over the database, and
  the lock factory, which works on the same database.
\<close>

record 'w app =
  apTx :: "'w tx_world"
  apLock :: "'w lock_world"

definition put_tx :: "'w tx_world \<Rightarrow> 'w app \<Rightarrow> 'w app" where
  "put_tx S A = A\<lparr>apTx := S\<rparr>"

definition lock_view :: "'w app \<Rightarrow> 'w lock_world" where
  "lock_view A = (apLock A)\<lparr>lwDb := twDb (apTx A)\<rparr>"

definition put_lock :: "'w lock_world \<Rightarrow> 'w app \<Rightarrow> 'w app" where
  "put_lock L A = A\<lparr>apTx := (apTx A)\<lparr>twDb := lwDb L\<rparr>, apLock := L\<rparr>"

definition lift_locks :: "('s \<Rightarrow> 't) \<Rightarrow> ('t \<Rightarrow> 's \<Rightarrow> 's) \<Rightarrow> 't lock_factory \<Rightarrow> 's lock_factory" where
  "lift_locks get put lf =
     \<lparr>lfNew = (\<lambda>i ty s. map_option (\<lambda>(r, t). (r, put t s)) (lfNew lf i ty (get s))),
      lfTry = (\<lambda>i ty s. case lfTry lf i ty (get s) of (r, t) \<Rightarrow> (r, put t s)),
      lfUnlock = (\<lambda>u s. put (lfUnlock lf u (get s)) s)\<rparr>"

definition app_locks :: "(nat \<Rightarrow> string) \<Rightarrow> error_config \<Rightarrow> 'w pg_lib \<Rightarrow> 'w app lock_factory" where
  "app_locks uuid g pg = lift_locks lock_view put_lock (AdvisoryLockFactory uuid g pg)"

definition app_dinosaurs :: "(dinosaur, 'w) gorm_table \<Rightarrow> 'w app dinosaur_dao" where
  "app_dinosaurs td = lift_dinosaur_dao apTx put_tx (sqlDinosaurDao td)"

definition app_events ::
    "error_config \<Rightarrow> (event, 'w) gorm_table \<Rightarrow> (string \<Rightarrow> 'w \<Rightarrow> go_error option \<times> 'w) \<Rightarrow> 'w app event_service" where
  "app_events g te exec = sqlEventService g (lift_event_dao apTx put_tx (sqlEventDao te exec))"

text \<open>The service locator of the plugin, on one session factory.\<close>

definition app_service ::
    "(nat \<Rightarrow> string) \<Rightarrow> error_config \<Rightarrow> lock_mode \<Rightarrow> 'w pg_lib \<Rightarrow> (dinosaur, 'w) gorm_table
     \<Rightarrow> (event, 'w) gorm_table \<Rightarrow> (string \<Rightarrow> 'w \<Rightarrow> go_error option \<times> 'w) \<Rightarrow> 'w app dinosaur_service" where
  "app_service uuid g mode pg td te exec =
     NewDinosaurService g mode (app_locks uuid g pg) (app_dinosaurs td) (app_events g te exec)"

text \<open>
  The laws: each table behaves as documented, its columns keep all of an entity but the precision of its
  times, and nothing else touches its rows.
\<close>

definition table_frame :: "('e, 'w) gorm_table \<Rightarrow> ('w \<Rightarrow> 'x) \<Rightarrow> bool" where
  "table_frame t f \<longleftrightarrow>
     (\<forall>w r w'. gtNewID t w = (r, w') \<longrightarrow> f w' = f w) \<and>
     (\<forall>e w r w'. gtCreate t e w = (r, w') \<longrightarrow> f w' = f w) \<and>
     (\<forall>e w r w'. gtSave t e w = (r, w') \<longrightarrow> f w' = f w) \<and>
     (\<forall>b i w r w'. gtDelete t b i w = (r, w') \<longrightarrow> f w' = f w)"

definition pg_frame :: "'w pg_lib \<Rightarrow> ('w \<Rightarrow> 'x) \<Rightarrow> bool" where
  "pg_frame pg f \<longleftrightarrow>
     (\<forall>w r w'. pgBegin pg w = (r, w') \<longrightarrow> f w' = f w) \<and>
     (\<forall>tx k1 k2 w r w'. pgLock pg tx k1 k2 w = (r, w') \<longrightarrow> f w' = f w) \<and>
     (\<forall>tx k1 k2 w r w'. pgTryLock pg tx k1 k2 w = (r, w') \<longrightarrow> f w' = f w) \<and>
     (\<forall>tx w r w'. pgCommit pg tx w = (r, w') \<longrightarrow> f w' = f w)"

definition app_laws ::
    "'w pg_lib \<Rightarrow> (dinosaur, 'w) gorm_table \<Rightarrow> (event, 'w) gorm_table
     \<Rightarrow> (string \<Rightarrow> 'w \<Rightarrow> go_error option \<times> 'w) \<Rightarrow> ('w \<Rightarrow> string \<Rightarrow> dinosaur option)
     \<Rightarrow> ('w \<Rightarrow> string \<Rightarrow> event option) \<Rightarrow> bool" where
  "app_laws pg td te exec drows erows \<longleftrightarrow>
     table_law td drows \<and> table_law te erows \<and>
     (\<forall>d. same_but_times d (gtStored td d)) \<and> (\<forall>e. same_event e (gtStored te e)) \<and> table_frame td erows \<and> table_frame te drows \<and>
     exec_law exec drows \<and> exec_law exec erows \<and> pg_frame pg drows \<and> pg_frame pg erows"

definition app_ok ::
    "(nat \<Rightarrow> string) \<Rightarrow> 'w pg_lib \<Rightarrow> (dinosaur, 'w) gorm_table \<Rightarrow> (event, 'w) gorm_table
     \<Rightarrow> (string \<Rightarrow> 'w \<Rightarrow> go_error option \<times> 'w) \<Rightarrow> ('w \<Rightarrow> string \<Rightarrow> dinosaur option)
     \<Rightarrow> ('w \<Rightarrow> string \<Rightarrow> event option) \<Rightarrow> 'w app \<Rightarrow> bool" where
  "app_ok uuid pg td te exec drows erows A \<longleftrightarrow>
     app_laws pg td te exec drows erows \<and> real_fresh uuid (apLock A)"

lemma app_lens [simp]:
  "apTx (put_tx S A) = S" "put_tx (apTx A) A = A" "apLock (put_tx S A) = apLock A"
  "twDb (apTx (put_lock L A)) = lwDb L" "apLock (put_lock L A) = L"
  "lwLocks (lock_view A) = lwLocks (apLock A)" "lwUuids (lock_view A) = lwUuids (apLock A)"
  "lwDb (lock_view A) = twDb (apTx A)"
  by (simp_all add: put_tx_def put_lock_def lock_view_def)

lemma view_owners [simp]:
  "real_owners (lock_view A) = real_owners (apLock A)" "real_fresh uuid (lock_view A) = real_fresh uuid (apLock A)"
  by (simp_all add: real_owners_def real_fresh_def)

subsection \<open>Frames\<close>

lemma keeps_on_db:
  assumes "\<And>w r w'. h w = (r, w') \<Longrightarrow> f w' = f w"
  shows "keeps (\<lambda>S. f (twDb S) = v) (on_db h)"
  by (rule keepsI) (use assms in \<open>auto simp: on_db_def split: prod.splits\<close>)

lemma keeps_mark_rollback: "keeps (\<lambda>S. f (twDb S) = v) (mark_rollback ctx)"
  by (rule keepsI) (simp add: mark_rollback_db)

lemma keeps_mark_on_error:
  assumes "keeps (\<lambda>S. f (twDb S) = v) m" and "\<And>a. keeps (\<lambda>S. f (twDb S) = v) (k a)"
  shows "keeps (\<lambda>S. f (twDb S) = v) (mark_on_error ctx m k)"
  unfolding mark_on_error_def
  by (intro keeps_bind assms(1)) (auto intro!: keeps_bind keeps_mark_rollback keeps_ret assms(2) split: sum.splits)

lemma keeps_case_option:
  "(\<And>a. keeps P (f a)) \<Longrightarrow> keeps P m \<Longrightarrow> keeps P (case x of None \<Rightarrow> m | Some a \<Rightarrow> f a)"
  by (cases x) simp_all

lemmas keeps_sql = keeps_mark_on_error keeps_mark_rollback keeps_case_option keeps_bind keeps_ret keeps_read

lemma dinosaur_dao_frame:
  assumes "table_frame td f"
  shows "keeps (\<lambda>S. f (twDb S) = v) (daoGet (sqlDinosaurDao td) ctx i)"
    and "keeps (\<lambda>S. f (twDb S) = v) (daoCreate (sqlDinosaurDao td) ctx d)"
    and "keeps (\<lambda>S. f (twDb S) = v) (daoReplace (sqlDinosaurDao td) ctx d)"
    and "keeps (\<lambda>S. f (twDb S) = v) (daoDelete (sqlDinosaurDao td) ctx i)"
  using assms unfolding table_frame_def sqlDinosaurDao_def
  by (auto simp: DinosaurDao_Get_def DinosaurDao_Create_def DinosaurDao_Replace_def
      DinosaurDao_Delete_def delete_row_def intro!: keeps_sql keeps_on_db)

lemma event_create_frame:
  assumes "table_frame te f" and "exec_law exec f"
  shows "keeps (\<lambda>S. f (twDb S) = v) (daoCreate (sqlEventDao te exec) ctx e)"
  using assms unfolding table_frame_def exec_law_def sqlEventDao_def
  by (auto simp: EventDao_Create_def intro!: keeps_sql keeps_on_db)

lemma newLock_frame:
  assumes "pg_frame pg f" and "newLock uuid pg i ty L = (r, L')"
  shows "f (lwDb L') = f (lwDb L)"
  using assms unfolding pg_frame_def
  by (auto simp: newLock_def newAdvisoryLock_def Let_def split: prod.splits sum.splits)

lemma lock_frame:
  assumes "pg_frame pg f"
  shows "NewAdvisoryLock uuid g pg i ty L = Some (p, L') \<Longrightarrow> f (lwDb L') = f (lwDb L)"
    and "NewNonBlockingLock uuid g pg i ty L = (q, L') \<Longrightarrow> f (lwDb L') = f (lwDb L)"
    and "f (lwDb (Unlock pg u L)) = f (lwDb L)"
proof -
  have keep: "pgLock pg tx k1 k2 w = (a, w') \<Longrightarrow> f w' = f w"
      "pgTryLock pg tx k1 k2 w = (b, w') \<Longrightarrow> f w' = f w"
      "pgCommit pg tx w = (e, w') \<Longrightarrow> f w' = f w" for tx k1 k2 w a b e w'
    using assms unfolding pg_frame_def by blast+
  show "NewAdvisoryLock uuid g pg i ty L = Some (p, L') \<Longrightarrow> f (lwDb L') = f (lwDb L)"
    by (auto simp: NewAdvisoryLock_def obtain_lock_def lock_def Let_def
        split: prod.splits sum.splits lock_answer.splits dest!: newLock_frame [OF assms] keep(1))
  show "NewNonBlockingLock uuid g pg i ty L = (q, L') \<Longrightarrow> f (lwDb L') = f (lwDb L)"
    by (auto simp: NewNonBlockingLock_def try_obtain_def nonBlockingLock_def Let_def
        split: prod.splits sum.splits dest!: newLock_frame [OF assms] keep(2))
  show "f (lwDb (Unlock pg u L)) = f (lwDb L)"
    by (auto simp: Unlock_def unlock_def Let_def split: option.splits prod.splits dest: keep(3))
qed

subsection \<open>Interpretation\<close>

lemma run_in_keeps:
  assumes "run_in apTx put_tx m A = (r, A')" and "\<And>v. keeps (\<lambda>S. f (twDb S) = v) m"
  shows "f (twDb (apTx A')) = f (twDb (apTx A)) \<and> apLock A' = apLock A"
proof -
  from assms(1) obtain S where "m (apTx A) = (r, S)" "A' = put_tx S A" by (auto simp: run_in_iff)
  with keepsD [OF assms(2) [of "f (twDb (apTx A))"] refl] show ?thesis by simp
qed

lemma app_locks_new:
  "lfNew (app_locks uuid g pg) i ty A = Some ((u, err), A') \<longleftrightarrow>
     (\<exists>L. NewAdvisoryLock uuid g pg i ty (lock_view A) = Some ((u, err), L) \<and> A' = put_lock L A)"
  by (auto simp: app_locks_def lift_locks_def AdvisoryLockFactory_def)

lemma app_locks_try:
  "lfTry (app_locks uuid g pg) i ty A = (q, A') \<longleftrightarrow>
     (\<exists>L. NewNonBlockingLock uuid g pg i ty (lock_view A) = (q, L) \<and> A' = put_lock L A)"
  by (auto simp: app_locks_def lift_locks_def AdvisoryLockFactory_def split: prod.splits)

lemma app_locks_unlock: "lfUnlock (app_locks uuid g pg) u A = put_lock (Unlock pg u (lock_view A)) A"
  by (simp add: app_locks_def lift_locks_def AdvisoryLockFactory_def)

lemma app_entity_store:
  "entity_store (app_dinosaurs td) (\<lambda>A. drows (twDb (apTx A))) (gtStored td) (app_ok uuid pg td te exec drows erows)"
proof -
  have "entity_store (app_dinosaurs td) (\<lambda>A. drows (twDb (apTx A))) (gtStored td)
      (\<lambda>A. table_law td drows \<and> app_ok uuid pg td te exec drows erows A)"
    by (rule lift_entity_store [OF sqldinos.entity_store_axioms, where put = put_tx])
       (simp_all add: app_ok_def app_dinosaurs_def lift_dinosaur_dao_def)
  moreover have "(\<lambda>A. table_law td drows \<and> app_ok uuid pg td te exec drows erows A) =
      app_ok uuid pg td te exec drows erows"
    by (auto simp: app_ok_def app_laws_def)
  ultimately show ?thesis by simp
qed

lemma app_lock_owners:
  "lock_owners (app_locks uuid g pg) (\<lambda>A. real_owners (apLock A)) (app_ok uuid pg td te exec drows erows)"
proof
  fix A A' i ty u err
  assume ok: "app_ok uuid pg td te exec drows erows A"
    and new: "lfNew (app_locks uuid g pg) i ty A = Some ((u, err), A')"
  then obtain L where L: "lfNew (AdvisoryLockFactory uuid g pg) i ty (lock_view A) = Some ((u, err), L)"
      "A' = put_lock L A"
    by (auto simp: app_locks_new AdvisoryLockFactory_def)
  from ok have "real_fresh uuid (lock_view A)" by (simp add: app_ok_def)
  from advisory.new_owner [OF this L(1)] ok
  show "app_ok uuid pg td te exec drows erows A' \<and> u \<notin> real_owners (apLock A) \<and>
      real_owners (apLock A) \<subseteq> real_owners (apLock A') \<and>
      real_owners (apLock A') \<subseteq> insert u (real_owners (apLock A))"
    by (simp add: app_ok_def L(2))
next
  fix A A' i ty u e
  assume "lfNew (app_locks uuid g pg) i ty A = Some ((u, Some e), A')"
  then obtain L where L: "lfNew (AdvisoryLockFactory uuid g pg) i ty (lock_view A) = Some ((u, Some e), L)"
      "A' = put_lock L A"
    by (auto simp: app_locks_new AdvisoryLockFactory_def)
  from advisory.new_error [OF L(1)] show "real_owners (apLock A') = real_owners (apLock A)"
    by (simp add: L(2))
next
  fix A A' i ty u acq err
  assume ok: "app_ok uuid pg td te exec drows erows A"
    and new: "lfTry (app_locks uuid g pg) i ty A = ((u, acq, err), A')"
  then obtain L where L: "lfTry (AdvisoryLockFactory uuid g pg) i ty (lock_view A) = ((u, acq, err), L)"
      "A' = put_lock L A"
    by (auto simp: app_locks_try AdvisoryLockFactory_def)
  from ok have "real_fresh uuid (lock_view A)" by (simp add: app_ok_def)
  from advisory.try_owner [OF this L(1)] ok
  show "app_ok uuid pg td te exec drows erows A' \<and> u \<notin> real_owners (apLock A) \<and>
      real_owners (apLock A) \<subseteq> real_owners (apLock A') \<and>
      real_owners (apLock A') \<subseteq> insert u (real_owners (apLock A))"
    by (simp add: app_ok_def L(2))
next
  fix u A show "real_owners (apLock (lfUnlock (app_locks uuid g pg) u A)) = real_owners (apLock A) - {u}"
    by (simp add: app_locks_unlock real_unlock_owners)
next
  fix u A assume "app_ok uuid pg td te exec drows erows A"
  then show "app_ok uuid pg td te exec drows erows (lfUnlock (app_locks uuid g pg) u A)"
    by (auto simp: app_ok_def app_locks_unlock real_fresh_def Unlock_uuids real_unlock_owners)
qed

lemma app_event_Inr:
  assumes "app_ok uuid pg td te exec drows erows A"
    and "esCreate (app_events g te exec) ctx e A = (Done (Inr e'), A')"
  shows "(\<exists>k c u. e' = e\<lparr>ID := k, CreatedAt := c, UpdatedAt := u\<rparr>) \<and>
    (\<exists>x. same_event e' x \<and> logged x (erows (twDb (apTx A))) (erows (twDb (apTx A'))))"
proof -
  from assms(2) obtain S where st: "EventDao_Create te exec ctx e (apTx A) = (Done (Inr e'), S)" "A' = put_tx S A"
    by (auto simp: app_events_def sqlEventService_def EventService_Create_def lift_event_dao_def sqlEventDao_def
        run_elims run_in_iff)
  from assms(1) have law: "table_law te erows" "exec_law exec erows" "same_event e' (gtStored te e')"
    by (simp_all add: app_ok_def app_laws_def)
  from EventDao_Create_step [OF st(1) law(1,2)] obtain i c u where
      e': "e' = e\<lparr>ID := i, CreatedAt := c, UpdatedAt := u\<rparr>" "erows (twDb (apTx A)) i = None"
        "erows (twDb S) = (erows (twDb (apTx A)))(i \<mapsto> gtStored te e')" by auto
  then have "logged (gtStored te e') (erows (twDb (apTx A))) (erows (twDb (apTx A')))"
    using st(2) by (auto simp: logged_def)
  with law(3) e'(1) show ?thesis by blast
qed

interpretation sqlenv: dinosaur_env "app_dinosaurs td" "\<lambda>A. drows (twDb (apTx A))" "gtStored td"
    "app_ok uuid pg td te exec drows erows" "app_locks uuid g pg" "\<lambda>A. real_owners (apLock A)"
    "app_events g te exec" "\<lambda>A. erows (twDb (apTx A))" logged
  for td drows uuid pg te exec erows g
proof (intro dinosaur_env.intro app_entity_store app_lock_owners, unfold_locales)
  fix A A' ctx i r
  assume ok: "app_ok uuid pg td te exec drows erows A" and run: "daoGet (app_dinosaurs td) ctx i A = (r, A')"
  from ok have fr: "table_frame td erows" by (simp add: app_ok_def app_laws_def)
  from run have "run_in apTx put_tx (daoGet (sqlDinosaurDao td) ctx i) A = (r, A')"
    by (simp add: app_dinosaurs_def lift_dinosaur_dao_def)
  from run_in_keeps [OF this dinosaur_dao_frame(1) [OF fr]] ok
  show "app_ok uuid pg td te exec drows erows A' \<and> real_owners (apLock A') = real_owners (apLock A) \<and>
      erows (twDb (apTx A')) = erows (twDb (apTx A))" by (simp add: app_ok_def)
next
  fix A A' ctx d r
  assume ok: "app_ok uuid pg td te exec drows erows A" and run: "daoCreate (app_dinosaurs td) ctx d A = (r, A')"
  from ok have fr: "table_frame td erows" by (simp add: app_ok_def app_laws_def)
  from run have "run_in apTx put_tx (daoCreate (sqlDinosaurDao td) ctx d) A = (r, A')"
    by (simp add: app_dinosaurs_def lift_dinosaur_dao_def)
  from run_in_keeps [OF this dinosaur_dao_frame(2) [OF fr]] ok
  show "app_ok uuid pg td te exec drows erows A' \<and> real_owners (apLock A') = real_owners (apLock A) \<and>
      erows (twDb (apTx A')) = erows (twDb (apTx A))" by (simp add: app_ok_def)
next
  fix A A' ctx d r
  assume ok: "app_ok uuid pg td te exec drows erows A" and run: "daoReplace (app_dinosaurs td) ctx d A = (r, A')"
  from ok have fr: "table_frame td erows" by (simp add: app_ok_def app_laws_def)
  from run have "run_in apTx put_tx (daoReplace (sqlDinosaurDao td) ctx d) A = (r, A')"
    by (simp add: app_dinosaurs_def lift_dinosaur_dao_def)
  from run_in_keeps [OF this dinosaur_dao_frame(3) [OF fr]] ok
  show "app_ok uuid pg td te exec drows erows A' \<and> real_owners (apLock A') = real_owners (apLock A) \<and>
      erows (twDb (apTx A')) = erows (twDb (apTx A))" by (simp add: app_ok_def)
next
  fix A A' ctx i q
  assume ok: "app_ok uuid pg td te exec drows erows A" and run: "daoDelete (app_dinosaurs td) ctx i A = (q, A')"
  from ok have fr: "table_frame td erows" by (simp add: app_ok_def app_laws_def)
  from run have "run_in apTx put_tx (daoDelete (sqlDinosaurDao td) ctx i) A = (q, A')"
    by (simp add: app_dinosaurs_def lift_dinosaur_dao_def)
  from run_in_keeps [OF this dinosaur_dao_frame(4) [OF fr]] ok
  show "app_ok uuid pg td te exec drows erows A' \<and> real_owners (apLock A') = real_owners (apLock A) \<and>
      erows (twDb (apTx A')) = erows (twDb (apTx A))" by (simp add: app_ok_def)
next
  fix A A' ctx e x
  assume ok: "app_ok uuid pg td te exec drows erows A" and run: "esCreate (app_events g te exec) ctx e A = (x, A')"
  from ok have fr: "table_frame te drows" "exec_law exec drows" by (simp_all add: app_ok_def app_laws_def)
  have "\<exists>r. run_in apTx put_tx (daoCreate (sqlEventDao te exec) ctx e) A = (r, A')"
    using run by (auto simp: app_events_def sqlEventService_def EventService_Create_def lift_event_dao_def
        run_try_def run_bind_def split: prod.splits outcome.splits sum.splits)
  then obtain r where "run_in apTx put_tx (daoCreate (sqlEventDao te exec) ctx e) A = (r, A')" ..
  from run_in_keeps [OF this event_create_frame [OF fr]] ok
  show "app_ok uuid pg td te exec drows erows A' \<and> real_owners (apLock A') = real_owners (apLock A) \<and>
      drows (twDb (apTx A')) = drows (twDb (apTx A))" by (simp add: app_ok_def)
next
  fix A A' ctx e e'
  assume "app_ok uuid pg td te exec drows erows A" "esCreate (app_events g te exec) ctx e A = (Done (Inr e'), A')"
  then show "(\<exists>k c u. e' = e\<lparr>ID := k, CreatedAt := c, UpdatedAt := u\<rparr>) \<and>
      (\<exists>x. same_event e' x \<and> logged x (erows (twDb (apTx A))) (erows (twDb (apTx A'))))" by (rule app_event_Inr)
next
  fix A A' i ty p
  assume ok: "app_ok uuid pg td te exec drows erows A" and new: "lfNew (app_locks uuid g pg) i ty A = Some (p, A')"
  from ok have fr: "pg_frame pg drows" "pg_frame pg erows" by (simp_all add: app_ok_def app_laws_def)
  from new obtain L where "NewAdvisoryLock uuid g pg i ty (lock_view A) = Some (p, L)" "A' = put_lock L A"
    by (cases p) (auto simp: app_locks_new)
  with lock_frame(1) [OF fr(1)] lock_frame(1) [OF fr(2)]
  show "drows (twDb (apTx A')) = drows (twDb (apTx A)) \<and>
      erows (twDb (apTx A')) = erows (twDb (apTx A))" by (metis app_lens(4,8))
next
  fix A A' i ty t
  assume ok: "app_ok uuid pg td te exec drows erows A" and new: "lfTry (app_locks uuid g pg) i ty A = (t, A')"
  from ok have fr: "pg_frame pg drows" "pg_frame pg erows" by (simp_all add: app_ok_def app_laws_def)
  from new obtain L where "NewNonBlockingLock uuid g pg i ty (lock_view A) = (t, L)" "A' = put_lock L A"
    by (auto simp: app_locks_try)
  with lock_frame(2) [OF fr(1)] lock_frame(2) [OF fr(2)]
  show "drows (twDb (apTx A')) = drows (twDb (apTx A)) \<and>
      erows (twDb (apTx A')) = erows (twDb (apTx A))" by (metis app_lens(4,8))
next
  fix A u
  assume ok: "app_ok uuid pg td te exec drows erows A"
  from ok have fr: "pg_frame pg drows" "pg_frame pg erows" by (simp_all add: app_ok_def app_laws_def)
  show "drows (twDb (apTx (lfUnlock (app_locks uuid g pg) u A))) = drows (twDb (apTx A)) \<and>
      erows (twDb (apTx (lfUnlock (app_locks uuid g pg) u A))) = erows (twDb (apTx A))"
    by (simp add: app_locks_unlock lock_frame(3) [OF fr(1)] lock_frame(3) [OF fr(2)])
qed

end
