(* ===== verification/Dinosaur_Service.thy ===== *)
theory Dinosaur_Service
  imports Dinosaur_Env
begin

text \<open>
  The dinosaur service in its two environments: the one of the mocks that
  \<^verbatim>\<open>plugins/dinosaurs/service_test.go\<close> wires (\<open>mockenv\<close>), and the one of the database
  (\<open>sqlenv\<close>), over which the properties of the service are stated. \<open>shop\<close> is a small database with
  the two tables, for the witnesses.
\<close>

section \<open>The mock environment\<close>

record mock_app =
  maDinosaurs :: "dinosaur list"
  maEvents :: "event list"
  maLocks :: mock_locks

definition mock_dinosaurs :: "error_config \<Rightarrow> mock_app dinosaur_dao" where
  "mock_dinosaurs g = lift_dinosaur_dao maDinosaurs (\<lambda>ds A. A\<lparr>maDinosaurs := ds\<rparr>) (dinosaurDaoMock g)"

definition mock_events :: "error_config \<Rightarrow> mock_app event_service" where
  "mock_events g = sqlEventService g (lift_event_dao maEvents (\<lambda>es A. A\<lparr>maEvents := es\<rparr>) (eventDaoMock g))"

definition mock_app_locks :: "(nat \<Rightarrow> string) \<Rightarrow> mock_app lock_factory" where
  "mock_app_locks uuid = lift_locks maLocks (\<lambda>l A. A\<lparr>maLocks := l\<rparr>) (MockAdvisoryLockFactory uuid)"

definition mock_service :: "(nat \<Rightarrow> string) \<Rightarrow> error_config \<Rightarrow> lock_mode \<Rightarrow> mock_app dinosaur_service" where
  "mock_service uuid g mode = NewDinosaurService g mode (mock_app_locks uuid) (mock_dinosaurs g) (mock_events g)"

interpretation mockdinos: entity_store "dinosaurDaoMock g" "\<lambda>ds i. find_ID i ds" "\<lambda>d. d" "\<lambda>_. True" for g
  by unfold_locales
     (auto simp: dinosaurDaoMock_def mock_get_def mock_append_def run_bind_def find_ID_append
        fun_eq_iff intro: meta_upd_same dest: find_ID_Some split: option.splits)

definition mock_app_ok :: "(nat \<Rightarrow> string) \<Rightarrow> mock_app \<Rightarrow> bool" where
  "mock_app_ok uuid A \<longleftrightarrow> mock_fresh uuid (maLocks A)"

lemma mock_entity_store:
  "entity_store (mock_dinosaurs g) (\<lambda>A i. find_ID i (maDinosaurs A)) (\<lambda>d. d) (mock_app_ok uuid)"
proof -
  have "entity_store (mock_dinosaurs g) (\<lambda>A i. find_ID i (maDinosaurs A)) (\<lambda>d. d) (\<lambda>A. True \<and> mock_app_ok uuid A)"
    by (rule lift_entity_store [OF mockdinos.entity_store_axioms, where put = "\<lambda>ds A. A\<lparr>maDinosaurs := ds\<rparr>"])
       (simp_all add: mock_app_ok_def mock_dinosaurs_def lift_dinosaur_dao_def)
  then show ?thesis by simp
qed

lemma mock_locks_new:
  "lfNew (mock_app_locks uuid) i ty A = Some (p, A') \<longleftrightarrow>
     (\<exists>L. lfNew (MockAdvisoryLockFactory uuid) i ty (maLocks A) = Some (p, L) \<and> A' = A\<lparr>maLocks := L\<rparr>)"
  by (cases p) (auto simp: mock_app_locks_def lift_locks_def)

lemma mock_locks_try:
  "lfTry (mock_app_locks uuid) i ty A = (q, A') \<longleftrightarrow>
     (\<exists>L. lfTry (MockAdvisoryLockFactory uuid) i ty (maLocks A) = (q, L) \<and> A' = A\<lparr>maLocks := L\<rparr>)"
  by (auto simp: mock_app_locks_def lift_locks_def split: prod.splits)

lemma mock_locks_unlock:
  "lfUnlock (mock_app_locks uuid) u A = A\<lparr>maLocks := lfUnlock (MockAdvisoryLockFactory uuid) u (maLocks A)\<rparr>"
  by (simp add: mock_app_locks_def lift_locks_def)

lemma mock_lock_owners:
  "lock_owners (mock_app_locks uuid) (\<lambda>A. mock_owners (maLocks A)) (mock_app_ok uuid)"
proof
  fix A A' i ty u err
  assume ok: "mock_app_ok uuid A" and new: "lfNew (mock_app_locks uuid) i ty A = Some ((u, err), A')"
  from new obtain L where L: "lfNew (MockAdvisoryLockFactory uuid) i ty (maLocks A) = Some ((u, err), L)"
      "A' = A\<lparr>maLocks := L\<rparr>" by (auto simp: mock_locks_new)
  from mocklocks.new_owner [OF _ L(1)] ok
  show "mock_app_ok uuid A' \<and> u \<notin> mock_owners (maLocks A) \<and> mock_owners (maLocks A) \<subseteq> mock_owners (maLocks A') \<and>
      mock_owners (maLocks A') \<subseteq> insert u (mock_owners (maLocks A))" by (simp add: mock_app_ok_def L(2))
next
  fix A A' i ty u e
  assume "lfNew (mock_app_locks uuid) i ty A = Some ((u, Some e), A')"
  then obtain L where L: "lfNew (MockAdvisoryLockFactory uuid) i ty (maLocks A) = Some ((u, Some e), L)"
      "A' = A\<lparr>maLocks := L\<rparr>" by (auto simp: mock_locks_new)
  from mocklocks.new_error [OF L(1)] show "mock_owners (maLocks A') = mock_owners (maLocks A)" by (simp add: L(2))
next
  fix A A' i ty u acq err
  assume ok: "mock_app_ok uuid A" and new: "lfTry (mock_app_locks uuid) i ty A = ((u, acq, err), A')"
  from new obtain L where L: "lfTry (MockAdvisoryLockFactory uuid) i ty (maLocks A) = ((u, acq, err), L)"
      "A' = A\<lparr>maLocks := L\<rparr>" by (auto simp: mock_locks_try)
  from mocklocks.try_owner [OF _ L(1)] ok
  show "mock_app_ok uuid A' \<and> u \<notin> mock_owners (maLocks A) \<and> mock_owners (maLocks A) \<subseteq> mock_owners (maLocks A') \<and>
      mock_owners (maLocks A') \<subseteq> insert u (mock_owners (maLocks A))" by (simp add: mock_app_ok_def L(2))
next
  fix u A show "mock_owners (maLocks (lfUnlock (mock_app_locks uuid) u A)) = mock_owners (maLocks A) - {u}"
    by (simp add: mock_locks_unlock mocklocks.unlock_owner)
next
  fix u A assume "mock_app_ok uuid A"
  then show "mock_app_ok uuid (lfUnlock (mock_app_locks uuid) u A)"
    by (simp add: mock_app_ok_def mock_locks_unlock mocklocks.unlock_ok)
qed

interpretation mockenv: dinosaur_env "mock_dinosaurs g" "\<lambda>A i. find_ID i (maDinosaurs A)" "\<lambda>d. d" "mock_app_ok uuid"
    "mock_app_locks uuid" "\<lambda>A. mock_owners (maLocks A)" "mock_events g" maEvents "\<lambda>e l l'. l' = l @ [e]" for g uuid
proof (intro dinosaur_env.intro mock_entity_store mock_lock_owners, unfold_locales)
qed (auto simp: mock_dinosaurs_def lift_dinosaur_dao_def dinosaurDaoMock_def mock_get_def mock_append_def
    run_bind_def run_try_def run_in_iff mock_app_ok_def mock_events_def sqlEventService_def EventService_Create_def
    lift_event_dao_def eventDaoMock_def run_in_def mock_locks_new mock_locks_try mock_locks_unlock
    intro: meta_upd_same)

section \<open>A small database\<close>

text \<open>
  The two tables as association lists, a counter for the identifiers, and advisory locks that are
  always granted; a column keeps times in thousands; notifications fail from a given state on, if at all.
\<close>

record shop =
  shNext :: nat
  shDinos :: "(string \<times> dinosaur) list"
  shEvents :: "(string \<times> event) list"
  shBroken :: bool

definition put_row :: "'m meta_scheme \<Rightarrow> (string \<times> 'm meta_scheme) list \<Rightarrow> (string \<times> 'm meta_scheme) list" where
  "put_row e l = (ID e, e) # filter (\<lambda>p. fst p \<noteq> ID e) l"

definition whole :: "time \<Rightarrow> time" where
  "whole t = t - t mod 1000"

definition round_meta :: "'m meta_scheme \<Rightarrow> 'm meta_scheme" where
  "round_meta e =
     e\<lparr>CreatedAt := whole (CreatedAt e), UpdatedAt := whole (UpdatedAt e), DeletedAt := map_option whole (DeletedAt e)\<rparr>"

definition round_event :: "event \<Rightarrow> event" where
  "round_event e = (round_meta e)\<lparr>ReconciledDate := map_option whole (ReconciledDate e)\<rparr>"

definition shop_table ::
    "('m meta_scheme \<Rightarrow> 'm meta_scheme) \<Rightarrow> (shop \<Rightarrow> (string \<times> 'm meta_scheme) list) \<Rightarrow> ((string \<times> 'm meta_scheme) list \<Rightarrow> shop \<Rightarrow> shop)
     \<Rightarrow> ('m meta_scheme, shop) gorm_table" where
  "shop_table keep get put =
     \<lparr>gtNewID = (\<lambda>w. (replicate (Suc (shNext w)) CHR ''k'', w\<lparr>shNext := Suc (shNext w)\<rparr>)),
      gtTake = (\<lambda>i w. case map_of (get w) i of
         Some e \<Rightarrow> if ID e = i then Inr e else Inl (TextError ''bad row'')
       | None \<Rightarrow> Inl ErrRecordNotFound),
      gtCreate = (\<lambda>e w. if map_of (get w) (ID e) \<noteq> None then (Inl (TextError ''duplicate key''), w)
         else (Inr (e\<lparr>CreatedAt := 1001, UpdatedAt := 1001\<rparr>),
           put (put_row (keep (e\<lparr>CreatedAt := 1001, UpdatedAt := 1001\<rparr>)) (get w)) w)),
      gtSave = (\<lambda>e w. (Inr (e\<lparr>UpdatedAt := 2002\<rparr>), put (put_row (keep (e\<lparr>UpdatedAt := 2002\<rparr>)) (get w)) w)),
      gtDelete = (\<lambda>b i w. (None, put (filter (\<lambda>p. fst p \<noteq> i) (get w)) w)),
      gtFindIn = (\<lambda>is w. Inr (filter (\<lambda>e. ID e \<in> set is) (map snd (get w)))),
      gtFindEq = (\<lambda>c x w. Inr []),
      gtFind = (\<lambda>w. Inr (map snd (get w))), gtStored = keep\<rparr>"

definition shop_dinos :: "(dinosaur, shop) gorm_table" where
  "shop_dinos = shop_table round_meta shDinos (\<lambda>l w. w\<lparr>shDinos := l\<rparr>)"

definition shop_events :: "(event, shop) gorm_table" where
  "shop_events = shop_table round_event shEvents (\<lambda>l w. w\<lparr>shEvents := l\<rparr>)"

definition shop_exec :: "string \<Rightarrow> shop \<Rightarrow> go_error option \<times> shop" where
  "shop_exec sql w = (if shBroken w then Some (TextError ''no connection'') else None, w)"

definition shop_pg :: "shop pg_lib" where
  "shop_pg =
     \<lparr>pgBegin = (\<lambda>w. (Inr 0, w)), pgTxid = (\<lambda>_ _. 7), pgLock = (\<lambda>_ _ _ w. (Granted, w)),
      pgTryLock = (\<lambda>_ _ _ w. (Inr ''false'', w)), pgCommit = (\<lambda>_ w. (None, w))\<rparr>"

definition shop_uuid :: "nat \<Rightarrow> string" where
  "shop_uuid n = replicate (Suc n) CHR ''a''"

lemma map_of_filter_key: "map_of (filter (\<lambda>p. fst p \<noteq> i) l) = (map_of l)(i := None)"
  by (induction l) (auto simp: fun_eq_iff)

lemma map_of_put_row [simp]: "map_of (put_row e l) = (map_of l)(ID e \<mapsto> e)"
  by (simp add: put_row_def map_of_filter_key)

lemma shop_table_law:
  assumes "\<And>l w. get (put l w) = l" and "\<And>n w. get (w\<lparr>shNext := n\<rparr>) = get w" and "\<And>e. ID (keep e) = ID e"
  shows "table_law (shop_table keep get put) (\<lambda>w. map_of (get w))"
  using assms unfolding table_law_def shop_table_def
  by (auto simp: map_of_filter_key split: option.splits if_splits)

lemma shop_table_frame:
  assumes "\<And>l w. f (put l w) = f w" and "\<And>n w. f (w\<lparr>shNext := n\<rparr>) = f w"
  shows "table_frame (shop_table keep get put) f"
  using assms unfolding table_frame_def shop_table_def by (auto split: if_splits)

lemma round_meta_ID [simp]: "ID (round_meta e) = ID e" "ID (round_event x) = ID x"
  by (simp_all add: round_meta_def round_event_def)

lemma shop_rounds: "same_but_times d (round_meta d)" "same_event e (round_event e)"
proof -
  show "same_but_times d (round_meta d)"
    unfolding same_but_times_def round_meta_def by (intro exI) (rule refl)
  have "round_event e = e\<lparr>CreatedAt := whole (CreatedAt e), UpdatedAt := whole (UpdatedAt e),
      DeletedAt := map_option whole (DeletedAt e), ReconciledDate := map_option whole (ReconciledDate e)\<rparr>"
    by (simp add: round_event_def round_meta_def)
  then show "same_event e (round_event e)" unfolding same_event_def by (metis option.map_disc_iff)
qed

lemma shop_laws:
  "app_laws shop_pg shop_dinos shop_events shop_exec (\<lambda>w. map_of (shDinos w)) (\<lambda>w. map_of (shEvents w))"
  unfolding app_laws_def shop_dinos_def shop_events_def
  by (intro conjI shop_table_law shop_table_frame)
     (auto simp: exec_law_def shop_exec_def pg_frame_def shop_pg_def shop_rounds [unfolded shop_dinos_def] shop_table_def)

lemma shop_stored [simp]: "gtStored shop_dinos = round_meta" "gtStored shop_events = round_event"
  by (simp_all add: shop_dinos_def shop_events_def shop_table_def)

lemma shop_uuid_good: "good_uuid shop_uuid"
  by (auto simp: good_uuid_def shop_uuid_def inj_def dest: arg_cong [of _ _ length])

definition shop_rex :: dinosaur where
  "shop_rex = \<lparr>ID = ''d'', CreatedAt = 0, UpdatedAt = 0, DeletedAt = None, Species = ''Trex''\<rparr>"

text \<open>One dinosaur, no events, no locks held.\<close>

definition shop_app :: "bool \<Rightarrow> shop app" where
  "shop_app broken =
     \<lparr>apTx = \<lparr>twDb = \<lparr>shNext = 0, shDinos = [(''d'', shop_rex)], shEvents = [], shBroken = broken\<rparr>, twTxs = []\<rparr>,
      apLock = NewAdvisoryLockFactory \<lparr>shNext = 0, shDinos = [], shEvents = [], shBroken = False\<rparr> 5\<rparr>"

definition shop_service :: "lock_mode \<Rightarrow> shop app dinosaur_service" where
  "shop_service mode = app_service shop_uuid default_error_config mode shop_pg shop_dinos shop_events shop_exec"

lemma shop_ok:
  "app_ok shop_uuid shop_pg shop_dinos shop_events shop_exec (\<lambda>w. map_of (shDinos w)) (\<lambda>w. map_of (shEvents w))
     (shop_app b)"
  by (simp add: app_ok_def shop_laws real_fresh_def shop_uuid_good shop_app_def real_owners_def
      NewAdvisoryLockFactory_def)

section \<open>Properties\<close>

lemmas app_service_sel = app_service_def NewDinosaurService_def dinosaur_service.select_convs

lemma app_create_spec:
  assumes "app_ok uuid pg td te exec drows erows A"
    and "dsCreate (app_service uuid g mode pg td te exec) ctx d A = (Done (Inr d'), A')"
  shows "drows (twDb (apTx A)) (ID d') = None \<and>
    drows (twDb (apTx A')) = (drows (twDb (apTx A)))(ID d' \<mapsto> gtStored td d') \<and> same_but_times d' (gtStored td d') \<and>
    Species d' = Species d \<and> real_owners (apLock A') = real_owners (apLock A) \<and>
    (\<exists>e. about (ID d') CreateEventType e \<and> logged e (erows (twDb (apTx A))) (erows (twDb (apTx A'))))"
proof -
  from assms(2) have run: "DinosaurService_Create g (app_dinosaurs td) (app_events g te exec) ctx d A = (Done (Inr d'), A')"
    by (simp add: app_service_sel)
  then obtain S where "DinosaurDao_Create td ctx d (apTx A) = (Done (Inr d'), S)"
    by (auto simp: DinosaurService_Create_def run_elims app_dinosaurs_def lift_dinosaur_dao_def run_in_iff sqlDinosaurDao_def)
  moreover have law: "table_law td drows" "same_but_times d' (gtStored td d')"
    using assms(1) by (simp_all add: app_ok_def app_laws_def)
  ultimately have none: "drows (twDb (apTx A)) (ID d') = None" by (auto dest: DinosaurDao_Create_step)
  with sqlenv.create_spec [OF assms(1) run none] law(2) show ?thesis by simp
qed

text \<open>
  C10: A replacement that succeeds found the dinosaur; when the species is the stored one nothing is
  written and no event is recorded, otherwise exactly that row changes, in its species (and in its
  times, which the column rounds: \<open>gtStored\<close>), and exactly one entry is added to the events, an
  unreconciled Update event about the dinosaur. In every locking mode the lock has
  been given back.
\<close>

theorem dinosaur_replace_effect:
  assumes "app_ok uuid pg td te exec drows erows A"
    and "dsReplace (app_service uuid g mode pg td te exec) ctx d A = (Done (Inr d'), A')"
  shows "\<exists>old. drows (twDb (apTx A)) (ID d) = Some old \<and> real_owners (apLock A') = real_owners (apLock A) \<and>
    (if Species old = Species d
     then d' = old \<and> drows (twDb (apTx A')) = drows (twDb (apTx A)) \<and>
       erows (twDb (apTx A')) = erows (twDb (apTx A))
     else (\<exists>u e. d' = old\<lparr>Species := Species d, UpdatedAt := u\<rparr> \<and>
       drows (twDb (apTx A')) = (drows (twDb (apTx A)))(ID d \<mapsto> gtStored td d') \<and> same_but_times d' (gtStored td d') \<and>
       about (ID d) UpdateEventType e \<and> logged e (erows (twDb (apTx A))) (erows (twDb (apTx A')))))"
proof -
  have "same_but_times d' (gtStored td d')" using assms(1) by (simp add: app_ok_def app_laws_def)
  with sqlenv.replace_spec [OF assms(1)] assms(2) show ?thesis by (fastforce simp: app_service_sel)
qed

definition shop_new_rex :: dinosaur where
  "shop_new_rex = shop_rex\<lparr>Species := ''Raptor''\<rparr>"

lemma shop_replace_run:
  "case dsReplace (shop_service default_lock_mode) background shop_new_rex (shop_app False) of
     (Done (Inr d'), A') \<Rightarrow> Species d' = ''Raptor'' \<and> map Species (map snd (shDinos (twDb (apTx A')))) = [''Raptor''] \<and>
       map (SourceID o snd) (shEvents (twDb (apTx A'))) = [''d'']
   | _ \<Rightarrow> False"
  by code_simp

theorem dinosaur_replace_effect_witness:
  "\<exists>d' A' u. dsReplace (shop_service default_lock_mode) background shop_new_rex (shop_app False) = (Done (Inr d'), A') \<and>
     d' = shop_rex\<lparr>Species := ''Raptor'', UpdatedAt := u\<rparr> \<and>
     map_of (shDinos (twDb (apTx A'))) = [''d'' \<mapsto> round_meta d']"
proof -
  from shop_replace_run obtain d' A' where
      run: "dsReplace (shop_service default_lock_mode) background shop_new_rex (shop_app False) = (Done (Inr d'), A')"
    by (auto split: prod.splits outcome.splits sum.splits)
  from dinosaur_replace_effect [OF shop_ok [of False] run [unfolded shop_service_def]] run
  show ?thesis by (auto simp: shop_app_def shop_new_rex_def shop_rex_def shop_stored split: if_splits)
qed

text \<open>
  C16: In the blocking mode a replacement that returns or panics has given its advisory lock back, on
  every path, errors included.
\<close>

theorem dinosaur_replace_unlocks:
  assumes "app_ok uuid pg td te exec drows erows A"
    and "\<not> DisableAdvisoryLock mode" and "UseBlockingAdvisoryLock mode"
    and "dsReplace (app_service uuid g mode pg td te exec) ctx d A = (r, A')" and "r \<noteq> Blocked"
  shows "real_owners (apLock A') = real_owners (apLock A)"
  by (rule sqlenv.replace_blocking_owners [OF assms(1-3) _ assms(5)])
     (use assms(4) in \<open>simp add: app_service_sel\<close>)

definition shop_ghost :: dinosaur where
  "shop_ghost = shop_rex\<lparr>ID := ''ghost''\<rparr>"

lemma shop_ghost_run:
  "case dsReplace (shop_service default_lock_mode) background shop_ghost (shop_app False) of
     (Done (Inl e), A') \<Rightarrow> HttpCode e = 404 | _ \<Rightarrow> False"
  by code_simp

theorem dinosaur_replace_unlocks_witness:
  "\<exists>e A'. dsReplace (shop_service default_lock_mode) background shop_ghost (shop_app False) = (Done (Inl e), A') \<and>
     HttpCode e = 404 \<and> real_owners (apLock A') = {}"
proof -
  from shop_ghost_run obtain e A' where
      run: "dsReplace (shop_service default_lock_mode) background shop_ghost (shop_app False) = (Done (Inl e), A')"
        "HttpCode e = 404"
    by (auto split: prod.splits outcome.splits sum.splits)
  from dinosaur_replace_unlocks [OF shop_ok [of False] _ _ run(1) [unfolded shop_service_def]]
  have "real_owners (apLock A') = real_owners (apLock (shop_app False))"
    by (simp add: default_lock_mode_def)
  with run show ?thesis by (simp add: shop_app_def NewAdvisoryLockFactory_def real_owners_def)
qed

text \<open>
  C19: A creation that succeeds stores one new row, with the species given and the times as the column
  rounds them, under an identifier that was free, and adds exactly one entry to the events, a Create
  event about it.
\<close>

theorem dinosaur_create_effect:
  assumes "app_ok uuid pg td te exec drows erows A"
    and "dsCreate (app_service uuid g mode pg td te exec) ctx d A = (Done (Inr d'), A')"
  shows "drows (twDb (apTx A)) (ID d') = None \<and>
    drows (twDb (apTx A')) = (drows (twDb (apTx A)))(ID d' \<mapsto> gtStored td d') \<and> same_but_times d' (gtStored td d') \<and>
    Species d' = Species d \<and> real_owners (apLock A') = real_owners (apLock A) \<and>
    (\<exists>e. about (ID d') CreateEventType e \<and> logged e (erows (twDb (apTx A))) (erows (twDb (apTx A'))))"
  by (rule app_create_spec [OF assms])

lemma shop_create_run:
  "case dsCreate (shop_service default_lock_mode) background shop_ghost (shop_app False) of
     (Done (Inr d'), A') \<Rightarrow> ID d' = ''k'' | _ \<Rightarrow> False"
  by code_simp

theorem dinosaur_create_effect_witness:
  "\<exists>d' A'. dsCreate (shop_service default_lock_mode) background shop_ghost (shop_app False) = (Done (Inr d'), A') \<and>
     map_of (shDinos (twDb (apTx A'))) = [''d'' \<mapsto> shop_rex, ''k'' \<mapsto> round_meta d']"
proof -
  from shop_create_run obtain d' A' where
      run: "dsCreate (shop_service default_lock_mode) background shop_ghost (shop_app False) = (Done (Inr d'), A')"
        "ID d' = ''k''"
    by (auto split: prod.splits outcome.splits sum.splits)
  from dinosaur_create_effect [OF shop_ok [of False] run(1) [unfolded shop_service_def]] run
  show ?thesis by (auto simp: shop_app_def)
qed

text \<open>
  C20: A deletion that succeeds removes exactly the named row and adds exactly one entry to the events,
  a Delete event about it.
\<close>

theorem dinosaur_delete_effect:
  assumes "app_ok uuid pg td te exec drows erows A"
    and "dsDelete (app_service uuid g mode pg td te exec) ctx did A = (Done None, A')"
  shows "drows (twDb (apTx A')) = (drows (twDb (apTx A)))(did := None) \<and>
    real_owners (apLock A') = real_owners (apLock A) \<and>
    (\<exists>e. about did DeleteEventType e \<and> logged e (erows (twDb (apTx A))) (erows (twDb (apTx A'))))"
  by (rule sqlenv.delete_spec [OF assms(1)]) (use assms(2) in \<open>simp add: app_service_sel\<close>)

lemma shop_delete_run:
  "case dsDelete (shop_service default_lock_mode) background ''d'' (shop_app False) of
     (Done None, A') \<Rightarrow> True | _ \<Rightarrow> False"
  by code_simp

theorem dinosaur_delete_effect_witness:
  "\<exists>A'. dsDelete (shop_service default_lock_mode) background ''d'' (shop_app False) = (Done None, A') \<and>
     map_of (shDinos (twDb (apTx A'))) = Map.empty"
proof -
  from shop_delete_run obtain A' where
      run: "dsDelete (shop_service default_lock_mode) background ''d'' (shop_app False) = (Done None, A')"
    by (auto split: prod.splits outcome.splits option.splits)
  from dinosaur_delete_effect [OF shop_ok [of False] run [unfolded shop_service_def]] run
  show ?thesis by (auto simp: shop_app_def)
qed

text \<open>
  C40: In the non-blocking mode, a replacement that does not get the lock fails with the status 500
  (its Conflict is turned into a general error), and the owner of the lock it did not get stays
  registered in the factory: no Unlock is deferred on this path.
\<close>

theorem dinosaur_nonblocking_leak:
  assumes "app_ok uuid pg td te exec drows erows A"
    and "\<not> DisableAdvisoryLock mode" and "\<not> UseBlockingAdvisoryLock mode"
    and "NewNonBlockingLock uuid default_error_config pg (ID d) dinosaursLockType (lock_view A) = ((u, False, None), L)"
  shows "\<exists>e. dsReplace (app_service uuid default_error_config mode pg td te exec) ctx d A = (Done (Inl e), put_lock L A) \<and>
      HttpCode e = 500 \<and> lwLocks (apLock (put_lock L A)) u = lwLocks L u \<and>
      real_owners L = insert u (real_owners (apLock A)) \<and> u \<notin> real_owners (apLock A)"
proof -
  have tried: "lfTry (app_locks uuid default_error_config pg) (ID d) dinosaursLockType A = ((u, False, None), put_lock L A)"
    using assms(4) by (simp add: app_locks_try)
  have conflict: "HttpCode (HandleUpdateError default_error_config ''Dinosaur''
      (SvcError (New ErrorConflict ''row locked'' []))) = 500" by code_simp
  from assms(4) obtain l S1 where st: "newLock uuid pg (ID d) dinosaursLockType (lock_view A) = (Inr l, S1)"
      "u = (case alUuid l of Some u \<Rightarrow> u | None \<Rightarrow> [])" "lwLocks L = (lwLocks S1)(u \<mapsto> l)"
    by (auto simp: NewNonBlockingLock_def try_obtain_def Let_def split: prod.splits sum.splits)
  have fresh: "real_fresh uuid (apLock A)" using assms(1) by (simp add: app_ok_def)
  have "alUuid l = Some (uuid (lwUuids (apLock A)))" and S1: "lwLocks S1 = lwLocks (apLock A)"
    by (rule newLock_Inr [OF st(1)], simp)+
  then have u: "u = uuid (lwUuids (apLock A))" using st(2) by simp
  have ne: "u \<noteq> []" "u \<notin> real_owners (apLock A)"
    using fresh unfolding u real_fresh_def good_uuid_def by auto
  then have "real_owners L = insert u (real_owners (apLock A))"
    using st(3) S1 by (auto simp: real_owners_def)
  with ne conflict show ?thesis
    using assms(2,3) by (simp add: app_service_sel DinosaurService_Replace_def call_try_def run_bind_def tried)
qed

definition nonblocking :: lock_mode where
  "nonblocking = \<lparr>DisableAdvisoryLock = False, UseBlockingAdvisoryLock = False\<rparr>"

lemma shop_try_run:
  "case NewNonBlockingLock shop_uuid default_error_config shop_pg (ID shop_rex) dinosaursLockType (lock_view (shop_app False))
     of ((u, acq, err), L) \<Rightarrow> u = ''a'' \<and> \<not> acq \<and> err = None"
  by code_simp

theorem dinosaur_nonblocking_leak_witness:
  "\<exists>e A'. dsReplace (shop_service nonblocking) background shop_rex (shop_app False) = (Done (Inl e), A') \<and>
     HttpCode e = 500 \<and> real_owners (apLock A') = {''a''}"
proof -
  from shop_try_run obtain L where
      tr: "NewNonBlockingLock shop_uuid default_error_config shop_pg (ID shop_rex) dinosaursLockType (lock_view (shop_app False))
        = ((''a'', False, None), L)"
    by (auto split: prod.splits)
  have none: "real_owners (apLock (shop_app False)) = {}"
    by (simp add: shop_app_def NewAdvisoryLockFactory_def real_owners_def)
  from dinosaur_nonblocking_leak [OF shop_ok [of False] _ _ tr, of nonblocking background] none
  show ?thesis unfolding shop_service_def by (force simp: nonblocking_def)
qed

text \<open>
  C13: However a creation ends, an error or a panic included, no stored dinosaur is lost or changed
  and no lock is taken.
\<close>

theorem dinosaur_create_keeps:
  assumes "app_ok uuid pg td te exec drows erows A"
    and "dsCreate (app_service uuid g mode pg td te exec) ctx d A = (r, A')"
  shows "real_owners (apLock A') = real_owners (apLock A) \<and>
    (\<forall>i x. drows (twDb (apTx A)) i = Some x \<longrightarrow> drows (twDb (apTx A')) i = Some x)"
  by (rule sqlenv.create_keeps_rows [OF assms(1)]) (use assms(2) in \<open>simp add: app_service_sel\<close>)

lemma shop_broken_run:
  "case dsCreate (shop_service default_lock_mode) background shop_ghost (shop_app True) of
     (Done (Inl e), A') \<Rightarrow> HttpCode e = 500 | _ \<Rightarrow> False"
  by code_simp

theorem dinosaur_create_keeps_witness:
  "\<exists>e A'. dsCreate (shop_service default_lock_mode) background shop_ghost (shop_app True) = (Done (Inl e), A') \<and>
     HttpCode e = 500 \<and> map_of (shDinos (twDb (apTx A'))) ''d'' = Some shop_rex"
proof -
  from shop_broken_run obtain e A' where
      run: "dsCreate (shop_service default_lock_mode) background shop_ghost (shop_app True) = (Done (Inl e), A')"
        "HttpCode e = 500"
    by (auto split: prod.splits outcome.splits sum.splits)
  have "map_of (shDinos (twDb (apTx (shop_app True)))) ''d'' = Some shop_rex" by (simp add: shop_app_def)
  with dinosaur_create_keeps [OF shop_ok [of True] run(1) [unfolded shop_service_def]] run show ?thesis by blast
qed

text \<open>
  A creation is not atomic with its event: when the notification fails, an error is reported
  although the dinosaur and its event are stored, the request's transaction covering neither.
\<close>

theorem dinosaur_create_not_atomic:
  "case dsCreate (shop_service default_lock_mode) background shop_ghost (shop_app True) of
     (Done (Inl e), A') \<Rightarrow>
       HttpCode e = 500 \<and> map fst (shDinos (twDb (apTx A'))) = [''k'', ''d''] \<and>
       map (SourceID o snd) (shEvents (twDb (apTx A'))) = [''k'']
   | _ \<Rightarrow> False"
  by code_simp

end
