(* ===== verification/Kind_Controllers.thy ===== *)
theory Kind_Controllers
  imports Dinosaur_Service
begin

text \<open>
  The event controllers: \<^verbatim>\<open>pkg/controllers/framework.go\<close>, the loop that listens for
  notifications in \<^verbatim>\<open>pkg/db/db_session/default.go\<close>, and the controller that the
  dinosaurs plugin registers. A manager is its map of handler functions; the lock factory and the
  event service it holds are arguments. Messages to the log are left out.
\<close>

section \<open>framework.go\<close>

type_synonym 's controller_fn = "req_context \<Rightarrow> string \<Rightarrow> ('s, go_error option) proc"

text \<open>The handlers of a configuration in the order in which Go ranges over the map.\<close>

record 's controller_config =
  ccSource :: string
  ccHandlers :: "(event_type \<times> 's controller_fn list) list"

type_synonym 's controllers = "string \<rightharpoonup> (event_type \<rightharpoonup> 's controller_fn list)"

definition NewKindControllerManager :: "'s controllers" where
  "NewKindControllerManager = Map.empty"

definition km_add :: "string \<Rightarrow> event_type \<Rightarrow> 's controller_fn list \<Rightarrow> 's controllers \<Rightarrow> 's controllers" where
  "km_add source ev fns km =
     (let handlers = (case km source of None \<Rightarrow> Map.empty | Some m \<Rightarrow> m);
          old = (case handlers ev of None \<Rightarrow> [] | Some l \<Rightarrow> l);
          new = fold (\<lambda>fn l. l @ [fn]) fns old
      in km(source \<mapsto> handlers(ev \<mapsto> new)))"

definition km_Add :: "'s controller_config \<Rightarrow> 's controllers \<Rightarrow> 's controllers" where
  "km_Add config km = fold (\<lambda>(ev, fn). km_add (ccSource config) ev fn) (ccHandlers config) km"

text \<open>The loop over the handler functions, which ends with the first error.\<close>

fun run_handlers :: "'s controller_fn list \<Rightarrow> req_context \<Rightarrow> string \<Rightarrow> ('s, go_error option) proc" where
  "run_handlers [] ctx sourceID = run_ret None"
| "run_handlers (fn # fns) ctx sourceID =
     run_bind (fn ctx sourceID) (\<lambda>err. case err of
       Some e \<Rightarrow> run_ret (Some e) | None \<Rightarrow> run_handlers fns ctx sourceID)"

text \<open>\<open>now\<close> reads the clock.\<close>

definition km_handle ::
    "('s \<Rightarrow> time) \<Rightarrow> 's event_service \<Rightarrow> 's controllers \<Rightarrow> req_context \<Rightarrow> string \<Rightarrow> ('s, unit) proc" where
  "km_handle now ev km ctx eid =
     run_bind (esGet ev ctx eid) (\<lambda>r. case r of
       Inl err \<Rightarrow> run_ret ()
     | Inr event \<Rightarrow>
         (case km (Source event) of
            None \<Rightarrow> run_ret ()
          | Some source \<Rightarrow>
              (case source (EventType event) of
                 None \<Rightarrow> run_ret ()
               | Some handlerFns \<Rightarrow>
                   run_bind (run_handlers handlerFns ctx (SourceID event)) (\<lambda>err. case err of
                     Some e \<Rightarrow> run_ret ()
                   | None \<Rightarrow>
                       run_bind (run_read now) (\<lambda>t.
                       run_bind (esReplace ev ctx (event\<lparr>ReconciledDate := Some t\<rparr>)) (\<lambda>_. run_ret ()))))))"

definition km_Handle ::
    "('s \<Rightarrow> time) \<Rightarrow> 's lock_factory \<Rightarrow> 's event_service \<Rightarrow> 's controllers \<Rightarrow> string \<Rightarrow> ('s, unit) proc" where
  "km_Handle now lf ev km eid =
     run_bind (call_try lf eid Events) (\<lambda>(lockOwnerID, acquired, err).
       run_defer (run_modify (lfUnlock lf lockOwnerID))
         (case err of
            Some e \<Rightarrow> run_ret ()
          | None \<Rightarrow> if \<not> acquired then run_ret () else km_handle now ev km background eid))"

section \<open>The listener\<close>

text \<open>
  What one round of the loop receives: a notification, with the channel and the payload; the nil
  that the driver sends after it has lost and restored its connection; or nothing for ten seconds.
\<close>

datatype notification = Notified string string | Reconnected | Silence

definition waitForNotification :: "(string \<Rightarrow> ('s, unit) proc) \<Rightarrow> notification \<Rightarrow> ('s, unit) proc" where
  "waitForNotification callback n =
     (case n of
        Notified channel extra \<Rightarrow> callback extra
      | Reconnected \<Rightarrow> run_go (Panic nil_deref)
      | Silence \<Rightarrow> run_ret ())"

text \<open>
  The endless loop of \<^verbatim>\<open>newListener\<close> over the rounds there have been; \<open>listen\<close> is
  the error of the \<^verbatim>\<open>LISTEN\<close> statement.
\<close>

fun listen_rounds :: "(string \<Rightarrow> ('s, unit) proc) \<Rightarrow> notification list \<Rightarrow> ('s, unit) proc" where
  "listen_rounds callback [] = run_ret ()"
| "listen_rounds callback (n # ns) =
     run_bind (waitForNotification callback n) (\<lambda>_. listen_rounds callback ns)"

definition newListener ::
    "go_error option \<Rightarrow> error_config \<Rightarrow> (string \<Rightarrow> ('s, unit) proc) \<Rightarrow> notification list \<Rightarrow> ('s, unit) proc" where
  "newListener listen g callback ns =
     (case listen of Some err \<Rightarrow> run_go (Panic (Error g err)) | None \<Rightarrow> listen_rounds callback ns)"

section \<open>The controller of the dinosaurs\<close>

definition dinosaur_controller :: "'s dinosaur_service \<Rightarrow> 's controller_config" where
  "dinosaur_controller svc =
     \<lparr>ccSource = ''Dinosaurs'',
      ccHandlers = [(CreateEventType, [dsOnUpsert svc]), (UpdateEventType, [dsOnUpsert svc]),
                    (DeleteEventType, [dsOnDelete svc])]\<rparr>"

section \<open>Registration\<close>

lemma fold_append1: "fold (\<lambda>fn l. l @ [fn]) fns l = l @ fns"
  by (induction fns arbitrary: l) auto

text \<open>The handler functions of a source and an event type.\<close>

definition fns_of :: "'s controllers \<Rightarrow> string \<Rightarrow> event_type \<Rightarrow> 's controller_fn list option" where
  "fns_of km source ev = Option.bind (km source) (\<lambda>m. m ev)"

lemma fns_of_New: "fns_of NewKindControllerManager source ev = None"
  by (simp add: fns_of_def NewKindControllerManager_def)

lemma fns_of_add:
  "fns_of (km_add source ev fns km) source' ev' =
     (if source' = source \<and> ev' = ev
      then Some ((case fns_of km source ev of None \<Rightarrow> [] | Some l \<Rightarrow> l) @ fns)
      else fns_of km source' ev')"
  by (auto simp: fns_of_def km_add_def Let_def fold_append1 split: option.splits)

lemma fns_of_Add_aux:
  "fns_of (fold (\<lambda>(ev, fn). km_add source ev fn) hs km) source' ev' =
     (if source' = source \<and> filter (\<lambda>h. fst h = ev') hs \<noteq> []
      then Some ((case fns_of km source ev' of None \<Rightarrow> [] | Some l \<Rightarrow> l) @
        concat (map snd (filter (\<lambda>h. fst h = ev') hs)))
      else fns_of km source' ev')"
  by (induction hs arbitrary: km) (auto simp: fns_of_add split: option.splits)

lemma filter_key:
  "distinct (map fst hs) \<Longrightarrow> (k, v) \<in> set hs \<Longrightarrow> filter (\<lambda>h. fst h = k) hs = [(k, v)]"
  by (induction hs) (force simp: filter_empty_conv)+

lemma fns_of_Add:
  assumes "distinct (map fst (ccHandlers config))" and "(ev, fns) \<in> set (ccHandlers config)"
  shows "fns_of (km_Add config km) (ccSource config) ev =
    Some ((case fns_of km (ccSource config) ev of None \<Rightarrow> [] | Some l \<Rightarrow> l) @ fns)"
  unfolding km_Add_def fns_of_Add_aux filter_key [OF assms] by simp

lemma fns_of_Add_other:
  assumes "source \<noteq> ccSource config \<or> ev \<notin> fst ` set (ccHandlers config)"
  shows "fns_of (km_Add config km) source ev = fns_of km source ev"
proof -
  have "source \<noteq> ccSource config \<or> filter (\<lambda>h. fst h = ev) (ccHandlers config) = []"
    using assms by (force simp: filter_empty_conv)
  then show ?thesis unfolding km_Add_def fns_of_Add_aux by auto
qed

text \<open>\<open>km_handle\<close> looks up the handlers in two steps.\<close>

lemma km_handle_fns:
  "km_handle now ev km ctx eid =
     run_bind (esGet ev ctx eid) (\<lambda>r. case r of
       Inl err \<Rightarrow> run_ret ()
     | Inr event \<Rightarrow>
         (case fns_of km (Source event) (EventType event) of
            None \<Rightarrow> run_ret ()
          | Some handlerFns \<Rightarrow>
              run_bind (run_handlers handlerFns ctx (SourceID event)) (\<lambda>err. case err of
                Some e \<Rightarrow> run_ret ()
              | None \<Rightarrow>
                  run_bind (run_read now) (\<lambda>t.
                  run_bind (esReplace ev ctx (event\<lparr>ReconciledDate := Some t\<rparr>)) (\<lambda>_. run_ret ())))))"
  unfolding km_handle_def fns_of_def
  by (intro arg_cong [where f = "run_bind (esGet ev ctx eid)"] ext) (auto split: sum.splits option.splits)

section \<open>The manager in its environment\<close>

definition unlocked_fn ::
    "('s \<Rightarrow> bool) \<Rightarrow> ('s \<Rightarrow> string set) \<Rightarrow> ('s \<Rightarrow> string \<Rightarrow> event option) \<Rightarrow> 's controller_fn \<Rightarrow> bool" where
  "unlocked_fn ok owners erows fn \<longleftrightarrow>
     (\<forall>ctx i s r s'. ok s \<longrightarrow> fn ctx i s = (r, s') \<longrightarrow> ok s' \<and> owners s' = owners s \<and> erows s' = erows s)"

text \<open>
  What handling an event in state \<open>s\<close> can do to the event table: nothing, or, after the run of all its
  handler functions from \<open>s\<close> has returned without an error in a state \<open>s2\<close>, and the write that
  follows in \<open>s2\<close> has returned an event in \<open>s3\<close>, mark the event as reconciled at the time of \<open>s2\<close>.
\<close>

definition handled ::
    "('s \<Rightarrow> string \<Rightarrow> event option) \<Rightarrow> (event \<Rightarrow> event) \<Rightarrow> ('s \<Rightarrow> time) \<Rightarrow> 's event_service \<Rightarrow> 's controllers
     \<Rightarrow> req_context \<Rightarrow> string \<Rightarrow> 's \<Rightarrow> 's \<Rightarrow> bool" where
  "handled erows stored now ev km ctx eid s s' \<longleftrightarrow>
     erows s' = erows s \<or>
     (\<exists>e fns u e' s2 s3. erows s eid = Some e \<and> fns_of km (Source e) (EventType e) = Some fns \<and>
        run_handlers fns ctx (SourceID e) s = (Done None, s2) \<and>
        esReplace ev ctx (e\<lparr>ReconciledDate := Some (now s2)\<rparr>) s2 = (Done (Inr e'), s3) \<and>
        e' = e\<lparr>ReconciledDate := Some (now s2), UpdatedAt := u\<rparr> \<and>
        erows s3 = (erows s)(eid \<mapsto> stored e') \<and> erows s' = erows s3)"

locale event_worker = entity_store edao erows stored ok + lock_owners lf owners ok
    for edao :: "(event, 's) crud_dao" and erows :: "'s \<Rightarrow> string \<Rightarrow> event option"
      and stored :: "event \<Rightarrow> event" and ok :: "'s \<Rightarrow> bool"
      and lf :: "'s lock_factory" and owners :: "'s \<Rightarrow> string set" +
  fixes g :: error_config
  assumes get_owners: "ok s \<Longrightarrow> daoGet edao ctx i s = (r, s') \<Longrightarrow>
        ok s' \<and> owners s' = owners s \<and> erows s' = erows s"
    and replace_owners: "ok s \<Longrightarrow> daoReplace edao ctx e s = (r, s') \<Longrightarrow> ok s' \<and> owners s' = owners s"
    and replace_rows: "ok s \<Longrightarrow> daoReplace edao ctx e s = (r, s') \<Longrightarrow>
        (\<forall>x. r \<noteq> Done (Inr x)) \<Longrightarrow> erows s' = erows s"
    and try_rows: "ok s \<Longrightarrow> lfTry lf i ty s = (t, s') \<Longrightarrow> erows s' = erows s"
    and unlock_rows: "ok s \<Longrightarrow> erows (lfUnlock lf u s) = erows s"
begin

abbreviation good_fns :: "'s controller_fn list \<Rightarrow> bool" where
  "good_fns fns \<equiv> \<forall>fn \<in> set fns. unlocked_fn ok owners erows fn"

lemma run_handlers_frame:
  "good_fns fns \<Longrightarrow> ok s \<Longrightarrow> run_handlers fns ctx i s = (r, s') \<Longrightarrow>
     ok s' \<and> owners s' = owners s \<and> erows s' = erows s"
proof (induction fns arbitrary: s)
  case Nil
  then show ?case by simp
next
  case (Cons fn fns)
  obtain x s1 where one: "fn ctx i s = (x, s1)" by fastforce
  with Cons.prems have s1: "ok s1" "owners s1 = owners s" "erows s1 = erows s"
    by (auto simp: unlocked_fn_def)
  from Cons.prems(3) one have "s' = s1 \<or> run_handlers fns ctx i s1 = (r, s')"
    by (auto simp: run_bind_def split: outcome.splits option.splits)
  with s1 Cons.IH [of s1] Cons.prems(1) show ?case by auto
qed

lemma km_handle_effect:
  assumes good: "\<And>source ty fns. fns_of km source ty = Some fns \<Longrightarrow> good_fns fns"
    and "ok s" and run: "km_handle now (sqlEventService g edao) km ctx eid s = (r, s')"
  shows "ok s' \<and> owners s' = owners s \<and> handled erows stored now (sqlEventService g edao) km ctx eid s s'"
proof -
  obtain x s1 where get: "daoGet edao ctx eid s = (x, s1)" by fastforce
  note s1 = get_owners [OF assms(2) get]
  show ?thesis
  proof (cases "\<exists>e. x = Done (Inr e)")
    case False
    with run get have "s' = s1"
      by (cases x) (auto simp: km_handle_fns sqlEventService_def EventService_Get_def run_try_def run_bind_def
          split: sum.splits)
    with s1 show ?thesis by (simp add: handled_def)
  next
    case True
    then obtain e where x: "x = Done (Inr e)" ..
    from get_Inr [OF assms(2) get [unfolded x]] have e: "s1 = s" "erows s eid = Some e" "ID e = eid" by auto
    show ?thesis
    proof (cases "fns_of km (Source e) (EventType e)")
      case None
      with run get x have "s' = s1"
        by (simp add: km_handle_fns sqlEventService_def EventService_Get_def run_try_def run_bind_def)
      with s1 show ?thesis by (simp add: handled_def)
    next
      case (Some fns)
      obtain y s2 where fns: "run_handlers fns ctx (SourceID e) s1 = (y, s2)" by fastforce
      note s2 = run_handlers_frame [OF good [OF Some] conjunct1 [OF s1] fns]
      obtain z s3 where rep: "daoReplace edao ctx (e\<lparr>ReconciledDate := Some (now s2)\<rparr>) s2 = (z, s3)" by fastforce
      from run get x Some fns rep have fin: "s' = (if y = Done None then s3 else s2)"
        by (auto simp: km_handle_fns sqlEventService_def EventService_Get_def EventService_Replace_def run_try_def
            run_bind_def split: outcome.splits option.splits sum.splits)
      show ?thesis
      proof (cases "y = Done None")
        case False
        with fin s1 s2 show ?thesis by (simp add: handled_def)
      next
        case True
        with fin have s': "s' = s3" by simp
        note s3 = replace_owners [OF conjunct1 [OF s2] rep]
        have "handled erows stored now (sqlEventService g edao) km ctx eid s s'"
        proof (cases "\<exists>e'. z = Done (Inr e')")
          case False
          with replace_rows [OF conjunct1 [OF s2] rep] s1 s2 s' show ?thesis by (auto simp: handled_def)
        next
          case z: True
          then obtain e' where e': "z = Done (Inr e')" ..
          from replace_Inr [OF conjunct1 [OF s2] rep [unfolded this]] obtain u where
              u: "e' = e\<lparr>ReconciledDate := Some (now s2), UpdatedAt := u\<rparr>" "erows s3 = (erows s2)(ID e \<mapsto> stored e')" by auto
          have "esReplace (sqlEventService g edao) ctx (e\<lparr>ReconciledDate := Some (now s2)\<rparr>) s2 = (Done (Inr e'), s3)"
            using rep e' by (simp add: sqlEventService_def EventService_Replace_def run_try_def run_bind_def)
          with e s1 s2 s' Some fns True u show ?thesis unfolding handled_def by (intro disjI2) auto
        qed
        with s1 s2 s3 s' show ?thesis by simp
      qed
    qed
  qed
qed

text \<open>The lock is given back however the handling ends, and no other event is touched.\<close>

lemma km_Handle_effect:
  assumes good: "\<And>source ty fns. fns_of km source ty = Some fns \<Longrightarrow> good_fns fns"
    and "ok s" and run: "km_Handle now lf (sqlEventService g edao) km eid s = (r, s')" and "r \<noteq> Blocked"
  shows "ok s' \<and> owners s' = owners s \<and>
    (\<exists>u acq err t. lfTry lf eid Events s = ((u, acq, err), t) \<and> erows t = erows s \<and>
       (if err = None \<and> acq then handled erows stored now (sqlEventService g edao) km background eid t s'
        else erows s' = erows s))"
proof -
  obtain u acq err s1 where tr: "lfTry lf eid Events s = ((u, acq, err), s1)" by (metis surj_pair)
  note s1 = try_owner [OF assms(2) tr] try_rows [OF assms(2) tr]
  have "ok s1" using s1 by simp
  obtain x s2 where body: "(case err of Some e \<Rightarrow> run_ret () | None \<Rightarrow>
      if \<not> acq then run_ret () else km_handle now (sqlEventService g edao) km background eid) s1 = (x, s2)" by fastforce
  have s2: "ok s2 \<and> owners s2 = owners s1 \<and>
      (if err = None \<and> acq then handled erows stored now (sqlEventService g edao) km background eid s1 s2
       else erows s2 = erows s1)"
  proof (cases "err = None \<and> acq")
    case True
    with body have "km_handle now (sqlEventService g edao) km background eid s1 = (x, s2)" by simp
    from km_handle_effect [OF good \<open>ok s1\<close> this] True show ?thesis by simp
  next
    case False
    with body have "s2 = s1" by (auto split: option.splits)
    with \<open>ok s1\<close> False show ?thesis by auto
  qed
  have s': "s' = lfUnlock lf u s2"
    using run body assms(4) by (auto simp: km_Handle_def call_try_def run_bind_def tr run_defer_modify
        split: outcome.splits)
  have "erows s' = erows s2" using unlock_rows s2 s' by simp
  then have "if err = None \<and> acq then handled erows stored now (sqlEventService g edao) km background eid s1 s'
      else erows s' = erows s" using s2 s1 by (auto simp: handled_def)
  moreover have "owners s' = owners s" using try_bracket [OF assms(2) tr] s2 s' by simp
  moreover have "ok s'" using unlock_ok s2 s' by simp
  ultimately show ?thesis using s1 tr by blast
qed

end

section \<open>The manager on the database\<close>

definition app_event_dao ::
    "(event, 'w) gorm_table \<Rightarrow> (string \<Rightarrow> 'w \<Rightarrow> go_error option \<times> 'w) \<Rightarrow> (event, 'w app) crud_dao" where
  "app_event_dao te exec = lift_event_dao apTx put_tx (sqlEventDao te exec)"

lemma app_event_store:
  "entity_store (app_event_dao te exec) (\<lambda>A. erows (twDb (apTx A))) (gtStored te) (app_ok uuid pg td te exec drows erows)"
proof -
  have "entity_store (app_event_dao te exec) (\<lambda>A. erows (twDb (apTx A))) (gtStored te)
      (\<lambda>A. sql_store_ok te erows exec (apTx A) \<and> app_ok uuid pg td te exec drows erows A)"
    by (rule lift_entity_store [OF sqlevents.entity_store_axioms, where put = put_tx])
       (simp_all add: app_ok_def app_event_dao_def lift_event_dao_def)
  moreover have "(\<lambda>A. sql_store_ok te erows exec (apTx A) \<and> app_ok uuid pg td te exec drows erows A) =
      app_ok uuid pg td te exec drows erows"
    by (auto simp: app_ok_def app_laws_def sql_store_ok_def)
  ultimately show ?thesis by simp
qed

lemma run_in_tx:
  assumes "run_in apTx put_tx m A = (r, A')" and "app_ok uuid pg td te exec drows erows A"
  shows "app_ok uuid pg td te exec drows erows A' \<and> real_owners (apLock A') = real_owners (apLock A)"
  using assms by (auto simp: run_in_iff app_ok_def)

interpretation sqlworker: event_worker "app_event_dao te exec" "\<lambda>A. erows (twDb (apTx A))" "gtStored te"
    "app_ok uuid pg td te exec drows erows" "app_locks uuid g pg" "\<lambda>A. real_owners (apLock A)" g
  for te exec erows uuid pg td drows g
proof (intro event_worker.intro app_event_store app_lock_owners, unfold_locales)
  fix A A' ctx i r
  assume ok: "app_ok uuid pg td te exec drows erows A" and run: "daoGet (app_event_dao te exec) ctx i A = (r, A')"
  from run have "run_in apTx put_tx (EventDao_Get te ctx i) A = (r, A')"
    by (simp add: app_event_dao_def lift_event_dao_def sqlEventDao_def)
  with run_in_tx [OF this ok]
  show "app_ok uuid pg td te exec drows erows A' \<and> real_owners (apLock A') = real_owners (apLock A) \<and>
      erows (twDb (apTx A')) = erows (twDb (apTx A))" by (simp add: EventDao_Get_def run_in_def)
next
  fix A A' ctx e r
  assume ok: "app_ok uuid pg td te exec drows erows A" and run: "daoReplace (app_event_dao te exec) ctx e A = (r, A')"
  from run have "run_in apTx put_tx (EventDao_Replace te ctx e) A = (r, A')"
    by (simp add: app_event_dao_def lift_event_dao_def sqlEventDao_def)
  from run_in_tx [OF this ok]
  show "app_ok uuid pg td te exec drows erows A' \<and> real_owners (apLock A') = real_owners (apLock A)" .
next
  fix A A' :: "'a app" and ctx e r
  assume ok: "app_ok uuid pg td te exec drows erows A" and run: "daoReplace (app_event_dao te exec) ctx e A = (r, A')"
    and fail: "\<forall>x. r \<noteq> Done (Inr x)"
  from run obtain S where S: "EventDao_Replace te ctx e (apTx A) = (r, S)" "A' = put_tx S A"
    by (auto simp: app_event_dao_def lift_event_dao_def sqlEventDao_def run_in_iff)
  have "table_law te erows" using ok by (simp add: app_ok_def app_laws_def)
  from EventDao_Replace_step [OF S(1) this] fail S(2)
  show "erows (twDb (apTx A')) = erows (twDb (apTx A))" by auto
next
  fix A A' i ty t
  assume ok: "app_ok uuid pg td te exec drows erows A" and new: "lfTry (app_locks uuid g pg) i ty A = (t, A')"
  from ok have fr: "pg_frame pg erows" by (simp add: app_ok_def app_laws_def)
  from new obtain L where "NewNonBlockingLock uuid g pg i ty (lock_view A) = (t, L)" "A' = put_lock L A"
    by (auto simp: app_locks_try)
  with lock_frame(2) [OF fr] show "erows (twDb (apTx A')) = erows (twDb (apTx A))" by (metis app_lens(4,8))
next
  fix A u
  assume ok: "app_ok uuid pg td te exec drows erows A"
  from ok have fr: "pg_frame pg erows" by (simp add: app_ok_def app_laws_def)
  show "erows (twDb (apTx (lfUnlock (app_locks uuid g pg) u A))) = erows (twDb (apTx A))"
    by (simp add: app_locks_unlock lock_frame(3) [OF fr])
qed

lemma app_events_eq: "app_events g te exec = sqlEventService g (app_event_dao te exec)"
  by (simp add: app_events_def app_event_dao_def)

text \<open>The manager that the dinosaurs plugin registers itself with.\<close>

definition dinosaur_manager :: "'s dinosaur_service \<Rightarrow> 's controllers" where
  "dinosaur_manager svc = km_Add (dinosaur_controller svc) NewKindControllerManager"

lemma dinosaur_manager_fns:
  "fns_of (dinosaur_manager svc) source ty =
     (if source \<noteq> ''Dinosaurs'' then None
      else case ty of CreateEventType \<Rightarrow> Some [dsOnUpsert svc] | UpdateEventType \<Rightarrow> Some [dsOnUpsert svc]
        | DeleteEventType \<Rightarrow> Some [dsOnDelete svc] | OtherEventType t \<Rightarrow> None)"
  by (auto simp: dinosaur_manager_def km_Add_def fns_of_add dinosaur_controller_def fns_of_New
      split: event_type.splits)

lemma app_OnUpsert:
  "dsOnUpsert (app_service uuid g mode pg td te exec) ctx i A =
     (Done (case gtTake td i (twDb (apTx A)) of Inl err \<Rightarrow> Some err | Inr d \<Rightarrow> None), A)"
  by (simp add: app_service_sel OnUpsert_def run_bind_def app_dinosaurs_def lift_dinosaur_dao_def run_in_def
      sqlDinosaurDao_def DinosaurDao_Get_def split: sum.splits)

lemma app_OnDelete: "dsOnDelete (app_service uuid g mode pg td te exec) ctx i A = (Done None, A)"
  by (simp add: app_service_sel OnDelete_def)

lemma dinosaur_manager_good:
  assumes "fns_of (dinosaur_manager (app_service uuid g mode pg td te exec)) source ty = Some fns"
  shows "\<forall>fn \<in> set fns. unlocked_fn ok owners rows fn"
  using assms by (auto simp: dinosaur_manager_fns unlocked_fn_def app_OnUpsert app_OnDelete
      split: if_splits event_type.splits)

lemma manager_effect:
  assumes "app_ok uuid pg td te exec drows erows A"
    and "km_Handle now (app_locks uuid g pg) (app_events g te exec)
       (dinosaur_manager (app_service uuid g mode pg td te exec)) eid A = (r, A')"
    and "r \<noteq> Blocked"
  shows "app_ok uuid pg td te exec drows erows A' \<and> real_owners (apLock A') = real_owners (apLock A) \<and>
    (\<exists>u acq err B. lfTry (app_locks uuid g pg) eid Events A = ((u, acq, err), B) \<and>
       erows (twDb (apTx B)) = erows (twDb (apTx A)) \<and>
       (if err = None \<and> acq
        then handled (\<lambda>A. erows (twDb (apTx A))) (gtStored te) now (app_events g te exec)
          (dinosaur_manager (app_service uuid g mode pg td te exec)) background eid B A'
        else erows (twDb (apTx A')) = erows (twDb (apTx A))))"
  unfolding app_events_eq
  by (rule sqlworker.km_Handle_effect [OF _ assms(1) assms(2) [unfolded app_events_eq] assms(3)])
     (rule dinosaur_manager_good)

section \<open>Properties\<close>

text \<open>
  Registering a configuration appends its handler functions, in their order, to the ones already
  registered for its source and their event type, and changes no other registration; the order in
  which the map of handlers is ranged over does not matter.
\<close>

theorem add_registers:
  assumes "distinct (map fst (ccHandlers config))" and "set (ccHandlers config') = set (ccHandlers config)"
    and "distinct (map fst (ccHandlers config'))" and "ccSource config' = ccSource config"
  shows "fns_of (km_Add config km) source ev =
    (if source = ccSource config \<and> ev \<in> fst ` set (ccHandlers config)
     then Some ((case fns_of km source ev of None \<Rightarrow> [] | Some l \<Rightarrow> l) @ the (map_of (ccHandlers config) ev))
     else fns_of km source ev) \<and>
    fns_of (km_Add config' km) source ev = fns_of (km_Add config km) source ev"
proof (cases "source = ccSource config \<and> ev \<in> fst ` set (ccHandlers config)")
  case True
  then obtain fns where fns: "(ev, fns) \<in> set (ccHandlers config)" by force
  with fns_of_Add [OF assms(1) fns, of km] fns_of_Add [OF assms(3), of ev fns km] assms(1,2,4) True
  show ?thesis by simp
next
  case False
  then have "source \<noteq> ccSource config \<or> ev \<notin> fst ` set (ccHandlers config)" by blast
  with fns_of_Add_other [OF this, of km] fns_of_Add_other [of source config' ev km] assms(2,4) False
  show ?thesis by (metis (no_types, lifting))
qed

definition demo_controller :: "unit controller_config" where
  "demo_controller = \<lparr>ccSource = ''Dinosaurs'',
     ccHandlers = [(CreateEventType, [\<lambda>ctx i. run_ret None]), (DeleteEventType, [\<lambda>ctx i. run_ret (Some ErrRecordNotFound)])]\<rparr>"

definition demo_reversed :: "unit controller_config" where
  "demo_reversed = demo_controller\<lparr>ccHandlers := rev (ccHandlers demo_controller)\<rparr>"

theorem add_registers_witness:
  "fns_of (km_Add demo_controller (km_Add demo_controller NewKindControllerManager)) ''Dinosaurs'' CreateEventType =
     Some [\<lambda>ctx i. run_ret None, \<lambda>ctx i. run_ret None] \<and>
   fns_of (km_Add demo_reversed NewKindControllerManager) ''Dinosaurs'' DeleteEventType =
     fns_of (km_Add demo_controller NewKindControllerManager) ''Dinosaurs'' DeleteEventType"
proof -
  have d: "distinct (map fst (ccHandlers demo_controller))" "distinct (map fst (ccHandlers demo_reversed))"
      "set (ccHandlers demo_reversed) = set (ccHandlers demo_controller)" "ccSource demo_reversed = ccSource demo_controller"
    by (auto simp: demo_controller_def demo_reversed_def)
  note one = add_registers [OF d(1) d(3) d(2) d(4), of NewKindControllerManager "''Dinosaurs''"]
  note two = add_registers [OF d(1) d(3) d(2) d(4), of "km_Add demo_controller NewKindControllerManager" "''Dinosaurs''"]
  have "fns_of (km_Add demo_controller NewKindControllerManager) ''Dinosaurs'' CreateEventType = Some [\<lambda>ctx i. run_ret None]"
    using one [of CreateEventType] by (simp add: demo_controller_def fns_of_New)
  with one [of DeleteEventType] two [of CreateEventType] show ?thesis by (simp add: demo_controller_def)
qed


definition shop_free_pg :: "shop pg_lib" where
  "shop_free_pg = shop_pg\<lparr>pgTryLock := (\<lambda>_ _ _ w. (Inr ''true'', w))\<rparr>"

lemma shop_free_laws:
  "app_laws shop_free_pg shop_dinos shop_events shop_exec (\<lambda>w. map_of (shDinos w)) (\<lambda>w. map_of (shEvents w))"
  using shop_laws unfolding app_laws_def
  by (auto simp: pg_frame_def shop_free_pg_def shop_pg_def)

definition shop_event :: event where
  "shop_event = (dinosaur_event ''d'' UpdateEventType)\<lparr>ID := ''e1''\<rparr>"

text \<open>The dinosaur of \<open>shop_app\<close> and one event about it.\<close>

definition shop_pending :: "shop app" where
  "shop_pending = put_tx \<lparr>twDb = \<lparr>shNext = 0, shDinos = [(''d'', shop_rex)], shEvents = [(''e1'', shop_event)],
     shBroken = False\<rparr>, twTxs = []\<rparr> (shop_app False)"

definition shop_worker :: "string \<Rightarrow> (shop app, unit) proc" where
  "shop_worker = km_Handle (\<lambda>_. 17000) (app_locks shop_uuid default_error_config shop_free_pg)
     (app_events default_error_config shop_events shop_exec)
     (dinosaur_manager (app_service shop_uuid default_error_config default_lock_mode shop_free_pg shop_dinos shop_events shop_exec))"

lemma shop_pending_ok:
  "app_ok shop_uuid shop_free_pg shop_dinos shop_events shop_exec (\<lambda>w. map_of (shDinos w)) (\<lambda>w. map_of (shEvents w))
     shop_pending"
  by (simp add: app_ok_def shop_free_laws real_fresh_def shop_uuid_good shop_app_def shop_pending_def real_owners_def
      NewAdvisoryLockFactory_def)

lemma shop_worker_run:
  "case shop_worker ''e1'' shop_pending of
     (Done u, A') \<Rightarrow> map (ReconciledDate o snd) (shEvents (twDb (apTx A'))) = [Some 17000] | _ \<Rightarrow> False"
  by code_simp


lemma app_event_get:
  "esGet (app_events g te exec) ctx i A =
     (Done (case gtTake te i (twDb (apTx A)) of
        Inl err \<Rightarrow> Inl (HandleGetError g ''Event'' ''id'' i err) | Inr e \<Rightarrow> Inr e), A)"
  by (simp add: app_events_def sqlEventService_def EventService_Get_def run_try_def run_bind_def
      lift_event_dao_def run_in_def sqlEventDao_def EventDao_Get_def split: sum.splits)

text \<open>
  C4: A worker that gets the lock of a Create or Update event reconciles it, when the event and its
  dinosaur can be read and the event can be saved: the handling returns, and the stored event
  carries the time of its reconciliation, as the column rounds it.
\<close>

theorem dinosaur_event_reconciled:
  assumes "app_ok uuid pg td te exec drows erows A"
    and "NewNonBlockingLock uuid g pg eid Events (lock_view A) = ((u, True, None), L)"
    and "gtTake te eid (lwDb L) = Inr e" and "about did ty e" and "ty = CreateEventType \<or> ty = UpdateEventType"
    and "gtTake td did (lwDb L) = Inr d"
    and "gtSave te (e\<lparr>ReconciledDate := Some (now (put_lock L A))\<rparr>) (lwDb L) = (Inr e', w)"
  shows "\<exists>A'. km_Handle now (app_locks uuid g pg) (app_events g te exec)
      (dinosaur_manager (app_service uuid g mode pg td te exec)) eid A = (Done (), A') \<and>
    erows (twDb (apTx A')) eid = Some (gtStored te e') \<and> ReconciledDate e' = Some (now (put_lock L A)) \<and>
    ReconciledDate (gtStored te e') \<noteq> None"
proof -
  have law: "table_law te erows" "pg_frame pg erows" "same_event e' (gtStored te e')"
    using assms(1) by (simp_all add: app_ok_def app_laws_def)
  from table_lawD(2) [OF law(1) assms(3)] have e: "ID e = eid" by simp
  let ?B = "put_lock L A" and ?m = "dinosaur_manager (app_service uuid g mode pg td te exec)"
  let ?C = "put_tx ((apTx ?B)\<lparr>twDb := w\<rparr>) ?B"
  have tried: "lfTry (app_locks uuid g pg) eid Events A = ((u, True, None), ?B)"
    using assms(2) by (simp add: app_locks_try)
  have fns: "fns_of ?m (Source e) (EventType e) = Some [dsOnUpsert (app_service uuid g mode pg td te exec)]"
    using assms(4,5) by (auto simp: about_def dinosaur_manager_fns)
  have did: "SourceID e = did" using assms(4) by (simp add: about_def)
  have save: "esReplace (app_events g te exec) background (e\<lparr>ReconciledDate := Some (now ?B)\<rparr>) ?B = (Done (Inr e'), ?C)"
    using assms(7) by (simp add: app_events_def sqlEventService_def EventService_Replace_def run_try_def run_bind_def
        lift_event_dao_def run_in_def sqlEventDao_def EventDao_Replace_def mark_on_error_def on_db_def)
  have run: "km_handle now (app_events g te exec) ?m background eid ?B = (Done (), ?C)"
    by (simp add: km_handle_fns app_event_get assms(3,6) run_bind_def fns did app_OnUpsert save)
  have "km_Handle now (app_locks uuid g pg) (app_events g te exec) ?m eid A =
      (Done (), lfUnlock (app_locks uuid g pg) u ?C)"
    by (simp add: km_Handle_def call_try_def run_bind_def tried run_defer_modify run)
  moreover have "erows (twDb (apTx (lfUnlock (app_locks uuid g pg) u ?C))) = erows w"
    by (simp add: app_locks_unlock lock_frame(3) [OF law(2)])
  moreover obtain x where x: "e' = e\<lparr>ReconciledDate := Some (now ?B), UpdatedAt := x\<rparr>"
    using table_lawD(6) [OF law(1) assms(7)] by auto
  moreover have "erows w eid = Some (gtStored te e')" using table_lawD(6) [OF law(1) assms(7)] e by simp
  ultimately show ?thesis using law(3) by (auto simp: same_event_def)
qed

lemma shop_reads:
  "gtTake shop_events ''e1'' (twDb (apTx shop_pending)) = Inr shop_event"
  "gtTake shop_dinos ''d'' (twDb (apTx shop_pending)) = Inr shop_rex"
  by (simp_all add: shop_events_def shop_dinos_def shop_table_def shop_pending_def shop_event_def shop_rex_def
      dinosaur_event_def)

lemma shop_free_try:
  "\<exists>L. NewNonBlockingLock shop_uuid default_error_config shop_free_pg ''e1'' Events (lock_view shop_pending) =
      ((''a'', True, None), L) \<and> lwDb L = twDb (apTx shop_pending)"
  by (simp add: NewNonBlockingLock_def try_obtain_def newLock_def newAdvisoryLock_def nonBlockingLock_def lock_keys_def shop_free_pg_def
      shop_pg_def Let_def shop_uuid_def shop_pending_def shop_app_def NewAdvisoryLockFactory_def lock_view_def put_tx_def)

theorem dinosaur_event_reconciled_witness:
  "\<exists>A' e'. shop_worker ''e1'' shop_pending = (Done (), A') \<and>
     map_of (shEvents (twDb (apTx A'))) ''e1'' = Some e' \<and> ReconciledDate e' = Some 17000"
proof -
  from shop_free_try obtain L where
      L: "NewNonBlockingLock shop_uuid default_error_config shop_free_pg ''e1'' Events (lock_view shop_pending) =
        ((''a'', True, None), L)" "lwDb L = twDb (apTx shop_pending)" by blast
  have ab: "about ''d'' UpdateEventType shop_event" by (simp add: about_def shop_event_def dinosaur_event_def)
  have sv: "\<exists>e' w. gtSave shop_events (shop_event\<lparr>ReconciledDate := Some 17000\<rparr>) (lwDb L) = (Inr e', w)"
    by (simp add: shop_events_def shop_table_def)
  then obtain e' w where "gtSave shop_events (shop_event\<lparr>ReconciledDate := Some 17000\<rparr>) (lwDb L) = (Inr e', w)" by blast
  from dinosaur_event_reconciled [OF shop_pending_ok L(1) shop_reads(1) [folded L(2)] ab _ shop_reads(2) [folded L(2)] this,
      of default_lock_mode]
  show ?thesis unfolding shop_worker_def by (auto simp: round_event_def whole_def)
qed

text \<open>
  The listener hands the payloads of the notifications to the callback one after another in the
  order in which they arrive, rounds without one changing nothing, as long as the connection to the
  database is not lost.
\<close>

theorem listener_in_order:
  assumes "Reconnected \<notin> set ns"
  shows "newListener None g callback ns =
    fold (\<lambda>n m. run_bind m (\<lambda>_. case n of Notified channel extra \<Rightarrow> callback extra | _ \<Rightarrow> run_ret ())) ns (run_ret ())"
proof -
  have "run_bind m (\<lambda>_. listen_rounds callback ns) =
      fold (\<lambda>n m. run_bind m (\<lambda>_. case n of Notified channel extra \<Rightarrow> callback extra | _ \<Rightarrow> run_ret ())) ns m" for m
    using assms
  proof (induction ns arbitrary: m)
    case Nil
    show ?case by (auto simp: fun_eq_iff run_bind_def split: prod.splits outcome.splits)
  next
    case (Cons n ns)
    have "run_bind m (\<lambda>_. listen_rounds callback (n # ns)) =
        run_bind (run_bind m (\<lambda>_. waitForNotification callback n)) (\<lambda>_. listen_rounds callback ns)"
      by (simp add: run_bind_assoc)
    also have "waitForNotification callback n = (case n of Notified channel extra \<Rightarrow> callback extra | _ \<Rightarrow> run_ret ())"
      using Cons.prems by (cases n) (auto simp: waitForNotification_def)
    finally show ?case using Cons by simp
  qed
  from this [of "run_ret ()"] show ?thesis by (simp add: newListener_def)
qed

theorem listener_in_order_witness:
  "newListener None default_error_config (\<lambda>i. run_modify (\<lambda>l. l @ [i])) [Notified ''events'' ''a'', Silence, Notified ''events'' ''b''] [] =
     (Done (), [''a'', ''b''])"
  by (subst listener_in_order) (simp_all add: run_bind_def)

text \<open>
  The listener does not survive the loss of its connection: the nil notification that announces
  the new connection makes it panic, after the notifications before it and before any later one.
\<close>

theorem listener_reconnect_panics:
  assumes "listen_rounds callback ns s = (Done (), s')"
  shows "newListener None g callback (ns @ Reconnected # later) s = (Panicked nil_deref, s')"
  using assms unfolding newListener_def option.case
proof (induction ns arbitrary: s)
  case Nil
  then show ?case by (simp add: run_bind_def waitForNotification_def)
next
  case (Cons n ns)
  then obtain t where t: "waitForNotification callback n s = (Done (), t)" "listen_rounds callback ns t = (Done (), s')"
    by (auto simp: run_elims)
  from Cons.IH [OF t(2)] t(1) show ?case by (simp add: run_bind_def)
qed

theorem listener_reconnect_panics_witness:
  "newListener None default_error_config (\<lambda>i. run_modify (\<lambda>l. l @ [i])) ([Notified ''events'' ''a''] @ Reconnected # [Notified ''events'' ''b'']) [] =
     (Panicked nil_deref, [''a''])"
  by (rule listener_reconnect_panics) (simp add: waitForNotification_def run_bind_def)

end
