(* ===== verification/App_System.thy ===== *)
theory App_System
  imports Kind_Controllers
begin

text \<open>
  The running service as one system: calls of the dinosaur service and notified events handled by the
  kind controllers, in any order, each taken to its end, over the shared database and the shared lock
  factory. Its invariant joins what the parts keep: no call leaves a lock behind, and the table of
  events is a log, in which an event only ever gets its date of reconciliation.
\<close>

section \<open>The steps\<close>

inductive app_step ::
    "(nat \<Rightarrow> string) \<Rightarrow> error_config \<Rightarrow> lock_mode \<Rightarrow> 'w pg_lib \<Rightarrow> (dinosaur, 'w) gorm_table \<Rightarrow> (event, 'w) gorm_table
     \<Rightarrow> (string \<Rightarrow> 'w \<Rightarrow> go_error option \<times> 'w) \<Rightarrow> ('w app \<Rightarrow> time) \<Rightarrow> 'w app \<Rightarrow> 'w app \<Rightarrow> bool"
  for uuid g mode pg td te exec now where
  get_call: "dsGet (app_service uuid g mode pg td te exec) ctx i A = (r, A') \<Longrightarrow>
    app_step uuid g mode pg td te exec now A A'"
| create_call: "dsCreate (app_service uuid g mode pg td te exec) ctx d A = (r', A') \<Longrightarrow>
    app_step uuid g mode pg td te exec now A A'"
| replace_call: "dsReplace (app_service uuid g mode pg td te exec) ctx d A = (r', A') \<Longrightarrow> r' \<noteq> Blocked \<Longrightarrow>
    app_step uuid g mode pg td te exec now A A'"
| delete_call: "dsDelete (app_service uuid g mode pg td te exec) ctx i A = (q, A') \<Longrightarrow>
    app_step uuid g mode pg td te exec now A A'"
| handle_event: "km_Handle now (app_locks uuid g pg) (app_events g te exec)
      (dinosaur_manager (app_service uuid g mode pg td te exec)) eid A = (u, A') \<Longrightarrow> u \<noteq> Blocked \<Longrightarrow>
    app_step uuid g mode pg td te exec now A A'"

section \<open>The log of events\<close>

text \<open>The same event, but for its dates; it is reconciled if it was.\<close>

definition event_later :: "event \<Rightarrow> event \<Rightarrow> bool" where
  "event_later e e' \<longleftrightarrow>
     (\<exists>c u v t. e' = e\<lparr>CreatedAt := c, UpdatedAt := u, DeletedAt := v, ReconciledDate := t\<rparr> \<and>
        (ReconciledDate e \<noteq> None \<longrightarrow> t \<noteq> None))"

lemma event_later_refl [simp]: "event_later e e"
  unfolding event_later_def
  by (intro exI [of _ "CreatedAt e"] exI [of _ "UpdatedAt e"] exI [of _ "DeletedAt e"] exI [of _ "ReconciledDate e"]) simp

lemma event_later_trans:
  assumes "event_later e e'" and "event_later e' e''"
  shows "event_later e e''"
proof -
  obtain c u v t where 1: "e' = e\<lparr>CreatedAt := c, UpdatedAt := u, DeletedAt := v, ReconciledDate := t\<rparr>"
      "ReconciledDate e \<noteq> None \<longrightarrow> t \<noteq> None"
    using assms(1) unfolding event_later_def by blast
  obtain c' u' v' t' where 2: "e'' = e'\<lparr>CreatedAt := c', UpdatedAt := u', DeletedAt := v', ReconciledDate := t'\<rparr>"
      "ReconciledDate e' \<noteq> None \<longrightarrow> t' \<noteq> None"
    using assms(2) unfolding event_later_def by blast
  have "e'' = e\<lparr>CreatedAt := c', UpdatedAt := u', DeletedAt := v', ReconciledDate := t'\<rparr>" by (simp add: 1(1) 2(1))
  moreover have "ReconciledDate e \<noteq> None \<longrightarrow> t' \<noteq> None" using 1 2(2) by simp
  ultimately show ?thesis unfolding event_later_def by blast
qed

lemma event_later_reconciled:
  assumes "same_event (e\<lparr>ReconciledDate := Some t, UpdatedAt := u\<rparr>) x"
  shows "event_later e x"
proof -
  from assms obtain c u' v t' where x: "x = e\<lparr>ReconciledDate := Some t, UpdatedAt := u, CreatedAt := c, UpdatedAt := u',
      DeletedAt := v, ReconciledDate := t'\<rparr>" "t' \<noteq> None" by (auto simp: same_event_def)
  then have "x = e\<lparr>CreatedAt := c, UpdatedAt := u', DeletedAt := v, ReconciledDate := t'\<rparr>" by simp
  with x(2) show ?thesis unfolding event_later_def by blast
qed

definition log_later :: "(string \<Rightarrow> event option) \<Rightarrow> (string \<Rightarrow> event option) \<Rightarrow> bool" where
  "log_later R R' \<longleftrightarrow> (\<forall>i e. R i = Some e \<longrightarrow> (\<exists>e'. R' i = Some e' \<and> event_later e e'))"

lemma log_later_refl [simp]: "log_later R R"
  by (auto simp: log_later_def)

lemma log_later_trans:
  assumes "log_later R R'" and "log_later R' R''"
  shows "log_later R R''"
  unfolding log_later_def
proof (intro allI impI)
  fix i e assume "R i = Some e"
  with assms(1) obtain e' where e': "R' i = Some e'" "event_later e e'" unfolding log_later_def by blast
  with assms(2) obtain e'' where "R'' i = Some e''" "event_later e' e''" unfolding log_later_def by blast
  with event_later_trans [OF e'(2)] show "\<exists>e''. R'' i = Some e'' \<and> event_later e e''" by blast
qed

lemma log_later_new: "R i = None \<Longrightarrow> log_later R (R(i \<mapsto> e))"
  by (auto simp: log_later_def)

lemma log_later_change: "R i = Some e \<Longrightarrow> event_later e e' \<Longrightarrow> log_later R (R(i \<mapsto> e'))"
  by (auto simp: log_later_def)

section \<open>What each call keeps\<close>

definition app_log ::
    "(nat \<Rightarrow> string) \<Rightarrow> 'w pg_lib \<Rightarrow> (dinosaur, 'w) gorm_table \<Rightarrow> (event, 'w) gorm_table
     \<Rightarrow> (string \<Rightarrow> 'w \<Rightarrow> go_error option \<times> 'w) \<Rightarrow> ('w \<Rightarrow> string \<Rightarrow> dinosaur option)
     \<Rightarrow> ('w \<Rightarrow> string \<Rightarrow> event option) \<Rightarrow> (string \<Rightarrow> event option) \<Rightarrow> 'w app \<Rightarrow> bool" where
  "app_log uuid pg td te exec drows erows R A \<longleftrightarrow>
     app_ok uuid pg td te exec drows erows A \<and> log_later R (erows (twDb (apTx A)))"

named_theorems log_intros \<open>procedures that keep the log\<close>

lemma log_dinosaur_dao [log_intros]:
  "keeps (app_log uuid pg td te exec drows erows R) (daoGet (app_dinosaurs td) ctx i)"
  "keeps (app_log uuid pg td te exec drows erows R) (daoCreate (app_dinosaurs td) ctx d)"
  "keeps (app_log uuid pg td te exec drows erows R) (daoReplace (app_dinosaurs td) ctx d)"
  "keeps (app_log uuid pg td te exec drows erows R) (daoDelete (app_dinosaurs td) ctx i)"
proof -
  have step: "app_log uuid pg td te exec drows erows R (snd (run_in apTx put_tx m A))"
    if "app_log uuid pg td te exec drows erows R A" and "\<And>v. keeps (\<lambda>S. erows (twDb S) = v) m"
    for m :: "('a tx_world, 'b) proc" and A
  proof -
    obtain r A' where run: "run_in apTx put_tx m A = (r, A')" by fastforce
    from run_in_keeps [OF run that(2)] that(1) run show ?thesis by (simp add: app_log_def app_ok_def)
  qed
  have fr: "table_frame td erows" if "app_log uuid pg td te exec drows erows R A" for A
    using that by (simp add: app_log_def app_ok_def app_laws_def)
  show "keeps (app_log uuid pg td te exec drows erows R) (daoGet (app_dinosaurs td) ctx i)"
    by (rule keepsI) (simp add: app_dinosaurs_def lift_dinosaur_dao_def step dinosaur_dao_frame(1) [OF fr])
  show "keeps (app_log uuid pg td te exec drows erows R) (daoCreate (app_dinosaurs td) ctx d)"
    by (rule keepsI) (simp add: app_dinosaurs_def lift_dinosaur_dao_def step dinosaur_dao_frame(2) [OF fr])
  show "keeps (app_log uuid pg td te exec drows erows R) (daoReplace (app_dinosaurs td) ctx d)"
    by (rule keepsI) (simp add: app_dinosaurs_def lift_dinosaur_dao_def step dinosaur_dao_frame(3) [OF fr])
  show "keeps (app_log uuid pg td te exec drows erows R) (daoDelete (app_dinosaurs td) ctx i)"
    by (rule keepsI) (simp add: app_dinosaurs_def lift_dinosaur_dao_def step dinosaur_dao_frame(4) [OF fr])
qed

lemma log_event_create [log_intros]:
  "keeps (app_log uuid pg td te exec drows erows R) (esCreate (app_events g te exec) ctx e)"
proof (rule keepsI)
  fix A assume log: "app_log uuid pg td te exec drows erows R A"
  have laws: "table_law te erows" "exec_law exec erows" using log by (simp_all add: app_log_def app_ok_def app_laws_def)
  obtain r S where run: "EventDao_Create te exec ctx e (apTx A) = (r, S)" by fastforce
  have A': "snd (esCreate (app_events g te exec) ctx e A) = put_tx S A"
    using run by (auto simp: app_events_def sqlEventService_def EventService_Create_def lift_event_dao_def sqlEventDao_def
        run_try_def run_bind_def run_in_def split: outcome.splits sum.splits)
  have "log_later (erows (twDb (apTx A))) (erows (twDb S))"
    using EventDao_Create_step [OF run laws] log_later_new by (metis log_later_refl)
  then have "log_later R (erows (twDb S))" using log log_later_trans unfolding app_log_def by blast
  with log show "app_log uuid pg td te exec drows erows R (snd (esCreate (app_events g te exec) ctx e A))"
    by (simp add: A' app_log_def app_ok_def)
qed

lemma log_locks [log_intros]:
  "keeps (app_log uuid pg td te exec drows erows R) (call_new (app_locks uuid g pg) i ty)"
  "keeps (app_log uuid pg td te exec drows erows R) (call_try (app_locks uuid g pg) i ty)"
  "keeps (app_log uuid pg td te exec drows erows R) (run_modify (lfUnlock (app_locks uuid g pg) u))"
proof -
  have fr: "pg_frame pg erows" if "app_log uuid pg td te exec drows erows R A" for A
    using that by (simp add: app_log_def app_ok_def app_laws_def)
  show "keeps (app_log uuid pg td te exec drows erows R) (call_new (app_locks uuid g pg) i ty)"
  proof (rule keepsI)
    fix A assume log: "app_log uuid pg td te exec drows erows R A"
    show "app_log uuid pg td te exec drows erows R (snd (call_new (app_locks uuid g pg) i ty A))"
    proof (cases "lfNew (app_locks uuid g pg) i ty A")
      case None
      with log show ?thesis by (simp add: call_new_def)
    next
      case (Some q)
      obtain u err A' where q: "q = ((u, err), A')" by (metis surj_pair)
      with Some obtain L where L: "NewAdvisoryLock uuid g pg i ty (lock_view A) = Some ((u, err), L)" "A' = put_lock L A"
        by (auto simp: app_locks_new)
      from log have "app_ok uuid pg td te exec drows erows A" by (simp add: app_log_def)
      then have "app_ok uuid pg td te exec drows erows A'" using sqlenv.new_owner [OF _ Some [unfolded q]] by blast
      moreover have "erows (twDb (apTx A')) = erows (twDb (apTx A))" using lock_frame(1) [OF fr [OF log] L(1)] L(2) by simp
      ultimately show ?thesis using log Some q by (simp add: call_new_def app_log_def)
    qed
  qed
  show "keeps (app_log uuid pg td te exec drows erows R) (call_try (app_locks uuid g pg) i ty)"
  proof (rule keepsI)
    fix A assume log: "app_log uuid pg td te exec drows erows R A"
    obtain u acq err A' where t: "lfTry (app_locks uuid g pg) i ty A = ((u, acq, err), A')" by (metis surj_pair)
    then obtain L where L: "NewNonBlockingLock uuid g pg i ty (lock_view A) = ((u, acq, err), L)" "A' = put_lock L A"
      by (auto simp: app_locks_try)
    from log have "app_ok uuid pg td te exec drows erows A" by (simp add: app_log_def)
    then have "app_ok uuid pg td te exec drows erows A'" using sqlenv.try_owner [OF _ t] by blast
    moreover have "erows (twDb (apTx A')) = erows (twDb (apTx A))" using lock_frame(2) [OF fr [OF log] L(1)] L(2) by simp
    ultimately show "app_log uuid pg td te exec drows erows R (snd (call_try (app_locks uuid g pg) i ty A))"
      using log t by (simp add: call_try_def app_log_def)
  qed
  show "keeps (app_log uuid pg td te exec drows erows R) (run_modify (lfUnlock (app_locks uuid g pg) u))"
  proof (rule keeps_modify)
    fix A assume log: "app_log uuid pg td te exec drows erows R A"
    then have "app_ok uuid pg td te exec drows erows A" by (simp add: app_log_def)
    then have "app_ok uuid pg td te exec drows erows (lfUnlock (app_locks uuid g pg) u A)" by (rule sqlenv.unlock_ok)
    with log show "app_log uuid pg td te exec drows erows R (lfUnlock (app_locks uuid g pg) u A)"
      by (simp add: app_log_def app_locks_unlock lock_frame(3) [OF fr [OF log]])
  qed
qed

lemma log_service:
  "keeps (app_log uuid pg td te exec drows erows R) (dsGet (app_service uuid g mode pg td te exec) ctx i)"
  "keeps (app_log uuid pg td te exec drows erows R) (dsCreate (app_service uuid g mode pg td te exec) ctx d)"
  "keeps (app_log uuid pg td te exec drows erows R) (dsReplace (app_service uuid g mode pg td te exec) ctx d)"
  "keeps (app_log uuid pg td te exec drows erows R) (dsDelete (app_service uuid g mode pg td te exec) ctx i)"
  unfolding app_service_sel DinosaurService_Get_def DinosaurService_Create_def DinosaurService_Replace_def
    DinosaurService_Delete_def replace_locked_def
  by (auto intro!: keeps_intros log_intros split: prod.splits option.splits sum.splits)

lemma log_handle:
  assumes "app_log uuid pg td te exec drows erows R A"
    and "km_Handle now (app_locks uuid g pg) (app_events g te exec)
      (dinosaur_manager (app_service uuid g mode pg td te exec)) eid A = (u, A')" and "u \<noteq> Blocked"
  shows "app_log uuid pg td te exec drows erows R A' \<and> real_owners (apLock A') = real_owners (apLock A)"
proof -
  have ok: "app_ok uuid pg td te exec drows erows A" using assms(1) by (simp add: app_log_def)
  have round: "same_event e (gtStored te e)" for e using ok by (simp add: app_ok_def app_laws_def)
  let ?er = "\<lambda>A. erows (twDb (apTx A))" and ?m = "dinosaur_manager (app_service uuid g mode pg td te exec)"
  from manager_effect [OF ok assms(2,3)]
  obtain B where A': "app_ok uuid pg td te exec drows erows A'" "real_owners (apLock A') = real_owners (apLock A)"
      and B: "?er B = ?er A" "?er A' = ?er A \<or> handled ?er (gtStored te) now (app_events g te exec) ?m background eid B A'"
    by (metis (no_types, lifting))
  have "log_later (?er A) (?er A')"
  proof (cases "?er A' = ?er A")
    case False
    with B obtain e e' t u where e: "?er A eid = Some e" "e' = e\<lparr>ReconciledDate := Some t, UpdatedAt := u\<rparr>"
        "?er A' = (?er A)(eid \<mapsto> gtStored te e')" unfolding handled_def by metis
    from round [of e'] have "event_later e (gtStored te e')" unfolding e(2) by (rule event_later_reconciled)
    with log_later_change [where R = "?er A" and i = eid] e show ?thesis by simp
  qed simp
  then have "log_later R (erows (twDb (apTx A')))" using assms(1) log_later_trans unfolding app_log_def by blast
  with A' show ?thesis by (simp add: app_log_def)
qed

lemma owners_service:
  assumes "app_ok uuid pg td te exec drows erows A"
  shows "dsGet (app_service uuid g mode pg td te exec) ctx i A = (r, A') \<Longrightarrow> real_owners (apLock A') = real_owners (apLock A)"
    and "dsCreate (app_service uuid g mode pg td te exec) ctx d A = (r', A') \<Longrightarrow> real_owners (apLock A') = real_owners (apLock A)"
    and "dsDelete (app_service uuid g mode pg td te exec) ctx i A = (q, A') \<Longrightarrow> real_owners (apLock A') = real_owners (apLock A)"
    and "DisableAdvisoryLock mode \<or> UseBlockingAdvisoryLock mode \<Longrightarrow>
      dsReplace (app_service uuid g mode pg td te exec) ctx d A = (r', A') \<Longrightarrow> r' \<noteq> Blocked \<Longrightarrow>
      real_owners (apLock A') = real_owners (apLock A)"
proof -
  let ?P = "\<lambda>A'. app_ok uuid pg td te exec drows erows A' \<and> real_owners (apLock A') = real_owners (apLock A)"
  note dao = sqlenv.keeps_dao [unfolded sqlenv.held_by_def [abs_def]]
  have P: "?P A" using assms by simp
  show "dsGet (app_service uuid g mode pg td te exec) ctx i A = (r, A') \<Longrightarrow> real_owners (apLock A') = real_owners (apLock A)"
    using keepsD [where P = ?P, OF _ P, of "dsGet (app_service uuid g mode pg td te exec) ctx i"]
    by (auto simp: app_service_sel DinosaurService_Get_def intro!: keeps_intros dao)
  show "dsCreate (app_service uuid g mode pg td te exec) ctx d A = (r', A') \<Longrightarrow> real_owners (apLock A') = real_owners (apLock A)"
    using sqlenv.create_keeps_rows [OF assms] by (simp add: app_service_sel)
  have "keeps ?P (dsDelete (app_service uuid g mode pg td te exec) ctx i)"
    unfolding app_service_sel DinosaurService_Delete_def
    by (auto intro!: keeps_intros dao split: option.splits sum.splits)
  then show "dsDelete (app_service uuid g mode pg td te exec) ctx i A = (q, A') \<Longrightarrow> real_owners (apLock A') = real_owners (apLock A)"
    using keepsD [where P = ?P, OF _ P] by blast
  assume mode: "DisableAdvisoryLock mode \<or> UseBlockingAdvisoryLock mode" and ret: "r' \<noteq> Blocked"
    and run: "dsReplace (app_service uuid g mode pg td te exec) ctx d A = (r', A')"
  show "real_owners (apLock A') = real_owners (apLock A)"
  proof (cases "DisableAdvisoryLock mode")
    case True
    with run have "replace_locked g (app_dinosaurs td) (app_events g te exec) ctx d A = (r', A')"
      by (simp add: app_service_sel DinosaurService_Replace_def)
    with sqlenv.replace_locked_owners [OF assms] show ?thesis by blast
  next
    case False
    with mode run sqlenv.replace_blocking_owners [OF assms False _ _ ret] show ?thesis by (simp add: app_service_sel)
  qed
qed

section \<open>Properties\<close>



end
