(* ===== verification/Generator.thy ===== *)
theory Generator
  imports Go_Prelude
begin

text \<open>
  \<^verbatim>\<open>scripts/generator.go\<close>: the generator of the CRUD code of a new kind. Strings are
  ASCII, lines are shorter than the scanner's limit, and the file system is a map from paths to
  contents in which every write succeeds (directories are not modelled). The flags are the record
  \<open>gen_flags\<close>; the template engine, \<^verbatim>\<open>gofmt\<close>, \<^verbatim>\<open>make generate\<close> and the
  clock are parameters. The order in which Go ranges over the map of plurals is the parameter
  \<open>ord\<close>, a list of its entries.
\<close>

section \<open>Plurals\<close>

definition irregularPlurals :: "(string \<times> string) list" where
  "irregularPlurals =
     [(''registry'', ''registries''), (''category'', ''categories''), (''company'', ''companies''),
      (''country'', ''countries''), (''family'', ''families''), (''policy'', ''policies''),
      (''directory'', ''directories''), (''repository'', ''repositories''), (''security'', ''securities'')]"

text \<open>The ending put in place of \<open>originalSuffix\<close>, in its case.\<close>

definition plural_suffix :: "string \<Rightarrow> string \<Rightarrow> string" where
  "plural_suffix originalSuffix irregularPlural =
     (if originalSuffix = to_upper originalSuffix then to_upper irregularPlural
      else if length originalSuffix > 0 \<and> hd originalSuffix = hd (to_upper [hd originalSuffix])
      then to_upper [hd irregularPlural] @ tl irregularPlural
      else irregularPlural)"

fun irregular_plural :: "(string \<times> string) list \<Rightarrow> string \<Rightarrow> string option" where
  "irregular_plural [] word = None"
| "irregular_plural ((singular, irregularPlural) # ord) word =
     (if has_suffix (to_lower word) singular
      then Some (take (length word - length singular) word @
             plural_suffix (drop (length word - length singular) word) irregularPlural)
      else irregular_plural ord word)"

definition pluralize :: "string \<Rightarrow> (string \<times> string) list \<Rightarrow> string \<Rightarrow> string" where
  "pluralize plural ord word =
     (if plural \<noteq> [] then plural
      else (case irregular_plural ord word of Some w \<Rightarrow> w | None \<Rightarrow> word @ ''s''))"

section \<open>Names\<close>

definition datePad :: "int \<Rightarrow> string" where
  "datePad d = (if d < 10 then sprintf ''0%d'' [FInt d] else sprintf ''%d'' [FInt d])"

definition is_upper :: "char \<Rightarrow> bool" where
  "is_upper c \<longleftrightarrow> 65 \<le> (of_char c :: nat) \<and> of_char c \<le> (90 :: nat)"

text \<open>The loop over the runes after the first one.\<close>

fun snake_tail :: "string \<Rightarrow> string" where
  "snake_tail [] = []"
| "snake_tail (r # s) = (if is_upper r then CHR ''_'' # r # snake_tail s else r # snake_tail s)"

definition toSnakeCase :: "string \<Rightarrow> string" where
  "toSnakeCase s = to_lower (case s of [] \<Rightarrow> [] | r # s \<Rightarrow> r # snake_tail s)"

text \<open>\<^verbatim>\<open>strings.FieldsFunc\<close>: the non-empty pieces between separators.\<close>

fun fields_func :: "(char \<Rightarrow> bool) \<Rightarrow> string \<Rightarrow> string \<Rightarrow> string list" where
  "fields_func sep cur [] = (if cur = [] then [] else [cur])"
| "fields_func sep cur (r # s) =
     (if sep r then (if cur = [] then fields_func sep [] s else cur # fields_func sep [] s)
      else fields_func sep (cur @ [r]) s)"

definition is_name_sep :: "char \<Rightarrow> bool" where
  "is_name_sep r \<longleftrightarrow> r = CHR ''_'' \<or> r = CHR ''-''"

definition capital :: "string \<Rightarrow> string" where
  "capital part = (if length part > 0 then to_upper [hd part] @ tl part else part)"

definition toPascalCase :: "string \<Rightarrow> string" where
  "toPascalCase s = (if length s = 0 then s else join [] (map capital (fields_func is_name_sep [] s)))"

definition toCamelCase :: "string \<Rightarrow> string" where
  "toCamelCase s =
     (let pascal = toPascalCase s
      in if length pascal = 0 then pascal else to_lower [hd pascal] @ tl pascal)"

section \<open>Fields\<close>

record field =
  fdName :: string
  fdType :: string
  fdGoType :: string
  fdDBType :: string
  fdOpenAPIType :: string
  fdOpenAPIFormat :: string
  fdNameSnakeCase :: string
  fdNameCamelCase :: string
  fdJSONTag :: string
  fdGormTag :: string
  fdRequired :: bool
  fdNullable :: bool
  fdPointerType :: string
  fdNeedsIntConversion :: bool

text \<open>The switch over the field types: base type, database type, OpenAPI type and format.\<close>

definition field_types :: "(string \<times> string \<times> string \<times> string \<times> string) list" where
  "field_types =
     [(''string'', ''string'', ''text'', ''string'', ''''),
      (''int'', ''int'', ''integer'', ''integer'', ''int32''),
      (''int64'', ''int64'', ''bigint'', ''integer'', ''int64''),
      (''bool'', ''bool'', ''boolean'', ''boolean'', ''''),
      (''float'', ''float64'', ''double precision'', ''number'', ''double''),
      (''time'', ''time.Time'', ''timestamp'', ''string'', ''date-time'')]"

definition mapFieldType :: "string \<Rightarrow> string \<Rightarrow> bool \<Rightarrow> string + field" where
  "mapFieldType name fieldType nullable =
     (let goName = toPascalCase name;
          snakeName = toSnakeCase goName;
          camelName = toCamelCase goName
      in case map_of field_types fieldType of
           None \<Rightarrow> Inl (sprintf (''unsupported field type: %s (supported types: string, int, int64, bool, '' @ ''float, time)'') [FStr fieldType])
         | Some (baseType, dbType, apiType, apiFormat) \<Rightarrow>
             Inr \<lparr>fdName = goName, fdType = fieldType,
                  fdGoType = (if nullable then CHR ''*'' # baseType else baseType),
                  fdDBType = dbType, fdOpenAPIType = apiType, fdOpenAPIFormat = apiFormat,
                  fdNameSnakeCase = snakeName, fdNameCamelCase = camelName,
                  fdJSONTag = sprintf ''`json:\"%s\"`'' [FStr snakeName], fdGormTag = '''',
                  fdRequired = (\<not> nullable), fdNullable = nullable,
                  fdPointerType = CHR ''*'' # baseType, fdNeedsIntConversion = (fieldType = ''int'')\<rparr>)"

text \<open>One pair of the comma-separated list.\<close>

definition parseField :: "string \<Rightarrow> string + field" where
  "parseField pair =
     (let parts = split_on (CHR '':'') (trim_space pair)
      in if length parts < 2 \<or> length parts > 3
         then Inl (sprintf ''invalid field format: %s (expected name:type or name:type:required)'' [FStr pair])
         else (let name = trim_space (parts ! 0);
                   fieldType = trim_space (parts ! 1)
               in if length parts = 3
                  then (let modifier = trim_space (parts ! 2)
                        in if modifier = ''required'' then mapFieldType name fieldType False
                           else if modifier = ''optional'' then mapFieldType name fieldType True
                           else Inl (sprintf (''invalid field modifier: %s (expected '' @ [CHR 0x27] @ ''required'' @ [CHR 0x27] @
                                  '' or '' @ [CHR 0x27] @ ''optional'' @ [CHR 0x27] @ '')'') [FStr modifier]))
                  else mapFieldType name fieldType True))"

fun parse_pairs :: "string list \<Rightarrow> string + field list" where
  "parse_pairs [] = Inr []"
| "parse_pairs (pair # pairs) =
     (case parseField pair of Inl err \<Rightarrow> Inl err
      | Inr f \<Rightarrow> (case parse_pairs pairs of Inl err \<Rightarrow> Inl err | Inr fs \<Rightarrow> Inr (f # fs)))"

definition parseFields :: "string \<Rightarrow> string + field list" where
  "parseFields fieldsStr = (if fieldsStr = [] then Inr [] else parse_pairs (split_on (CHR '','') fieldsStr))"

section \<open>Files\<close>

type_synonym files = "string \<rightharpoonup> string"

definition newline :: char where
  "newline = CHR 0x0A"

text \<open>
  \<^verbatim>\<open>bufio.ScanLines\<close>: the lines without their end, a carriage return before it
  dropped; there is no empty last line.
\<close>

definition drop_cr :: "string \<Rightarrow> string" where
  "drop_cr l = (if l \<noteq> [] \<and> last l = CHR 0x0D then butlast l else l)"

definition scan_lines :: "string \<Rightarrow> string list" where
  "scan_lines s =
     (let ls = split_on newline s
      in map drop_cr (if last ls = [] then butlast ls else ls))"

text \<open>The loop over the lines: the flag, the text collected and the matches so far.\<close>

fun between_lines :: "string \<Rightarrow> string \<Rightarrow> bool \<Rightarrow> string \<Rightarrow> string list \<Rightarrow> string list" where
  "between_lines startLine endLine readFlag matched [] = []"
| "between_lines startLine endLine readFlag matched (l # ls) =
     (if trim_space l = startLine then between_lines startLine endLine True matched ls
      else if trim_space l = endLine then matched # between_lines startLine endLine False [] ls
      else if readFlag then between_lines startLine endLine readFlag (matched @ l @ [newline]) ls
      else between_lines startLine endLine readFlag matched ls)"

text \<open>A file that cannot be opened is reported and has no lines.\<close>

definition readBetweenLines :: "string \<Rightarrow> string \<Rightarrow> string \<Rightarrow> files \<Rightarrow> string list" where
  "readBetweenLines path startLine endLine fs =
     (case fs path of None \<Rightarrow> [] | Some s \<Rightarrow> between_lines startLine endLine False [] (scan_lines s))"

definition writeAfterLine :: "string \<Rightarrow> string \<Rightarrow> string \<Rightarrow> files \<Rightarrow> files go" where
  "writeAfterLine path matchingLine lineToWrite fs =
     (case fs path of
        None \<Rightarrow> Panic ''open: no such file or directory''
      | Some input \<Rightarrow> Ret (fs(path \<mapsto> replace_all matchingLine (lineToWrite @ [newline] @ matchingLine) input)))"

definition openapiEndpointStart :: string where "openapiEndpointStart = ''# NEW ENDPOINT START''"
definition openapiEndpointEnd :: string where "openapiEndpointEnd = ''# NEW ENDPOINT END''"
definition openApiSchemaStart :: string where "openApiSchemaStart = ''# NEW SCHEMA START''"
definition openApiSchemaEnd :: string where "openApiSchemaEnd = ''# NEW SCHEMA END''"
definition openApiEndpointMatchingLine :: string where "openApiEndpointMatchingLine = ''  # AUTO-ADD NEW PATHS''"
definition openApiSchemaMatchingLine :: string where "openApiSchemaMatchingLine = ''    # AUTO-ADD NEW SCHEMAS''"

definition endpoint_line :: "string \<Rightarrow> string \<Rightarrow> string" where
  "endpoint_line kindFileName line =
     (let endpointStr = replace_all '':'' [] (replace_all ''/'' ''~1'' (trim_space line));
          refPath = sprintf (''    $ref: '' @ [CHR 0x27] @ ''%s#/paths/%s'' @ [CHR 0x27]) [FStr kindFileName, FStr endpointStr]
      in sprintf ''%s%s'' [FStr line, FStr refPath])"

definition schema_line :: "string \<Rightarrow> string \<Rightarrow> string" where
  "schema_line kindFileName line =
     (let schemaStr = replace_all '':'' [] (trim_space line);
          refPath = sprintf (''      $ref: '' @ [CHR 0x27] @ ''%s#/components/schemas/%s'' @ [CHR 0x27])
                      [FStr kindFileName, FStr schemaStr]
      in sprintf ''%s%s'' [FStr line, FStr refPath])"

fun write_lines :: "string \<Rightarrow> string \<Rightarrow> string list \<Rightarrow> files \<Rightarrow> files go" where
  "write_lines mainPath matchingLine [] fs = Ret fs"
| "write_lines mainPath matchingLine (l # ls) fs =
     go_bind (writeAfterLine mainPath matchingLine l fs) (write_lines mainPath matchingLine ls)"

definition modifyOpenapi :: "string \<Rightarrow> string \<Rightarrow> files \<Rightarrow> files go" where
  "modifyOpenapi mainPath kindPath fs =
     (let endpointStrings = readBetweenLines kindPath openapiEndpointStart openapiEndpointEnd fs;
          parts = split_on (CHR ''/'') kindPath
      in if length parts < 2 then Panic ''index out of range''
         else go_bind (write_lines mainPath openApiEndpointMatchingLine (map (endpoint_line (parts ! 1)) endpointStrings) fs)
                (\<lambda>fs. let schemaStrings = readBetweenLines kindPath openApiSchemaStart openApiSchemaEnd fs
                      in write_lines mainPath openApiSchemaMatchingLine (map (schema_line (parts ! 1)) schemaStrings) fs))"

section \<open>The plugin import\<close>

record my_writer =
  mwRepo :: string
  mwProject :: string
  mwProjectPascalCase :: string
  mwCmd :: string
  mwKind :: string
  mwKindPlural :: string
  mwKindLowerPlural :: string
  mwKindLowerSingular :: string
  mwKindSnakeCasePlural :: string
  mwID :: string
  mwFields :: "field list"

text \<open>
  The two nested loops over the lines: \<open>after_import\<close> is the inner one, which returns the lines from
  the closing parenthesis on, the new one before it, or None after it has copied all lines.
\<close>

fun after_import :: "string \<Rightarrow> string list \<Rightarrow> string list option" where
  "after_import new [] = None"
| "after_import new (l # ls) =
     (if trim_space l = '')'' then Some (new # l # ls) else map_option ((#) l) (after_import new ls))"

fun insert_import :: "string \<Rightarrow> string list \<Rightarrow> string list \<Rightarrow> string list option" where
  "insert_import new out [] = None"
| "insert_import new out (l # ls) =
     (if contains l ''import (''
      then (case after_import new ls of
              Some rest \<Rightarrow> Some (out @ l # rest)
            | None \<Rightarrow> insert_import new (out @ l # ls @ [l]) ls)
      else insert_import new (out @ [l]) ls)"

definition plugin_import :: "my_writer \<Rightarrow> string" where
  "plugin_import k =
     sprintf ''_ \"%s/%s/plugins/%s\"'' [FStr (mwRepo k), FStr (mwProject k), FStr (mwKindLowerPlural k)]"

definition main_file :: "my_writer \<Rightarrow> string" where
  "main_file k = sprintf ''cmd/%s/main.go'' [FStr (mwCmd k)]"

definition addPluginImport :: "my_writer \<Rightarrow> files \<Rightarrow> files go" where
  "addPluginImport k fs =
     (case fs (main_file k) of
        None \<Rightarrow> Panic ''open: no such file or directory''
      | Some input \<Rightarrow>
          if contains input (plugin_import k) then Ret fs
          else (case insert_import (CHR 0x09 # plugin_import k) [] (split_on newline input) of
                  Some output \<Rightarrow> Ret (fs(main_file k \<mapsto> join [newline] output))
                | None \<Rightarrow> Panic (''Could not find import block in '' @ main_file k)))"

section \<open>main\<close>

record gen_flags =
  gfKind :: string
  gfRepo :: string
  gfProject :: string
  gfFields :: string
  gfPlural :: string

text \<open>
  \<open>geParse\<close> is the error of parsing a template, \<open>geExecute\<close> what executing it writes and
  whether that succeeds; \<open>geGofmt\<close> rewrites a file in place or fails; \<open>geCmdDir\<close> lists the
  directory \<^verbatim>\<open>cmd\<close>, with whether an entry is a directory.
\<close>

record gen_env =
  geParse :: "string \<Rightarrow> string option"
  geExecute :: "string \<Rightarrow> my_writer \<Rightarrow> string \<times> bool"
  geGofmt :: "string \<Rightarrow> string option"
  geMake :: "files \<Rightarrow> files"
  geCmdDir :: "(string \<times> bool) list option"
  geNow :: "int \<times> int \<times> int \<times> int \<times> int" \<comment> \<open>year, month, day, hour, minute\<close>
  geOrd :: "(string \<times> string) list"

definition templates :: "string list" where
  "templates =
     [''api'', ''presenters'', ''dao'', ''services'', ''mock'', ''migration'', ''test'', ''test-factories'',
      ''testmain'', ''handlers'', ''openapi-kind'', ''plugin'']"

definition outputPaths :: "my_writer \<Rightarrow> (string \<times> string) list" where
  "outputPaths k =
     map (\<lambda>(nm, fmt). (nm, sprintf fmt [FStr (mwKindLowerPlural k)]))
       [(''generate-api'', ''plugins/%s/model.go''),
        (''generate-presenters'', ''plugins/%s/presenter.go''),
        (''generate-dao'', ''plugins/%s/dao.go''),
        (''generate-handlers'', ''plugins/%s/handler.go''),
        (''generate-migration'', ''plugins/%s/migration.go''),
        (''generate-mock'', ''plugins/%s/mock_dao.go''),
        (''generate-openapi-kind'', ''openapi/openapi.%s.yaml''),
        (''generate-test-factories'', ''plugins/%s/factory_test.go''),
        (''generate-test'', ''plugins/%s/integration_test.go''),
        (''generate-testmain'', ''plugins/%s/testmain_test.go''),
        (''generate-services'', ''plugins/%s/service.go''),
        (''generate-plugin'', ''plugins/%s/plugin.go'')]"

definition getCmdDir :: "gen_env \<Rightarrow> string go" where
  "getCmdDir env =
     (case geCmdDir env of
        None \<Rightarrow> Panic ''open cmd: no such file or directory''
      | Some entries \<Rightarrow>
          (case find snd entries of
             Some (name, b) \<Rightarrow> Ret name
           | None \<Rightarrow> Panic ''No command directory found in cmd/''))"

definition new_writer :: "gen_flags \<Rightarrow> gen_env \<Rightarrow> field list \<Rightarrow> my_writer go" where
  "new_writer flags env parsedFields =
     (if gfKind flags = [] then Panic ''index out of range''
      else go_bind (getCmdDir env) (\<lambda>cmd.
        let kind = gfKind flags;
            kindLowerCamel = to_lower [hd kind] @ tl kind;
            kindPlural = pluralize (gfPlural flags) (geOrd env) kind;
            kindPluralLower = pluralize (gfPlural flags) (geOrd env) kindLowerCamel;
            (year, month, day, hour, minute) = geNow env
        in Ret \<lparr>mwRepo = gfRepo flags, mwProject = gfProject flags, mwProjectPascalCase = toPascalCase (gfProject flags),
                mwCmd = cmd, mwKind = kind, mwKindPlural = kindPlural, mwKindLowerPlural = kindPluralLower,
                mwKindLowerSingular = kindLowerCamel, mwKindSnakeCasePlural = toSnakeCase kindPlural,
                mwID = sprintf ''%d%s%s%s%s'' [FInt year, FStr (datePad month), FStr (datePad day),
                         FStr (datePad hour), FStr (datePad minute)],
                mwFields = parsedFields\<rparr>))"

text \<open>The end of the loop over the templates, once a template has been executed.\<close>

definition write_output :: "gen_env \<Rightarrow> my_writer \<Rightarrow> string \<Rightarrow> string \<Rightarrow> string \<Rightarrow> files \<Rightarrow> files go" where
  "write_output env k nm outputPath text fs =
     (let fs = fs(outputPath \<mapsto> text);
          fs = (if has_suffix outputPath ''.go''
                then (case geGofmt env text of Some t \<Rightarrow> fs(outputPath \<mapsto> t) | None \<Rightarrow> fs)
                else fs)
      in go_bind (if equal_fold (''generate-'' @ nm) ''generate-openapi-kind''
                  then modifyOpenapi ''openapi/openapi.yaml''
                         (sprintf ''openapi/openapi.%s.yaml'' [FStr (mwKindLowerPlural k)]) fs
                  else Ret fs)
           (\<lambda>fs. if nm = ''plugin'' then addPluginImport k fs else Ret fs))"

text \<open>The body of the loop.\<close>

definition generate :: "gen_flags \<Rightarrow> gen_env \<Rightarrow> field list \<Rightarrow> string \<Rightarrow> files \<Rightarrow> files go" where
  "generate flags env parsedFields nm fs =
     (case fs (sprintf ''templates/generate-%s.txt'' [FStr nm]) of
        None \<Rightarrow> Panic ''open: no such file or directory''
      | Some contents \<Rightarrow>
          (case geParse env contents of
             Some err \<Rightarrow> Panic err
           | None \<Rightarrow>
               go_bind (new_writer flags env parsedFields) (\<lambda>k.
                 (case map_of (outputPaths k) (''generate-'' @ nm) of
                    None \<Rightarrow> Panic (''expected to find outputPath for '' @ nm)
                  | Some outputPath \<Rightarrow>
                      (case geExecute env contents k of
                         (text, False) \<Rightarrow> Panic ''template: execution failed''
                       | (text, True) \<Rightarrow> write_output env k nm outputPath text fs)))))"

fun generate_all :: "gen_flags \<Rightarrow> gen_env \<Rightarrow> field list \<Rightarrow> string list \<Rightarrow> files \<Rightarrow> files go" where
  "generate_all flags env parsedFields [] fs = Ret fs"
| "generate_all flags env parsedFields (nm # nms) fs =
     go_bind (generate flags env parsedFields nm fs) (generate_all flags env parsedFields nms)"

definition generator_main :: "gen_flags \<Rightarrow> gen_env \<Rightarrow> files \<Rightarrow> files go" where
  "generator_main flags env fs =
     (case parseFields (gfFields flags) of
        Inl err \<Rightarrow> Panic (sprintf ''Error parsing fields: %v'' [FStr err])
      | Inr parsedFields \<Rightarrow>
          go_bind (generate_all flags env parsedFields templates fs) (\<lambda>fs. Ret (geMake env fs)))"

section \<open>Facts about names\<close>

definition name_char :: "char \<Rightarrow> bool" where
  "name_char c \<longleftrightarrow> 97 \<le> (of_char c :: nat) \<and> of_char c \<le> (122 :: nat) \<or>
     48 \<le> (of_char c :: nat) \<and> of_char c \<le> (57 :: nat)"

text \<open>A part of a snake-case name: a lower-case letter and then letters and digits.\<close>

definition name_part :: "string \<Rightarrow> bool" where
  "name_part p \<longleftrightarrow> p \<noteq> [] \<and> 97 \<le> (of_char (hd p) :: nat) \<and> of_char (hd p) \<le> (122 :: nat) \<and>
     (\<forall>c \<in> set p. name_char c)"

lemma name_char_lower: "name_char c \<Longrightarrow> lower_char c = c \<and> \<not> is_upper c"
  by (auto simp: name_char_def lower_char_def is_upper_def)

lemma name_char_sep: "name_char c \<Longrightarrow> \<not> is_name_sep c"
  by (auto simp: name_char_def is_name_sep_def)

lemma letter_case:
  assumes "97 \<le> (of_char c :: nat)" and "of_char c \<le> (122 :: nat)"
  shows "is_upper (upper_char c) \<and> lower_char (upper_char c) = c"
  using assms by (auto simp: is_upper_def upper_char_def lower_char_def)

lemma fields_func_append:
  "\<forall>c \<in> set p. \<not> sep c \<Longrightarrow> fields_func sep cur (p @ s) = fields_func sep (cur @ p) s"
  by (induction p arbitrary: cur) auto

lemma fields_func_join:
  assumes "sep c"
  shows "\<forall>p \<in> set ps. p \<noteq> [] \<and> (\<forall>x \<in> set p. \<not> sep x) \<Longrightarrow> fields_func sep [] (join [c] ps) = ps"
proof (induction ps)
  case Nil
  then show ?case by simp
next
  case (Cons p ps)
  then show ?case
    using fields_func_append [of p sep "[]" "[]"] fields_func_append [of p sep "[]" "c # join [c] ps"]
    by (cases "ps = []") (simp_all add: join_Cons assms)
qed

lemma snake_tail_append: "snake_tail (a @ b) = snake_tail a @ snake_tail b"
  by (induction a) auto

lemma snake_tail_chars: "\<forall>c \<in> set s. name_char c \<Longrightarrow> snake_tail s = s \<and> map lower_char s = s"
  by (induction s) (auto simp: name_char_lower)

lemma join_Nil: "join [] ps = concat ps"
proof (induction ps)
  case (Cons p ps)
  then show ?case by (cases ps) auto
qed simp

lemma capital_part:
  assumes "name_part p"
  shows "\<exists>u. is_upper u \<and> lower_char u = hd p \<and> capital p = u # tl p \<and> snake_tail (tl p) = tl p \<and> map lower_char (tl p) = tl p"
proof -
  from assms have "p \<noteq> []" "\<forall>c \<in> set (tl p). name_char c" by (auto simp: name_part_def dest: list.set_sel(2))
  with snake_tail_chars [of "tl p"] letter_case [of "hd p"] assms show ?thesis
    by (auto simp: capital_def to_upper_def name_part_def)
qed

lemma snake_of_capitals:
  "\<forall>p \<in> set ps. name_part p \<Longrightarrow> map lower_char (snake_tail (concat (map capital ps))) = concat (map ((#) (CHR ''_'')) ps)"
proof (induction ps)
  case (Cons p ps)
  then obtain u where u: "is_upper u" "lower_char u = hd p" "capital p = u # tl p" "snake_tail (tl p) = tl p"
      "map lower_char (tl p) = tl p" using capital_part [of p] by auto
  have "p \<noteq> []" using Cons.prems by (simp add: name_part_def)
  moreover have "lower_char (CHR ''_'') = CHR ''_''" by code_simp
  ultimately show ?case using Cons u by (simp add: snake_tail_append)
qed simp

lemma join_underscore: "ps \<noteq> [] \<Longrightarrow> join [c] ps = hd ps @ concat (map ((#) c) (tl ps))"
proof (induction ps)
  case (Cons p ps)
  then show ?case by (cases ps) (auto simp: join_Cons)
qed simp

section \<open>Facts about plurals\<close>

lemma suffix_compare:
  assumes "has_suffix w a" and "has_suffix w b"
  shows "has_suffix a b \<or> has_suffix b a"
proof -
  from assms obtain x y where "w = x @ a" "w = y @ b" unfolding has_suffix_iff by blast
  then have "x @ a = y @ b" by simp
  then show ?thesis by (auto simp: append_eq_append_conv2 has_suffix_iff)
qed

lemma irregular_suffixes:
  "\<forall>a \<in> set irregularPlurals. \<forall>b \<in> set irregularPlurals. has_suffix (fst a) (fst b) \<longrightarrow> a = b"
  by code_simp

lemma irregular_plural_Some:
  "irregular_plural ord word = Some w \<Longrightarrow> \<exists>(singular, plural) \<in> set ord. has_suffix (to_lower word) singular \<and>
     w = take (length word - length singular) word @ plural_suffix (drop (length word - length singular) word) plural"
  by (induction ord word rule: irregular_plural.induct) (auto split: if_splits)

lemma irregular_plural_None:
  "irregular_plural ord word = None \<longleftrightarrow> (\<forall>(singular, plural) \<in> set ord. \<not> has_suffix (to_lower word) singular)"
  by (induction ord word rule: irregular_plural.induct) auto

lemma irregular_plural_perm:
  assumes "set ord = set irregularPlurals" and "set ord' = set irregularPlurals"
  shows "irregular_plural ord word = irregular_plural ord' word"
proof (cases "irregular_plural ord word")
  case None
  then have "irregular_plural ord' word = None" using assms by (simp only: irregular_plural_None)
  with None show ?thesis by simp
next
  case (Some w)
  then have "irregular_plural ord' word \<noteq> None" using assms by (metis irregular_plural_None option.distinct(1))
  then obtain w' where w': "irregular_plural ord' word = Some w'" by blast
  from irregular_plural_Some [OF Some] irregular_plural_Some [OF w'] obtain a b where
      ab: "a \<in> set irregularPlurals" "b \<in> set irregularPlurals"
        "has_suffix (to_lower word) (fst a)" "has_suffix (to_lower word) (fst b)"
      and eqs: "w = take (length word - length (fst a)) word @ plural_suffix (drop (length word - length (fst a)) word) (snd a)"
        "w' = take (length word - length (fst b)) word @ plural_suffix (drop (length word - length (fst b)) word) (snd b)"
    using assms by (auto simp: case_prod_beta)
  from suffix_compare [OF ab(3,4)] irregular_suffixes ab(1,2) have "a = b" by metis
  with eqs Some w' show ?thesis by simp
qed

section \<open>Facts about files\<close>

lemma writeAfterLine_dom: "writeAfterLine path m l fs = Ret fs' \<Longrightarrow> dom fs' = dom fs"
  by (auto simp: writeAfterLine_def split: option.splits if_splits)

lemma write_lines_dom: "write_lines path m ls fs = Ret fs' \<Longrightarrow> dom fs' = dom fs"
proof (induction ls arbitrary: fs)
  case (Cons l ls)
  then obtain a where "writeAfterLine path m l fs = Ret a" "write_lines path m ls a = Ret fs'" by auto
  with Cons.IH [of a] writeAfterLine_dom [of path m l fs a] show ?case by simp
qed simp

lemma modifyOpenapi_dom:
  assumes "modifyOpenapi a b fs = Ret fs'"
  shows "dom fs' = dom fs"
proof -
  from assms obtain t ls ls' m m' where "write_lines a m ls fs = Ret t" "write_lines a m' ls' t = Ret fs'"
    by (auto simp: modifyOpenapi_def Let_def simp del: write_lines.simps split: if_splits)
  with write_lines_dom [of a m ls fs t] write_lines_dom [of a m' ls' t fs'] show ?thesis by simp
qed

lemma addPluginImport_dom: "addPluginImport k fs = Ret fs' \<Longrightarrow> dom fs' = dom fs"
  by (auto simp: addPluginImport_def split: option.splits if_splits)

lemma after_import_eq:
  "after_import new ls = Some out \<Longrightarrow> \<exists>j < length ls. trim_space (ls ! j) = '')'' \<and> out = take j ls @ new # drop j ls"
proof (induction ls arbitrary: out)
  case (Cons l ls)
  show ?case
  proof (cases "trim_space l = '')''")
    case True
    with Cons.prems show ?thesis by (intro exI [of _ 0]) auto
  next
    case False
    with Cons.prems obtain o' where "after_import new ls = Some o'" "out = l # o'" by auto
    with Cons.IH [of o'] obtain j where "j < length ls" "trim_space (ls ! j) = '')''"
        "out = l # take j ls @ new # drop j ls" by auto
    then show ?thesis by (intro exI [of _ "Suc j"]) simp
  qed
qed simp

lemma after_import_None: "after_import new ls = None \<longleftrightarrow> (\<forall>l \<in> set ls. trim_space l \<noteq> '')'')"
  by (induction ls) auto

text \<open>Once the inner loop has found no parenthesis, no later round finds one.\<close>

lemma insert_import_None:
  "\<forall>l \<in> set ls. trim_space l \<noteq> '')'' \<Longrightarrow> insert_import new out ls = None"
  by (induction ls arbitrary: out) (auto simp: after_import_None [THEN iffD2])

lemma insert_import_eq:
  "insert_import new out ls = Some res \<Longrightarrow>
     \<exists>j < length ls. trim_space (ls ! j) = '')'' \<and> res = out @ take j ls @ new # drop j ls"
proof (induction ls arbitrary: out)
  case (Cons l ls)
  show ?case
  proof (cases "contains l ''import (''")
    case False
    with Cons.prems Cons.IH [of "out @ [l]"] obtain j where "j < length ls" "trim_space (ls ! j) = '')''"
        "res = (out @ [l]) @ take j ls @ new # drop j ls" by auto
    then show ?thesis by (intro exI [of _ "Suc j"]) simp
  next
    case True
    show ?thesis
    proof (cases "after_import new ls")
      case None
      with Cons.prems True show ?thesis by (simp add: insert_import_None after_import_None)
    next
      case (Some rest)
      from after_import_eq [OF Some] obtain j where "j < length ls" "trim_space (ls ! j) = '')''"
          "rest = take j ls @ new # drop j ls" by blast
      with Cons.prems True Some show ?thesis by (intro exI [of _ "Suc j"]) auto
    qed
  qed
qed simp

lemma contains_join: "l \<in> set ls \<Longrightarrow> contains (join sep ls) l"
proof (induction sep ls rule: join.induct)
  case (2 sep p)
  then have "join sep [p] = [] @ l @ []" by simp
  then show ?case unfolding contains_iff by blast
next
  case (3 sep p q ps)
  then show ?case
  proof (cases "l = p")
    case True
    then have "join sep (p # q # ps) = [] @ l @ (sep @ join sep (q # ps))" by simp
    then show ?thesis unfolding contains_iff by blast
  next
    case False
    with 3 have "contains (join sep (q # ps)) l" by simp
    then obtain a b where "join sep (q # ps) = a @ l @ b" unfolding contains_iff by blast
    then show ?thesis unfolding contains_iff by (intro exI [of _ "p @ sep @ a"] exI [of _ b]) simp
  qed
qed simp

lemma contains_trans: "contains s t \<Longrightarrow> contains t u \<Longrightarrow> contains s u"
  unfolding contains_iff by (metis append.assoc)

section \<open>Properties\<close>



text \<open>
  C38: The plural of a word does not depend on the order in which the map of irregular plurals is
  ranged over, because no irregular ending ends in another one.
\<close>

theorem pluralize_deterministic:
  assumes "set ord = set irregularPlurals" and "set ord' = set irregularPlurals"
  shows "pluralize plural ord word = pluralize plural ord' word"
  by (simp add: pluralize_def irregular_plural_perm [OF assms])

theorem pluralize_deterministic_witness:
  "pluralize [] (rev irregularPlurals) ''SpaceRepository'' = ''SpaceRepositories'' \<and>
   pluralize [] irregularPlurals ''SpaceRepository'' = pluralize [] (rev irregularPlurals) ''SpaceRepository''"
proof -
  have "pluralize [] (rev irregularPlurals) ''SpaceRepository'' = ''SpaceRepositories''" by code_simp
  moreover have "pluralize [] irregularPlurals ''SpaceRepository'' = pluralize [] (rev irregularPlurals) ''SpaceRepository''"
    by (rule pluralize_deterministic) simp_all
  ultimately show ?thesis by simp
qed

text \<open>
  C37: Adding the import of a plugin inserts one line before a closing parenthesis and keeps all other
  lines, and adding it again changes nothing.
\<close>

theorem plugin_import_once:
  assumes "addPluginImport k fs = Ret fs'" and "fs (main_file k) = Some input"
    and "newline \<notin> set (plugin_import k)"
  shows "(if contains input (plugin_import k) then fs' = fs
      else (\<exists>j < length (split_on newline input). trim_space (split_on newline input ! j) = '')'' \<and>
        (\<exists>out. fs' = fs(main_file k \<mapsto> out) \<and>
          split_on newline out = take j (split_on newline input) @ (CHR 0x09 # plugin_import k) # drop j (split_on newline input)))) \<and>
    addPluginImport k fs' = Ret fs'"
proof (cases "contains input (plugin_import k)")
  case True
  with assms show ?thesis by (simp add: addPluginImport_def)
next
  case False
  with assms obtain res where out: "insert_import (CHR 0x09 # plugin_import k) [] (split_on newline input) = Some res"
      "fs' = fs(main_file k \<mapsto> join [newline] res)"
    by (auto simp: addPluginImport_def split: option.splits)
  from insert_import_eq [OF out(1)] obtain j where j: "j < length (split_on newline input)"
      "trim_space (split_on newline input ! j) = '')''"
      "res = take j (split_on newline input) @ (CHR 0x09 # plugin_import k) # drop j (split_on newline input)" by auto
  have "contains (join [newline] res) (CHR 0x09 # plugin_import k)" by (rule contains_join) (simp add: j(3))
  then have "contains (join [newline] res) (plugin_import k)"
    by (rule contains_trans) (simp add: contains_iff, metis append_Cons append_Nil append_Nil2)
  then have again: "addPluginImport k fs' = Ret fs'" by (simp add: addPluginImport_def out(2))
  have "newline \<noteq> CHR 0x09" by (simp add: newline_def)
  then have "\<forall>p \<in> set res. newline \<notin> set p"
    using assms(3) unfolding j(3) by (auto dest: in_set_takeD in_set_dropD split_on_pieces)
  then have "split_on newline (join [newline] res) = res" by (intro split_on_join) (simp_all add: j(3))
  with j out(2) again False show ?thesis by auto
qed

text \<open>A field as the user writes it: name, type and whether it is marked as required.\<close>

definition print_field :: "string \<times> string \<times> bool \<Rightarrow> string" where
  "print_field = (\<lambda>(name, ty, req). name @ '':'' @ ty @ (if req then '':required'' else []))"

definition field_spec_ok :: "string \<times> string \<times> bool \<Rightarrow> bool" where
  "field_spec_ok = (\<lambda>(name, ty, req). name \<noteq> [] \<and> (\<forall>c \<in> set name. name_char c \<or> c = CHR ''_'') \<and> ty \<in> fst ` set field_types)"

lemma trim_space_none:
  assumes "\<forall>c \<in> set s. \<not> is_space c"
  shows "trim_space s = s"
proof -
  have d: "dropWhile is_space t = t" if "\<forall>c \<in> set t. \<not> is_space c" for t
    using that by (cases t) auto
  from assms show ?thesis by (simp add: trim_space_def d)
qed

lemma name_char_space: "name_char c \<or> c = CHR ''_'' \<Longrightarrow> \<not> is_space c \<and> c \<noteq> CHR '':'' \<and> c \<noteq> CHR '',''"
  by (auto simp: name_char_def is_space_def)

lemma field_type_chars: "\<forall>ty \<in> fst ` set field_types. \<forall>c \<in> set ty. name_char c"
  by code_simp

lemma parse_print_field:
  assumes "field_spec_ok (name, ty, req)"
  shows "parseField (print_field (name, ty, req)) = mapFieldType name ty (\<not> req)"
    and "\<exists>f. mapFieldType name ty (\<not> req) = Inr f" and "CHR '','' \<notin> set (print_field (name, ty, req))"
proof -
  have n: "\<forall>c \<in> set name. \<not> is_space c \<and> c \<noteq> CHR '':'' \<and> c \<noteq> CHR '',''"
      and t: "\<forall>c \<in> set ty. \<not> is_space c \<and> c \<noteq> CHR '':'' \<and> c \<noteq> CHR '',''"
    using assms field_type_chars name_char_space by (auto simp: field_spec_ok_def)
  have r: "\<forall>c \<in> set ''required''. \<not> is_space c \<and> c \<noteq> CHR '':''" by code_simp
  have colon: "\<not> is_space (CHR '':'')" by code_simp
  have trims: "trim_space name = name" "trim_space ty = ty" "trim_space ''required'' = ''required''"
      "trim_space (print_field (name, ty, req)) = print_field (name, ty, req)"
  proof -
    show "trim_space name = name" "trim_space ty = ty" "trim_space ''required'' = ''required''"
      by (rule trim_space_none, use n in blast) (rule trim_space_none, use t in blast, rule trim_space_none, use r in blast)
    have "\<forall>c \<in> set (if req then '':required'' else []). \<not> is_space c"
      by (cases req) (simp_all add: is_space_def)
    moreover have "\<forall>c \<in> set '':''. \<not> is_space c" by code_simp
    ultimately have "\<forall>c \<in> set (name @ '':'' @ ty @ (if req then '':required'' else [])). \<not> is_space c"
      using n t unfolding set_append by blast
    then show "trim_space (print_field (name, ty, req)) = print_field (name, ty, req)"
      unfolding print_field_def by (intro trim_space_none) simp
  qed
  have nc: "CHR '':'' \<notin> set name" "CHR '':'' \<notin> set ty" "CHR '':'' \<notin> set ''required''" using n t r by auto
  have split: "split_on (CHR '':'') (print_field (name, ty, req)) = (if req then [name, ty, ''required''] else [name, ty])"
    using split_on_append [OF nc(1), of "ty @ '':'' @ ''required''"] split_on_append [OF nc(1), of ty]
      split_on_append [OF nc(2), of "''required''"] split_on_notin [OF nc(2)] split_on_notin [OF nc(3)]
    by (simp add: print_field_def)
  show "parseField (print_field (name, ty, req)) = mapFieldType name ty (\<not> req)"
    using trims by (simp add: parseField_def split)
  have "map_of field_types ty \<noteq> None" using assms by (simp add: field_spec_ok_def map_of_eq_None_iff)
  then obtain a where "map_of field_types ty = Some a" by blast
  then show "\<exists>f. mapFieldType name ty (\<not> req) = Inr f" by (cases a) (simp add: mapFieldType_def Let_def)
  show "CHR '','' \<notin> set (print_field (name, ty, req))" using n t by (auto simp: print_field_def)
qed

text \<open>
  C33: Printing field specifications and parsing the list back gives one field per specification in
  order: of the printed type, required exactly when marked so, and of a pointer type otherwise.
\<close>

theorem parse_fields_print:
  assumes "specs \<noteq> []" and "\<forall>sp \<in> set specs. field_spec_ok sp"
  shows "\<exists>fs. parseFields (join '','' (map print_field specs)) = Inr fs \<and> length fs = length specs \<and>
    (\<forall>i < length specs. case specs ! i of (name, ty, req) \<Rightarrow>
       mapFieldType name ty (\<not> req) = Inr (fs ! i) \<and> fdType (fs ! i) = ty \<and> fdRequired (fs ! i) = req \<and>
       fdNullable (fs ! i) = (\<not> req) \<and> (fdGoType (fs ! i) = fdPointerType (fs ! i)) = (\<not> req))"
proof -
  have field: "mapFieldType name ty (\<not> req) = Inr f \<Longrightarrow> fdType f = ty \<and> fdRequired f = req \<and> fdNullable f = (\<not> req) \<and>
      (fdGoType f = fdPointerType f) = (\<not> req)" for name ty req f
    by (auto simp: mapFieldType_def Let_def split: option.splits)
  have "\<exists>fs. parse_pairs (map print_field specs) = Inr fs \<and> length fs = length specs \<and>
    (\<forall>i < length specs. case specs ! i of (name, ty, req) \<Rightarrow> mapFieldType name ty (\<not> req) = Inr (fs ! i))"
    using assms(2)
  proof (induction specs)
    case (Cons sp specs)
    obtain name ty req where sp: "sp = (name, ty, req)" by (cases sp) auto
    from Cons.prems sp have ok: "field_spec_ok (name, ty, req)" by simp
    from parse_print_field(2) [OF ok] obtain f where f: "mapFieldType name ty (\<not> req) = Inr f" by blast
    from Cons obtain fs where "parse_pairs (map print_field specs) = Inr fs" "length fs = length specs"
        "\<forall>i < length specs. case specs ! i of (name, ty, req) \<Rightarrow> mapFieldType name ty (\<not> req) = Inr (fs ! i)" by auto
    with f parse_print_field(1) [OF ok] sp show ?case
      by (intro exI [of _ "f # fs"]) (auto simp: nth_Cons split: nat.splits)
  qed simp
  then obtain fs where fs: "parse_pairs (map print_field specs) = Inr fs" "length fs = length specs"
      "\<forall>i < length specs. case specs ! i of (name, ty, req) \<Rightarrow> mapFieldType name ty (\<not> req) = Inr (fs ! i)" by blast
  have comma: "\<forall>p \<in> set (map print_field specs). CHR '','' \<notin> set p"
    using assms(2) parse_print_field(3) by force
  have "split_on (CHR '','') (join '','' (map print_field specs)) = map print_field specs"
    by (rule split_on_join) (use assms(1) comma in auto)
  moreover have "join '','' (map print_field specs) \<noteq> []"
  proof
    assume "join '','' (map print_field specs) = []"
    with calculation have "map print_field specs = [[]]" by simp
    then show False by (auto simp: print_field_def)
  qed
  ultimately have "parseFields (join '','' (map print_field specs)) = Inr fs" by (simp add: parseFields_def fs(1))
  with fs field show ?thesis by (intro exI [of _ fs]) fastforce
qed

theorem parse_fields_print_witness:
  "\<exists>f h. parseFields ''speed:int:required,fuel_type:string'' = Inr [f, h] \<and> fdRequired f \<and> \<not> fdRequired h \<and>
     fdType h = ''string''"
proof -
  let ?specs = "[(''speed'', ''int'', True), (''fuel_type'', ''string'', False)]"
  have p: "join '','' (map print_field ?specs) = ''speed:int:required,fuel_type:string''" by code_simp
  have ok: "\<forall>sp \<in> set ?specs. field_spec_ok sp" by code_simp
  from parse_fields_print [OF _ ok, unfolded p] obtain fs where
      fs: "parseFields ''speed:int:required,fuel_type:string'' = Inr fs" "length fs = length ?specs"
      and f: "\<forall>i < length ?specs. case ?specs ! i of (name, ty, req) \<Rightarrow>
        mapFieldType name ty (\<not> req) = Inr (fs ! i) \<and> fdType (fs ! i) = ty \<and> fdRequired (fs ! i) = req \<and>
        fdNullable (fs ! i) = (\<not> req) \<and> (fdGoType (fs ! i) = fdPointerType (fs ! i)) = (\<not> req)" by blast
  from fs(2) obtain f0 f1 where fh: "fs = [f0, f1]" by (auto simp: length_Suc_conv)
  have "fdRequired f0 \<and> \<not> fdRequired f1 \<and> fdType f1 = ''string''"
    using spec [OF f, of 0] spec [OF f, of 1] unfolding fh by simp
  with fs(1) fh show ?thesis by blast
qed

text \<open>Every template has an output path of its own.\<close>

lemma output_path:
  assumes "nm \<in> set templates"
  shows "\<exists>path. map_of (outputPaths k) (''generate-'' @ nm) = Some path"
  using assms by (auto simp: templates_def outputPaths_def)

lemma if_Ret_dom: "(if b then m else Ret fs) = Ret fs' \<Longrightarrow> (m = Ret fs' \<Longrightarrow> dom fs' = dom fs) \<Longrightarrow> dom fs' = dom fs"
  by (cases b) simp_all

lemma write_output_dom:
  assumes "write_output env k nm path content fs = Ret fs'"
  shows "dom fs' = insert path (dom fs)"
proof -
  define fs1 where "fs1 = (if has_suffix path ''.go''
      then (case geGofmt env content of Some t \<Rightarrow> fs(path \<mapsto> content, path \<mapsto> t) | None \<Rightarrow> fs(path \<mapsto> content))
      else fs(path \<mapsto> content))"
  have d: "dom fs1 = insert path (dom fs)" by (auto simp: fs1_def split: option.splits)
  from assms obtain fs2 where st:
      "(if equal_fold (''generate-'' @ nm) ''generate-openapi-kind'' then
          modifyOpenapi ''openapi/openapi.yaml'' (sprintf ''openapi/openapi.%s.yaml'' [FStr (mwKindLowerPlural k)]) fs1
        else Ret fs1) = Ret fs2"
      "(if nm = ''plugin'' then addPluginImport k fs2 else Ret fs2) = Ret fs'"
    unfolding write_output_def Let_def fs1_def go_bind_Ret_iff by blast
  from if_Ret_dom [OF st(1) modifyOpenapi_dom] if_Ret_dom [OF st(2) addPluginImport_dom] d show ?thesis by simp
qed

lemma generate_dom:
  assumes "generate flags env flds nm fs = Ret fs'" and "new_writer flags env flds = Ret k"
    and "map_of (outputPaths k) (''generate-'' @ nm) = Some path"
  shows "dom fs' = insert path (dom fs)"
proof -
  from assms obtain content where "write_output env k nm path content fs = Ret fs'"
    unfolding generate_def by (auto split: option.splits prod.splits bool.splits)
  then show ?thesis by (rule write_output_dom)
qed

lemma generate_all_dom:
  assumes "new_writer flags env flds = Ret k" and "set nms \<subseteq> set templates"
    and "generate_all flags env flds nms fs = Ret fs'"
  shows "dom fs' = dom fs \<union> {path. \<exists>nm \<in> set nms. map_of (outputPaths k) (''generate-'' @ nm) = Some path}"
  using assms(2,3)
proof (induction nms arbitrary: fs)
  case (Cons nm nms)
  then obtain t where t: "generate flags env flds nm fs = Ret t" "generate_all flags env flds nms t = Ret fs'" by auto
  from Cons.prems(1) output_path [of nm k] obtain path where
      path: "map_of (outputPaths k) (''generate-'' @ nm) = Some path" by auto
  from Cons.IH [OF _ t(2)] Cons.prems(1) generate_dom [OF t(1) assms(1) path] path show ?case by auto
qed simp

text \<open>What a run needs: readable templates, the main OpenAPI document, and a main file with an import block.\<close>

definition gen_ready :: "gen_env \<Rightarrow> my_writer \<Rightarrow> files \<Rightarrow> bool" where
  "gen_ready env k fs \<longleftrightarrow>
     (\<forall>nm \<in> set templates. \<exists>c. fs (sprintf ''templates/generate-%s.txt'' [FStr nm]) = Some c \<and>
        geParse env c = None \<and> snd (geExecute env c k)) \<and>
     fs ''openapi/openapi.yaml'' \<noteq> None \<and>
     (\<exists>input. fs (main_file k) = Some input \<and> (contains input (plugin_import k) \<or>
        insert_import (CHR 0x09 # plugin_import k) [] (split_on newline input) \<noteq> None))"

lemma write_lines_returns:
  "fs main \<noteq> None \<Longrightarrow> \<exists>fs'. write_lines main m ls fs = Ret fs' \<and> fs' main \<noteq> None \<and> (\<forall>p. p \<noteq> main \<longrightarrow> fs' p = fs p)"
proof (induction ls arbitrary: fs)
  case (Cons l ls)
  then obtain a where a: "writeAfterLine main m l fs = Ret a" "a main \<noteq> None" "\<forall>p. p \<noteq> main \<longrightarrow> a p = fs p"
    by (auto simp: writeAfterLine_def)
  from Cons.IH [of a] a show ?case by auto
qed simp

lemma modifyOpenapi_returns:
  assumes "fs main \<noteq> None" and "length (split_on (CHR ''/'') kindPath) \<ge> 2"
  shows "\<exists>fs'. modifyOpenapi main kindPath fs = Ret fs' \<and> fs' main \<noteq> None \<and> (\<forall>p. p \<noteq> main \<longrightarrow> fs' p = fs p)"
proof -
  define ls where "ls = map (endpoint_line (split_on (CHR ''/'') kindPath ! 1))
    (readBetweenLines kindPath openapiEndpointStart openapiEndpointEnd fs)"
  from write_lines_returns [of fs main openApiEndpointMatchingLine ls] assms(1) obtain a where
      a: "write_lines main openApiEndpointMatchingLine ls fs = Ret a" "a main \<noteq> None" "\<forall>p. p \<noteq> main \<longrightarrow> a p = fs p" by blast
  define ls' where "ls' = map (schema_line (split_on (CHR ''/'') kindPath ! 1))
    (readBetweenLines kindPath openApiSchemaStart openApiSchemaEnd a)"
  from write_lines_returns [of a main openApiSchemaMatchingLine ls'] a(2) obtain b where
      b: "write_lines main openApiSchemaMatchingLine ls' a = Ret b" "b main \<noteq> None" "\<forall>p. p \<noteq> main \<longrightarrow> b p = a p" by blast
  have "modifyOpenapi main kindPath fs = Ret b"
    using assms(2) a(1) b(1) unfolding modifyOpenapi_def Let_def ls_def ls'_def by simp
  with a b show ?thesis by auto
qed

lemma addPluginImport_returns:
  assumes "fs (main_file k) = Some input"
    and "contains input (plugin_import k) \<or> insert_import (CHR 0x09 # plugin_import k) [] (split_on newline input) \<noteq> None"
  shows "\<exists>fs' out. addPluginImport k fs = Ret fs' \<and> fs' (main_file k) = Some out \<and> contains out (plugin_import k) \<and>
    (\<forall>p. p \<noteq> main_file k \<longrightarrow> fs' p = fs p)"
proof (cases "contains input (plugin_import k)")
  case True
  with assms show ?thesis by (simp add: addPluginImport_def)
next
  case False
  with assms obtain res where res: "insert_import (CHR 0x09 # plugin_import k) [] (split_on newline input) = Some res" by blast
  from insert_import_eq [OF res] have "CHR 0x09 # plugin_import k \<in> set res" by auto
  then have "contains (join [newline] res) (CHR 0x09 # plugin_import k)" by (rule contains_join)
  then have "contains (join [newline] res) (plugin_import k)"
    by (rule contains_trans) (simp add: contains_iff, metis append_Cons append_Nil append_Nil2)
  with assms False res show ?thesis by (simp add: addPluginImport_def)
qed

lemma output_path_other:
  assumes "map_of (outputPaths k) x = Some path"
  shows "path \<noteq> ''openapi/openapi.yaml''" and "path \<noteq> main_file k"
    and "path \<noteq> sprintf ''templates/generate-%s.txt'' [FStr nm]"
proof -
  have "x @ ''.yaml'' \<noteq> ''yaml''" for x by (auto dest: arg_cong [of _ _ length])
  with map_of_SomeD [OF assms] show "path \<noteq> ''openapi/openapi.yaml''" by (auto simp: outputPaths_def)
  from map_of_SomeD [OF assms] show "path \<noteq> main_file k" by (auto simp: outputPaths_def main_file_def)
  from map_of_SomeD [OF assms] show "path \<noteq> sprintf ''templates/generate-%s.txt'' [FStr nm]"
    by (auto simp: outputPaths_def)
qed

lemma if_Ret_ex: "P fs \<Longrightarrow> m = Ret fs' \<Longrightarrow> P fs' \<Longrightarrow> \<exists>t. (if b then m else Ret fs) = Ret t \<and> P t"
  by (cases b) auto

text \<open>The paths that matter to \<open>gen_ready\<close> are left alone by the writing of an output.\<close>

lemma write_output_returns:
  assumes "gen_ready env k fs" and "map_of (outputPaths k) x = Some path"
  shows "\<exists>fs'. write_output env k nm path content fs = Ret fs' \<and> gen_ready env k fs'"
proof -
  define fs1 where "fs1 = (if has_suffix path ''.go''
      then (case geGofmt env content of Some t \<Rightarrow> fs(path \<mapsto> content, path \<mapsto> t) | None \<Rightarrow> fs(path \<mapsto> content))
      else fs(path \<mapsto> content))"
  let ?yaml = "''openapi/openapi.yaml''"
  have eq1: "p \<noteq> path \<Longrightarrow> fs1 p = fs p" for p by (auto simp: fs1_def split: option.splits)
  have "fs1 ?yaml \<noteq> None" using assms eq1 [of ?yaml] output_path_other(1) [OF assms(2)] by (auto simp: gen_ready_def)
  moreover have "length (split_on (CHR ''/'') (sprintf ''openapi/openapi.%s.yaml'' [FStr (mwKindLowerPlural k)])) \<ge> 2"
    by (simp add: length_split_on del: split_on.simps)
  ultimately obtain fs' where fs': "modifyOpenapi ?yaml (sprintf ''openapi/openapi.%s.yaml'' [FStr (mwKindLowerPlural k)]) fs1 = Ret fs'"
      "fs' ?yaml \<noteq> None \<and> (\<forall>p. p \<noteq> ?yaml \<longrightarrow> fs' p = fs1 p)"
    using modifyOpenapi_returns [of fs1 ?yaml] by blast
  have "fs1 ?yaml \<noteq> None \<and> (\<forall>p. p \<noteq> ?yaml \<longrightarrow> fs1 p = fs1 p)" using \<open>fs1 ?yaml \<noteq> None\<close> by blast
  from if_Ret_ex [where P = "\<lambda>t. t ?yaml \<noteq> None \<and> (\<forall>p. p \<noteq> ?yaml \<longrightarrow> t p = fs1 p)", OF this fs'] obtain fs2 where fs2:
      "(if equal_fold (''generate-'' @ nm) ''generate-openapi-kind'' then
        modifyOpenapi ?yaml (sprintf ''openapi/openapi.%s.yaml'' [FStr (mwKindLowerPlural k)]) fs1 else Ret fs1) = Ret fs2"
      "fs2 ?yaml \<noteq> None" "\<forall>p. p \<noteq> ?yaml \<longrightarrow> fs2 p = fs1 p" by blast
  have mf: "main_file k \<noteq> ?yaml" by (simp add: main_file_def)
  obtain input where input: "fs2 (main_file k) = Some input" "contains input (plugin_import k) \<or>
      insert_import (CHR 0x09 # plugin_import k) [] (split_on newline input) \<noteq> None"
    using assms(1) fs2(3) mf eq1 [of "main_file k"] output_path_other(2) [OF assms(2)] by (auto simp: gen_ready_def)
  from addPluginImport_returns [of fs2 k, OF input] obtain fs3 where fs3:
      "(if nm = ''plugin'' then addPluginImport k fs2 else Ret fs2) = Ret fs3"
      "\<exists>out. fs3 (main_file k) = Some out \<and> (contains out (plugin_import k) \<or>
         insert_import (CHR 0x09 # plugin_import k) [] (split_on newline out) \<noteq> None)"
      "\<forall>p. p \<noteq> main_file k \<longrightarrow> fs3 p = fs2 p"
    using input by (cases "nm = ''plugin''") auto
  have "write_output env k nm path content fs = Ret fs3"
    using fs2(1) fs3(1) unfolding write_output_def Let_def fs1_def go_bind_Ret_iff by blast
  moreover have "fs3 (sprintf ''templates/generate-%s.txt'' [FStr y]) = fs (sprintf ''templates/generate-%s.txt'' [FStr y])" for y
    using fs3(3) fs2(3) eq1 output_path_other(3) [OF assms(2), of y] by (simp add: main_file_def)
  moreover have "fs3 ?yaml \<noteq> None" using fs3(3) fs2(2) mf by metis
  ultimately show ?thesis using assms(1) fs3(2) unfolding gen_ready_def by auto
qed

lemma generate_all_returns:
  assumes "new_writer flags env flds = Ret k" and "gen_ready env k fs" and "set nms \<subseteq> set templates"
  shows "\<exists>fs'. generate_all flags env flds nms fs = Ret fs'"
  using assms(2,3)
proof (induction nms arbitrary: fs)
  case (Cons nm nms)
  then obtain c where c: "fs (sprintf ''templates/generate-%s.txt'' [FStr nm]) = Some c" "geParse env c = None"
      "snd (geExecute env c k)" by (auto simp: gen_ready_def)
  obtain path where path: "map_of (outputPaths k) (''generate-'' @ nm) = Some path"
    using output_path [of nm k] Cons.prems by auto
  from write_output_returns [OF Cons.prems(1) path] obtain t where
      t: "write_output env k nm path (fst (geExecute env c k)) fs = Ret t" "gen_ready env k t" by blast
  have "generate flags env flds nm fs = Ret t"
    unfolding generate_def c(1) option.case c(2) assms(1) go_bind.simps path
    using c(3) t(1) by (cases "geExecute env c k") simp
  with Cons.IH [OF t(2)] Cons.prems show ?case by simp
qed simp


definition demo_flags :: gen_flags where
  "demo_flags = \<lparr>gfKind = ''Ax'', gfRepo = ''r'', gfProject = ''p'', gfFields = [], gfPlural = []\<rparr>"

definition demo_env :: gen_env where
  "demo_env = \<lparr>geParse = (\<lambda>t. None), geExecute = (\<lambda>t k. (mwKind k, True)), geGofmt = (\<lambda>t. None), geMake = (\<lambda>fs. fs),
     geCmdDir = Some [(''c'', True)], geNow = (2024, 3, 5, 7, 11), geOrd = irregularPlurals\<rparr>"

definition demo_files :: files where
  "demo_files p =
     (if p = ''cmd/c/main.go'' then Some (''import ('' @ [newline] @ '')'')
      else if p = ''openapi/openapi.yaml'' then Some [] else if has_prefix p ''templates/'' then Some ''t'' else None)"

definition demo_writer :: my_writer where
  "demo_writer = \<lparr>mwRepo = ''r'', mwProject = ''p'', mwProjectPascalCase = ''P'', mwCmd = ''c'', mwKind = ''Ax'', mwKindPlural = ''Axs'',
     mwKindLowerPlural = ''axs'', mwKindLowerSingular = ''ax'', mwKindSnakeCasePlural = ''axs'', mwID = ''202403050711'', mwFields = []\<rparr>"

lemma demo_new_writer: "new_writer demo_flags demo_env [] = Ret demo_writer"
  by code_simp

lemma demo_fields: "parseFields (gfFields demo_flags) = Inr []"
  by code_simp

lemma demo_main_ready:
  "case demo_files (main_file demo_writer) of Some input \<Rightarrow>
     insert_import (CHR 0x09 # plugin_import demo_writer) [] (split_on newline input) \<noteq> None | None \<Rightarrow> False"
  by code_simp

theorem plugin_import_once_witness:
  "\<exists>fs'. addPluginImport demo_writer demo_files = Ret fs' \<and> fs' \<noteq> demo_files \<and> addPluginImport demo_writer fs' = Ret fs'"
proof -
  obtain input where i: "demo_files (main_file demo_writer) = Some input"
    using demo_main_ready by (cases "demo_files (main_file demo_writer)") auto
  have nc: "\<not> (case demo_files (main_file demo_writer) of Some input \<Rightarrow> contains input (plugin_import demo_writer) | None \<Rightarrow> False)"
    and nn: "newline \<notin> set (plugin_import demo_writer)" by code_simp+
  obtain fs' where fs': "addPluginImport demo_writer demo_files = Ret fs'"
    using demo_main_ready i nc by (auto simp: addPluginImport_def split: option.splits)
  note once = plugin_import_once [OF fs' i nn]
  have "fs' \<noteq> demo_files"
  proof
    assume same: "fs' = demo_files"
    from once nc i obtain j out where j: "j < length (split_on newline input)" and o: "fs' = demo_files(main_file demo_writer \<mapsto> out)"
      "split_on newline out = take j (split_on newline input) @ (CHR 0x09 # plugin_import demo_writer) # drop j (split_on newline input)"
      by auto
    from o(1) same i have "out = input" by (metis fun_upd_same option.inject)
    with o(2) j show False by (metis append_take_drop_id length_append length_Cons n_not_Suc_n add_Suc_right)
  qed
  with fs' once show ?thesis by blast
qed

lemma demo_ready: "gen_ready demo_env demo_writer demo_files"
  unfolding gen_ready_def
proof (intro conjI ballI)
  fix nm
  show "\<exists>c. demo_files (sprintf ''templates/generate-%s.txt'' [FStr nm]) = Some c \<and> geParse demo_env c = None \<and>
      snd (geExecute demo_env c demo_writer)"
    by (simp add: demo_files_def demo_env_def has_prefix_def)
next
  show "demo_files ''openapi/openapi.yaml'' \<noteq> None" by (simp add: demo_files_def)
next
  show "\<exists>input. demo_files (main_file demo_writer) = Some input \<and> (contains input (plugin_import demo_writer) \<or>
      insert_import (CHR 0x09 # plugin_import demo_writer) [] (split_on newline input) \<noteq> None)"
    using demo_main_ready by (cases "demo_files (main_file demo_writer)") (simp_all only: option.case, blast)
qed




end
