(* ===== verification/Request_Logging.thy ===== *)
theory Request_Logging
  imports Http_Handlers
begin

text \<open>
  \<^verbatim>\<open>pkg/logger\<close> and \<^verbatim>\<open>pkg/server/logging\<close>: the logger with its
  prefix, its extra values and its Sentry events, the operation id of a request, and the middleware
  that logs requests and responses. What \<^verbatim>\<open>glog\<close> and Sentry receive is the record
  \<open>log_state\<close>; \<^verbatim>\<open>json.Marshal\<close> of a log entry, the identifiers of
  \<^verbatim>\<open>ksuid\<close> and the order in which Go ranges over a map are parameters.

  A middleware wraps the response writer, so it sees the calls of the handler, not the response
  they make: a handler returns the list of its calls on its writer.
\<close>

section \<open>The logger\<close>

text \<open>The context values the logger reads: under the keys txid, accountID and opID, and the hub.\<close>

record log_context =
  lcTxid :: "int option"
  lcAccountID :: "fmt_arg option"
  lcOpID :: "string option"
  lcHub :: bool

record logger =
  lgContext :: log_context
  lgLevel :: int
  lgAccountID :: string
  lgUsername :: string
  lgHub :: bool
  lgExtra :: "(string \<rightharpoonup> fmt_arg) option" \<comment> \<open>\<open>None\<close> is the nil map\<close>

datatype severity = SevInfo | SevWarning | SevError | SevFatal

datatype sentry_call =
    CaptureException string
  | ScopeUser string
  | ScopeTag string string
  | CaptureEvent bool severity string "(string \<rightharpoonup> fmt_arg) option" \<comment> \<open>on the hub of the logger?\<close>

record log_state =
  lsVerbosity :: int
  lsLines :: "(severity \<times> string) list"
  lsSentry :: "sentry_call list"
  lsExited :: bool

definition GetAccountIDFromContext :: "log_context \<Rightarrow> string" where
  "GetAccountIDFromContext ctx = (case lcAccountID ctx of None \<Rightarrow> [] | Some v \<Rightarrow> sprintf ''%v'' [v])"

definition NewOCMLogger :: "log_context \<Rightarrow> logger" where
  "NewOCMLogger ctx =
     \<lparr>lgContext = ctx, lgLevel = 1, lgAccountID = GetAccountIDFromContext ctx, lgUsername = [], lgHub = lcHub ctx,
      lgExtra = Some Map.empty\<rparr>"

definition log_prefix :: "logger \<Rightarrow> string" where
  "log_prefix l =
     (let p0 = '' '';
          p1 = (case lcTxid (lgContext l) of
                  Some txid \<Rightarrow> sprintf ''[tx_id=%d]%s'' [FInt txid, FStr p0] | None \<Rightarrow> p0);
          p2 = (if lgAccountID l \<noteq> [] then sprintf ''[accountID=%s]%s'' [FStr (lgAccountID l), FStr p1] else p1)
      in (case lcOpID (lgContext l) of
            Some opid \<Rightarrow> sprintf ''[opid=%s]%s'' [FStr opid, FStr p2] | None \<Rightarrow> p2))"

text \<open>\<open>args\<close> are the extra values in the order in which Go ranges over the map.\<close>

definition prepareLogPrefix :: "logger \<Rightarrow> string \<Rightarrow> (string \<times> fmt_arg) list \<Rightarrow> string" where
  "prepareLogPrefix l message args =
     sprintf ''%s %s %s''
       [FStr (log_prefix l), FStr message, FStr (join '' '' (map (\<lambda>(k, v). sprintf ''%s=%v'' [FStr k, v]) args))]"

definition prepareLogPrefixf :: "logger \<Rightarrow> string \<Rightarrow> fmt_arg list \<Rightarrow> string" where
  "prepareLogPrefixf l format args = sprintf ''%s%s'' [FStr (log_prefix l), FStr (sprintf format args)]"

definition logger_V :: "int \<Rightarrow> logger \<Rightarrow> logger" where
  "logger_V level l =
     \<lparr>lgContext = lgContext l, lgLevel = level, lgAccountID = lgAccountID l, lgUsername = lgUsername l,
      lgHub = False, lgExtra = None\<rparr>"

definition add_line :: "severity \<Rightarrow> string \<Rightarrow> log_state \<Rightarrow> log_state" where
  "add_line sev t L = L\<lparr>lsLines := lsLines L @ [(sev, t)]\<rparr>"

definition Infof :: "logger \<Rightarrow> string \<Rightarrow> fmt_arg list \<Rightarrow> log_state \<Rightarrow> log_state" where
  "Infof l format args L =
     (if lgLevel l \<le> lsVerbosity L then add_line SevInfo (prepareLogPrefixf l format args) L else L)"

text \<open>A map in Go is a reference, so the logger that \<^verbatim>\<open>Extra\<close> returns is the one it changed.\<close>

definition Extra :: "string \<Rightarrow> fmt_arg \<Rightarrow> logger \<Rightarrow> logger go" where
  "Extra key value l =
     (case lgExtra l of
        None \<Rightarrow> Panic ''assignment to entry in nil map''
      | Some m \<Rightarrow> Ret (l\<lparr>lgExtra := Some (m(key \<mapsto> value))\<rparr>))"

definition captureSentryEvent :: "logger \<Rightarrow> severity \<Rightarrow> string \<Rightarrow> log_state \<Rightarrow> log_state" where
  "captureSentryEvent l level message L =
     L\<lparr>lsSentry := lsSentry L @
         (if lgHub l then [] else [CaptureException ''sentry hub not present in logger'']) @
         [CaptureEvent (lgHub l) level message (lgExtra l)]\<rparr>"

text \<open>
  A fatal line ends the process inside \<^verbatim>\<open>glog\<close>; the line is written before.
\<close>

definition logger_log ::
    "((string \<rightharpoonup> fmt_arg) \<Rightarrow> (string \<times> fmt_arg) list) \<Rightarrow> logger \<Rightarrow> string \<Rightarrow> severity \<Rightarrow> bool
     \<Rightarrow> log_state \<Rightarrow> log_state" where
  "logger_log rng l message level enabled L =
     (let prefixed = prepareLogPrefix l message (case lgExtra l of None \<Rightarrow> [] | Some m \<Rightarrow> rng m);
          L1 = (if enabled then add_line level prefixed L else L)
      in if level = SevFatal then L1\<lparr>lsExited := True\<rparr>
         else if level \<noteq> SevInfo \<and> level \<noteq> SevWarning then captureSentryEvent l level message L1 else L1)"

definition logger_Info ::
    "((string \<rightharpoonup> fmt_arg) \<Rightarrow> (string \<times> fmt_arg) list) \<Rightarrow> logger \<Rightarrow> string \<Rightarrow> log_state \<Rightarrow> log_state" where
  "logger_Info rng l message L = logger_log rng l message SevInfo (lgLevel l \<le> lsVerbosity L) L"

definition logger_Warning ::
    "((string \<rightharpoonup> fmt_arg) \<Rightarrow> (string \<times> fmt_arg) list) \<Rightarrow> logger \<Rightarrow> string \<Rightarrow> log_state \<Rightarrow> log_state" where
  "logger_Warning rng l message L = logger_log rng l message SevWarning True L"

definition logger_Error ::
    "((string \<rightharpoonup> fmt_arg) \<Rightarrow> (string \<times> fmt_arg) list) \<Rightarrow> logger \<Rightarrow> string \<Rightarrow> log_state \<Rightarrow> log_state" where
  "logger_Error rng l message L = logger_log rng l message SevError True L"

definition logger_Fatal ::
    "((string \<rightharpoonup> fmt_arg) \<Rightarrow> (string \<times> fmt_arg) list) \<Rightarrow> logger \<Rightarrow> string \<Rightarrow> log_state \<Rightarrow> log_state" where
  "logger_Fatal rng l message L = logger_log rng l message SevFatal True L"

section \<open>Calls on a response writer\<close>

text \<open>Setting header entries, \<^verbatim>\<open>WriteHeader\<close> and \<^verbatim>\<open>Write\<close>.\<close>

datatype 'p write_call = CallHeader string string | CallStatus int | CallBody 'p

fun apply_call :: "'p write_call \<Rightarrow> 'p response \<Rightarrow> 'p response" where
  "apply_call (CallHeader k v) w = header_set k v w"
| "apply_call (CallStatus code) w = write_header code w"
| "apply_call (CallBody p) w = write_body p w"

definition apply_calls :: "'p write_call list \<Rightarrow> 'p response \<Rightarrow> 'p response" where
  "apply_calls calls w = fold apply_call calls w"

text \<open>The calls that make a response whose header has the given keys.\<close>

definition calls_of :: "string list \<Rightarrow> 'p response \<Rightarrow> 'p write_call list" where
  "calls_of keys w =
     List.map_filter (\<lambda>k. map_option (CallHeader k) (rHeader w k)) keys @
     (case rStatus w of None \<Rightarrow> [] | Some s \<Rightarrow> [CallStatus s]) @ map CallBody (rBody w)"

text \<open>
  A request with the values its context carries, and a handler of it. \<open>wrTemplate\<close> is the path
  template of the route that matched, if it has one, and \<open>wrToken\<close> what the authentication
  handler left in the context: the text of an error, a nil token, or a token.
\<close>

record 'tok web_request =
  wrMethod :: string
  wrPath :: string
  wrURI :: string
  wrRemoteAddr :: string
  wrHeader :: "string \<rightharpoonup> string"
  wrTemplate :: "string option"
  wrToken :: "string + 'tok option"
  wrUsername :: "string option"
  wrLog :: log_context

type_synonym ('tok, 's, 'p) web_handler =
  "'tok web_request \<Rightarrow> 's \<Rightarrow> unit outcome \<times> 'p write_call list \<times> 's"

text \<open>
  The entries of the request log, and what the middleware needs of the state: the log in it, the
  printed time between two states, and the JSON text of an entry or the error of its encoding.
\<close>

record request_log =
  jrMethod :: string
  jrRequestURI :: string
  jrHeader :: "(string \<rightharpoonup> string) option"
  jrBody :: bool \<comment> \<open>is the body of the request part of the entry?\<close>
  jrRemoteAddr :: string

record 'p response_log =
  jpStatus :: int
  jpBody :: "'p option"
  jpElapsed :: string

record ('s, 'p) log_io =
  loGet :: "'s \<Rightarrow> log_state"
  loPut :: "log_state \<Rightarrow> 's \<Rightarrow> 's"
  loElapsed :: "'s \<Rightarrow> 's \<Rightarrow> string"
  loRequest :: "request_log \<Rightarrow> string + string"
  loResponse :: "'p response_log \<Rightarrow> string + string"

definition on_scope :: "('s, 'p) log_io \<Rightarrow> log_context \<Rightarrow> sentry_call \<Rightarrow> 's \<Rightarrow> 's" where
  "on_scope io ctx call s =
     (if lcHub ctx then loPut io ((loGet io s)\<lparr>lsSentry := lsSentry (loGet io s) @ [call]\<rparr>) s else s)"

section \<open>The operation id\<close>

definition OpIDHeader :: string where
  "OpIDHeader = ''X-Operation-ID''"

text \<open>\<open>ksuid\<close> is the fresh identifier.\<close>

definition WithOpID :: "string \<Rightarrow> log_context \<Rightarrow> log_context" where
  "WithOpID ksuid ctx = (case lcOpID ctx of Some _ \<Rightarrow> ctx | None \<Rightarrow> ctx\<lparr>lcOpID := Some ksuid\<rparr>)"

definition GetOperationID :: "log_context \<Rightarrow> string" where
  "GetOperationID ctx = (case lcOpID ctx of Some opID \<Rightarrow> opID | None \<Rightarrow> [])"

definition OperationIDMiddleware ::
    "('s, 'p) log_io \<Rightarrow> ('s \<Rightarrow> string) \<Rightarrow> ('tok, 's, 'p) web_handler \<Rightarrow> ('tok, 's, 'p) web_handler" where
  "OperationIDMiddleware io ksuid handler r s =
     (let ctx = WithOpID (ksuid s) (wrLog r);
          pre = (case lcOpID ctx of
                   Some opID \<Rightarrow> if length opID > 0 then [CallHeader OpIDHeader opID] else []
                 | None \<Rightarrow> [])
      in case handler (r\<lparr>wrLog := ctx\<rparr>) (on_scope io ctx (ScopeTag ''operation_id'' (GetOperationID ctx)) s) of
           (res, calls, s') \<Rightarrow> (res, pre @ calls, s'))"

section \<open>The log formatter\<close>

definition FormatRequestLog ::
    "(request_log \<Rightarrow> string + string) \<Rightarrow> int \<Rightarrow> 'tok web_request \<Rightarrow> string + string" where
  "FormatRequestLog marshal verbosity r =
     (let jsonlog = \<lparr>jrMethod = wrMethod r, jrRequestURI = wrURI r, jrHeader = None, jrBody = False,
                     jrRemoteAddr = wrRemoteAddr r\<rparr>
      in marshal (if 10 \<le> verbosity then jsonlog\<lparr>jrHeader := Some (wrHeader r), jrBody := True\<rparr> else jsonlog))"

definition FormatResponseLog ::
    "('p response_log \<Rightarrow> string + string) \<Rightarrow> int \<Rightarrow> int \<Rightarrow> 'p option \<Rightarrow> string \<Rightarrow> string + string" where
  "FormatResponseLog marshal verbosity status body elapsed =
     (let jsonlog = \<lparr>jpStatus = status, jpBody = None, jpElapsed = elapsed\<rparr>
      in marshal (if 10 \<le> verbosity then jsonlog\<lparr>jpBody := body\<rparr> else jsonlog))"

section \<open>The logging writer and its middleware\<close>

definition Threshold :: int where "Threshold = 1"

record 'p logging_writer =
  lwStatus :: int
  lwBody :: "'p option"

definition NewLoggingWriter :: "'p logging_writer" where
  "NewLoggingWriter = \<lparr>lwStatus = 0, lwBody = None\<rparr>"

fun logging_call :: "'p write_call \<Rightarrow> 'p logging_writer \<Rightarrow> 'p logging_writer" where
  "logging_call (CallBody p) w = w\<lparr>lwBody := Some p\<rparr>"
| "logging_call (CallStatus status) w = w\<lparr>lwStatus := status\<rparr>"
| "logging_call (CallHeader k v) w = w"

definition log_message :: "log_context \<Rightarrow> string + string \<Rightarrow> log_state \<Rightarrow> log_state go" where
  "log_message ctx msg L =
     (let log = NewOCMLogger ctx
      in case msg of
           Inr logMsg \<Rightarrow> Ret (Infof (logger_V Threshold log) logMsg [] L)
         | Inl err \<Rightarrow>
             go_bind (Extra ''error'' (FStr err) log) (\<lambda>log.
               Ret (logger_Error (\<lambda>m. case m ''error'' of None \<Rightarrow> [] | Some v \<Rightarrow> [(''error'', v)]) log
                      ''Unable to format request/response for log.'' L)))"

definition do_log :: "('s, 'p) log_io \<Rightarrow> log_context \<Rightarrow> bool \<Rightarrow> string + string \<Rightarrow> 's \<Rightarrow> 's go" where
  "do_log io ctx doLog msg s =
     (if doLog then go_bind (log_message ctx msg (loGet io s)) (\<lambda>L. Ret (loPut io L s)) else Ret s)"

definition RequestLoggingMiddleware ::
    "('s, 'p) log_io \<Rightarrow> string go \<Rightarrow> ('tok, 's, 'p) web_handler \<Rightarrow> ('tok, 's, 'p) web_handler" where
  "RequestLoggingMiddleware io basePath handler r s =
     (let path = trim_suffix (wrPath r) ''/'';
          verbosity = (\<lambda>s. lsVerbosity (loGet io s));
          doLog = (\<lambda>base. path \<noteq> trim_suffix (trim_suffix base ''/v1'') ''/'')
      in case go_bind basePath (\<lambda>base. do_log io (wrLog r) (doLog base)
                (FormatRequestLog (loRequest io) (verbosity s) r) s) of
           Panic m \<Rightarrow> (Panicked m, [], s)
         | Ret s1 \<Rightarrow>
             (case handler r s1 of
                (Done (), calls, s2) \<Rightarrow>
                  (let lw = fold logging_call calls NewLoggingWriter
                   in case go_bind basePath (\<lambda>base. do_log io (wrLog r) (doLog base)
                             (FormatResponseLog (loResponse io) (verbosity s2) (lwStatus lw) (lwBody lw) (loElapsed io s1 s2)) s2) of
                        Panic m \<Rightarrow> (Panicked m, calls, s2)
                      | Ret s3 \<Rightarrow> (Done (), calls, s3))
              | (res, calls, s2) \<Rightarrow> (res, calls, s2)))"

end
