(* ===== verification/Auth.thy ===== *)
theory Auth
  imports Request_Logging
begin

text \<open>
  \<^verbatim>\<open>pkg/auth\<close> and \<^verbatim>\<open>pkg/client/ocm\<close>: the claims of a token turned
  into the payload of a user, the middleware that authenticates a request and the one that asks the
  OCM service whether its user is allowed, with the clients of that service. The token that the
  authentication handler of the SDK puts into the context is part of the request, and the SDK's
  builders and calls are parameters.
\<close>

section \<open>The payload of a token\<close>

datatype claim = ClaimString string | ClaimOther

text \<open>A type of claims other than \<^verbatim>\<open>jwt.MapClaims\<close> is its printed form.\<close>

datatype jwt_claims = MapClaims "string \<rightharpoonup> claim" | OtherClaims string

record payload =
  plUsername :: string
  plFirstName :: string
  plLastName :: string
  plEmail :: string
  plClientID :: string

definition string_claim :: "(string \<rightharpoonup> claim) \<Rightarrow> string \<Rightarrow> string" where
  "string_claim claims k = (case claims k of Some (ClaimString s) \<Rightarrow> s | _ \<Rightarrow> [])"

definition or_claim :: "(string \<rightharpoonup> claim) \<Rightarrow> string \<Rightarrow> string \<Rightarrow> string" where
  "or_claim claims v k = (if v = [] then string_claim claims k else v)"

definition claims_payload :: "(string \<rightharpoonup> claim) \<Rightarrow> payload" where
  "claims_payload claims =
     (let username = or_claim claims (string_claim claims ''username'') ''preferred_username'';
          firstName = or_claim claims (string_claim claims ''first_name'') ''given_name'';
          lastName = or_claim claims (string_claim claims ''last_name'') ''family_name'';
          names = split_on (CHR '' '') (string_claim claims ''name'');
          (first, last) =
            (if firstName = [] \<or> lastName = []
             then if length names > 1 then (names ! 0, names ! 1) else (names ! 0, lastName)
             else (firstName, lastName))
      in \<lparr>plUsername = username, plFirstName = first, plLastName = last,
          plEmail = string_claim claims ''email'', plClientID = string_claim claims ''clientId''\<rparr>)"

definition GetAuthPayloadFromContext :: "string + jwt_claims option \<Rightarrow> string + payload" where
  "GetAuthPayloadFromContext token =
     (case token of
        Inl err \<Rightarrow> Inl (sprintf ''unable to retrieve JWT token from request context: %v'' [FStr err])
      | Inr None \<Rightarrow> Inl ''JWT token in context is nil, unauthorized''
      | Inr (Some (OtherClaims printed)) \<Rightarrow> Inl (''unable to parse JWT token claims: '' @ printed)
      | Inr (Some (MapClaims claims)) \<Rightarrow> Inr (claims_payload claims))"

definition GetAuthPayload :: "jwt_claims web_request \<Rightarrow> string + payload" where
  "GetAuthPayload r = GetAuthPayloadFromContext (wrToken r)"

definition SetUsernameContext :: "string \<Rightarrow> 'tok web_request \<Rightarrow> 'tok web_request" where
  "SetUsernameContext username r = r\<lparr>wrUsername := Some username\<rparr>"

definition GetUsernameFromContext :: "'tok web_request \<Rightarrow> string" where
  "GetUsernameFromContext r = (case wrUsername r of None \<Rightarrow> [] | Some u \<Rightarrow> u)"

section \<open>Authentication\<close>

definition auth_writeJSONResponse :: "int \<Rightarrow> 'p option \<Rightarrow> 'p write_call list" where
  "auth_writeJSONResponse code payload =
     [CallHeader ''Content-Type'' ''application/json'', CallStatus code] @
     (case payload of None \<Rightarrow> [] | Some p \<Rightarrow> [CallBody p])"

definition handleError ::
    "('s, 'r body) log_io \<Rightarrow> error_config \<Rightarrow> log_context \<Rightarrow> int \<Rightarrow> string \<Rightarrow> 's
     \<Rightarrow> unit outcome \<times> 'r body write_call list \<times> 's" where
  "handleError io g ctx code reason s =
     (let log = NewOCMLogger ctx;
          operationID = GetOperationID ctx;
          err = New code ''%s'' [FStr reason];
          L = (if 400 \<le> HttpCode err \<and> HttpCode err \<le> 499 then Infof log (error_text g err) [] (loGet io s)
               else logger_Error (\<lambda>m. []) log (error_text g err) (loGet io s))
      in (Done (), auth_writeJSONResponse (HttpCode err) (Some (BError (AsOpenapiError g operationID err))), loPut io L s))"

definition AuthenticateAccountJWT ::
    "('s, 'r body) log_io \<Rightarrow> error_config \<Rightarrow> (jwt_claims, 's, 'r body) web_handler
     \<Rightarrow> (jwt_claims, 's, 'r body) web_handler" where
  "AuthenticateAccountJWT io g next r s =
     (case GetAuthPayload r of
        Inl err \<Rightarrow>
          handleError io g (wrLog r) ErrorUnauthorized
            (sprintf ''Unable to get payload details from JWT token: %s'' [FStr err]) s
      | Inr payload \<Rightarrow>
          next (SetUsernameContext (plUsername payload) r)
            (on_scope io (wrLog r) (ScopeUser (plUsername payload)) s))"

definition Mock_AuthenticateAccountJWT :: "('tok, 's, 'p) web_handler \<Rightarrow> ('tok, 's, 'p) web_handler" where
  "Mock_AuthenticateAccountJWT next = next"

section \<open>The OCM client\<close>

record ocm_settings =
  osBaseURL :: string
  osClientID :: string
  osClientSecret :: string
  osSelfToken :: string
  osTokenURL :: string
  osDebug :: bool

record access_request =
  arUsername :: "string option" \<comment> \<open>\<open>None\<close> in a review of oneself\<close>
  arAction :: string
  arResourceType :: string
  arOrganizationID :: string
  arSubscriptionID :: string
  arClusterID :: string

datatype credentials = ClientCredentials string string | TokenCredentials string

text \<open>
  The SDK: the error of building its logger, building a connection, building a request, and
  sending it; an answer without a response is \<open>Inr None\<close>.
\<close>

record ('n, 'q) ocm_sdk =
  sdkLogger :: "bool \<Rightarrow> string option"
  sdkConnection :: "string \<Rightarrow> credentials \<Rightarrow> string + 'n"
  sdkRequest :: "access_request \<Rightarrow> string + 'q"
  sdkPost :: "'n \<Rightarrow> 'q \<Rightarrow> string + bool option"

datatype 'n authorization = Authorization 'n | AuthorizationMock

record 'n ocm_client =
  ocSettings :: ocm_settings
  ocConnection :: "'n option"
  ocAuthorization :: "'n authorization"

definition newConnection :: "('n, 'q) ocm_sdk \<Rightarrow> ocm_settings \<Rightarrow> string + 'n" where
  "newConnection sdk cfg =
     (let build = (\<lambda>cr. case sdkConnection sdk (osBaseURL cfg) cr of
                     Inl err \<Rightarrow> Inl (''can'' @ [CHR 0x27] @ ''t build OCM client connection: '' @ err)
                   | Inr n \<Rightarrow> Inr n)
      in if osClientID cfg \<noteq> [] \<and> osClientSecret cfg \<noteq> []
         then build (ClientCredentials (osClientID cfg) (osClientSecret cfg))
         else if osSelfToken cfg \<noteq> [] then build (TokenCredentials (osSelfToken cfg))
         else Inl (''can'' @ [CHR 0x27] @
           ''t build OCM client connection: no Client/Secret or Token has been provided''))"

definition NewClient :: "('n, 'q) ocm_sdk \<Rightarrow> ocm_settings \<Rightarrow> string + 'n ocm_client" where
  "NewClient sdk cfg =
     (case sdkLogger sdk (osDebug cfg) of
        Some err \<Rightarrow> Inl (sprintf ''unable to build OCM logger: %s'' [FStr err])
      | None \<Rightarrow>
          (case newConnection sdk cfg of
             Inl err \<Rightarrow> Inl (sprintf ''unable to build OCM connection: %s'' [FStr err])
           | Inr n \<Rightarrow> Inr \<lparr>ocSettings = cfg, ocConnection = Some n, ocAuthorization = Authorization n\<rparr>))"

definition NewClientMock :: "ocm_settings \<Rightarrow> string + 'n ocm_client" where
  "NewClientMock cfg = Inr \<lparr>ocSettings = cfg, ocConnection = None, ocAuthorization = AuthorizationMock\<rparr>"

definition post_review :: "('n, 'q) ocm_sdk \<Rightarrow> 'n \<Rightarrow> access_request \<Rightarrow> string + bool" where
  "post_review sdk con rq =
     (case sdkRequest sdk rq of
        Inl err \<Rightarrow> Inl err
      | Inr request \<Rightarrow>
          (case sdkPost sdk con request of
             Inl err \<Rightarrow> Inl err
           | Inr None \<Rightarrow> Inl ''empty response from authorization post request''
           | Inr (Some allowed) \<Rightarrow> Inr allowed))"

definition AccessReview ::
    "('n, 'q) ocm_sdk \<Rightarrow> 'n authorization \<Rightarrow> string \<Rightarrow> string \<Rightarrow> string \<Rightarrow> string \<Rightarrow> string \<Rightarrow> string \<Rightarrow> string + bool" where
  "AccessReview sdk a username action resourceType organizationID subscriptionID clusterID =
     (case a of
        AuthorizationMock \<Rightarrow> Inr True
      | Authorization con \<Rightarrow>
          post_review sdk con \<lparr>arUsername = Some username, arAction = action, arResourceType = resourceType,
            arOrganizationID = organizationID, arSubscriptionID = subscriptionID, arClusterID = clusterID\<rparr>)"

definition SelfAccessReview ::
    "('n, 'q) ocm_sdk \<Rightarrow> 'n authorization \<Rightarrow> string \<Rightarrow> string \<Rightarrow> string \<Rightarrow> string \<Rightarrow> string \<Rightarrow> string + bool" where
  "SelfAccessReview sdk a action resourceType organizationID subscriptionID clusterID =
     (case a of
        AuthorizationMock \<Rightarrow> Inr True
      | Authorization con \<Rightarrow>
          post_review sdk con \<lparr>arUsername = None, arAction = action, arResourceType = resourceType,
            arOrganizationID = organizationID, arSubscriptionID = subscriptionID, arClusterID = clusterID\<rparr>)"

section \<open>Authorization\<close>

record 'n authz_middleware =
  azAction :: string
  azResourceType :: string
  azClient :: "'n ocm_client"

definition NewAuthzMiddleware :: "'n ocm_client \<Rightarrow> string \<Rightarrow> string \<Rightarrow> 'n authz_middleware" where
  "NewAuthzMiddleware client action resourceType =
     \<lparr>azAction = action, azResourceType = resourceType, azClient = client\<rparr>"

definition AuthorizeApi ::
    "('n, 'q) ocm_sdk \<Rightarrow> 'n authz_middleware \<Rightarrow> ('tok, 's, 'p) web_handler \<Rightarrow> ('tok, 's, 'p) web_handler" where
  "AuthorizeApi sdk a next r s =
     (let username = GetUsernameFromContext r
      in if username = [] then (Done (), [], s)
         else (case AccessReview sdk (ocAuthorization (azClient a)) username (azAction a) (azResourceType a) [] [] [] of
                 Inl err \<Rightarrow> (Done (), [], s)
               | Inr allowed \<Rightarrow> if allowed then next r s else (Done (), [], s)))"

definition Mock_AuthorizeApi :: "('tok, 's, 'p) web_handler \<Rightarrow> ('tok, 's, 'p) web_handler" where
  "Mock_AuthorizeApi next = next"

section \<open>Properties\<close>

text \<open>The chain of the two middlewares in front of a handler.\<close>

definition guarded ::
    "('s, 'r body) log_io \<Rightarrow> error_config \<Rightarrow> ('n, 'q) ocm_sdk \<Rightarrow> 'n authz_middleware
     \<Rightarrow> (jwt_claims, 's, 'r body) web_handler \<Rightarrow> (jwt_claims, 's, 'r body) web_handler" where
  "guarded io g sdk a next = AuthenticateAccountJWT io g (AuthorizeApi sdk a next)"

text \<open>Who may pass: a user that a claim names and that the review allows.\<close>

definition allowed_user :: "('n, 'q) ocm_sdk \<Rightarrow> 'n authz_middleware \<Rightarrow> string + jwt_claims option \<Rightarrow> bool" where
  "allowed_user sdk a token =
     (case token of
        Inr (Some (MapClaims claims)) \<Rightarrow>
          (let u = plUsername (claims_payload claims)
           in u \<noteq> [] \<and>
              AccessReview sdk (ocAuthorization (azClient a)) u (azAction a) (azResourceType a) [] [] [] = Inr True)
      | _ \<Rightarrow> False)"

lemma AuthorizeApi_denies:
  assumes "GetUsernameFromContext r = [] \<or>
    AccessReview sdk (ocAuthorization (azClient a)) (GetUsernameFromContext r) (azAction a) (azResourceType a) [] [] [] \<noteq> Inr True"
  shows "AuthorizeApi sdk a next r s = (Done (), [], s)"
  using assms by (auto simp: AuthorizeApi_def Let_def split: sum.splits)

lemma username_set [simp]:
  "GetUsernameFromContext (SetUsernameContext u r) = u" "wrLog (SetUsernameContext u r) = wrLog r"
  by (simp_all add: GetUsernameFromContext_def SetUsernameContext_def)

text \<open>
  C18: A handler behind authentication and authorization does not run for a request whose token
  names no user or whose user the review does not allow: whatever the handler is, the calls on the
  response and the state are the same.
\<close>

theorem guarded_handler_not_run:
  assumes "\<not> allowed_user sdk a (wrToken r)"
  shows "guarded io g sdk a next r s = guarded io g sdk a other r s"
proof (cases "GetAuthPayload r")
  case (Inl err)
  then show ?thesis by (simp add: guarded_def AuthenticateAccountJWT_def)
next
  case (Inr p)
  then obtain claims where t: "wrToken r = Inr (Some (MapClaims claims))" and p: "p = claims_payload claims"
    by (auto simp: GetAuthPayload_def GetAuthPayloadFromContext_def split: sum.splits option.splits jwt_claims.splits)
  let ?r = "SetUsernameContext (plUsername p) r"
  from assms have "GetUsernameFromContext ?r = [] \<or>
    AccessReview sdk (ocAuthorization (azClient a)) (GetUsernameFromContext ?r) (azAction a) (azResourceType a) [] [] [] \<noteq> Inr True"
    by (auto simp: allowed_user_def t p Let_def)
  with Inr show ?thesis by (simp add: guarded_def AuthenticateAccountJWT_def AuthorizeApi_denies)
qed

definition demo_sdk :: "(unit, access_request) ocm_sdk" where
  "demo_sdk =
     \<lparr>sdkLogger = (\<lambda>_. None), sdkConnection = (\<lambda>_ _. Inr ()), sdkRequest = Inr,
      sdkPost = (\<lambda>_ rq. Inr (Some (arUsername rq = Some ''ada'')))\<rparr>"

definition demo_authz :: "unit authz_middleware" where
  "demo_authz = NewAuthzMiddleware
     \<lparr>ocSettings = \<lparr>osBaseURL = [], osClientID = [], osClientSecret = [], osSelfToken = [], osTokenURL = [], osDebug = False\<rparr>,
      ocConnection = Some (), ocAuthorization = Authorization ()\<rparr> ''get'' ''Dinosaur''"

definition demo_web_request :: "string \<Rightarrow> jwt_claims web_request" where
  "demo_web_request user =
     \<lparr>wrMethod = ''GET'', wrPath = ''/api/rh-trex/v1/dinosaurs'', wrURI = ''/api/rh-trex/v1/dinosaurs'', wrRemoteAddr = [],
      wrHeader = Map.empty, wrTemplate = None,
      wrToken = Inr (Some (MapClaims [''preferred_username'' \<mapsto> ClaimString user])), wrUsername = None,
      wrLog = \<lparr>lcTxid = None, lcAccountID = None, lcOpID = Some ''op1'', lcHub = False\<rparr>\<rparr>"

definition demo_log_io :: "(log_state, unit body) log_io" where
  "demo_log_io =
     \<lparr>loGet = id, loPut = (\<lambda>L _. L), loElapsed = (\<lambda>_ _. ''1ms''), loRequest = (\<lambda>_. Inr ''request''),
      loResponse = (\<lambda>_. Inr ''response'')\<rparr>"

definition demo_log :: log_state where
  "demo_log = \<lparr>lsVerbosity = 1, lsLines = [], lsSentry = [], lsExited = False\<rparr>"

definition demo_guarded :: "string \<Rightarrow> unit outcome \<Rightarrow> unit outcome \<times> unit body write_call list \<times> log_state" where
  "demo_guarded user res =
     guarded demo_log_io default_error_config demo_sdk demo_authz (\<lambda>r s. (res, [CallStatus 201], s)) (demo_web_request user) demo_log"

theorem guarded_handler_not_run_witness:
  "demo_guarded ''eve'' (Panicked ''reached'') = demo_guarded ''eve'' (Done ()) \<and>
   fst (demo_guarded ''eve'' (Done ())) = Done () \<and> fst (snd (demo_guarded ''eve'' (Done ()))) = [] \<and>
   fst (snd (demo_guarded ''ada'' (Done ()))) = [CallStatus 201]"
proof (intro conjI)
  have "\<not> allowed_user demo_sdk demo_authz (wrToken (demo_web_request ''eve''))" by code_simp
  then show "demo_guarded ''eve'' (Panicked ''reached'') = demo_guarded ''eve'' (Done ())"
    unfolding demo_guarded_def by (rule guarded_handler_not_run)
qed code_simp+

text \<open>
  A request whose user the review denies is not refused: nothing is written, so the client
  gets status 200 with an empty body.
\<close>

theorem denied_request_answers_200:
  assumes "wrToken r = Inr (Some (MapClaims claims))" and "\<not> allowed_user sdk a (wrToken r)"
  shows "\<exists>s'. guarded io g sdk a next r s = (Done (), [], s') \<and> final_status (apply_calls [] empty_response) = 200"
proof -
  let ?r = "SetUsernameContext (plUsername (claims_payload claims)) r"
  have "GetUsernameFromContext ?r = [] \<or>
    AccessReview sdk (ocAuthorization (azClient a)) (GetUsernameFromContext ?r) (azAction a) (azResourceType a) [] [] [] \<noteq> Inr True"
    using assms by (auto simp: allowed_user_def Let_def)
  then show ?thesis
    using assms(1) by (simp add: guarded_def AuthenticateAccountJWT_def GetAuthPayload_def GetAuthPayloadFromContext_def
        AuthorizeApi_denies final_status_def apply_calls_def empty_response_def)
qed

theorem denied_request_answers_200_witness:
  "\<exists>s'. guarded demo_log_io default_error_config demo_sdk demo_authz (\<lambda>r s. (Panicked ''reached'', [], s)) (demo_web_request ''eve'') demo_log
    = (Done (), [], s') \<and> final_status (apply_calls [] (empty_response :: unit body response)) = 200"
proof (rule denied_request_answers_200)
  show "wrToken (demo_web_request ''eve'') = Inr (Some (MapClaims [''preferred_username'' \<mapsto> ClaimString ''eve'']))"
    by (simp add: demo_web_request_def)
  show "\<not> allowed_user demo_sdk demo_authz (wrToken (demo_web_request ''eve''))" by code_simp
qed

text \<open>
  The first name of a token is lost when the token names no last name and has no claim
  \<open>name\<close>, whatever its claims for the first name are.
\<close>

theorem first_name_lost:
  assumes "string_claim claims ''last_name'' = []" and "string_claim claims ''family_name'' = []"
    and "string_claim claims ''name'' = []"
  shows "plFirstName (claims_payload claims) = []"
  using assms by (simp add: claims_payload_def or_claim_def Let_def)

theorem first_name_lost_witness:
  "plFirstName (claims_payload [''username'' \<mapsto> ClaimString ''ada'', ''first_name'' \<mapsto> ClaimString ''Ada'']) = []"
  by (rule first_name_lost) code_simp+

end
