(* ===== verification/App_Config.thy ===== *)
theory App_Config
  imports Go_Prelude
begin

text \<open>
  \<^verbatim>\<open>pkg/config\<close>: the configuration structs with their defaults, the flags each of them
  registers, the values read from files and the connection strings. A flag set maps the name of a
  flag to the parsing of its value into the configuration; the flags of other packages are the
  parameter it starts from. The parsers of integer and duration flags, \<^verbatim>\<open>strconv.Unquote\<close>
  and the file system are fields of \<open>config_io\<close>. Durations are nanoseconds.
\<close>

section \<open>Structs and defaults\<close>

record server_config =
  scHostname :: string
  scBindAddress :: string
  scReadTimeout :: int
  scWriteTimeout :: int
  scHTTPSCertFile :: string
  scHTTPSKeyFile :: string
  scEnableHTTPS :: bool
  scEnableJWT :: bool
  scEnableAuthz :: bool
  scJwkCertFile :: string
  scJwkCertURL :: string
  scACLFile :: string

definition second :: int where "second = 1000000000"

definition NewServerConfig :: server_config where
  "NewServerConfig =
     \<lparr>scHostname = [], scBindAddress = ''localhost:8000'', scReadTimeout = 5 * second, scWriteTimeout = 30 * second,
      scHTTPSCertFile = [], scHTTPSKeyFile = [], scEnableHTTPS = False, scEnableJWT = True, scEnableAuthz = True,
      scJwkCertFile = [],
      scJwkCertURL = ''https://sso.redhat.com/auth/realms/redhat-external/protocol/openid-connect/certs'',
      scACLFile = []\<rparr>"

record metrics_config =
  mcBindAddress :: string
  mcEnableHTTPS :: bool
  mcLabelMetricsInclusionDuration :: int

definition NewMetricsConfig :: metrics_config where
  "NewMetricsConfig = \<lparr>mcBindAddress = ''localhost:8080'', mcEnableHTTPS = False,
     mcLabelMetricsInclusionDuration = 7 * 24 * 3600 * second\<rparr>"

record health_check_config =
  hcBindAddress :: string
  hcEnableHTTPS :: bool

definition NewHealthCheckConfig :: health_check_config where
  "NewHealthCheckConfig = \<lparr>hcBindAddress = ''localhost:8083'', hcEnableHTTPS = False\<rparr>"

record database_config =
  dcDialect :: string
  dcSSLMode :: string
  dcDebug :: bool
  dcMaxOpenConnections :: int
  dcHost :: string
  dcPort :: int
  dcName :: string
  dcUsername :: string
  dcPassword :: string
  dcHostFile :: string
  dcPortFile :: string
  dcNameFile :: string
  dcUsernameFile :: string
  dcPasswordFile :: string
  dcRootCertFile :: string

definition NewDatabaseConfig :: database_config where
  "NewDatabaseConfig =
     \<lparr>dcDialect = ''postgres'', dcSSLMode = ''disable'', dcDebug = False, dcMaxOpenConnections = 50,
      dcHost = [], dcPort = 0, dcName = [], dcUsername = [], dcPassword = [],
      dcHostFile = ''secrets/db.host'', dcPortFile = ''secrets/db.port'', dcNameFile = ''secrets/db.name'',
      dcUsernameFile = ''secrets/db.user'', dcPasswordFile = ''secrets/db.password'',
      dcRootCertFile = ''secrets/db.rootcert''\<rparr>"

record ocm_config =
  ocBaseURL :: string
  ocClientID :: string
  ocClientIDFile :: string
  ocClientSecret :: string
  ocClientSecretFile :: string
  ocSelfToken :: string
  ocSelfTokenFile :: string
  ocTokenURL :: string
  ocDebug :: bool
  ocEnableMock :: bool

definition NewOCMConfig :: ocm_config where
  "NewOCMConfig =
     \<lparr>ocBaseURL = ''https://api.integration.openshift.com'', ocClientID = [],
      ocClientIDFile = ''secrets/ocm-service.clientId'', ocClientSecret = [],
      ocClientSecretFile = ''secrets/ocm-service.clientSecret'', ocSelfToken = [], ocSelfTokenFile = [],
      ocTokenURL = ''https://sso.redhat.com/auth/realms/redhat-external/protocol/openid-connect/token'',
      ocDebug = False, ocEnableMock = True\<rparr>"

record sentry_config =
  stEnabled :: bool
  stKey :: string
  stURL :: string
  stProject :: string
  stDebug :: bool
  stTimeout :: int
  stKeyFile :: string

definition NewSentryConfig :: sentry_config where
  "NewSentryConfig = \<lparr>stEnabled = False, stKey = [], stURL = [], stProject = [], stDebug = False, stTimeout = 0,
     stKeyFile = ''secrets/sentry.key''\<rparr>"

record application_config =
  acServer :: server_config
  acMetrics :: metrics_config
  acHealthCheck :: health_check_config
  acDatabase :: database_config
  acOCM :: ocm_config
  acSentry :: sentry_config

definition NewApplicationConfig :: application_config where
  "NewApplicationConfig =
     \<lparr>acServer = NewServerConfig, acMetrics = NewMetricsConfig, acHealthCheck = NewHealthCheckConfig,
      acDatabase = NewDatabaseConfig, acOCM = NewOCMConfig, acSentry = NewSentryConfig\<rparr>"

section \<open>Flags\<close>

record config_io =
  ioParseInt :: "string \<Rightarrow> string + int"
  ioParseDuration :: "string \<Rightarrow> string + int"
  ioUnquote :: "string \<Rightarrow> string option"
  ioReadFile :: "string \<Rightarrow> string + string" \<comment> \<open>of an absolute path\<close>
  ioProjectRootDir :: string \<comment> \<open>the variable \<^verbatim>\<open>projectRootDir\<close>\<close>
  ioCaller :: string \<comment> \<open>the path of \<^verbatim>\<open>config.go\<close>, from \<^verbatim>\<open>runtime.Caller\<close>\<close>

text \<open>
  \<^verbatim>\<open>strconv.Quote\<close> of an ASCII string; a character beyond ASCII is taken to be printable
  and kept.
\<close>

definition hex_digit :: "nat \<Rightarrow> char" where
  "hex_digit d = (if d < 10 then char_of (48 + d) else char_of (87 + d))"

definition quote_char :: "char \<Rightarrow> string" where
  "quote_char c =
     (let back = CHR 0x5C
      in if c = CHR 0x22 \<or> c = back then [back, c]
         else if c = CHR 0x07 then back # ''a'' else if c = CHR 0x08 then back # ''b''
         else if c = CHR 0x0C then back # ''f'' else if c = CHR 0x0A then back # ''n''
         else if c = CHR 0x0D then back # ''r'' else if c = CHR 0x09 then back # ''t''
         else if c = CHR 0x0B then back # ''v''
         else if (of_char c :: nat) < 32 \<or> (of_char c :: nat) = 127
         then back # ''x'' @ [hex_digit (of_char c div 16), hex_digit (of_char c mod 16)]
         else [c])"

definition go_quote :: "string \<Rightarrow> string" where
  "go_quote s = CHR 0x22 # concat (map quote_char s) @ [CHR 0x22]"

definition ParseBool :: "string \<Rightarrow> string + bool" where
  "ParseBool s =
     (if s \<in> {''1'', ''t'', ''T'', ''true'', ''TRUE'', ''True''} then Inr True
      else if s \<in> {''0'', ''f'', ''F'', ''false'', ''FALSE'', ''False''} then Inr False
      else Inl (''strconv.ParseBool: parsing '' @ go_quote s @ '': invalid syntax''))"

type_synonym 'c flag = "string \<Rightarrow> 'c \<Rightarrow> string + 'c"

type_synonym 'c flags = "string \<rightharpoonup> 'c flag"

definition StringVar :: "(string \<Rightarrow> 'c \<Rightarrow> 'c) \<Rightarrow> 'c flag" where
  "StringVar put v c = Inr (put v c)"

definition BoolVar :: "(bool \<Rightarrow> 'c \<Rightarrow> 'c) \<Rightarrow> 'c flag" where
  "BoolVar put v c = map_sum id (\<lambda>b. put b c) (ParseBool v)"

definition IntVar :: "config_io \<Rightarrow> (int \<Rightarrow> 'c \<Rightarrow> 'c) \<Rightarrow> 'c flag" where
  "IntVar io put v c = map_sum id (\<lambda>i. put i c) (ioParseInt io v)"

definition DurationVar :: "config_io \<Rightarrow> (int \<Rightarrow> 'c \<Rightarrow> 'c) \<Rightarrow> 'c flag" where
  "DurationVar io put v c = map_sum id (\<lambda>i. put i c) (ioParseDuration io v)"

text \<open>
  Each \<^verbatim>\<open>AddFlags\<close>: the flags of one struct. Registering a flag also stores its
  default; where that is not the current value of the field, the definition after the list does so.
\<close>

definition server_flags :: "config_io \<Rightarrow> (string \<times> server_config flag) list" where
  "server_flags io =
     [(''api-server-bindaddress'', StringVar (\<lambda>v c. c\<lparr>scBindAddress := v\<rparr>)),
      (''api-server-hostname'', StringVar (\<lambda>v c. c\<lparr>scHostname := v\<rparr>)),
      (''http-read-timeout'', DurationVar io (\<lambda>v c. c\<lparr>scReadTimeout := v\<rparr>)),
      (''http-write-timeout'', DurationVar io (\<lambda>v c. c\<lparr>scWriteTimeout := v\<rparr>)),
      (''https-cert-file'', StringVar (\<lambda>v c. c\<lparr>scHTTPSCertFile := v\<rparr>)),
      (''https-key-file'', StringVar (\<lambda>v c. c\<lparr>scHTTPSKeyFile := v\<rparr>)),
      (''enable-https'', BoolVar (\<lambda>v c. c\<lparr>scEnableHTTPS := v\<rparr>)),
      (''enable-jwt'', BoolVar (\<lambda>v c. c\<lparr>scEnableJWT := v\<rparr>)),
      (''enable-authz'', BoolVar (\<lambda>v c. c\<lparr>scEnableAuthz := v\<rparr>)),
      (''jwk-cert-file'', StringVar (\<lambda>v c. c\<lparr>scJwkCertFile := v\<rparr>)),
      (''jwk-cert-url'', StringVar (\<lambda>v c. c\<lparr>scJwkCertURL := v\<rparr>)),
      (''acl-file'', StringVar (\<lambda>v c. c\<lparr>scACLFile := v\<rparr>))]"

definition metrics_flags :: "config_io \<Rightarrow> (string \<times> metrics_config flag) list" where
  "metrics_flags io =
     [(''metrics-server-bindaddress'', StringVar (\<lambda>v c. c\<lparr>mcBindAddress := v\<rparr>)),
      (''enable-metrics-https'', BoolVar (\<lambda>v c. c\<lparr>mcEnableHTTPS := v\<rparr>)),
      (''label-metrics-inclusion-duration'', DurationVar io (\<lambda>v c. c\<lparr>mcLabelMetricsInclusionDuration := v\<rparr>))]"

definition metrics_flag_defaults :: "metrics_config \<Rightarrow> metrics_config" where
  "metrics_flag_defaults c = c\<lparr>mcLabelMetricsInclusionDuration := 7 * 24 * 3600 * second\<rparr>"

definition health_check_flags :: "(string \<times> health_check_config flag) list" where
  "health_check_flags =
     [(''health-check-server-bindaddress'', StringVar (\<lambda>v c. c\<lparr>hcBindAddress := v\<rparr>)),
      (''enable-health-check-https'', BoolVar (\<lambda>v c. c\<lparr>hcEnableHTTPS := v\<rparr>))]"

definition database_flags :: "config_io \<Rightarrow> (string \<times> database_config flag) list" where
  "database_flags io =
     [(''db-host-file'', StringVar (\<lambda>v c. c\<lparr>dcHostFile := v\<rparr>)),
      (''db-port-file'', StringVar (\<lambda>v c. c\<lparr>dcPortFile := v\<rparr>)),
      (''db-user-file'', StringVar (\<lambda>v c. c\<lparr>dcUsernameFile := v\<rparr>)),
      (''db-password-file'', StringVar (\<lambda>v c. c\<lparr>dcPasswordFile := v\<rparr>)),
      (''db-name-file'', StringVar (\<lambda>v c. c\<lparr>dcNameFile := v\<rparr>)),
      (''db-rootcert'', StringVar (\<lambda>v c. c\<lparr>dcRootCertFile := v\<rparr>)),
      (''db-sslmode'', StringVar (\<lambda>v c. c\<lparr>dcSSLMode := v\<rparr>)),
      (''enable-db-debug'', BoolVar (\<lambda>v c. c\<lparr>dcDebug := v\<rparr>)),
      (''db-max-open-connections'', IntVar io (\<lambda>v c. c\<lparr>dcMaxOpenConnections := v\<rparr>))]"

definition ocm_flags :: "(string \<times> ocm_config flag) list" where
  "ocm_flags =
     [(''ocm-client-id-file'', StringVar (\<lambda>v c. c\<lparr>ocClientIDFile := v\<rparr>)),
      (''ocm-client-secret-file'', StringVar (\<lambda>v c. c\<lparr>ocClientSecretFile := v\<rparr>)),
      (''self-token-file'', StringVar (\<lambda>v c. c\<lparr>ocSelfTokenFile := v\<rparr>)),
      (''ocm-base-url'', StringVar (\<lambda>v c. c\<lparr>ocBaseURL := v\<rparr>)),
      (''ocm-token-url'', StringVar (\<lambda>v c. c\<lparr>ocTokenURL := v\<rparr>)),
      (''ocm-debug'', BoolVar (\<lambda>v c. c\<lparr>ocDebug := v\<rparr>)),
      (''enable-ocm-mock'', BoolVar (\<lambda>v c. c\<lparr>ocEnableMock := v\<rparr>))]"

definition sentry_flags :: "config_io \<Rightarrow> (string \<times> sentry_config flag) list" where
  "sentry_flags io =
     [(''enable-sentry'', BoolVar (\<lambda>v c. c\<lparr>stEnabled := v\<rparr>)),
      (''sentry-key-file'', StringVar (\<lambda>v c. c\<lparr>stKeyFile := v\<rparr>)),
      (''sentry-url'', StringVar (\<lambda>v c. c\<lparr>stURL := v\<rparr>)),
      (''sentry-project'', StringVar (\<lambda>v c. c\<lparr>stProject := v\<rparr>)),
      (''enable-sentry-debug'', BoolVar (\<lambda>v c. c\<lparr>stDebug := v\<rparr>)),
      (''sentry-timeout'', DurationVar io (\<lambda>v c. c\<lparr>stTimeout := v\<rparr>))]"

definition sentry_flag_defaults :: "sentry_config \<Rightarrow> sentry_config" where
  "sentry_flag_defaults c = c\<lparr>stTimeout := 5 * second\<rparr>"

text \<open>A flag of a part of the configuration.\<close>

definition part_flags ::
    "('c \<Rightarrow> 'd) \<Rightarrow> ('d \<Rightarrow> 'c \<Rightarrow> 'c) \<Rightarrow> (string \<times> 'd flag) list \<Rightarrow> (string \<times> 'c flag) list" where
  "part_flags get put fs = map (\<lambda>(n, f). (n, \<lambda>v c. map_sum id (\<lambda>d. put d c) (f v (get c)))) fs"

definition application_flags :: "config_io \<Rightarrow> (string \<times> application_config flag) list" where
  "application_flags io =
     part_flags acServer (\<lambda>d c. c\<lparr>acServer := d\<rparr>) (server_flags io) @
     part_flags acMetrics (\<lambda>d c. c\<lparr>acMetrics := d\<rparr>) (metrics_flags io) @
     part_flags acHealthCheck (\<lambda>d c. c\<lparr>acHealthCheck := d\<rparr>) health_check_flags @
     part_flags acDatabase (\<lambda>d c. c\<lparr>acDatabase := d\<rparr>) (database_flags io) @
     part_flags acOCM (\<lambda>d c. c\<lparr>acOCM := d\<rparr>) ocm_flags @
     part_flags acSentry (\<lambda>d c. c\<lparr>acSentry := d\<rparr>) (sentry_flags io)"

text \<open>A name registered twice makes \<^verbatim>\<open>pflag\<close> panic.\<close>

fun add_flags :: "(string \<times> 'c flag) list \<Rightarrow> 'c flags \<Rightarrow> 'c flags go" where
  "add_flags [] fs = Ret fs"
| "add_flags ((n, f) # rest) fs =
     (if fs n \<noteq> None then Panic (''flag redefined: '' @ n) else add_flags rest (fs(n \<mapsto> f)))"

definition AddFlags ::
    "config_io \<Rightarrow> application_config flags \<Rightarrow> application_config \<Rightarrow> (application_config flags \<times> application_config) go" where
  "AddFlags io goFlags c =
     go_bind (add_flags (application_flags io) goFlags) (\<lambda>fs.
       Ret (fs, c\<lparr>acMetrics := metrics_flag_defaults (acMetrics c), acSentry := sentry_flag_defaults (acSentry c)\<rparr>))"

section \<open>Files\<close>

text \<open>
  \<^verbatim>\<open>filepath.Clean\<close>, \<^verbatim>\<open>filepath.Join\<close> and \<^verbatim>\<open>filepath.Dir\<close> on a
  Unix system: \<open>clean_parts\<close> collects the parts of the path, the last one first.
\<close>

fun clean_parts :: "bool \<Rightarrow> string list \<Rightarrow> string list \<Rightarrow> string list" where
  "clean_parts rooted acc [] = rev acc"
| "clean_parts rooted acc (p # ps) =
     (if p = [] \<or> p = ''.'' then clean_parts rooted acc ps
      else if p = ''..'' then
        (if acc \<noteq> [] \<and> hd acc \<noteq> ''..'' then clean_parts rooted (tl acc) ps
         else if rooted then clean_parts rooted acc ps
         else clean_parts rooted (''..'' # acc) ps)
      else clean_parts rooted (p # acc) ps)"

definition path_clean :: "string \<Rightarrow> string" where
  "path_clean p =
     (let rooted = has_prefix p ''/'';
          parts = clean_parts rooted [] (split_on (CHR ''/'') p)
      in if rooted then CHR ''/'' # join ''/'' parts
         else if parts = [] then ''.'' else join ''/'' parts)"

definition path_join :: "string list \<Rightarrow> string" where
  "path_join ps =
     (let qs = filter (\<lambda>p. p \<noteq> []) ps in if qs = [] then [] else path_clean (join ''/'' qs))"

definition path_dir :: "string \<Rightarrow> string" where
  "path_dir p = path_clean (join ''/'' (butlast (split_on (CHR ''/'') p) @ [[]]))"

definition is_abs :: "string \<Rightarrow> bool" where
  "is_abs p = has_prefix p ''/''"

definition GetProjectRootDir :: "config_io \<Rightarrow> string" where
  "GetProjectRootDir io =
     (if ioProjectRootDir io \<noteq> [] then ioProjectRootDir io
      else path_dir (path_join [ioCaller io, ''..'', ''..'']))"

definition SetProjectRootDir :: "string \<Rightarrow> config_io \<Rightarrow> config_io" where
  "SetProjectRootDir dir io = io\<lparr>ioProjectRootDir := dir\<rparr>"

definition unquoted :: "config_io \<Rightarrow> string \<Rightarrow> string" where
  "unquoted io file = (case ioUnquote io file of None \<Rightarrow> file | Some u \<Rightarrow> u)"

definition file_path :: "config_io \<Rightarrow> string \<Rightarrow> string" where
  "file_path io file =
     (if is_abs (unquoted io file) then unquoted io file
      else path_join [GetProjectRootDir io, unquoted io file])"

definition ReadFile :: "config_io \<Rightarrow> string \<Rightarrow> string + string" where
  "ReadFile io file =
     (if unquoted io file = [] then Inr [] else ioReadFile io (file_path io file))"

text \<open>
  Reading a file into a field: the configuration afterwards and the error. A number that does not
  parse is stored all the same, as the value that \<^verbatim>\<open>strconv\<close> returns with the error.
\<close>

type_synonym 'c reading = "'c \<Rightarrow> 'c \<times> string option"

definition atoi_error :: "string \<Rightarrow> string" where
  "atoi_error s =
     ''strconv.Atoi: parsing '' @ go_quote s @
       (if fst (parse_int s) = 0 then '': invalid syntax'' else '': value out of range'')"

definition readFileValueInt :: "config_io \<Rightarrow> string \<Rightarrow> (int \<Rightarrow> 'c \<Rightarrow> 'c) \<Rightarrow> 'c reading" where
  "readFileValueInt io file put c =
     (case ReadFile io file of
        Inl err \<Rightarrow> (c, Some err)
      | Inr fileContents \<Rightarrow>
          (case parse_int fileContents of (v, good) \<Rightarrow>
             (put v c, if good then None else Some (atoi_error fileContents))))"

definition readFileValueString :: "config_io \<Rightarrow> string \<Rightarrow> (string \<Rightarrow> 'c \<Rightarrow> 'c) \<Rightarrow> 'c reading" where
  "readFileValueString io file put c =
     (case ReadFile io file of
        Inl err \<Rightarrow> (c, Some err)
      | Inr fileContents \<Rightarrow> (put (trim_suffix fileContents [CHR 0x0A]) c, None))"

definition readFileValueBool :: "config_io \<Rightarrow> string \<Rightarrow> (bool \<Rightarrow> 'c \<Rightarrow> 'c) \<Rightarrow> 'c reading" where
  "readFileValueBool io file put c =
     (case ReadFile io file of
        Inl err \<Rightarrow> (c, Some err)
      | Inr fileContents \<Rightarrow>
          (case ParseBool fileContents of
             Inr b \<Rightarrow> (put b c, None)
           | Inl err \<Rightarrow> (put False c, Some err)))"

text \<open>The sequence of readings that stops at the first error.\<close>

definition then_read :: "'c reading \<Rightarrow> 'c reading \<Rightarrow> 'c reading" where
  "then_read f g c = (case f c of (c', Some err) \<Rightarrow> (c', Some err) | (c', None) \<Rightarrow> g c')"

definition server_ReadFiles :: "server_config reading" where
  "server_ReadFiles c = (c, None)"

definition metrics_ReadFiles :: "metrics_config reading" where
  "metrics_ReadFiles c = (c, None)"

definition health_check_ReadFiles :: "health_check_config reading" where
  "health_check_ReadFiles c = (c, None)"

definition database_ReadFiles :: "config_io \<Rightarrow> database_config reading" where
  "database_ReadFiles io =
     then_read (\<lambda>c. readFileValueString io (dcHostFile c) (\<lambda>v c. c\<lparr>dcHost := v\<rparr>) c)
    (then_read (\<lambda>c. readFileValueInt io (dcPortFile c) (\<lambda>v c. c\<lparr>dcPort := v\<rparr>) c)
    (then_read (\<lambda>c. readFileValueString io (dcUsernameFile c) (\<lambda>v c. c\<lparr>dcUsername := v\<rparr>) c)
    (then_read (\<lambda>c. readFileValueString io (dcPasswordFile c) (\<lambda>v c. c\<lparr>dcPassword := v\<rparr>) c)
               (\<lambda>c. readFileValueString io (dcNameFile c) (\<lambda>v c. c\<lparr>dcName := v\<rparr>) c))))"

definition ocm_ReadFiles :: "config_io \<Rightarrow> ocm_config reading" where
  "ocm_ReadFiles io c0 =
     (if ocEnableMock c0 then (c0, None)
      else (then_read (\<lambda>c. readFileValueString io (ocClientIDFile c) (\<lambda>v c. c\<lparr>ocClientID := v\<rparr>) c)
           (then_read (\<lambda>c. readFileValueString io (ocClientSecretFile c) (\<lambda>v c. c\<lparr>ocClientSecret := v\<rparr>) c)
                      (\<lambda>c. readFileValueString io (ocSelfTokenFile c) (\<lambda>v c. c\<lparr>ocSelfToken := v\<rparr>) c))) c0)"

definition sentry_ReadFiles :: "config_io \<Rightarrow> sentry_config reading" where
  "sentry_ReadFiles io c =
     (if \<not> stEnabled c then (c, None)
      else readFileValueString io (stKeyFile c) (\<lambda>v c. c\<lparr>stKey := v\<rparr>) c)"

text \<open>The reading of a part, lifted to the application's configuration.\<close>

definition part_reading :: "('c \<Rightarrow> 'd) \<Rightarrow> ('d \<Rightarrow> 'c \<Rightarrow> 'c) \<Rightarrow> 'd reading \<Rightarrow> 'c reading" where
  "part_reading get put f c = (case f (get c) of (d, err) \<Rightarrow> (put d c, err))"

fun read_all :: "('c reading \<times> string) list \<Rightarrow> 'c \<Rightarrow> 'c \<times> string list" where
  "read_all [] c = (c, [])"
| "read_all ((f, name) # rest) c =
     (case f c of (c', err) \<Rightarrow> (case read_all rest c' of (c'', messages) \<Rightarrow>
        (c'', (case err of None \<Rightarrow> messages | Some e \<Rightarrow> sprintf ''%s %s'' [FStr name, FStr e] # messages))))"

definition ReadFiles :: "config_io \<Rightarrow> application_config \<Rightarrow> application_config \<times> string list" where
  "ReadFiles io =
     read_all
       [(part_reading acServer (\<lambda>d c. c\<lparr>acServer := d\<rparr>) server_ReadFiles, ''Server''),
        (part_reading acDatabase (\<lambda>d c. c\<lparr>acDatabase := d\<rparr>) (database_ReadFiles io), ''Database''),
        (part_reading acOCM (\<lambda>d c. c\<lparr>acOCM := d\<rparr>) (ocm_ReadFiles io), ''OCM''),
        (part_reading acMetrics (\<lambda>d c. c\<lparr>acMetrics := d\<rparr>) metrics_ReadFiles, ''Metrics''),
        (part_reading acHealthCheck (\<lambda>d c. c\<lparr>acHealthCheck := d\<rparr>) health_check_ReadFiles, ''HealthCheck''),
        (part_reading acSentry (\<lambda>d c. c\<lparr>acSentry := d\<rparr>) (sentry_ReadFiles io), ''Sentry'')]"

section \<open>Connection strings\<close>

definition ConnectionStringWithName :: "database_config \<Rightarrow> string \<Rightarrow> bool \<Rightarrow> string" where
  "ConnectionStringWithName c name withSSL =
     (if withSSL
      then sprintf (''host=%s port=%d user=%s password='' @ [CHR 0x27] @ ''%s'' @ [CHR 0x27] @
               '' dbname=%s sslmode=%s sslrootcert=%s'')
             [FStr (dcHost c), FInt (dcPort c), FStr (dcUsername c), FStr (dcPassword c), FStr name,
              FStr (dcSSLMode c), FStr (dcRootCertFile c)]
      else sprintf (''host=%s port=%d user=%s password='' @ [CHR 0x27] @ ''%s'' @ [CHR 0x27] @
               '' dbname=%s sslmode=disable'')
             [FStr (dcHost c), FInt (dcPort c), FStr (dcUsername c), FStr (dcPassword c), FStr name])"

definition ConnectionString :: "database_config \<Rightarrow> bool \<Rightarrow> string" where
  "ConnectionString c withSSL = ConnectionStringWithName c (dcName c) withSSL"

definition LogSafeConnectionStringWithName :: "database_config \<Rightarrow> string \<Rightarrow> bool \<Rightarrow> string" where
  "LogSafeConnectionStringWithName c name withSSL =
     (if withSSL
      then sprintf (''host=%s port=%d user=%s password='' @ [CHR 0x27] @ ''<REDACTED>'' @ [CHR 0x27] @
               '' dbname=%s sslmode=%s sslrootcert='' @ [CHR 0x27] @ ''<REDACTED>'' @ [CHR 0x27])
             [FStr (dcHost c), FInt (dcPort c), FStr (dcUsername c), FStr name, FStr (dcSSLMode c)]
      else sprintf (''host=%s port=%d user=%s password='' @ [CHR 0x27] @ ''<REDACTED>'' @ [CHR 0x27] @ '' dbname=%s'')
             [FStr (dcHost c), FInt (dcPort c), FStr (dcUsername c), FStr name])"

definition LogSafeConnectionString :: "database_config \<Rightarrow> bool \<Rightarrow> string" where
  "LogSafeConnectionString c withSSL = LogSafeConnectionStringWithName c (dcName c) withSSL"

section \<open>Facts\<close>

lemma add_flags_returns:
  "distinct (map fst l) \<Longrightarrow> fst ` set l \<inter> dom fs = {} \<Longrightarrow> add_flags l fs = Ret (fs ++ map_of l)"
proof (induction l arbitrary: fs)
  case (Cons nf rest)
  obtain n f where nf: "nf = (n, f)" by (cases nf)
  have free: "fs n = None" using Cons.prems(2) by (auto simp: nf)
  have "n \<notin> fst ` set rest" using Cons.prems(1) by (simp add: nf)
  moreover have "add_flags rest (fs(n \<mapsto> f)) = Ret (fs(n \<mapsto> f) ++ map_of rest)"
  proof (rule Cons.IH)
    show "fst ` set rest \<inter> dom (fs(n \<mapsto> f)) = {}" using Cons.prems calculation unfolding nf by auto
  qed (use Cons.prems in simp)
  moreover have "map_of rest n = None" using \<open>n \<notin> fst ` set rest\<close> by (simp add: map_of_eq_None_iff)
  then have "fs(n \<mapsto> f) ++ map_of rest = fs ++ map_of ((n, f) # rest)"
    by (intro ext) (simp add: map_add_def split: option.splits)
  moreover have "add_flags (nf # rest) fs = add_flags rest (fs(n \<mapsto> f))" using free by (simp add: nf)
  ultimately show ?case by (simp only: nf)
qed simp

lemma add_flags_clash:
  "n \<in> fst ` set l \<Longrightarrow> fs n = Some g \<Longrightarrow> \<exists>e. add_flags l fs = Panic e"
proof (induction l arbitrary: fs g)
  case (Cons mf rest)
  obtain m f where mf: "mf = (m, f)" by (cases mf)
  show ?case
  proof (cases "fs m = None")
    case True
    with Cons.prems have "n \<noteq> m" by auto
    with Cons.prems have "n \<in> fst ` set rest" and "(fs(m \<mapsto> f)) n = Some g" by (auto simp: mf)
    with Cons.IH True show ?thesis by (simp only: mf add_flags.simps) simp
  qed (simp add: mf)
qed simp

lemma part_flags_names [simp]: "map fst (part_flags get put fs) = map fst fs"
  by (auto simp: part_flags_def)

lemmas part_flag_defs = server_flags_def metrics_flags_def health_check_flags_def database_flags_def ocm_flags_def
  sentry_flags_def

lemma flag_names: "distinct (map fst (application_flags io))"
  by (simp add: application_flags_def part_flag_defs)

lemma read_string_Inr:
  "ReadFile io f = Inr s \<Longrightarrow> readFileValueString io f put c = (put (trim_suffix s [CHR 0x0A]) c, None)"
  by (simp add: readFileValueString_def)

lemma read_string_Inl: "ReadFile io f = Inl e \<Longrightarrow> readFileValueString io f put c = (c, Some e)"
  by (simp add: readFileValueString_def)

lemma read_int_Inr:
  "ReadFile io f = Inr (itoa p) \<Longrightarrow> min_int64 \<le> p \<Longrightarrow> p \<le> max_int64 \<Longrightarrow> readFileValueInt io f put c = (put p c, None)"
  by (simp add: readFileValueInt_def parse_int_itoa)

lemma trim_suffix_line: "CHR 0x0A \<notin> set s \<Longrightarrow> t \<in> {s, s @ [CHR 0x0A]} \<Longrightarrow> trim_suffix t [CHR 0x0A] = s"
  by (auto simp: trim_suffix_def has_suffix_iff)

text \<open>Two file systems that differ in the content of one readable file.\<close>

definition same_but :: "string \<Rightarrow> config_io \<Rightarrow> config_io \<Rightarrow> bool" where
  "same_but path io io' \<longleftrightarrow>
     ioUnquote io' = ioUnquote io \<and> ioProjectRootDir io' = ioProjectRootDir io \<and> ioCaller io' = ioCaller io \<and>
     (\<forall>p. p \<noteq> path \<longrightarrow> ioReadFile io' p = ioReadFile io p) \<and>
     \<not> isl (ioReadFile io path) \<and> \<not> isl (ioReadFile io' path)"

lemma same_but_path: "same_but path io io' \<Longrightarrow> unquoted io' f = unquoted io f \<and> file_path io' f = file_path io f"
  by (simp add: same_but_def unquoted_def file_path_def GetProjectRootDir_def)

lemma same_but_other: "same_but path io io' \<Longrightarrow> file_path io f \<noteq> path \<Longrightarrow> ReadFile io' f = ReadFile io f"
  using same_but_path [of path io io' f] by (simp add: ReadFile_def same_but_def)

lemma same_but_cases:
  assumes "same_but path io io'"
  obtains e where "ReadFile io f = Inl e" and "ReadFile io' f = Inl e"
  | s s' where "ReadFile io f = Inr s" and "ReadFile io' f = Inr s'"
proof (cases "file_path io f = path")
  case True
  obtain s s' where "ioReadFile io path = Inr s" and "ioReadFile io' path = Inr s'"
    using assms by (cases "ioReadFile io path"; cases "ioReadFile io' path") (auto simp: same_but_def)
  then show ?thesis
    using same_but_path [OF assms, of f] True that(2) by (cases "unquoted io f = []") (simp_all add: ReadFile_def)
next
  case False
  then have "ReadFile io' f = ReadFile io f" using assms same_but_other by blast
  then show ?thesis using that by (cases "ReadFile io f") simp_all
qed

lemma ReadFiles_eq:
  "ReadFiles io c =
     (c\<lparr>acDatabase := fst (database_ReadFiles io (acDatabase c)), acOCM := fst (ocm_ReadFiles io (acOCM c)),
        acSentry := fst (sentry_ReadFiles io (acSentry c))\<rparr>,
      map (\<lambda>(name, e). sprintf ''%s %s'' [FStr name, FStr e])
        (List.map_filter (\<lambda>(name, err). map_option (Pair name) err)
           [(''Database'', snd (database_ReadFiles io (acDatabase c))), (''OCM'', snd (ocm_ReadFiles io (acOCM c))),
            (''Sentry'', snd (sentry_ReadFiles io (acSentry c)))]))"
  by (cases "database_ReadFiles io (acDatabase c)"; cases "ocm_ReadFiles io (acOCM c)";
      cases "sentry_ReadFiles io (acSentry c)")
    (simp add: ReadFiles_def part_reading_def server_ReadFiles_def metrics_ReadFiles_def
      health_check_ReadFiles_def map_filter_simps split: option.splits)

lemma ocm_messages: "same_but file io io' \<Longrightarrow> snd (ocm_ReadFiles io c) = snd (ocm_ReadFiles io' c)"
proof -
  assume same: "same_but file io io'"
  show ?thesis
    by (rule same_but_cases [OF same, of "ocClientIDFile c"];
        rule same_but_cases [OF same, of "ocClientSecretFile c"];
        rule same_but_cases [OF same, of "ocSelfTokenFile c"])
      (simp_all add: ocm_ReadFiles_def then_read_def read_string_Inr read_string_Inl)
qed

lemma sentry_messages: "same_but file io io' \<Longrightarrow> snd (sentry_ReadFiles io c) = snd (sentry_ReadFiles io' c)"
  by (erule same_but_cases [where f = "stKeyFile c"]) (simp_all add: sentry_ReadFiles_def read_string_Inr read_string_Inl)

lemma log_safe_cong:
  assumes "dcHost c = dcHost c'" and "dcPort c = dcPort c'" and "dcUsername c = dcUsername c'"
    and "dcName c = dcName c'" and "dcSSLMode c = dcSSLMode c'"
  shows "LogSafeConnectionString c ssl = LogSafeConnectionString c' ssl"
  unfolding LogSafeConnectionString_def LogSafeConnectionStringWithName_def assms ..

lemma database_messages:
  assumes same: "same_but path io io'"
    and "file_path io (dcHostFile d) \<noteq> path" and "file_path io (dcPortFile d) \<noteq> path"
    and "file_path io (dcUsernameFile d) \<noteq> path" and "file_path io (dcNameFile d) \<noteq> path"
  shows "snd (database_ReadFiles io d) = snd (database_ReadFiles io' d) \<and>
    LogSafeConnectionString (fst (database_ReadFiles io d)) ssl = LogSafeConnectionString (fst (database_ReadFiles io' d)) ssl"
proof (rule same_but_cases [OF same, of "dcPasswordFile d"])
  note same = assms(2-) [THEN same_but_other [OF assms(1)]]
  note defs = database_ReadFiles_def then_read_def readFileValueString_def readFileValueInt_def split_def same
  {
    fix e
    assume p: "ReadFile io (dcPasswordFile d) = Inl e" "ReadFile io' (dcPasswordFile d) = Inl e"
    show ?thesis
      by (cases "ReadFile io (dcHostFile d)"; cases "ReadFile io (dcPortFile d)"; cases "ReadFile io (dcUsernameFile d)")
        (simp_all add: defs p)
  }
  {
    fix s s'
    assume p: "ReadFile io (dcPasswordFile d) = Inr s" "ReadFile io' (dcPasswordFile d) = Inr s'"
    show ?thesis
      by (cases "ReadFile io (dcHostFile d)"; cases "ReadFile io (dcPortFile d)"; cases "ReadFile io (dcUsernameFile d)";
          cases "ReadFile io (dcNameFile d)")
        (simp_all add: defs p, (intro conjI impI log_safe_cong; simp)+)
  }
qed

section \<open>A small file system\<close>

definition demo_config_io :: "string \<Rightarrow> config_io" where
  "demo_config_io pw =
     \<lparr>ioParseInt = (\<lambda>_. Inr 0), ioParseDuration = (\<lambda>_. Inr 0), ioUnquote = (\<lambda>_. None),
      ioReadFile = (\<lambda>p. if p = ''/srv/secrets/db.host'' then Inr (''pg'' @ [CHR 0x0A])
        else if p = ''/srv/secrets/db.port'' then Inr ''5432''
        else if p = ''/srv/secrets/db.name'' then Inr ''rhtrex''
        else if p = ''/srv/secrets/db.user'' then Inr ''trex''
        else if p = ''/srv/secrets/db.password'' then Inr pw
        else Inl ''no such file''),
      ioProjectRootDir = ''/srv'', ioCaller = []\<rparr>"

lemma demo_reads:
  "ReadFile (demo_config_io pw) (dcHostFile NewDatabaseConfig) = Inr (''pg'' @ [CHR 0x0A])"
  "ReadFile (demo_config_io pw) (dcPortFile NewDatabaseConfig) = Inr ''5432''"
  "ReadFile (demo_config_io pw) (dcNameFile NewDatabaseConfig) = Inr ''rhtrex''"
  "ReadFile (demo_config_io pw) (dcUsernameFile NewDatabaseConfig) = Inr ''trex''"
  "ReadFile (demo_config_io pw) (dcPasswordFile NewDatabaseConfig) = Inr pw"
  by code_simp+

lemma demo_paths:
  "file_path (demo_config_io pw) (dcHostFile NewDatabaseConfig) = ''/srv/secrets/db.host''"
  "file_path (demo_config_io pw) (dcPortFile NewDatabaseConfig) = ''/srv/secrets/db.port''"
  "file_path (demo_config_io pw) (dcNameFile NewDatabaseConfig) = ''/srv/secrets/db.name''"
  "file_path (demo_config_io pw) (dcUsernameFile NewDatabaseConfig) = ''/srv/secrets/db.user''"
  "file_path (demo_config_io pw) (dcPasswordFile NewDatabaseConfig) = ''/srv/secrets/db.password''"
  by code_simp+

lemma demo_default [simp]:
  "acDatabase NewApplicationConfig = NewDatabaseConfig"
  "ocEnableMock (acOCM NewApplicationConfig)"
  "\<not> stEnabled (acSentry NewApplicationConfig)"
  by (simp_all add: NewApplicationConfig_def NewOCMConfig_def NewSentryConfig_def)

section \<open>Properties\<close>

text \<open>
  The flags of the application are registered exactly once each, so registering them panics
  only when one of their names is already taken by a flag of another package.
\<close>

theorem flags_registered_once:
  "(\<exists>r. AddFlags io goFlags c = Ret r) \<longleftrightarrow> set (map fst (application_flags io)) \<inter> dom goFlags = {}"
proof
  assume "\<exists>r. AddFlags io goFlags c = Ret r"
  then have ok: "\<And>e. add_flags (application_flags io) goFlags \<noteq> Panic e"
    by (auto simp: AddFlags_def)
  show "set (map fst (application_flags io)) \<inter> dom goFlags = {}"
  proof (rule ccontr)
    assume "set (map fst (application_flags io)) \<inter> dom goFlags \<noteq> {}"
    then obtain n g where "n \<in> fst ` set (application_flags io)" and "goFlags n = Some g" by auto
    with ok show False using add_flags_clash by metis
  qed
next
  assume "set (map fst (application_flags io)) \<inter> dom goFlags = {}"
  then have "add_flags (application_flags io) goFlags = Ret (goFlags ++ map_of (application_flags io))"
    by (intro add_flags_returns flag_names) simp
  then show "\<exists>r. AddFlags io goFlags c = Ret r" by (simp add: AddFlags_def)
qed



text \<open>
  C28: Nothing of the content of the password file reaches the messages of the reading or the
  connection string that is logged, when no other setting of the database is read from that file.
\<close>

theorem password_not_logged:
  assumes "d = acDatabase c" and "same_but (file_path io (dcPasswordFile d)) io io'"
    and "file_path io (dcPasswordFile d) \<notin>
      file_path io ` {dcHostFile d, dcPortFile d, dcUsernameFile d, dcNameFile d}"
  shows "snd (ReadFiles io c) = snd (ReadFiles io' c) \<and>
    LogSafeConnectionString (acDatabase (fst (ReadFiles io c))) ssl =
      LogSafeConnectionString (acDatabase (fst (ReadFiles io' c))) ssl"
proof -
  have "snd (database_ReadFiles io d) = snd (database_ReadFiles io' d) \<and>
    LogSafeConnectionString (fst (database_ReadFiles io d)) ssl = LogSafeConnectionString (fst (database_ReadFiles io' d)) ssl"
    by (rule database_messages [OF assms(2)]) (use assms(3) in auto)
  then show ?thesis
    by (simp add: ReadFiles_eq ocm_messages [OF assms(2)] sentry_messages [OF assms(2)] flip: assms(1))
qed

theorem password_not_logged_witness:
  "LogSafeConnectionString (acDatabase (fst (ReadFiles (demo_config_io ''one'') NewApplicationConfig))) True =
    LogSafeConnectionString (acDatabase (fst (ReadFiles (demo_config_io ''two'') NewApplicationConfig))) True"
proof -
  have "same_but (file_path (demo_config_io ''one'') (dcPasswordFile NewDatabaseConfig))
      (demo_config_io ''one'') (demo_config_io ''two'')"
    unfolding demo_paths by (simp add: same_but_def demo_config_io_def)
  with password_not_logged [of NewDatabaseConfig NewApplicationConfig "demo_config_io ''one''" "demo_config_io ''two''" True]
  show ?thesis by (simp add: demo_default demo_paths)
qed

text \<open>
  A database whose file names are empty is not left as it was: its host is set to the empty
  string and its port to 0, and the first message says that the empty string is not a number.
\<close>

theorem empty_file_name:
  assumes "db = acDatabase c" and "ioUnquote io [] = None"
    and "dcHostFile db = []" and "dcPortFile db = []"
  shows "dcHost (acDatabase (fst (ReadFiles io c))) = [] \<and> dcPort (acDatabase (fst (ReadFiles io c))) = 0 \<and>
    hd (snd (ReadFiles io c)) = ''Database strconv.Atoi: parsing \"\": invalid syntax''"
  using assms by (simp_all add: ReadFiles_eq database_ReadFiles_def then_read_def readFileValueString_def
     readFileValueInt_def ReadFile_def unquoted_def parse_int_def trim_suffix_def atoi_error_def map_filter_simps go_quote_def)

theorem empty_file_name_witness:
  "hd (snd (ReadFiles (demo_config_io []) (NewApplicationConfig\<lparr>acDatabase := NewDatabaseConfig\<lparr>dcHost := ''kept'', dcPort := 5432,
      dcHostFile := [], dcPortFile := []\<rparr>\<rparr>))) = ''Database strconv.Atoi: parsing \"\": invalid syntax''"
  using empty_file_name [OF refl, of "demo_config_io []" "NewApplicationConfig\<lparr>acDatabase := NewDatabaseConfig\<lparr>dcHost := ''kept'',
      dcPort := 5432, dcHostFile := [], dcPortFile := []\<rparr>\<rparr>"]
  by (simp add: demo_config_io_def)

end
