(* ===== verification/Trex_Config.thy ===== *)
theory Trex_Config
  imports App_Config Http_Handlers
begin

text \<open>
  \<^verbatim>\<open>pkg/trex/config.go\<close>: the configuration of the library, which a service sets once,
  and the package variables of \<^verbatim>\<open>errors\<close>, \<^verbatim>\<open>presenters\<close>,
  \<^verbatim>\<open>handlers\<close> and \<^verbatim>\<open>config\<close> that setting it changes. The state of all
  of them is one record; \<^verbatim>\<open>sync.Once\<close> is the flag \<open>tsOnce\<close>.
\<close>

record trex_config =
  tcServiceName :: string
  tcBasePath :: string
  tcErrorHref :: string
  tcMetadataID :: string
  tcProjectRootDir :: string
  tcCORSOrigins :: "string list"

record trex_state =
  tsOnce :: bool
  tsInitialized :: bool
  tsConfig :: trex_config
  tsErrors :: error_config
  tsBasePath :: string \<comment> \<open>of \<^verbatim>\<open>presenters\<close>\<close>
  tsMetadataID :: string
  tsFiles :: config_io

definition trex_defaults :: "trex_config \<Rightarrow> trex_config" where
  "trex_defaults cfg0 =
     (let cfg1 = (if tcServiceName cfg0 = [] then cfg0\<lparr>tcServiceName := ''rh-trex''\<rparr> else cfg0);
          cfg2 = (if tcBasePath cfg1 = [] then cfg1\<lparr>tcBasePath := ''/api/rh-trex/v1''\<rparr> else cfg1);
          cfg3 = (if tcErrorHref cfg2 = [] then cfg2\<lparr>tcErrorHref := tcBasePath cfg2 @ ''/errors/''\<rparr> else cfg2)
      in if tcMetadataID cfg3 = [] then cfg3\<lparr>tcMetadataID := tcServiceName cfg3\<rparr> else cfg3)"

definition trex_Init :: "trex_config \<Rightarrow> trex_state \<Rightarrow> trex_state" where
  "trex_Init cfg0 st =
     (if tsOnce st then st
      else (let cfg = trex_defaults cfg0
            in st\<lparr>tsOnce := True, tsConfig := cfg, tsInitialized := True,
                 tsErrors := SetErrorHref (tcErrorHref cfg) (SetErrorCodePrefix (tcServiceName cfg) (tsErrors st)),
                 tsBasePath := tcBasePath cfg,
                 tsMetadataID := SetMetadataID (tcMetadataID cfg) (tsMetadataID st),
                 tsFiles := (if tcProjectRootDir cfg \<noteq> [] then SetProjectRootDir (tcProjectRootDir cfg) (tsFiles st)
                             else tsFiles st)\<rparr>))"

definition GetConfig :: "trex_state \<Rightarrow> trex_config go" where
  "GetConfig st =
     (if \<not> tsInitialized st
      then Panic ''trex.Init() must be called before GetConfig() - typically in environments package init()''
      else Ret (tsConfig st))"

definition IsInitialized :: "trex_state \<Rightarrow> bool" where
  "IsInitialized st = tsInitialized st"

definition defaultCORSOrigins :: "string list" where
  "defaultCORSOrigins =
     [''https://qa.foo.redhat.com:1337'',
      ''https://prod.foo.redhat.com:1337'',
      ''https://ci.foo.redhat.com:1337'',
      ''https://cloud.redhat.com'',
      ''https://console.redhat.com'',
      ''https://qaprodauth.cloud.redhat.com'',
      ''https://qa.cloud.redhat.com'',
      ''https://ci.cloud.redhat.com'',
      ''https://qaprodauth.console.redhat.com'',
      ''https://qa.console.redhat.com'',
      ''https://ci.console.redhat.com'',
      ''https://console.stage.redhat.com'',
      ''https://api.stage.openshift.com'',
      ''https://api.openshift.com'',
      ''https://access.qa.redhat.com'',
      ''https://access.stage.redhat.com'',
      ''https://access.redhat.com'']"

definition GetCORSOrigins :: "trex_state \<Rightarrow> string list go" where
  "GetCORSOrigins st =
     (if \<not> tsInitialized st
      then Panic ''trex.Init() must be called before GetCORSOrigins() - typically in environments package init()''
      else if 0 < length (tcCORSOrigins (tsConfig st)) then Ret (tcCORSOrigins (tsConfig st))
      else Ret defaultCORSOrigins)"

text \<open>The variables before the program starts.\<close>

definition trex_start :: "config_io \<Rightarrow> trex_state" where
  "trex_start io =
     \<lparr>tsOnce = False, tsInitialized = False,
      tsConfig = \<lparr>tcServiceName = [], tcBasePath = [], tcErrorHref = [], tcMetadataID = [], tcProjectRootDir = [],
                  tcCORSOrigins = []\<rparr>,
      tsErrors = default_error_config, tsBasePath = ''/api/rh-trex/v1'', tsMetadataID = ''rh-trex'', tsFiles = io\<rparr>"

definition reached :: "config_io \<Rightarrow> trex_config list \<Rightarrow> trex_state" where
  "reached io cfgs = fold trex_Init cfgs (trex_start io)"

lemma fold_Init_once: "tsOnce st \<Longrightarrow> fold trex_Init cfgs st = st"
  by (induction cfgs) (simp_all add: trex_Init_def)


end
