(* ===== verification/Session_Factory.thy ===== *)
theory Session_Factory
  imports App_Config Go_Proc "HOL-Library.Multiset"
begin

text \<open>
  \<^verbatim>\<open>pkg/db/db_session\<close>: the session factory of the service (\<^verbatim>\<open>default.go\<close>)
  and the one of the tests on an external database (\<^verbatim>\<open>test.go\<close>), with the package
  variable \<^verbatim>\<open>once\<close> they share; and the migrations of \<^verbatim>\<open>pkg/db\<close>.
  The drivers \<^verbatim>\<open>database/sql\<close> and \<^verbatim>\<open>gorm\<close> are the record
  \<open>sql_driver\<close> over the state \<open>'w\<close> of the database server, a parameter; a connection is a
  handle \<open>'h\<close>, the gorm session on it the same handle.
\<close>

record ('h, 'w) sql_driver =
  drOpen :: "string \<Rightarrow> string \<Rightarrow> 'w \<Rightarrow> (string + 'h) \<times> 'w"
  drGorm :: "'h \<Rightarrow> 'w \<Rightarrow> string option \<times> 'w"
  drExec :: "'h \<Rightarrow> string \<Rightarrow> string list \<Rightarrow> 'w \<Rightarrow> string option \<times> 'w"
  drMaxOpen :: "'h \<Rightarrow> int \<Rightarrow> 'w \<Rightarrow> 'w"
  drClose :: "'h \<Rightarrow> 'w \<Rightarrow> string option \<times> 'w"
  drQuote :: "string \<Rightarrow> string" \<comment> \<open>\<^verbatim>\<open>pq.QuoteIdentifier\<close>\<close>

record 'w session_world =
  swOnce :: bool
  swDb :: 'w

type_synonym ('w, 'a) session_proc = "('w session_world, 'a) proc"

definition on_sw :: "('w \<Rightarrow> 'a \<times> 'w) \<Rightarrow> ('w, 'a) session_proc" where
  "on_sw f S = (case f (swDb S) of (a, w) \<Rightarrow> (Done a, S\<lparr>swDb := w\<rparr>))"

text \<open>\<^verbatim>\<open>once.Do\<close>: the function counts as done also when it panics.\<close>

definition once_Do :: "('w, unit) session_proc \<Rightarrow> ('w, unit) session_proc" where
  "once_Do f S = (if swOnce S then (Done (), S) else f (S\<lparr>swOnce := True\<rparr>))"

section \<open>Opening a connection\<close>

text \<open>
  The connection string is tried with SSL first, when the configuration asks for it, and without it
  then; the \<open>name\<close> of the second message is that of the configuration in both callers.
\<close>

definition use_ssl :: "database_config \<Rightarrow> bool" where
  "use_ssl c \<longleftrightarrow> dcSSLMode c \<noteq> ''disable''"

definition connect_panic :: "string \<Rightarrow> database_config \<Rightarrow> string \<Rightarrow> string \<Rightarrow> string \<Rightarrow> string" where
  "connect_panic lib c name safe err =
     sprintf (lib @ '' failed to connect to %s database %s with connection string: %s'' @ [CHR 0x0A] @ ''Error: %s'')
       [FStr (dcDialect c), FStr name, FStr safe, FStr err]"

definition open_connection :: "('h, 'w) sql_driver \<Rightarrow> database_config \<Rightarrow> string \<Rightarrow> ('w, 'h) session_proc" where
  "open_connection dr c name =
     run_bind (on_sw (drOpen dr (dcDialect c) (ConnectionStringWithName c name (use_ssl c)))) (\<lambda>r. case r of
       Inr h \<Rightarrow> run_ret h
     | Inl _ \<Rightarrow>
         run_bind (on_sw (drOpen dr (dcDialect c) (ConnectionStringWithName c name False))) (\<lambda>r. case r of
           Inr h \<Rightarrow> run_ret h
         | Inl err \<Rightarrow> run_go (Panic (connect_panic ''SQL'' c name
             (LogSafeConnectionStringWithName c name (use_ssl c)) err))))"

definition gorm_open :: "('h, 'w) sql_driver \<Rightarrow> database_config \<Rightarrow> 'h \<Rightarrow> ('w, unit) session_proc" where
  "gorm_open dr c h =
     run_bind (on_sw (drGorm dr h)) (\<lambda>r. case r of
       None \<Rightarrow> run_ret ()
     | Some err \<Rightarrow> run_go (Panic (connect_panic ''GORM'' c (dcName c) (LogSafeConnectionString c (use_ssl c)) err)))"

section \<open>The service's factory\<close>

record 'h default_factory =
  dfConfig :: "database_config option"
  dfG2 :: "'h option"
  dfDb :: "'h option"

text \<open>The pointer that \<^verbatim>\<open>NewProdFactory\<close> allocates before it calls \<^verbatim>\<open>Init\<close>.\<close>

definition new_Default :: "'h default_factory" where
  "new_Default = \<lparr>dfConfig = None, dfG2 = None, dfDb = None\<rparr>"

definition Default_Init ::
    "('h, 'w) sql_driver \<Rightarrow> database_config \<Rightarrow> 'h default_factory \<Rightarrow> ('w, 'h default_factory) session_proc" where
  "Default_Init dr c f S =
     (if swOnce S then (Done f, S)
      else
        run_bind (open_connection dr c (dcName c)) (\<lambda>h.
        run_bind (on_sw (\<lambda>w. ((), drMaxOpen dr h (dcMaxOpenConnections c) w))) (\<lambda>_.
        run_bind (gorm_open dr c h) (\<lambda>_.
        run_ret (f\<lparr>dfConfig := Some c, dfG2 := Some h, dfDb := Some h\<rparr>)))) (S\<lparr>swOnce := True\<rparr>))"

definition NewProdFactory :: "('h, 'w) sql_driver \<Rightarrow> database_config \<Rightarrow> ('w, 'h default_factory) session_proc" where
  "NewProdFactory dr c = Default_Init dr c new_Default"

definition nil_pointer :: string where
  "nil_pointer = ''invalid memory address or nil pointer dereference''"

text \<open>A session: its connection and whether it logs the statements.\<close>

definition Default_New :: "'h default_factory \<Rightarrow> ('h \<times> bool) go" where
  "Default_New f =
     (case (dfG2 f, dfConfig f) of (Some h, Some c) \<Rightarrow> Ret (h, dcDebug c) | _ \<Rightarrow> Panic nil_pointer)"

definition Default_DirectDB :: "'h default_factory \<Rightarrow> 'h option" where
  "Default_DirectDB f = dfDb f"

definition Default_CheckConnection ::
    "('h, 'w) sql_driver \<Rightarrow> 'h default_factory \<Rightarrow> ('w, string option) session_proc" where
  "Default_CheckConnection dr f =
     (case dfG2 f of None \<Rightarrow> run_go (Panic nil_pointer) | Some h \<Rightarrow> on_sw (drExec dr h ''SELECT 1'' []))"

definition Default_Close :: "('h, 'w) sql_driver \<Rightarrow> 'h default_factory \<Rightarrow> ('w, string option) session_proc" where
  "Default_Close dr f = (case dfDb f of None \<Rightarrow> run_go (Panic nil_pointer) | Some h \<Rightarrow> on_sw (drClose dr h))"

definition Default_ResetDB :: "unit go" where
  "Default_ResetDB = Panic ''ResetDB is not implemented for non-integration-test env''"

text \<open>The connection string and the channel the listener is started with.\<close>

definition Default_NewListener :: "'h default_factory \<Rightarrow> string \<Rightarrow> (string \<times> string) go" where
  "Default_NewListener f channel =
     (case dfConfig f of None \<Rightarrow> Panic nil_pointer | Some c \<Rightarrow> Ret (ConnectionString c True, channel))"

section \<open>Migrations\<close>

text \<open>A migration: its identifier, and running it on a connection and taking it back.\<close>

record ('h, 'w) migration =
  mgID :: string
  mgMigrate :: "'h \<Rightarrow> 'w \<Rightarrow> string option \<times> 'w"
  mgRollback :: "'h \<Rightarrow> 'w \<Rightarrow> string option \<times> 'w"

text \<open>
  The migrations of the plugins. gorm's migrator is a parameter: it is given the name of a struct
  with the names and the tags of its fields.
\<close>

record ('h, 'w) migrator =
  mrAutoMigrate :: "string \<Rightarrow> (string \<times> string) list \<Rightarrow> 'h \<Rightarrow> 'w \<Rightarrow> string option \<times> 'w"
  mrDropTable :: "string \<Rightarrow> 'h \<Rightarrow> 'w \<Rightarrow> string option \<times> 'w"

definition model_fields :: "(string \<times> string) list" where
  "model_fields = [(''ID'', ''primary_key''), (''CreatedAt'', []), (''UpdatedAt'', []), (''DeletedAt'', ''index'')]"

definition dinosaurs_migration :: "('h, 'w) migrator \<Rightarrow> ('h, 'w) migration" where
  "dinosaurs_migration mr =
     \<lparr>mgID = ''201911212019'',
      mgMigrate = mrAutoMigrate mr ''Dinosaur'' (model_fields @ [(''Species'', ''index'')]),
      mgRollback = mrDropTable mr ''Dinosaur''\<rparr>"

definition events_migration :: "('h, 'w) migrator \<Rightarrow> ('h, 'w) migration" where
  "events_migration mr =
     \<lparr>mgID = ''202309020925'',
      mgMigrate = mrAutoMigrate mr ''Event'' (model_fields @
        [(''Source'', ''index''), (''SourceID'', ''index''), (''EventType'', []), (''ReconciledDate'', ''null;index'')]),
      mgRollback = mrDropTable mr ''Event''\<rparr>"

definition RegisterMigration :: "('h, 'w) migration \<Rightarrow> ('h, 'w) migration list \<Rightarrow> ('h, 'w) migration list" where
  "RegisterMigration m registry = registry @ [m]"

text \<open>Strings compare byte by byte.\<close>

fun string_less :: "string \<Rightarrow> string \<Rightarrow> bool" where
  "string_less a [] = False"
| "string_less [] (d # b) = True"
| "string_less (c # a) (d # b) = ((of_char c :: nat) < of_char d \<or> c = d \<and> string_less a b)"

text \<open>
  \<^verbatim>\<open>sort.Slice\<close> is not stable: its order of migrations with one identifier is the
  parameter \<open>srt\<close>, of which the documentation promises \<open>sorts_by_ID\<close>.
\<close>

definition sorts_by_ID :: "(('h, 'w) migration list \<Rightarrow> ('h, 'w) migration list) \<Rightarrow> bool" where
  "sorts_by_ID srt \<longleftrightarrow>
     (\<forall>ms. mset (srt ms) = mset ms \<and> sorted_wrt (\<lambda>a b. \<not> string_less (mgID b) (mgID a)) (srt ms))"

definition LoadDiscoveredMigrations ::
    "(('h, 'w) migration list \<Rightarrow> ('h, 'w) migration list) \<Rightarrow> ('h, 'w) migration list \<Rightarrow> ('h, 'w) migration list" where
  "LoadDiscoveredMigrations srt registry = srt registry"

text \<open>
  \<^verbatim>\<open>gormigrate\<close> is a parameter: it runs a list of migrations on a connection.
\<close>

type_synonym ('h, 'w) gormigrate = "('h, 'w) migration list \<Rightarrow> 'h \<Rightarrow> 'w \<Rightarrow> string option \<times> 'w"

definition Migrate ::
    "('h, 'w) gormigrate \<Rightarrow> (('h, 'w) migration list \<Rightarrow> ('h, 'w) migration list) \<Rightarrow> ('h, 'w) migration list
     \<Rightarrow> 'h \<Rightarrow> 'w \<Rightarrow> string option \<times> 'w" where
  "Migrate gm srt registry h = gm (LoadDiscoveredMigrations srt registry) h"

text \<open>
  \<open>g2\<close> is what the factory's \<^verbatim>\<open>New\<close> gives; the result is the line with which
  \<^verbatim>\<open>glog.Fatalf\<close> ends the process.
\<close>

definition MigrateTo ::
    "(('h, 'w) migration list \<Rightarrow> 'h \<Rightarrow> string \<Rightarrow> 'w \<Rightarrow> string option \<times> 'w)
     \<Rightarrow> (('h, 'w) migration list \<Rightarrow> ('h, 'w) migration list) \<Rightarrow> ('h, 'w) migration list
     \<Rightarrow> 'h go \<Rightarrow> string \<Rightarrow> ('w, string option) proc" where
  "MigrateTo gm srt registry g2 migrationID =
     run_bind (run_go g2) (\<lambda>h w.
       case gm (LoadDiscoveredMigrations srt registry) h migrationID w of
         (None, w') \<Rightarrow> (Done None, w')
       | (Some err, w') \<Rightarrow> (Done (Some (sprintf ''Could not migrate: %v'' [FStr err])), w'))"

record fk_migration =
  fkModel :: string
  fkDest :: string
  fkField :: string
  fkReference :: string

fun CreateFK :: "('h, 'w) sql_driver \<Rightarrow> 'h \<Rightarrow> fk_migration list \<Rightarrow> 'w \<Rightarrow> string option \<times> 'w" where
  "CreateFK dr h [] w = (None, w)"
| "CreateFK dr h (fk # fks) w =
     (let name = sprintf ''fk_%s_%s'' [FStr (fkModel fk), FStr (fkDest fk)];
          drop = sprintf ''ALTER TABLE %s DROP CONSTRAINT IF EXISTS %s;'' [FStr (fkModel fk), FStr name];
          query = sprintf (''ALTER TABLE %s ADD CONSTRAINT %s FOREIGN KEY (%s) REFERENCES %s '' @
                            ''ON DELETE RESTRICT ON UPDATE RESTRICT;'')
                    [FStr (fkModel fk), FStr name, FStr (fkField fk), FStr (fkReference fk)];
          w1 = snd (drExec dr h drop [] w)
      in case drExec dr h query [] w1 of
           (Some err, w2) \<Rightarrow> (Some err, w2)
         | (None, w2) \<Rightarrow> CreateFK dr h fks w2)"

section \<open>The factory of the tests\<close>

record 'h test_factory =
  tfConfig :: "database_config option"
  tfG2 :: "'h option"
  tfDb :: "'h option"
  tfWasDisconnected :: bool

definition new_Test :: "'h test_factory" where
  "new_Test = \<lparr>tfConfig = None, tfG2 = None, tfDb = None, tfWasDisconnected = False\<rparr>"

text \<open>The connection; the function that closes it is \<open>cleanup\<close>.\<close>

definition connect :: "('h, 'w) sql_driver \<Rightarrow> string \<Rightarrow> database_config \<Rightarrow> ('w, 'h) session_proc" where
  "connect dr name c = run_bind (open_connection dr c name) (\<lambda>h. run_bind (gorm_open dr c h) (\<lambda>_. run_ret h))"

definition cleanup :: "('h, 'w) sql_driver \<Rightarrow> 'h \<Rightarrow> ('w, unit) session_proc" where
  "cleanup dr h = run_bind (on_sw (drClose dr h)) (\<lambda>r. case r of
     None \<Rightarrow> run_ret () | Some err \<Rightarrow> run_go (Panic err))"

text \<open>
  The statement is executed once, before the loop, whose condition nothing changes: after an error
  the loop sleeps for ever.
\<close>

definition initDatabase ::
    "('h, 'w) sql_driver \<Rightarrow> database_config \<Rightarrow> ('h \<Rightarrow> 'w \<Rightarrow> string option \<times> 'w) \<Rightarrow> ('w, string option) session_proc" where
  "initDatabase dr c migrate =
     run_bind (connect dr ''template1'' c) (\<lambda>h.
     run_defer (cleanup dr h)
       (run_bind (on_sw (drExec dr h ''select 1'' [])) (\<lambda>r. case r of
          Some err \<Rightarrow> (\<lambda>S. (Blocked, S))
        | None \<Rightarrow> on_sw (migrate h))))"

definition kill_query :: string where
  "kill_query =
     (let line = [CHR 0x0A, CHR 0x09, CHR 0x09]
      in line @ ''select pg_terminate_backend(pg_stat_activity.pid)'' @ line @ ''from pg_stat_activity'' @
         line @ ''where pg_stat_activity.datname = $1 and pid <> pg_backend_pid()'')"

definition dropConnections :: "('h, 'w) sql_driver \<Rightarrow> 'h \<Rightarrow> string \<Rightarrow> ('w, string option) session_proc" where
  "dropConnections dr h name = on_sw (drExec dr h kill_query [name])"

text \<open>A step that returns an error, converted by \<open>f\<close>; without one, the rest.\<close>

definition or_else :: "('w, string option) session_proc \<Rightarrow> (string \<Rightarrow> string) \<Rightarrow> ('w, string option) session_proc
    \<Rightarrow> ('w, string option) session_proc" where
  "or_else m f rest = run_bind m (\<lambda>r. case r of Some err \<Rightarrow> run_ret (Some (f err)) | None \<Rightarrow> rest)"

definition resetDB :: "('h, 'w) sql_driver \<Rightarrow> database_config \<Rightarrow> ('w, string option) session_proc" where
  "resetDB dr c =
     run_bind (connect dr ''postgres'' c) (\<lambda>h.
     run_defer (cleanup dr h)
       (or_else (dropConnections dr h ''template1'') id
       (or_else (dropConnections dr h (dcName c)) id
       (or_else (on_sw (drExec dr h (sprintf ''DROP DATABASE IF EXISTS %s'' [FStr (drQuote dr (dcName c))]) []))
          (\<lambda>err. sprintf ''SQL failed to DROP database %s: %s'' [FStr (dcName c), FStr err])
       (or_else (on_sw (drExec dr h (sprintf ''CREATE DATABASE %s TEMPLATE template1'' [FStr (drQuote dr (dcName c))]) []))
          (\<lambda>err. sprintf ''SQL failed to CREATE database %s: %s'' [FStr (dcName c), FStr err])
       (run_ret None))))))"

definition connectFactory :: "('h, 'w) sql_driver \<Rightarrow> database_config \<Rightarrow> ('w, 'h) session_proc" where
  "connectFactory dr c =
     run_bind (connect dr (dcName c) c) (\<lambda>h.
     run_bind (on_sw (\<lambda>w. ((), drMaxOpen dr h (dcMaxOpenConnections c) w))) (\<lambda>_. run_ret h))"

text \<open>An error of the first part is logged, and the initialization goes on.\<close>

definition Test_Init ::
    "('h, 'w) sql_driver \<Rightarrow> ('h \<Rightarrow> 'w \<Rightarrow> string option \<times> 'w) \<Rightarrow> database_config \<Rightarrow> 'h test_factory
     \<Rightarrow> ('w, 'h test_factory) session_proc" where
  "Test_Init dr migrate c f =
     run_bind (once_Do (run_bind (initDatabase dr c migrate) (\<lambda>r. case r of
                 Some err \<Rightarrow> run_ret ()
               | None \<Rightarrow> run_bind (resetDB dr c) (\<lambda>_. run_ret ())))) (\<lambda>_.
     run_bind (connectFactory dr c) (\<lambda>h.
     run_ret (f\<lparr>tfConfig := Some c, tfDb := Some h, tfG2 := Some h\<rparr>)))"

definition NewTestFactory ::
    "('h, 'w) sql_driver \<Rightarrow> ('h \<Rightarrow> 'w \<Rightarrow> string option \<times> 'w) \<Rightarrow> database_config \<Rightarrow> ('w, 'h test_factory) session_proc" where
  "NewTestFactory dr migrate c = Test_Init dr migrate c new_Test"

definition Test_New :: "('h, 'w) sql_driver \<Rightarrow> 'h test_factory \<Rightarrow> ('w, ('h \<times> bool) \<times> 'h test_factory) session_proc" where
  "Test_New dr f =
     run_bind (if tfWasDisconnected f
               then (case tfConfig f of
                       None \<Rightarrow> run_go (Panic nil_pointer)
                     | Some c \<Rightarrow> run_bind (connectFactory dr c) (\<lambda>h.
                         run_ret (f\<lparr>tfDb := Some h, tfG2 := Some h, tfWasDisconnected := False\<rparr>)))
               else run_ret f) (\<lambda>f.
     case (tfG2 f, tfConfig f) of
       (Some h, Some c) \<Rightarrow> run_ret ((h, dcDebug c), f)
     | _ \<Rightarrow> run_go (Panic nil_pointer))"

definition Test_CheckConnection :: "('h, 'w) sql_driver \<Rightarrow> 'h test_factory \<Rightarrow> ('w, string option) session_proc" where
  "Test_CheckConnection dr f =
     (case tfDb f of None \<Rightarrow> run_go (Panic nil_pointer) | Some h \<Rightarrow> on_sw (drExec dr h ''SELECT 1'' []))"

definition Test_Close :: "('h, 'w) sql_driver \<Rightarrow> 'h test_factory \<Rightarrow> ('w, string option) session_proc" where
  "Test_Close dr f = (case tfDb f of None \<Rightarrow> run_go (Panic nil_pointer) | Some h \<Rightarrow> on_sw (drClose dr h))"

text \<open>The error of the reset is dropped.\<close>

definition Test_ResetDB :: "('h, 'w) sql_driver \<Rightarrow> 'h test_factory \<Rightarrow> ('w, 'h test_factory) session_proc" where
  "Test_ResetDB dr f =
     (case tfConfig f of
        None \<Rightarrow> run_go (Panic nil_pointer)
      | Some c \<Rightarrow> run_bind (resetDB dr c) (\<lambda>_. run_ret (f\<lparr>tfWasDisconnected := True\<rparr>)))"

definition Test_NewListener :: "'h test_factory \<Rightarrow> string \<Rightarrow> (string \<times> string) go" where
  "Test_NewListener f channel =
     (case tfConfig f of None \<Rightarrow> Panic nil_pointer | Some c \<Rightarrow> Ret (ConnectionString c True, channel))"

section \<open>Facts\<close>

text \<open>What a connection does to a part of the server's state.\<close>

lemma on_sw_simps [simp]:
  "fst (on_sw f S) = Done (fst (f (swDb S)))" "swDb (snd (on_sw f S)) = snd (f (swDb S))"
  "swOnce (snd (on_sw f S)) = swOnce S"
  by (simp_all add: on_sw_def split: prod.splits)

lemma on_sw_Done_iff: "on_sw f S = (r, S') \<longleftrightarrow> (\<exists>a w. f (swDb S) = (a, w) \<and> r = Done a \<and> S' = S\<lparr>swDb := w\<rparr>)"
  by (auto simp: on_sw_def split: prod.splits)

lemma keeps_once: "keeps swOnce (on_sw f)"
  by (rule keepsI) simp

lemma keeps_once_sum:
  "(\<And>a. keeps swOnce (f a)) \<Longrightarrow> (\<And>b. keeps swOnce (g b)) \<Longrightarrow> keeps swOnce (case r of Inl a \<Rightarrow> f a | Inr b \<Rightarrow> g b)"
  by (cases r) simp_all

lemma keeps_once_option:
  "keeps swOnce f \<Longrightarrow> (\<And>b. keeps swOnce (g b)) \<Longrightarrow> keeps swOnce (case r of None \<Rightarrow> f | Some b \<Rightarrow> g b)"
  by (cases r) simp_all

lemmas keeps_once_intros = keeps_once keeps_once_sum keeps_once_option keeps_bind keeps_ret keeps_go

lemma Default_Init_once: "swOnce (snd (Default_Init dr c f S))"
proof (cases "swOnce S")
  case False
  let ?init = "run_bind (open_connection dr c (dcName c)) (\<lambda>h.
        run_bind (on_sw (\<lambda>w. ((), drMaxOpen dr h (dcMaxOpenConnections c) w))) (\<lambda>_.
        run_bind (gorm_open dr c h) (\<lambda>_.
        run_ret (f\<lparr>dfConfig := Some c, dfG2 := Some h, dfDb := Some h\<rparr>))))"
  have k: "keeps swOnce ?init"
    unfolding open_connection_def gorm_open_def by (intro keeps_once_intros)
  have "swOnce (S\<lparr>swOnce := True\<rparr>)" by simp
  from keepsD [OF k this surjective_pairing] have "swOnce (snd (?init (S\<lparr>swOnce := True\<rparr>)))" .
  with False show ?thesis by (simp only: Default_Init_def if_False)
qed (simp add: Default_Init_def)

text \<open>
  What a PostgreSQL server promises of its databases: opening, closing and killing connections
  changes none, dropping removes one, and creating one from a template copies the template.
\<close>

definition pg_contents :: "('h, 'w) sql_driver \<Rightarrow> ('w \<Rightarrow> string \<Rightarrow> 'd option) \<Rightarrow> bool" where
  "pg_contents dr cont \<longleftrightarrow>
     (\<forall>d t w. cont (snd (drOpen dr d t w)) = cont w) \<and> (\<forall>h w. cont (snd (drGorm dr h w)) = cont w) \<and>
     (\<forall>h w. cont (snd (drClose dr h w)) = cont w) \<and> (\<forall>h args w. cont (snd (drExec dr h kill_query args w)) = cont w) \<and>
     (\<forall>h n w w'. drExec dr h (''DROP DATABASE IF EXISTS '' @ drQuote dr n) [] w = (None, w') \<longrightarrow>
        cont w' = (cont w)(n := None)) \<and>
     (\<forall>h n w w'. drExec dr h (''CREATE DATABASE '' @ drQuote dr n @ '' TEMPLATE template1'') [] w = (None, w') \<longrightarrow>
        cont w' = (cont w)(n := cont w ''template1''))"

lemma or_else_None_iff:
  "or_else m f rest S = (Done None, S') \<longleftrightarrow> (\<exists>S1. m S = (Done None, S1) \<and> rest S1 = (Done None, S'))"
  by (auto simp: or_else_def run_bind_Done_iff run_ret_def split: option.splits)

lemma keeps_contents: "(\<And>w. cont (snd (f w)) = cont w) \<Longrightarrow> keeps (\<lambda>S. cont (swDb S) = x) (on_sw f)"
  by (rule keepsI) simp

lemma connect_contents: "pg_contents dr cont \<Longrightarrow> keeps (\<lambda>S. cont (swDb S) = x) (connect dr name c)"
  unfolding connect_def open_connection_def gorm_open_def pg_contents_def
  by (auto intro!: keeps_bind keeps_ret keeps_go keeps_contents split: sum.split option.split)

lemma cleanup_contents: "pg_contents dr cont \<Longrightarrow> keeps (\<lambda>S. cont (swDb S) = x) (cleanup dr h)"
  unfolding cleanup_def pg_contents_def
  by (auto intro!: keeps_bind keeps_ret keeps_go keeps_contents split: option.split)

section \<open>Properties\<close>

text \<open>
  Only the first factory of a process is connected, however its initialization ends: every later
  one is empty, and opening a session on it panics.
\<close>

theorem second_factory_unusable:
  "\<exists>S'. S' = snd (NewProdFactory dr c S) \<and> NewProdFactory dr other S' = (Done new_Default, S') \<and>
    \<not> returns (Default_New (new_Default :: 'h default_factory))"
  using Default_Init_once [of dr c new_Default S]
  by (simp add: NewProdFactory_def Default_Init_def [of dr other] Default_New_def new_Default_def)

text \<open>
  C29: A reset of the test database that reports no error leaves in its place a copy of the template
  database, with all its migrations, and changes no other database.
\<close>

theorem reset_restores_template:
  assumes laws: "pg_contents dr cont" and run: "resetDB dr c S = (Done None, S')" and "dcName c \<noteq> ''template1''"
  shows "cont (swDb S') = (cont (swDb S))(dcName c := cont (swDb S) ''template1'')"
proof -
  let ?q1 = "''DROP DATABASE IF EXISTS '' @ drQuote dr (dcName c)"
  let ?q2 = "''CREATE DATABASE '' @ drQuote dr (dcName c) @ '' TEMPLATE template1''"
  obtain h S1 S2 where h: "connect dr ''postgres'' c S = (Done h, S1)"
    and body: "or_else (dropConnections dr h ''template1'') id
       (or_else (dropConnections dr h (dcName c)) id
       (or_else (on_sw (drExec dr h ?q1 []))
          (\<lambda>err. sprintf ''SQL failed to DROP database %s: %s'' [FStr (dcName c), FStr err])
       (or_else (on_sw (drExec dr h ?q2 []))
          (\<lambda>err. sprintf ''SQL failed to CREATE database %s: %s'' [FStr (dcName c), FStr err])
       (run_ret None)))) S1 = (Done None, S2)"
    and close: "cleanup dr h S2 = (Done (), S')"
    using run unfolding resetDB_def by (auto simp: run_bind_Done_iff run_defer_Done_iff)
  obtain S3 S4 w5 w6 where k: "dropConnections dr h ''template1'' S1 = (Done None, S3)"
    "dropConnections dr h (dcName c) S3 = (Done None, S4)"
    and d: "drExec dr h ?q1 [] (swDb S4) = (None, w5)" and cr: "drExec dr h ?q2 [] w5 = (None, w6)" and "swDb S2 = w6"
    using body by (auto simp: or_else_None_iff on_sw_Done_iff run_ret_def)
  have c1: "cont (swDb S1) = cont (swDb S)" using keepsD [OF connect_contents [OF laws] refl h] by simp
  have kill: "cont (swDb T') = cont (swDb T)" if "dropConnections dr h n T = (Done None, T')" for n T T'
    using that laws unfolding dropConnections_def pg_contents_def by (auto simp: on_sw_Done_iff) (metis snd_conv)
  have c4: "cont (swDb S4) = cont (swDb S)" using kill [OF k(1)] kill [OF k(2)] c1 by simp
  have c5: "cont w5 = (cont (swDb S4))(dcName c := None)" using laws d unfolding pg_contents_def by blast
  have c6: "cont w6 = (cont w5)(dcName c := cont w5 ''template1'')" using laws cr unfolding pg_contents_def by blast
  have "cont (swDb S') = cont w6" using keepsD [OF cleanup_contents [OF laws] refl close] \<open>swDb S2 = w6\<close> by simp
  with c4 c5 c6 assms(3) show ?thesis by simp
qed

text \<open>A server that holds the databases with a number for their contents.\<close>

definition demo_exec :: "unit \<Rightarrow> string \<Rightarrow> string list \<Rightarrow> (string \<rightharpoonup> nat) \<Rightarrow> string option \<times> (string \<rightharpoonup> nat)" where
  "demo_exec h q args w =
     (if has_prefix q ''DROP DATABASE IF EXISTS '' then (None, w(drop 24 q := None))
      else if has_prefix q ''CREATE DATABASE '' then (None, w(take (length q - 35) (drop 16 q) := w ''template1''))
      else (None, w))"

definition demo_driver :: "(unit, string \<rightharpoonup> nat) sql_driver" where
  "demo_driver =
     \<lparr>drOpen = (\<lambda>d t w. (Inr (), w)), drGorm = (\<lambda>h w. (None, w)), drExec = demo_exec, drMaxOpen = (\<lambda>h n w. w),
      drClose = (\<lambda>h w. (None, w)), drQuote = id\<rparr>"

lemma demo_driver_laws: "pg_contents demo_driver id"
proof -
  have "demo_exec h kill_query args w = (None, w)" for h args w
    by (simp add: demo_exec_def kill_query_def has_prefix_iff Let_def)
  then show ?thesis
    by (auto simp: pg_contents_def demo_driver_def demo_exec_def has_prefix_def)
qed

definition demo_database :: database_config where
  "demo_database = NewDatabaseConfig\<lparr>dcName := ''rhtrex''\<rparr>"

definition demo_cluster :: "(string \<rightharpoonup> nat) session_world" where
  "demo_cluster = \<lparr>swOnce = True, swDb = [''template1'' \<mapsto> 7, ''postgres'' \<mapsto> 1, ''rhtrex'' \<mapsto> 9]\<rparr>"

theorem reset_restores_template_witness:
  "swDb (snd (resetDB demo_driver demo_database demo_cluster)) ''rhtrex'' = Some 7 \<and>
   swDb (snd (resetDB demo_driver demo_database demo_cluster)) ''postgres'' = Some 1"
proof -
  have "fst (resetDB demo_driver demo_database demo_cluster) = Done None" by code_simp
  then have "resetDB demo_driver demo_database demo_cluster =
      (Done None, snd (resetDB demo_driver demo_database demo_cluster))" by (simp add: prod_eq_iff)
  from reset_restores_template [OF demo_driver_laws this] show ?thesis
    by (simp add: demo_database_def demo_cluster_def)
qed

text \<open>
  When the test database does not answer the first statement, preparing it never returns: the
  loop that waits for it does not try again.
\<close>

theorem test_factory_waits_forever:
  assumes "\<not> swOnce S" and "connect dr ''template1'' c (S\<lparr>swOnce := True\<rparr>) = (Done h, S1)"
    and "drExec dr h ''select 1'' [] (swDb S1) = (Some err, w)"
  shows "fst (NewTestFactory dr migrate c S) = Blocked"
  using assms
  by (simp add: NewTestFactory_def Test_Init_def once_Do_def initDatabase_def run_bind_def run_defer_def on_sw_def)

theorem test_factory_waits_forever_witness:
  "fst (NewTestFactory (demo_driver\<lparr>drExec := \<lambda>h q args w. (Some ''starting up'', w)\<rparr>) (\<lambda>h w. (None, w)) demo_database
     (demo_cluster\<lparr>swOnce := False\<rparr>)) = Blocked"
  by (rule test_factory_waits_forever [of _ _ _ "()" "demo_cluster" "''starting up''" "swDb demo_cluster"])
    (simp_all add: demo_cluster_def connect_def open_connection_def gorm_open_def run_bind_def on_sw_def demo_driver_def
      run_ret_def)

text \<open>
  The migrations of the plugins run in the order of their identifiers, the table of the dinosaurs
  before the table of the events, whichever plugin has registered first.
\<close>

theorem migrations_in_order:
  assumes "sorts_by_ID srt" and "ms \<in> {[dinosaurs_migration mr, events_migration mr], [events_migration mr, dinosaurs_migration mr]}"
  shows "LoadDiscoveredMigrations srt (fold RegisterMigration ms []) = [dinosaurs_migration mr, events_migration mr]"
proof -
  have reg: "fold RegisterMigration ms [] = ms" using assms(2) by (auto simp: RegisterMigration_def)
  have m: "mset (srt ms) = {#dinosaurs_migration mr, events_migration mr#}"
    using assms by (auto simp: sorts_by_ID_def)
  have less: "string_less (mgID (dinosaurs_migration mr)) (mgID (events_migration mr))"
    by (simp add: dinosaurs_migration_def events_migration_def)
  have "length (srt ms) = 2" using m by (metis size_mset size_add_mset size_empty One_nat_def Suc_1)
  then obtain a b where ab: "srt ms = [a, b]" by (auto simp: numeral_2_eq_2 length_Suc_conv)
  have "\<not> string_less (mgID b) (mgID a)" using assms(1) ab unfolding sorts_by_ID_def by (metis list.set_intros(1) sorted_wrt.simps(2))
  moreover have "a = dinosaurs_migration mr \<and> b = events_migration mr \<or> a = events_migration mr \<and> b = dinosaurs_migration mr"
    using m ab by (auto simp: add_eq_conv_ex)
  ultimately show ?thesis using less ab reg by (auto simp: LoadDiscoveredMigrations_def)
qed

end
