(* ===== verification/List_Service.thy ===== *)
theory List_Service
  imports Generic_Dao Api_Types
begin

text \<open>
  \<^verbatim>\<open>pkg/services/types.go\<close> and \<^verbatim>\<open>pkg/services/generic.go\<close>: the arguments of
  a list request and the service that turns them into a query of the generic DAO.

  The search-language library (its parser, its identifier walk, its SQL walk) is the record
  \<open>tsl_lib\<close>, a parameter. The list context is a record passed from step to step; the map
  \<^verbatim>\<open>joins\<close> is an association list without repeated keys, and the order in which Go
  ranges over it is the parameter \<open>ord\<close>.
\<close>

section \<open>Arguments\<close>

record list_arguments =
  laPage :: int
  laSize :: int
  laPreloads :: "string list"
  laSearch :: string
  laOrderBy :: "string list"
  laFields :: "string list"

definition MaxListSize :: int where
  "MaxListSize = 65500"

text \<open>\<^verbatim>\<open>url.Values\<close>: the values of each parameter; \<^verbatim>\<open>Get\<close> is the first.\<close>

type_synonym url_values = "string \<rightharpoonup> string list"

definition values_Get :: "url_values \<Rightarrow> string \<Rightarrow> string" where
  "values_Get params key = (case params key of Some (v # vs) \<Rightarrow> v | _ \<Rightarrow> [])"

text \<open>The loop over the requested fields: blanks are skipped, \<open>id\<close> is looked for.\<close>

fun collect_fields :: "string list \<Rightarrow> string list \<Rightarrow> bool \<Rightarrow> string list \<times> bool" where
  "collect_fields [] acc idNotPresent = (acc, idNotPresent)"
| "collect_fields (f # fs) acc idNotPresent =
     (let field = trim (CHR '' '') f
      in if field = [] then collect_fields fs acc idNotPresent
         else collect_fields fs (acc @ [field]) (if field = ''id'' then False else idNotPresent))"

definition NewListArguments :: "url_values \<Rightarrow> list_arguments" where
  "NewListArguments params =
     (let get = (\<lambda>k. trim (CHR '' '') (values_Get params k));
          page = (if get ''page'' \<noteq> [] then fst (parse_int (get ''page'')) else 1);
          size0 = (if get ''size'' \<noteq> [] then fst (parse_int (get ''size'')) else 100);
          size1 = (if size0 > MaxListSize \<or> size0 < 0 then MaxListSize else size0);
          orderBy = (if get ''orderBy'' \<noteq> [] then split_on (CHR '','') (get ''orderBy'') else []);
          fields =
            (if get ''fields'' \<noteq> []
             then (case collect_fields (split_on (CHR '','') (get ''fields'')) [] True of
                     (fs, idNotPresent) \<Rightarrow> if idNotPresent then fs @ [''id''] else fs)
             else [])
      in \<lparr>laPage = page, laSize = size1, laPreloads = [], laSearch = get ''search'',
          laOrderBy = orderBy, laFields = fields\<rparr>)"

section \<open>The list context\<close>

text \<open>
  The dynamic value passed as \<^verbatim>\<open>resourceList\<close>: a pointer to a slice of a named (or
  unnamed, with the empty name) element type, a pointer to something else that has an element
  type, a value that is not a pointer, or a value whose type has no element type.
\<close>

datatype 'r resource_list =
    PtrSlice string "'r list"
  | PtrOther string
  | NonPtr string string
  | NoElem

type_synonym joins = "(string \<times> table_relation) list"

record 'r list_context =
  lcArgs :: list_arguments
  lcUsername :: string
  lcPagingMeta :: paging_meta
  lcResourceList :: "'r resource_list"
  lcDisallowedFields :: "string \<rightharpoonup> string"
  lcResourceType :: string
  lcJoins :: joins
  lcGroupBy :: "string list"
  lcSet :: "string set option" \<comment> \<open>None is the nil map\<close>

definition allFieldsAllowed :: "string \<rightharpoonup> string" where
  "allFieldsAllowed = (\<lambda>_. None)"

definition newListContext ::
    "(string \<rightharpoonup> (string \<rightharpoonup> string)) \<Rightarrow> string \<Rightarrow> list_arguments \<Rightarrow> 'r resource_list
     \<Rightarrow> (service_error + 'r list_context \<times> string) go" where
  "newListContext SearchDisallowedFields username args resourceList =
     (let build = (\<lambda>resourceTypeStr.
            if resourceTypeStr = [] then Inl (GeneralError ''Could not determine resource type'' [])
            else Inr (\<lparr>lcArgs = args\<lparr>laSearch := trim (CHR '' '') (laSearch args)\<rparr>,
                       lcUsername = username,
                       lcPagingMeta = \<lparr>pmPage = laPage args, pmSize = 0, pmTotal = 0\<rparr>,
                       lcResourceList = resourceList,
                       lcDisallowedFields = (case SearchDisallowedFields resourceTypeStr of
                                               Some m \<Rightarrow> m | None \<Rightarrow> allFieldsAllowed),
                       lcResourceType = resourceTypeStr,
                       lcJoins = [], lcGroupBy = [], lcSet = None\<rparr>, resourceTypeStr))
      in case resourceList of
           PtrSlice name rs \<Rightarrow> Ret (build name)
         | PtrOther name \<Rightarrow> Ret (build name)
         | NonPtr name ty \<Rightarrow> Ret (build name)
         | NoElem \<Rightarrow> Panic ''reflect: Elem of invalid type'')"

section \<open>The builders\<close>

definition buildPreload ::
    "('d, 'v, 'r) generic_dao \<Rightarrow> 'r list_context \<Rightarrow> 'd \<Rightarrow> 'r list_context \<times> 'd" where
  "buildPreload dao ctx d =
     (ctx\<lparr>lcSet := Some (set (laPreloads (lcArgs ctx)))\<rparr>,
      fold (gdPreload dao) (laPreloads (lcArgs ctx)) d)"

definition buildOrderBy ::
    "('d, 'v, 'r) generic_dao \<Rightarrow> 'r list_context \<Rightarrow> 'd \<Rightarrow> service_error + 'd" where
  "buildOrderBy dao ctx d =
     (if length (laOrderBy (lcArgs ctx)) \<noteq> 0
      then (case ArgsToOrderBy (laOrderBy (lcArgs ctx)) (lcDisallowedFields ctx) of
              Inl serviceErr \<Rightarrow> Inl serviceErr
            | Inr orderByArgs \<Rightarrow> Inr (fold (gdOrderBy dao) orderByArgs d))
      else Inr d)"

subsection \<open>Joins\<close>

definition join_sql :: "table_relation \<Rightarrow> string" where
  "join_sql r =
     sprintf ''LEFT JOIN %s ON %s.%s = %s.%s AND %s.deleted_at IS NULL''
       [FStr (ForeignTableName r), FStr (ForeignTableName r), FStr (ForeignColumnName r),
        FStr (TableName r), FStr (ColumnName r), FStr (ForeignTableName r)]"

definition in_set_map :: "'r list_context \<Rightarrow> string \<Rightarrow> bool" where
  "in_set_map ctx t = (case lcSet ctx of None \<Rightarrow> False | Some s \<Rightarrow> t \<in> s)"

fun join_tables ::
    "('d, 'v, 'r) generic_dao \<Rightarrow> table_relation list \<Rightarrow> 'r list_context \<Rightarrow> 'd
     \<Rightarrow> ('r list_context \<times> 'd) go" where
  "join_tables dao [] ctx d = Ret (ctx, d)"
| "join_tables dao (r # rs) ctx d =
     (if in_set_map ctx (ForeignTableName r) then join_tables dao rs ctx d
      else (case lcSet ctx of
              None \<Rightarrow> Panic ''assignment to entry in nil map''
            | Some s \<Rightarrow>
                join_tables dao rs
                  (ctx\<lparr>lcGroupBy := lcGroupBy ctx @ [ForeignTableName r @ ''.id''],
                       lcSet := Some (insert (ForeignTableName r) s)\<rparr>)
                  (gdJoins dao (join_sql r) d)))"

definition addJoins ::
    "(joins \<Rightarrow> joins) \<Rightarrow> ('d, 'v, 'r) generic_dao \<Rightarrow> 'r list_context \<Rightarrow> 'd
     \<Rightarrow> ('r list_context \<times> 'd) go" where
  "addJoins ord dao ctx d =
     go_bind (join_tables dao (map snd (ord (lcJoins ctx))) ctx d) (\<lambda>(ctx, d).
       let (ctx, d) =
             (if length (lcJoins ctx) > 0
              then (let ctx = ctx\<lparr>lcGroupBy := lcGroupBy ctx @ [gdGetTableName dao d @ ''.id'']\<rparr>
                    in (ctx, gdGroup dao (join '','' (lcGroupBy ctx)) d))
              else (ctx, d))
       in Ret (ctx\<lparr>lcJoins := []\<rparr>, d))"

subsection \<open>Search\<close>

text \<open>
  The search-language library: \<^verbatim>\<open>tsl.ParseTSL\<close>, \<^verbatim>\<open>ident.Walk\<close> (which
  threads the state of the function it calls on each identifier), \<^verbatim>\<open>sql.Walk\<close> and
  the \<^verbatim>\<open>ToSql\<close> of its result. Errors are their texts.
\<close>

type_synonym ident_fn = "string \<Rightarrow> joins \<Rightarrow> ((string + string) \<times> joins) go"

record ('v, 'q) tsl_lib =
  tlParse :: "string \<Rightarrow> tsl_node option"
  tlIdentWalk :: "ident_fn \<Rightarrow> tsl_node \<Rightarrow> joins \<Rightarrow> ((string + tsl_node) \<times> joins) go"
  tlSqlWalk :: "tsl_node \<Rightarrow> string + 'q"
  tlToSql :: "'q \<Rightarrow> string + string \<times> 'v list"

definition related_walkFn :: "('d, 'v, 'r) generic_dao \<Rightarrow> 'd \<Rightarrow> string \<Rightarrow> string \<Rightarrow> ident_fn" where
  "related_walkFn dao d resourceType resourceTable field js =
     (let fieldParts = split_on (CHR ''.'') field
      in if length fieldParts > 1 \<and> fieldParts ! 0 \<noteq> resourceTable
         then (let fieldName = fieldParts ! 0;
                   renamed = (\<lambda>r. join ''.'' (fieldParts[0 := ForeignTableName r]))
               in case map_of js fieldName of
                    Some relation \<Rightarrow> Ret (Inr (renamed relation), js)
                  | None \<Rightarrow>
                      (case gdGetTableRelation dao fieldName d of
                         Panic m \<Rightarrow> Panic m
                       | Ret (Some relation) \<Rightarrow>
                           Ret (Inr (renamed relation), (fieldName, relation) # js)
                       | Ret None \<Rightarrow>
                           Ret (Inl (sprintf ''%s is not a related resource of %s''
                                       [FStr fieldName, FStr resourceType]), js)))
         else Ret (Inr field, js))"

definition treeWalkForRelatedTables ::
    "('v, 'q) tsl_lib \<Rightarrow> ('d, 'v, 'r) generic_dao \<Rightarrow> 'r list_context \<Rightarrow> tsl_node \<Rightarrow> 'd
     \<Rightarrow> (service_error + 'r list_context \<times> tsl_node) go" where
  "treeWalkForRelatedTables lib dao ctx tslTree d =
     (let resourceTable = gdGetTableName dao d
      in case tlIdentWalk lib (related_walkFn dao d (lcResourceType ctx) resourceTable) tslTree
                (lcJoins ctx) of
           Panic m \<Rightarrow> Panic m
         | Ret (Inl err, js) \<Rightarrow> Ret (Inl (BadRequest ''%s'' [FStr err]))
         | Ret (Inr tree, js) \<Rightarrow> Ret (Inr (ctx\<lparr>lcJoins := js\<rparr>, tree)))"

definition table_walkFn :: "string \<Rightarrow> ident_fn" where
  "table_walkFn resourceTable field js =
     (if length (split_on (CHR ''.'') field) = 1 \<and> \<not> contains field ''->''
      then Ret (Inr (sprintf ''%s.%s'' [FStr resourceTable, FStr field]), js)
      else Ret (Inr field, js))"

definition treeWalkForAddingTableName ::
    "('v, 'q) tsl_lib \<Rightarrow> ('d, 'v, 'r) generic_dao \<Rightarrow> 'r list_context \<Rightarrow> tsl_node \<Rightarrow> 'd
     \<Rightarrow> (service_error + tsl_node) go" where
  "treeWalkForAddingTableName lib dao ctx tslTree d =
     (case tlIdentWalk lib (table_walkFn (gdGetTableName dao d)) tslTree (lcJoins ctx) of
        Panic m \<Rightarrow> Panic m
      | Ret (Inl err, js) \<Rightarrow> Ret (Inl (BadRequest ''%s'' [FStr err]))
      | Ret (Inr tree, js) \<Rightarrow> Ret (Inr tree))"

definition treeWalkForSqlizer ::
    "('v, 'q) tsl_lib \<Rightarrow> 'r list_context \<Rightarrow> tsl_node \<Rightarrow> (service_error + tsl_node \<times> 'q) go" where
  "treeWalkForSqlizer lib ctx tslTree =
     try_bind (FieldNameWalk (lcDisallowedFields ctx) tslTree) (\<lambda>tslTree.
       case tlSqlWalk lib tslTree of
         Inl err \<Rightarrow> Ret (Inl (BadRequest ''%s'' [FStr err]))
       | Inr sqlizer \<Rightarrow> Ret (Inr (tslTree, sqlizer)))"

definition buildSearchValues ::
    "('v, 'q) tsl_lib \<Rightarrow> (joins \<Rightarrow> joins) \<Rightarrow> ('d, 'v, 'r) generic_dao \<Rightarrow> 'r list_context \<Rightarrow> 'd
     \<Rightarrow> (service_error + (string \<times> 'v list) \<times> 'r list_context \<times> 'd) go" where
  "buildSearchValues lib ord dao ctx d =
     (if laSearch (lcArgs ctx) = []
      then go_bind (addJoins ord dao ctx d) (\<lambda>(ctx, d). Ret (Inr (([], []), ctx, d)))
      else (case tlParse lib (laSearch (lcArgs ctx)) of
              None \<Rightarrow>
                Ret (Inl (BadRequest ''Failed to parse search query: %s''
                            [FStr (laSearch (lcArgs ctx))]))
            | Some tslTree \<Rightarrow>
                try_bind (treeWalkForRelatedTables lib dao ctx tslTree d) (\<lambda>(ctx, tslTree).
                try_bind (treeWalkForAddingTableName lib dao ctx tslTree d) (\<lambda>tslTree.
                try_bind (treeWalkForSqlizer lib ctx tslTree) (\<lambda>(_, sqlizer).
                go_bind (addJoins ord dao ctx d) (\<lambda>(ctx, d).
                  (case tlToSql lib sqlizer of
                     Inl err \<Rightarrow> Ret (Inl (GeneralError ''%s'' [FStr err]))
                   | Inr (sql, values) \<Rightarrow> Ret (Inr ((sql, values), ctx, d)))))))))"

definition buildSearch ::
    "('v, 'q) tsl_lib \<Rightarrow> (joins \<Rightarrow> joins) \<Rightarrow> ('d, 'v, 'r) generic_dao \<Rightarrow> 'r list_context \<Rightarrow> 'd
     \<Rightarrow> (service_error + 'r list_context \<times> 'd) go" where
  "buildSearch lib ord dao ctx d =
     try_bind (buildSearchValues lib ord dao ctx d) (\<lambda>((sql, values), ctx, d).
       Ret (Inr (ctx, gdWhere dao (NewWhere sql values) d)))"

section \<open>Loading\<close>

definition zeroSlice :: "'r resource_list \<Rightarrow> service_error + 'r resource_list" where
  "zeroSlice i =
     (case i of
        NonPtr name ty \<Rightarrow> Inl (GeneralError ''A non-pointer to a list of resources: %v'' [FStr ty])
      | PtrSlice name rs \<Rightarrow> Inr (PtrSlice name [])
      | _ \<Rightarrow> Inl (GeneralError ''A non-slice list of resources'' []))"

fun fill_list :: "'r resource_list \<Rightarrow> 'r list \<Rightarrow> 'r resource_list" where
  "fill_list (PtrSlice name _) rs = PtrSlice name rs"
| "fill_list i rs = i"

fun list_rows :: "'r resource_list \<Rightarrow> 'r list" where
  "list_rows (PtrSlice name rs) = rs"
| "list_rows _ = []"

text \<open>
  \<^verbatim>\<open>loadList\<close> returns the context with the paging metadata and the resource list it
  leaves, and an error or nil.
\<close>

definition loadList ::
    "error_config \<Rightarrow> ('d, 'v, 'r) generic_dao \<Rightarrow> 'r list_context \<Rightarrow> 'd
     \<Rightarrow> 'r list_context \<times> service_error option" where
  "loadList g dao ctx d =
     (let args = lcArgs ctx;
          ctx = ctx\<lparr>lcPagingMeta := (lcPagingMeta ctx)\<lparr>pmTotal := gdCount dao d\<rparr>\<rparr>
      in case zeroSlice (lcResourceList ctx) of
           Inl err \<Rightarrow> (ctx, Some err)
         | Inr zeroed \<Rightarrow>
             (let ctx = ctx\<lparr>lcResourceList := zeroed\<rparr>
              in if laSize args = 0 then (ctx, None)
                 else (case gdFetch dao (wrap64 (wrap64 (laPage args - 1) * laSize args))
                              (laSize args) d of
                         Inl err \<Rightarrow>
                           (if err = ErrRecordNotFound
                            then (ctx\<lparr>lcPagingMeta := (lcPagingMeta ctx)\<lparr>pmSize := 0\<rparr>\<rparr>, None)
                            else (ctx, Some (GeneralError ''Unable to list resources: %s''
                                               [FStr (Error g err)])))
                       | Inr rows \<Rightarrow>
                           (ctx\<lparr>lcResourceList := fill_list zeroed rows,
                                lcPagingMeta := (lcPagingMeta ctx)\<lparr>pmSize := int (length rows)\<rparr>\<rparr>,
                            None))))"

text \<open>
  \<^verbatim>\<open>List\<close>: the three builders in their order, the last of which signals that the
  statement is finished.
\<close>

definition GenericService_List ::
    "error_config \<Rightarrow> ('v, 'q) tsl_lib \<Rightarrow> (joins \<Rightarrow> joins) \<Rightarrow> (string \<rightharpoonup> (string \<rightharpoonup> string))
     \<Rightarrow> ('d, 'v, 'r) generic_dao \<Rightarrow> (string \<Rightarrow> 'd) \<Rightarrow> string \<Rightarrow> list_arguments \<Rightarrow> 'r resource_list
     \<Rightarrow> (service_error + paging_meta \<times> 'r resource_list) go" where
  "GenericService_List g lib ord SearchDisallowedFields dao GetInstanceDao username args resourceList =
     try_bind (newListContext SearchDisallowedFields username args resourceList) (\<lambda>(ctx, model).
       (let (ctx, d) = buildPreload dao ctx (GetInstanceDao model)
        in case buildOrderBy dao ctx d of
             Inl err \<Rightarrow> Ret (Inl err)
           | Inr d \<Rightarrow>
               try_bind (buildSearch lib ord dao ctx d) (\<lambda>(ctx, d).
                 case loadList g dao ctx d of
                   (ctx, Some err) \<Rightarrow> Ret (Inl err)
                 | (ctx, None) \<Rightarrow> Ret (Inr (lcPagingMeta ctx, lcResourceList ctx)))))"

section \<open>Facts about the arguments\<close>

lemma collect_fields_eq:
  "collect_fields fs acc b =
     (acc @ filter (\<lambda>f. f \<noteq> []) (map (trim (CHR '' '')) fs),
      b \<and> ''id'' \<notin> set (map (trim (CHR '' '')) fs))"
  by (induction fs arbitrary: acc b) (auto simp: Let_def)

lemma NewListArguments_fields:
  "laFields (NewListArguments params) =
     (let v = trim (CHR '' '') (values_Get params ''fields'');
          fs = filter (\<lambda>f. f \<noteq> []) (map (trim (CHR '' '')) (split_on (CHR '','') v))
      in if v = [] then [] else if ''id'' \<in> set fs then fs else fs @ [''id''])"
  by (simp add: NewListArguments_def Let_def collect_fields_eq)

lemma NewListArguments_size_page:
  "laSize (NewListArguments params) =
     (let v = trim (CHR '' '') (values_Get params ''size'');
          n = (if v = [] then 100 else fst (parse_int v))
      in if MaxListSize < n \<or> n < 0 then MaxListSize else n)"
  "laPage (NewListArguments params) =
     (let v = trim (CHR '' '') (values_Get params ''page'')
      in if v = [] then 1 else fst (parse_int v))"
  by (simp_all add: NewListArguments_def Let_def)

lemma itoa_no_space: "CHR '' '' \<notin> set (itoa i)"
proof -
  have "CHR '' '' \<notin> set (itoa_nat n)" for n
  proof
    assume "CHR '' '' \<in> set (itoa_nat n)"
    from itoa_nat_digits [OF this] obtain d where "d < 10" "CHR '' '' = digit_char d" by auto
    then have "of_char (CHR '' '') = 48 + d" by (simp only: of_char_digit_char)
    then show False by simp
  qed
  then show ?thesis by (auto simp: itoa_def)
qed

lemma trim_itoa [simp]: "trim (CHR '' '') (itoa i) = itoa i"
proof (rule trim_id)
  have "itoa i \<noteq> []" by (simp add: itoa_def)
  then show "itoa i = [] \<or> hd (itoa i) \<noteq> CHR '' '' \<and> last (itoa i) \<noteq> CHR '' ''"
    using itoa_no_space [of i] hd_in_set last_in_set by metis
qed

section \<open>Facts about joins\<close>

text \<open>The relations a pass over \<open>rs\<close> joins when the tables \<open>s\<close> are already there.\<close>

fun fresh_relations :: "string set \<Rightarrow> table_relation list \<Rightarrow> table_relation list" where
  "fresh_relations s [] = []"
| "fresh_relations s (r # rs) =
     (if ForeignTableName r \<in> s then fresh_relations s rs
      else r # fresh_relations (insert (ForeignTableName r) s) rs)"

lemma fresh_relations_sub: "set (fresh_relations s rs) \<subseteq> set rs"
  by (induction s rs rule: fresh_relations.induct) auto

lemma fresh_relations_tables:
  "ForeignTableName ` set (fresh_relations s rs) = ForeignTableName ` set rs - s"
  by (induction s rs rule: fresh_relations.induct) auto

lemma fresh_relations_distinct: "distinct (map ForeignTableName (fresh_relations s rs))"
proof (induction s rs rule: fresh_relations.induct)
  case (2 s r rs)
  then show ?case
    using fresh_relations_tables [of "insert (ForeignTableName r) s" rs] by auto
qed simp

lemma join_tables_eq:
  assumes "lcSet ctx = Some s"
  shows "join_tables dao rs ctx d =
    Ret (ctx\<lparr>lcGroupBy := lcGroupBy ctx @ map (\<lambda>r. ForeignTableName r @ ''.id'') (fresh_relations s rs),
             lcSet := Some (s \<union> ForeignTableName ` set rs)\<rparr>,
         fold (gdJoins dao) (map join_sql (fresh_relations s rs)) d)"
  using assms
proof (induction rs arbitrary: ctx s d)
  case (Cons r rs)
  show ?case
  proof (cases "ForeignTableName r \<in> s")
    case True
    then show ?thesis using Cons by (simp add: in_set_map_def insert_absorb)
  next
    case False
    then show ?thesis using Cons by (simp add: in_set_map_def)
  qed
qed simp

lemma fold_sql_Joins:
  "fold sql_Joins js d = d\<lparr>gsJoins := gsJoins d @ js\<rparr>"
  by (induction js arbitrary: d) (simp_all add: sql_Joins_def)

section \<open>Facts about the search\<close>

text \<open>
  The law of the identifier walk: on a tree of the parser's shape it calls the function on the
  identifiers from left to right, threading the state, stops at the first error, and otherwise
  replaces them.
\<close>

definition walk_bind ::
    "((string + 'a) \<times> joins) go \<Rightarrow> ('a \<Rightarrow> joins \<Rightarrow> ((string + 'b) \<times> joins) go)
     \<Rightarrow> ((string + 'b) \<times> joins) go" where
  "walk_bind m f =
     (case m of Panic p \<Rightarrow> Panic p | Ret (Inl e, js) \<Rightarrow> Ret (Inl e, js) | Ret (Inr a, js) \<Rightarrow> f a js)"

lemma walk_bind_simps [simp]:
  "walk_bind (Panic p) f = Panic p"
  "walk_bind (Ret (Inl e, js)) f = Ret (Inl e, js)"
  "walk_bind (Ret (Inr a, js)) f = f a js"
  by (simp_all add: walk_bind_def)

lemma walk_bind_assoc: "walk_bind (walk_bind m f) g = walk_bind m (\<lambda>a js. walk_bind (f a js) g)"
  by (auto simp: walk_bind_def split: go.splits prod.splits sum.splits)

lemma walk_bind_Ret [simp]: "walk_bind m (\<lambda>a js. Ret (Inr a, js)) = m"
  by (auto simp: walk_bind_def split: go.splits prod.splits sum.splits)

lemma walk_bind_Inr_iff:
  "walk_bind m f = Ret (Inr b, js') \<longleftrightarrow> (\<exists>a js. m = Ret (Inr a, js) \<and> f a js = Ret (Inr b, js'))"
  by (auto simp: walk_bind_def split: go.splits prod.splits sum.splits)

fun walk_idents :: "ident_fn \<Rightarrow> string list \<Rightarrow> joins \<Rightarrow> ((string + string list) \<times> joins) go" where
  "walk_idents f [] js = Ret (Inr [], js)"
| "walk_idents f (x # xs) js =
     walk_bind (f x js) (\<lambda>y js.
     walk_bind (walk_idents f xs js) (\<lambda>ys js. Ret (Inr (y # ys), js)))"

definition ident_walk_law :: "('v, 'q) tsl_lib \<Rightarrow> bool" where
  "ident_walk_law lib \<longleftrightarrow>
     (\<forall>f t js. wf_node t \<longrightarrow>
        walk_bind (tlIdentWalk lib f t js) (\<lambda>t js. Ret (Inr (idents t), js)) =
          walk_idents f (idents t) js \<and>
        (\<forall>t' js'. tlIdentWalk lib f t js = Ret (Inr t', js') \<longrightarrow> wf_node t'))"

lemma ident_walk_Inr:
  assumes "ident_walk_law lib" and "wf_node t" and "tlIdentWalk lib f t js = Ret (Inr t', js')"
  shows "walk_idents f (idents t) js = Ret (Inr (idents t'), js')" and "wf_node t'"
  using assms unfolding ident_walk_law_def by (metis walk_bind_simps(3))+

lemma walk_idents_Cons_Inr:
  assumes "walk_idents f (x # xs) js = Ret (Inr zs, js')"
  obtains y ys js1 where "f x js = Ret (Inr y, js1)" "walk_idents f xs js1 = Ret (Inr ys, js')"
    "zs = y # ys"
  using assms by (auto simp: walk_bind_Inr_iff)

text \<open>
  The identifiers that the first walk may leave: with one part, of the resource's own table,
  or of the table of a relation found so far. The relations found are only added to.
\<close>

definition of_table :: "string \<Rightarrow> string \<Rightarrow> bool" where
  "of_table t f \<longleftrightarrow> has_prefix f (t @ ''.'')"

definition related :: "string \<Rightarrow> joins \<Rightarrow> string \<Rightarrow> bool" where
  "related resourceTable js f \<longleftrightarrow>
     CHR ''.'' \<notin> set f \<or> of_table resourceTable f \<or>
     (\<exists>t\<in>ForeignTableName ` snd ` set js. of_table t f)"

lemma split_first:
  assumes "length (split_on (CHR ''.'') f) > 1"
  obtains p ps where "split_on (CHR ''.'') f = p # ps" "ps \<noteq> []" "f = p @ ''.'' @ join ''.'' ps"
proof -
  obtain p ps where sp: "split_on (CHR ''.'') f = p # ps"
    by (cases "split_on (CHR ''.'') f") auto
  with assms have ne: "ps \<noteq> []" by auto
  with join_split_on [of "CHR ''.''" f] sp have "f = p @ ''.'' @ join ''.'' ps"
    by (simp add: join_Cons)
  with sp ne show thesis by (rule that)
qed

lemma one_part: "\<not> length (split_on (CHR ''.'') f) > 1 \<Longrightarrow> CHR ''.'' \<notin> set f"
  by (simp add: length_split_on count_list_0_iff)

lemma of_table_intro: "of_table t (t @ CHR ''.'' # r)"
  by (auto simp: of_table_def has_prefix_iff)

lemma join_rename: "ps \<noteq> [] \<Longrightarrow> join ''.'' (t # ps) = t @ CHR ''.'' # join ''.'' ps"
  by (simp add: join_Cons)

lemma related_walkFn_foreign:
  assumes "split_on (CHR ''.'') x = p # ps" "ps \<noteq> []" "p \<noteq> tbl"
    and "related_walkFn dao d rt tbl x js = Ret (Inr y, js')"
  obtains r where "y = ForeignTableName r @ CHR ''.'' # join ''.'' ps"
    "map_of js' p = Some r" "js' = js \<or> js' = (p, r) # js"
proof (cases "map_of js p")
  case (Some r)
  with assms that show thesis
    by (auto simp: related_walkFn_def join_rename)
next
  case None
  with assms that show thesis
    by (auto simp: related_walkFn_def join_rename split: go.splits option.splits)
qed

lemma related_step:
  assumes "related_walkFn dao d rt tbl x js = Ret (Inr y, js')"
  shows "related tbl js' y \<and> set js \<subseteq> set js'"
proof (cases "length (split_on (CHR ''.'') x) > 1")
  case False
  then show ?thesis using assms one_part [OF False] by (auto simp: related_walkFn_def related_def)
next
  case True
  then obtain p ps where sp: "split_on (CHR ''.'') x = p # ps" "ps \<noteq> []"
      "x = p @ ''.'' @ join ''.'' ps" by (rule split_first)
  show ?thesis
  proof (cases "p = tbl")
    case True
    then have "y = tbl @ CHR ''.'' # join ''.'' ps" "js' = js"
      using assms sp by (simp_all add: related_walkFn_def)
    then show ?thesis by (simp add: related_def of_table_intro)
  next
    case False
    from related_walkFn_foreign [OF sp(1,2) False assms] obtain r where
        r: "y = ForeignTableName r @ CHR ''.'' # join ''.'' ps" "map_of js' p = Some r"
        "js' = js \<or> js' = (p, r) # js" by blast
    from r(2) have "ForeignTableName r \<in> ForeignTableName ` snd ` set js'"
      by (metis map_of_SomeD image_eqI snd_conv)
    with r have "\<exists>t\<in>ForeignTableName ` snd ` set js'. of_table t y" by (metis of_table_intro)
    with r show ?thesis by (auto simp: related_def)
  qed
qed

lemma related_mono: "related tbl js f \<Longrightarrow> set js \<subseteq> set js' \<Longrightarrow> related tbl js' f"
  by (auto simp: related_def)

lemma related_walk:
  assumes "walk_idents (related_walkFn dao d rt tbl) xs js = Ret (Inr ys, js')"
  shows "list_all (related tbl js') ys \<and> set js \<subseteq> set js'"
  using assms
proof (induction xs arbitrary: js ys)
  case (Cons x xs)
  from Cons.prems obtain y zs js1 where st: "related_walkFn dao d rt tbl x js = Ret (Inr y, js1)"
      "walk_idents (related_walkFn dao d rt tbl) xs js1 = Ret (Inr zs, js')" "ys = y # zs"
    by (rule walk_idents_Cons_Inr)
  with Cons.IH [OF st(2)] related_step [OF st(1)] show ?case
    by (auto intro: related_mono)
qed simp

text \<open>The second walk qualifies what has one part, unless it selects a JSON field.\<close>

definition is_qualified :: "string \<Rightarrow> joins \<Rightarrow> string \<Rightarrow> bool" where
  "is_qualified resourceTable js f \<longleftrightarrow>
     contains f ''->'' \<or> of_table resourceTable f \<or>
     (\<exists>t\<in>ForeignTableName ` snd ` set js. of_table t f)"

lemma table_step:
  assumes "related tbl js x" and "table_walkFn tbl x js1 = Ret (Inr y, js2)"
  shows "is_qualified tbl js y"
  using assms
  by (auto simp: table_walkFn_def related_def is_qualified_def split_on_notin of_table_intro
      of_table_def has_prefix_iff split: if_splits)

lemma table_walk:
  assumes "list_all (related tbl js) xs" and "walk_idents (table_walkFn tbl) xs js1 = Ret (Inr ys, js2)"
  shows "list_all (is_qualified tbl js) ys"
  using assms
proof (induction xs arbitrary: js1 ys)
  case (Cons x xs)
  from Cons.prems(2) obtain y zs jsa where st: "table_walkFn tbl x js1 = Ret (Inr y, jsa)"
      "walk_idents (table_walkFn tbl) xs jsa = Ret (Inr zs, js2)" "ys = y # zs"
    by (rule walk_idents_Cons_Inr)
  with Cons.IH [OF _ st(2)] Cons.prems(1) table_step [OF _ st(1)] show ?case by simp
qed simp

section \<open>A reference walk, to instantiate the library\<close>

fun ref_walk :: "ident_fn \<Rightarrow> tsl_node \<Rightarrow> joins \<Rightarrow> ((string + tsl_node) \<times> joins) go"
  and ref_walk_val :: "ident_fn \<Rightarrow> tsl_val \<Rightarrow> joins \<Rightarrow> ((string + tsl_val) \<times> joins) go"
  and ref_walk_list :: "ident_fn \<Rightarrow> tsl_node list \<Rightarrow> joins \<Rightarrow> ((string + tsl_node list) \<times> joins) go" where
  "ref_walk f (TNode op l r) js =
     (case op of
        IdentOp \<Rightarrow>
          (case l of
             VStr s \<Rightarrow> walk_bind (f s js) (\<lambda>s js. Ret (Inr (TNode op (VStr s) r), js))
           | _ \<Rightarrow> Ret (Inr (TNode op l r), js))
      | StringOp \<Rightarrow> Ret (Inr (TNode op l r), js)
      | NumberOp \<Rightarrow> Ret (Inr (TNode op l r), js)
      | OtherOp _ \<Rightarrow>
          walk_bind (ref_walk_val f l js) (\<lambda>l js.
          walk_bind (ref_walk_val f r js) (\<lambda>r js. Ret (Inr (TNode op l r), js))))"
| "ref_walk_val f (VNode n) js = walk_bind (ref_walk f n js) (\<lambda>n js. Ret (Inr (VNode n), js))"
| "ref_walk_val f (VNodes ns) js =
     walk_bind (ref_walk_list f ns js) (\<lambda>ns js. Ret (Inr (VNodes ns), js))"
| "ref_walk_val f v js = Ret (Inr v, js)"
| "ref_walk_list f [] js = Ret (Inr [], js)"
| "ref_walk_list f (n # ns) js =
     walk_bind (ref_walk f n js) (\<lambda>n js.
     walk_bind (ref_walk_list f ns js) (\<lambda>ns js. Ret (Inr (n # ns), js)))"

lemma walk_idents_append:
  "walk_idents f (xs @ ys) js =
     walk_bind (walk_idents f xs js) (\<lambda>us js.
     walk_bind (walk_idents f ys js) (\<lambda>vs js. Ret (Inr (us @ vs), js)))"
  by (induction xs arbitrary: js) (simp_all add: walk_bind_assoc)

lemma ref_walk_idents:
  "wf_node n \<Longrightarrow> walk_bind (ref_walk f n js) (\<lambda>n js. Ret (Inr (idents n), js)) = walk_idents f (idents n) js"
  "wf_val v \<Longrightarrow> walk_bind (ref_walk_val f v js) (\<lambda>v js. Ret (Inr (vidents v), js)) = walk_idents f (vidents v) js"
  "list_all wf_node ns \<Longrightarrow>
     walk_bind (ref_walk_list f ns js) (\<lambda>ns js. Ret (Inr (concat (map idents ns)), js)) =
     walk_idents f (concat (map idents ns)) js"
proof (induction f n js and f v js and f ns js rule: ref_walk_ref_walk_val_ref_walk_list.induct)
  case (1 f op l r js)
  show ?case
  proof (cases op)
    case (OtherOp x)
    with "1.prems" have wf: "wf_val l" "wf_val r" by simp_all
    show ?thesis
      by (simp add: OtherOp walk_bind_assoc walk_idents_append "1.IH"(1) [OF OtherOp wf(1), symmetric]
          "1.IH"(2) [OF OtherOp wf(2), symmetric])
  qed (use "1.prems" in \<open>auto simp: is_vstr_iff walk_bind_assoc split: tsl_val.splits\<close>)
next
  case (6 f n ns js)
  then have wf: "wf_node n" "list_all wf_node ns" by simp_all
  show ?case
    by (simp add: walk_bind_assoc walk_idents_append "6.IH"(1) [OF wf(1), symmetric]
        "6.IH"(2) [OF wf(2), symmetric])
qed (simp_all add: walk_bind_assoc walk_idents_append)

lemma ref_walk_wf:
  "wf_node n \<Longrightarrow> ref_walk f n js = Ret (Inr n', js') \<Longrightarrow> wf_node n'"
  "wf_val v \<Longrightarrow> ref_walk_val f v js = Ret (Inr v', js') \<Longrightarrow>
     wf_val v' \<and> (v = VNil \<longleftrightarrow> v' = VNil) \<and> (is_vnode v \<longleftrightarrow> is_vnode v')"
  "list_all wf_node ns \<Longrightarrow> ref_walk_list f ns js = Ret (Inr ns', js') \<Longrightarrow> list_all wf_node ns'"
proof (induction f n js and f v js and f ns js arbitrary: n' js' and v' js' and ns' js'
    rule: ref_walk_ref_walk_val_ref_walk_list.induct)
  case (1 f op l r js)
  show ?case
  proof (cases op)
    case (OtherOp x)
    with "1.prems" have wf: "wf_val l" "wf_val r" by simp_all
    from "1.prems"(2) OtherOp obtain l' r' js1 js2 where
        st: "ref_walk_val f l js = Ret (Inr l', js1)" "ref_walk_val f r js1 = Ret (Inr r', js2)"
        "n' = TNode op l' r'"
      by (auto simp: walk_bind_Inr_iff)
    with "1.IH"(1) [OF OtherOp wf(1)] "1.IH"(2) [OF OtherOp wf(2)] "1.prems"(1) OtherOp
    show ?thesis by (auto simp: st(3))
  qed (use "1.prems" in \<open>auto simp: is_vstr_iff walk_bind_Inr_iff split: tsl_val.splits\<close>)
qed (fastforce simp: walk_bind_Inr_iff)+

lemma ref_walk_law: "ident_walk_law (lib\<lparr>tlIdentWalk := ref_walk\<rparr>)"
  unfolding ident_walk_law_def by (simp add: ref_walk_idents(1)) (blast dest: ref_walk_wf(1))

section \<open>Search: what a built statement looks like\<close>

lemma addJoins_sql:
  assumes "lcSet ctx = Some s" and "set (ord (lcJoins ctx)) = set (lcJoins ctx)"
    and "addJoins ord (sqlGenericDao gl) ctx d = Ret (ctx', d')"
  obtains rs where "gsJoins d' = gsJoins d @ map join_sql rs" "distinct (map ForeignTableName rs)"
    "ForeignTableName ` set rs = ForeignTableName ` snd ` set (lcJoins ctx) - s"
    "set rs \<subseteq> snd ` set (lcJoins ctx)" "gsWheres d' = gsWheres d" "lcJoins ctx' = []"
proof -
  let ?rs = "fresh_relations s (map snd (ord (lcJoins ctx)))"
  have d': "gsJoins d' = gsJoins d @ map join_sql ?rs" "gsWheres d' = gsWheres d" "lcJoins ctx' = []"
    using assms(3) unfolding addJoins_def join_tables_eq [OF assms(1)]
    by (auto simp: sqlGenericDao_def fold_sql_Joins sql_Group_def Let_def split: if_splits)
  show thesis
    using that [OF d'(1)] d' fresh_relations_distinct fresh_relations_tables [of s]
      fresh_relations_sub [of s "map snd (ord (lcJoins ctx))"] assms(2) by simp
qed

lemma related_walk_tree:
  assumes "ident_walk_law lib" and "wf_node tree"
    and "treeWalkForRelatedTables lib dao ctx tree d = Ret (Inr (ctx1, tree1))"
  shows "list_all (related (gdGetTableName dao d) (lcJoins ctx1)) (idents tree1)"
    and "wf_node tree1" and "ctx1 = ctx\<lparr>lcJoins := lcJoins ctx1\<rparr>"
proof -
  from assms(3) obtain js where st: "tlIdentWalk lib
      (related_walkFn dao d (lcResourceType ctx) (gdGetTableName dao d)) tree (lcJoins ctx) =
      Ret (Inr tree1, js)" "ctx1 = ctx\<lparr>lcJoins := js\<rparr>"
    by (auto simp: treeWalkForRelatedTables_def Let_def split: go.splits prod.splits sum.splits)
  from ident_walk_Inr [OF assms(1,2) st(1)] related_walk [OF ident_walk_Inr(1) [OF assms(1,2) st(1)]] st(2)
  show "list_all (related (gdGetTableName dao d) (lcJoins ctx1)) (idents tree1)"
    and "wf_node tree1" and "ctx1 = ctx\<lparr>lcJoins := lcJoins ctx1\<rparr>" by auto
qed

lemma table_walk_tree:
  assumes "ident_walk_law lib" and "wf_node tree1"
    and "list_all (related (gdGetTableName dao d) js) (idents tree1)"
    and "treeWalkForAddingTableName lib dao ctx1 tree1 d = Ret (Inr tree2)"
  shows "list_all (is_qualified (gdGetTableName dao d) js) (idents tree2)" and "wf_node tree2"
proof -
  from assms(4) obtain js' where st: "tlIdentWalk lib
      (table_walkFn (gdGetTableName dao d)) tree1 (lcJoins ctx1) = Ret (Inr tree2, js')"
    by (auto simp: treeWalkForAddingTableName_def split: go.splits prod.splits sum.splits)
  from ident_walk_Inr [OF assms(1,2) st] table_walk [OF assms(3)]
  show "list_all (is_qualified (gdGetTableName dao d) js) (idents tree2)" and "wf_node tree2" by auto
qed

lemma treeWalkForSqlizer_Inr [simp]:
  "treeWalkForSqlizer lib ctx tree = Ret (Inr (t, q)) \<longleftrightarrow>
     FieldNameWalk (lcDisallowedFields ctx) tree = Ret (Inr t) \<and> tlSqlWalk lib t = Inr q"
  by (auto simp: treeWalkForSqlizer_def go_iffs)

lemma buildSearchValues_Inr:
  assumes "buildSearchValues lib ord dao ctx d = Ret (Inr ((sql, values), ctx', d'))"
    and "laSearch (lcArgs ctx) \<noteq> []"
  obtains tree ctx1 tree1 tree2 tree3 q where
    "tlParse lib (laSearch (lcArgs ctx)) = Some tree"
    "treeWalkForRelatedTables lib dao ctx tree d = Ret (Inr (ctx1, tree1))"
    "treeWalkForAddingTableName lib dao ctx1 tree1 d = Ret (Inr tree2)"
    "FieldNameWalk (lcDisallowedFields ctx1) tree2 = Ret (Inr tree3)"
    "tlSqlWalk lib tree3 = Inr q" "tlToSql lib q = Inr (sql, values)"
    "addJoins ord dao ctx1 d = Ret (ctx', d')"
  using assms
  by (auto simp: buildSearchValues_def go_iffs)

section \<open>Properties\<close>

text \<open>
  C3: A search that is accepted becomes a condition on tables that are in the statement: every
  identifier of the tree that is checked and turned into SQL selects a JSON field, or belongs to
  the resource's own table, to a preloaded one or to one this search has joined; no table is
  joined twice or joined when preloaded; and every field name of the condition has passed the
  check of the disallowed fields.
\<close>

theorem search_statement_sound:
  assumes "ident_walk_law lib"
    and "\<And>s t. tlParse lib s = Some t \<Longrightarrow> wf_node t"
    and "\<And>js. set (ord js) = set js"
    and "lcSet ctx = Some s" and "laSearch (lcArgs ctx) \<noteq> []"
    and "buildSearchValues lib ord (sqlGenericDao gl) ctx d = Ret (Inr ((sql, values), ctx', d'))"
  shows "\<exists>tree tree' q rs.
    FieldNameWalk (lcDisallowedFields ctx) tree = Ret (Inr tree') \<and>
    tlSqlWalk lib tree' = Inr q \<and> tlToSql lib q = Inr (sql, values) \<and>
    gsJoins d' = gsJoins d @ map join_sql rs \<and> distinct (map ForeignTableName rs) \<and>
    ForeignTableName ` set rs \<inter> s = {} \<and>
    list_all (\<lambda>f. contains f ''->'' \<or> of_table (sql_GetTableName gl d) f \<or>
                 (\<exists>t\<in>s \<union> ForeignTableName ` set rs. of_table t f)) (idents tree) \<and>
    list_all (allowed_field (lcDisallowedFields ctx)) (idents tree')"
proof -
  let ?dao = "sqlGenericDao gl"
  from assms(6,5) obtain tree0 ctx1 tree1 tree tree' q where
      st: "tlParse lib (laSearch (lcArgs ctx)) = Some tree0"
        "treeWalkForRelatedTables lib ?dao ctx tree0 d = Ret (Inr (ctx1, tree1))"
        "treeWalkForAddingTableName lib ?dao ctx1 tree1 d = Ret (Inr tree)"
        "FieldNameWalk (lcDisallowedFields ctx1) tree = Ret (Inr tree')"
        "tlSqlWalk lib tree' = Inr q" "tlToSql lib q = Inr (sql, values)"
        "addJoins ord ?dao ctx1 d = Ret (ctx', d')"
    by (rule buildSearchValues_Inr)
  note rel = related_walk_tree [OF assms(1) assms(2) [OF st(1)] st(2)]
  have ctx1: "lcSet ctx1 = Some s" "lcDisallowedFields ctx1 = lcDisallowedFields ctx"
    using assms(4) by (subst rel(3), simp)+
  obtain rs where
      rs: "gsJoins d' = gsJoins d @ map join_sql rs" "distinct (map ForeignTableName rs)"
        "ForeignTableName ` set rs = ForeignTableName ` snd ` set (lcJoins ctx1) - s"
    by (rule addJoins_sql [OF ctx1(1) assms(3) st(7)]) (rule that)
  have tab: "gdGetTableName ?dao d = sql_GetTableName gl d" by (simp add: sqlGenericDao_def)
  have joined: "s \<union> ForeignTableName ` set rs = s \<union> ForeignTableName ` snd ` set (lcJoins ctx1)"
    using rs(3) by auto
  have "list_all (\<lambda>f. contains f ''->'' \<or> of_table (sql_GetTableName gl d) f \<or>
      (\<exists>t\<in>s \<union> ForeignTableName ` set rs. of_table t f)) (idents tree)"
    unfolding joined
    using table_walk_tree(1) [OF assms(1) rel(2) rel(1) st(3)] unfolding tab
    by (rule list.pred_mono_strong) (auto simp only: is_qualified_def)
  moreover have "list_all (allowed_field (lcDisallowedFields ctx)) (idents tree')"
    using walk_idents_allowed(1) [OF st(4)] by (simp add: ctx1(2) list_all_iff)
  moreover have "ForeignTableName ` set rs \<inter> s = {}" using rs(3) by auto
  moreover note st(4) [unfolded ctx1(2)] st(5,6) rs(1,2)
  ultimately show ?thesis by (intro exI conjI)
qed

definition demo_gorm :: "('v, 'r) gorm_lib" where
  "demo_gorm =
     \<lparr>glFind = (\<lambda>st off lim. Inr []), glCount = (\<lambda>st. 0), glTake = (\<lambda>st. None),
      glAssociation = (\<lambda>m n. if n = ''Creator''
         then Some \<lparr>relType = ''belongs_to'', relRefs = [(''creator_id'', ''id'')],
                    relFieldTable = ''dinosaurs'', relForeignTable = ''accounts''\<rparr> else None),
      glSingular = (\<lambda>n. n), glPlural = (\<lambda>n. n @ ''s'')\<rparr>"

definition demo_tree :: tsl_node where
  "demo_tree =
     TNode (OtherOp ''$eq'') (VNode (TNode IdentOp (VStr ''creator.name'') VNil))
       (VNode (TNode StringOp (VStr ''ann'') VNil))"

definition demo_tsl :: "(string, tsl_node) tsl_lib" where
  "demo_tsl =
     \<lparr>tlParse = (\<lambda>s. if s = ''creator.name = ann'' then Some demo_tree else None),
      tlIdentWalk = ref_walk, tlSqlWalk = Inr, tlToSql = (\<lambda>q. Inr (''accounts.name = ?'', [''ann'']))\<rparr>"

definition demo_ctx :: "string list_context" where
  "demo_ctx =
     \<lparr>lcArgs = \<lparr>laPage = 1, laSize = 100, laPreloads = [], laSearch = ''creator.name = ann'',
               laOrderBy = [], laFields = []\<rparr>, lcUsername = [],
      lcPagingMeta = \<lparr>pmPage = 1, pmSize = 0, pmTotal = 0\<rparr>,
      lcResourceList = PtrSlice ''Dinosaur'' [], lcDisallowedFields = allFieldsAllowed,
      lcResourceType = ''Dinosaur'', lcJoins = [], lcGroupBy = [], lcSet = Some {}\<rparr>"

definition demo_stmt :: "string gorm_stmt" where
  "demo_stmt = session_stmt \<lparr>gmParseError = False, gmSchemaTable = Some ''dinosaurs'', gmTypeName = ''Dinosaur''\<rparr>"

lemma demo_law: "ident_walk_law demo_tsl"
  using ref_walk_law [of demo_tsl] by (simp add: demo_tsl_def)

lemma demo_wf: "tlParse demo_tsl s = Some t \<Longrightarrow> wf_node t"
  by (auto simp: demo_tsl_def demo_tree_def split: if_splits)

lemma demo_search:
  "case buildSearchValues demo_tsl (\<lambda>js. js) (sqlGenericDao (demo_gorm :: (string, string) gorm_lib))
          demo_ctx demo_stmt of
     Ret (Inr ((sql, values), ctx, d)) \<Rightarrow>
       sql = ''accounts.name = ?'' \<and> values = [''ann''] \<and>
       gsJoins d = [''LEFT JOIN accounts ON accounts.id = dinosaurs.creator_id'' @
                    '' AND accounts.deleted_at IS NULL'']
   | _ \<Rightarrow> False"
  by code_simp

theorem search_statement_sound_witness:
  "\<exists>ctx' d'. buildSearchValues demo_tsl (\<lambda>js. js)
       (sqlGenericDao (demo_gorm :: (string, string) gorm_lib)) demo_ctx demo_stmt =
     Ret (Inr ((''accounts.name = ?'', [''ann'']), ctx', d')) \<and> length (gsJoins d') = 1 \<and>
   (\<exists>tree tree' q rs.
    FieldNameWalk (lcDisallowedFields demo_ctx) tree = Ret (Inr tree') \<and>
    tlSqlWalk demo_tsl tree' = Inr q \<and> tlToSql demo_tsl q = Inr (''accounts.name = ?'', [''ann'']) \<and>
    gsJoins d' = gsJoins demo_stmt @ map join_sql rs \<and>
    distinct (map ForeignTableName rs) \<and> ForeignTableName ` set rs \<inter> {} = {} \<and>
    list_all (\<lambda>f. contains f ''->'' \<or>
                 of_table (sql_GetTableName (demo_gorm :: (string, string) gorm_lib) demo_stmt) f \<or>
                 (\<exists>t\<in>{} \<union> ForeignTableName ` set rs. of_table t f)) (idents tree) \<and>
    list_all (allowed_field (lcDisallowedFields demo_ctx)) (idents tree'))"
proof -
  have set: "lcSet demo_ctx = Some {}" and search: "laSearch (lcArgs demo_ctx) \<noteq> []"
    by (simp_all add: demo_ctx_def)
  obtain ctx' d' where run: "buildSearchValues demo_tsl (\<lambda>js. js)
       (sqlGenericDao (demo_gorm :: (string, string) gorm_lib)) demo_ctx demo_stmt =
     Ret (Inr ((''accounts.name = ?'', [''ann'']), ctx', d'))" "length (gsJoins d') = 1"
    using demo_search by (auto split: go.splits sum.splits prod.splits)
  show ?thesis
    by (rule exI [of _ ctx'], rule exI [of _ d'], intro conjI, rule run(1), rule run(2),
        rule search_statement_sound [OF demo_law _ refl set search run(1)], erule demo_wf)
qed

text \<open>
  C25: However the query string is written, the page size of a list request lies between 0 and
  65500, the page number is a 64-bit integer, and a selection of fields, if there is one,
  includes \<open>id\<close> and names no blank field.
\<close>

theorem list_arguments_bounds:
  "0 \<le> laSize (NewListArguments params) \<and> laSize (NewListArguments params) \<le> MaxListSize \<and>
   min_int64 \<le> laPage (NewListArguments params) \<and> laPage (NewListArguments params) \<le> max_int64 \<and>
   (laFields (NewListArguments params) = [] \<or> ''id'' \<in> set (laFields (NewListArguments params))) \<and>
   list_all (\<lambda>f. f \<noteq> [] \<and> trim (CHR '' '') f = f) (laFields (NewListArguments params))"
proof -
  have "0 \<le> laSize (NewListArguments params) \<and> laSize (NewListArguments params) \<le> MaxListSize"
    by (simp add: NewListArguments_size_page Let_def MaxListSize_def)
  moreover have "min_int64 \<le> laPage (NewListArguments params) \<and> laPage (NewListArguments params) \<le> max_int64"
    using parse_int_range by (simp add: NewListArguments_size_page Let_def min_int64_def max_int64_def)
  moreover have "trim (CHR '' '') ''id'' = ''id''" by code_simp
  ultimately show ?thesis by (auto simp: NewListArguments_fields Let_def list_all_iff)
qed

text \<open>
  A page number and a page size in the query string are read back as they were written, when
  the size is one the service allows.
\<close>

theorem list_arguments_roundtrip:
  assumes "0 \<le> n" and "n \<le> MaxListSize" and "min_int64 \<le> p" and "p \<le> max_int64"
    and "params ''page'' = Some [itoa p]" and "params ''size'' = Some [itoa n]"
  shows "laPage (NewListArguments params) = p \<and> laSize (NewListArguments params) = n"
proof -
  have ne: "itoa i \<noteq> []" for i by (simp add: itoa_def)
  have "parse_int (itoa p) = (p, True)" "parse_int (itoa n) = (n, True)"
    using assms(1-4) by (auto intro!: parse_int_itoa simp: MaxListSize_def max_int64_def min_int64_def)
  with assms show ?thesis
    by (simp add: NewListArguments_size_page values_Get_def Let_def ne)
qed

theorem list_arguments_roundtrip_witness:
  "laPage (NewListArguments [''page'' \<mapsto> [itoa (-3)], ''size'' \<mapsto> [itoa 65500]]) = -3 \<and>
   laSize (NewListArguments [''page'' \<mapsto> [itoa (-3)], ''size'' \<mapsto> [itoa 65500]]) = 65500"
  by (rule list_arguments_roundtrip) (simp_all add: MaxListSize_def min_int64_def max_int64_def)

subsection \<open>Pages\<close>

definition page_ctx :: "'r list_context \<Rightarrow> int \<Rightarrow> int \<Rightarrow> 'r list_context" where
  "page_ctx ctx n p = ctx\<lparr>lcArgs := (lcArgs ctx)\<lparr>laPage := p, laSize := n\<rparr>\<rparr>"

lemma windows: "concat (map (\<lambda>i. [i * n..<i * n + n]) [0..<k]) = [0..<k * n]"
proof (induction k)
  case (Suc k)
  have "[0..<k * n + n] = [0..<k * n] @ [k * n..<k * n + n]" by (rule upt_add_eq_append) simp
  with Suc show ?case by (simp add: add.commute)
qed simp

lemma windows_from_1: "concat (map (\<lambda>p. [(p - 1) * n..<(p - 1) * n + n]) [1..<Suc k]) = [0..<k * n]"
proof -
  have "map (\<lambda>p. [(p - 1) * n..<(p - 1) * n + n]) [1..<Suc k] = map (\<lambda>i. [i * n..<i * n + n]) [0..<k]"
    by (rule nth_equalityI) (simp_all add: nth_append del: upt_Suc)
  then show ?thesis by (simp only: windows)
qed

lemma loadList_page:
  assumes "0 < n" and "1 \<le> p" and "int p * int n \<le> max_int64" and "lcResourceList ctx = PtrSlice name rs0"
  shows "loadList g dao (page_ctx ctx (int n) (int p)) d =
    (case gdFetch dao (int ((p - 1) * n)) (int n) d of
       Inr rows \<Rightarrow>
         ((page_ctx ctx (int n) (int p))\<lparr>lcResourceList := PtrSlice name rows,
            lcPagingMeta := (lcPagingMeta ctx)\<lparr>pmTotal := gdCount dao d, pmSize := int (length rows)\<rparr>\<rparr>, None)
     | Inl err \<Rightarrow>
         ((page_ctx ctx (int n) (int p))\<lparr>lcResourceList := PtrSlice name [],
            lcPagingMeta := (lcPagingMeta ctx)\<lparr>pmTotal := gdCount dao d,
              pmSize := (if err = ErrRecordNotFound then 0 else pmSize (lcPagingMeta ctx))\<rparr>\<rparr>,
          if err = ErrRecordNotFound then None
          else Some (GeneralError ''Unable to list resources: %s'' [FStr (Error g err)])))"
proof -
  have p: "int p - 1 = int (p - 1)" using assms(2) by simp
  have le1: "int (p - 1) * int n \<le> int p * int n" by (rule mult_right_mono) simp_all
  have "int p * 1 \<le> int p * int n" using assms(1) by (intro mult_left_mono) simp_all
  then have le2: "int (p - 1) \<le> max_int64" using assms(3) by linarith
  have w: "wrap64 (wrap64 (int p - 1) * int n) = int ((p - 1) * n)"
  proof -
    have neg: "min_int64 \<le> 0" by (simp add: min_int64_def)
    have "0 \<le> int (p - 1) * int n" and "0 \<le> int (p - 1)" by simp_all
    with neg have "min_int64 \<le> int (p - 1) * int n" and "min_int64 \<le> int (p - 1)"
      by (blast intro: order_trans)+
    moreover have "int (p - 1) * int n \<le> max_int64" using le1 assms(3) by linarith
    ultimately show ?thesis using le2 by (simp only: p wrap64_id of_nat_mult)
  qed
  show ?thesis
    using assms(1,4) unfolding loadList_def
    by (simp add: page_ctx_def zeroSlice_def Let_def w del: of_nat_mult split: sum.split)
qed


definition demo_rows_dao :: "string list \<Rightarrow> (string gorm_stmt, string, string) generic_dao" where
  "demo_rows_dao rows = sqlGenericDao (demo_gorm\<lparr>
     glFind := (\<lambda>st off lim. Inr (take (nat lim) (drop (nat off) rows))),
     glCount := (\<lambda>st. int (length rows))\<rparr>)"


subsection \<open>Rejected searches\<close>

lemma walk_idents_unrelated:
  assumes "length (split_on (CHR ''.'') f) > 1" and "split_on (CHR ''.'') f ! 0 \<noteq> tbl"
    and "gdGetTableRelation dao (split_on (CHR ''.'') f ! 0) d = Ret None"
    and "map_of js (split_on (CHR ''.'') f ! 0) = None" and "f \<in> set xs"
  shows "walk_idents (related_walkFn dao d rt tbl) xs js \<noteq> Ret (Inr ys, js')"
  using assms(4,5)
proof (induction xs arbitrary: js ys js')
  case (Cons x xs)
  show ?case
  proof
    assume "walk_idents (related_walkFn dao d rt tbl) (x # xs) js = Ret (Inr ys, js')"
    then obtain y zs js1 where st: "related_walkFn dao d rt tbl x js = Ret (Inr y, js1)"
        "walk_idents (related_walkFn dao d rt tbl) xs js1 = Ret (Inr zs, js')" "ys = y # zs"
      by (rule walk_idents_Cons_Inr)
    show False
    proof (cases "x = f")
      case True
      with st(1) assms(1-3) Cons.prems(1) show False
        by (simp add: related_walkFn_def Let_def)
    next
      case False
      have "map_of js1 (split_on (CHR ''.'') f ! 0) = None"
        using st(1) assms(3) Cons.prems(1)
        by (auto simp: related_walkFn_def Let_def split: if_splits option.splits go.splits)
      with Cons.IH [of js1 zs js'] False Cons.prems(2) st(2) show False by auto
    qed
  qed
qed simp

text \<open>
  A search on a field of something that is not a related resource is never turned into a
  query: unless the identifier walk panics, it is answered with a bad-request error.
\<close>

theorem search_unrelated_rejected:
  assumes "ident_walk_law lib" and "wf_node tree" and "f \<in> set (idents tree)"
    and "split_on (CHR ''.'') f = p # q # ps" and "p \<noteq> gdGetTableName dao d"
    and "gdGetTableRelation dao p d = Ret None" and "lcJoins ctx = []"
    and "treeWalkForRelatedTables lib dao ctx tree d = Ret res"
  shows "\<exists>e. res = Inl e \<and> HttpCode e = 400"
proof (cases "tlIdentWalk lib (related_walkFn dao d (lcResourceType ctx) (gdGetTableName dao d)) tree []")
  case (Panic m)
  with assms(7,8) show ?thesis by (simp add: treeWalkForRelatedTables_def Let_def)
next
  case (Ret rj)
  obtain r js where rj: "rj = (r, js)" by (cases rj)
  show ?thesis
  proof (cases r)
    case (Inl e)
    with assms(7,8) Ret rj show ?thesis by (auto simp: treeWalkForRelatedTables_def Let_def)
  next
    case (Inr t)
    from ident_walk_Inr(1) [OF assms(1,2) Ret [unfolded rj Inr]]
      walk_idents_unrelated [of f "gdGetTableName dao d" dao d "[]" "idents tree" "lcResourceType ctx"]
      assms(3-6) show ?thesis by simp
  qed
qed

theorem search_unrelated_rejected_witness:
  "\<exists>e. (Inl (BadRequest ''%s'' [FStr ''creator is not a related resource of Dinosaur'']) ::
         service_error + string list_context \<times> tsl_node) = Inl e \<and> HttpCode e = 400"
proof (rule search_unrelated_rejected [OF demo_law])
  show "wf_node demo_tree" and "''creator.name'' \<in> set (idents demo_tree)"
    by (simp_all add: demo_tree_def)
  show "split_on (CHR ''.'') ''creator.name'' = ''creator'' # ''name'' # []" by code_simp
  show "''creator'' \<noteq> gdGetTableName (genericDaoMock :: (string generic_dao_mock, string, string) generic_dao)
      NewGenericDaoMock"
    and "gdGetTableRelation (genericDaoMock :: (string generic_dao_mock, string, string) generic_dao)
      ''creator'' NewGenericDaoMock = Ret None"
    by (simp_all add: genericDaoMock_def)
  show "lcJoins demo_ctx = []" by (simp add: demo_ctx_def)
  show "treeWalkForRelatedTables demo_tsl (genericDaoMock :: (string generic_dao_mock, string, string) generic_dao)
      demo_ctx demo_tree NewGenericDaoMock =
    Ret (Inl (BadRequest ''%s'' [FStr ''creator is not a related resource of Dinosaur'']))"
  proof -
    have "sprintf ''%s is not a related resource of %s'' [FStr ''creator'', FStr ''Dinosaur''] =
        ''creator is not a related resource of Dinosaur''" by code_simp
    moreover have "split_on (CHR ''.'') ''creator.name'' = [''creator'', ''name'']" by code_simp
    ultimately show ?thesis
      by (simp add: treeWalkForRelatedTables_def demo_tsl_def demo_tree_def demo_ctx_def
          related_walkFn_def genericDaoMock_def)
  qed
qed

end
