(* ===== verification/Slice_Filter.thy ===== *)
theory Slice_Filter
  imports Service_Errors
begin

text \<open>
  \<^verbatim>\<open>pkg/api/presenters/slice_filter.go\<close>: the projection of a list on the requested
  fields, which works by reflection. A Go value, with what the code asks of its type, is a
  \<open>gval\<close>; the fields of a struct are exported and carry their \<^verbatim>\<open>json\<close> tag. A set of
  keys is the map \<^verbatim>\<open>in\<close> whose values are all true; the order in which Go ranges over
  it is the parameter \<open>ord\<close>. Names in tags have no characters special to regular expressions.
\<close>

section \<open>Values under reflection\<close>

datatype gval =
    GStr string
  | GInt int
  | GOther string
  | GTime int
  | GStruct string "gfield list"
  | GPtr string "gval option" \<comment> \<open>the name of the type pointed to\<close>
  | GSlice "gval list"
  | GNil
  and gfield = GField (gfName: string) (gfTag: string) (gfVal: gval)

datatype gkind = KStruct | KSlice | KPtr | KInvalid | KOther

fun kind_of :: "gval \<Rightarrow> gkind" where
  "kind_of (GTime t) = KStruct"
| "kind_of (GStruct n fs) = KStruct"
| "kind_of (GPtr ty v) = KPtr"
| "kind_of (GSlice vs) = KSlice"
| "kind_of _ = KOther"

text \<open>The kind of a field, looking through one pointer; a nil pointer has an invalid element.\<close>

fun field_kind :: "gval \<Rightarrow> gkind" where
  "field_kind (GPtr ty None) = KInvalid"
| "field_kind (GPtr ty (Some v)) = kind_of v"
| "field_kind v = kind_of v"

text \<open>The fields of a struct or of the struct a pointer leads to; otherwise reflection panics.\<close>

fun struct_fields :: "gval \<Rightarrow> gfield list option" where
  "struct_fields (GStruct n fs) = Some fs"
| "struct_fields (GTime t) = Some []"
| "struct_fields (GPtr ty (Some (GStruct n fs))) = Some fs"
| "struct_fields (GPtr ty (Some (GTime t))) = Some []"
| "struct_fields _ = None"

fun is_time_ptr :: "gval \<Rightarrow> bool" where
  "is_time_ptr (GPtr ty v) = (ty = ''time.Time'')"
| "is_time_ptr _ = False"

fun is_slice :: "gval \<Rightarrow> bool" where
  "is_slice (GSlice vs) = True"
| "is_slice _ = False"

fun type_name :: "gval \<Rightarrow> string" where
  "type_name (GStruct n fs) = n"
| "type_name (GTime t) = ''Time''"
| "type_name _ = []"

definition json_name :: "string \<Rightarrow> string" where
  "json_name tag = split_on (CHR '','') tag ! 0"

definition no_name :: "string \<Rightarrow> bool" where
  "no_name tag \<longleftrightarrow> tag = [] \<or> tag = ''-''"

definition prefixed :: "string \<Rightarrow> string \<Rightarrow> string" where
  "prefixed prefix name = (if prefix \<noteq> [] then sprintf ''%s.%s'' [FStr prefix, FStr name] else name)"

lemma struct_fields_size: "struct_fields v = Some fs \<Longrightarrow> size_list size fs \<le> size v"
  by (cases v rule: struct_fields.cases) auto

section \<open>removeStar\<close>

text \<open>
  The pattern is the name, a dot and the rest of the line, found anywhere: in each line of a key,
  the text from the first occurrence of the name and the dot.
\<close>

fun from_first :: "string \<Rightarrow> string \<Rightarrow> string option" where
  "from_first p [] = None"
| "from_first p (x # xs) = (if has_prefix (x # xs) p then Some (x # xs) else from_first p xs)"

definition star_matches :: "string \<Rightarrow> string \<Rightarrow> string list" where
  "star_matches name k = List.map_filter (from_first (name @ ''.'')) (split_on (CHR 0x0A) k)"

definition removeStar :: "string set \<Rightarrow> string \<Rightarrow> string set" where
  "removeStar ins name = ins - (\<Union>k\<in>ins. set (star_matches name k))"

section \<open>validate\<close>

text \<open>The loop over the fields; the error of a nested struct is ignored, its deletions are not.\<close>

definition nil_struct :: string where
  "nil_struct = ''reflect: call of NumField or Field on a value that is not a struct''"

function validate_fields :: "gfield list \<Rightarrow> string set \<Rightarrow> string \<Rightarrow> string set go" where
  "validate_fields [] ins prefix = Ret ins"
| "validate_fields (f # fs) ins prefix =
     (let name = json_name (gfTag f)
      in if no_name (gfTag f) then validate_fields fs ins prefix
         else if field_kind (gfVal f) = KStruct
         then (if is_time_ptr (gfVal f) then validate_fields fs (ins - {name}) prefix
               else if name @ ''.*'' \<in> ins then validate_fields fs (removeStar ins name) prefix
               else (case struct_fields (gfVal f) of
                       None \<Rightarrow> Panic nil_struct
                     | Some gs \<Rightarrow>
                         (case validate_fields gs ins name of
                            Panic m \<Rightarrow> Panic m
                          | Ret ins \<Rightarrow> validate_fields fs ins prefix)))
         else if is_slice (gfVal f) then validate_fields fs (removeStar ins name) prefix
         else validate_fields fs (ins - {prefixed prefix name}) prefix)"
  by pat_completeness auto

termination
proof (relation "measure (\<lambda>(fs, ins, prefix). size_list size fs)", goal_cases)
  case (5 f fs ins prefix x gs)
  then show ?case using struct_fields_size [of "gfVal f" gs] by (cases f) simp
qed simp_all

definition validate :: "(string set \<Rightarrow> string list) \<Rightarrow> gval \<Rightarrow> string set \<Rightarrow> string \<Rightarrow> service_error option go" where
  "validate ord model ins prefix =
     (if model = GNil then Ret (Some (Validation ''Empty model'' []))
      else (case struct_fields model of
              None \<Rightarrow> Panic nil_struct
            | Some fs \<Rightarrow>
                (case validate_fields fs ins prefix of
                   Panic m \<Rightarrow> Panic m
                 | Ret ins \<Rightarrow>
                     (if ins = {} then Ret None
                      else Ret (Some (Validation ''%s''
                        [FStr (sprintf (''The following field(s) doesn'' @ [CHR 0x27] @ ''t exist in `%s`: %s'')
                           [FStr (type_name model), FStr (join '', '' (ord ins))])]))))))"

section \<open>structToMap\<close>

text \<open>A projected value: a field as it is, a formatted time, a nested map or a list of maps.\<close>

datatype pval = PVal gval | PText string | PMap "(string \<times> pval) list" | PList "pval list"

definition put :: "string \<Rightarrow> pval \<Rightarrow> (string \<times> pval) list \<Rightarrow> (string \<times> pval) list" where
  "put k v m = filter (\<lambda>p. fst p \<noteq> k) m @ [(k, v)]"

fun format_time :: "(int \<Rightarrow> string) \<Rightarrow> gval \<Rightarrow> string go" where
  "format_time rfc3339 (GPtr ty (Some (GTime t))) = Ret (rfc3339 t)"
| "format_time rfc3339 _ = Panic ''interface conversion: interface is not *time.Time''"

function map_fields :: "(int \<Rightarrow> string) \<Rightarrow> gfield list \<Rightarrow> string set \<Rightarrow> string
      \<Rightarrow> (string \<times> pval) list \<Rightarrow> (string \<times> pval) list go"
  and map_items :: "(int \<Rightarrow> string) \<Rightarrow> gval list \<Rightarrow> string set \<Rightarrow> string \<Rightarrow> pval list go" where
  "map_fields rfc [] ins prefix res = Ret res"
| "map_fields rfc (f # fs) ins prefix res =
     (let name = json_name (gfTag f)
      in if no_name (gfTag f) then map_fields rfc fs ins prefix res
         else if field_kind (gfVal f) = KStruct
         then (if is_time_ptr (gfVal f)
               then (if name \<in> ins
                     then (case format_time rfc (gfVal f) of
                             Panic m \<Rightarrow> Panic m
                           | Ret t \<Rightarrow> map_fields rfc fs ins prefix (put name (PText t) res))
                     else map_fields rfc fs ins prefix res)
               else (case struct_fields (gfVal f) of
                       None \<Rightarrow> Panic nil_struct
                     | Some gs \<Rightarrow>
                         (case map_fields rfc gs ins (if prefix \<noteq> [] then prefix @ ''.'' @ name else name) [] of
                            Panic m \<Rightarrow> Panic m
                          | Ret sub \<Rightarrow>
                              map_fields rfc fs ins prefix
                                (if length sub > 0 then put name (PMap sub) res else res))))
         else if field_kind (gfVal f) = KSlice
         then (case gfVal f of
                 GSlice vs \<Rightarrow>
                   (case map_items rfc vs ins name of
                      Panic m \<Rightarrow> Panic m
                    | Ret result \<Rightarrow>
                        map_fields rfc fs ins prefix
                          (if length result > 0 then put name (PList result) res else res))
               | _ \<Rightarrow> Panic ''reflect: call of Len on a pointer'')
         else if prefixed prefix name \<in> ins \<or> sprintf ''%s.*'' [FStr prefix] \<in> ins
         then map_fields rfc fs ins prefix (put name (PVal (gfVal f)) res)
         else map_fields rfc fs ins prefix res)"
| "map_items rfc [] ins name = Ret []"
| "map_items rfc (v # vs) ins name =
     (case (if v = GNil then Ret []
            else (case struct_fields v of
                    None \<Rightarrow> Panic nil_struct
                  | Some gs \<Rightarrow> map_fields rfc gs ins name [])) of
        Panic m \<Rightarrow> Panic m
      | Ret m \<Rightarrow>
          (if length m = 0 then Ret []
           else (case map_items rfc vs ins name of
                   Panic m \<Rightarrow> Panic m
                 | Ret result \<Rightarrow> Ret (PMap m # result))))"
  by pat_completeness auto

termination
proof (relation "measure (\<lambda>x. case x of Inl (rfc, fs, ins, prefix, res) \<Rightarrow> size_list size fs
    | Inr (rfc, vs, ins, name) \<Rightarrow> size_list size vs)", goal_cases)
  case (5 rfc f fs ins prefix res x gs)
  then show ?case using struct_fields_size [of "gfVal f" gs] by (cases f) simp
next
  case (7 rfc f fs ins prefix res x vs)
  then show ?case by (cases f) simp
next
  case (11 rfc v vs ins name gs)
  then show ?case using struct_fields_size [of v gs] by simp
qed simp_all

section \<open>SliceFilter\<close>

record projection_list =
  plKind :: string
  plPage :: int
  plSize :: int
  plTotal :: int
  plItems :: "(string \<times> pval) list list" \<comment> \<open>empty also for the nil slice\<close>

definition FieldByName :: "string \<Rightarrow> gfield list \<Rightarrow> gval option" where
  "FieldByName name fs = map_option gfVal (find (\<lambda>f. gfName f = name) fs)"

text \<open>
  \<^verbatim>\<open>Value.String\<close> of a value that is not a string names its type (here without the
  package path), and \<^verbatim>\<open>Value.Int\<close> of one that is not an integer panics.
\<close>

fun value_String :: "gval option \<Rightarrow> string" where
  "value_String None = ''<invalid Value>''"
| "value_String (Some (GStr s)) = s"
| "value_String (Some (GInt i)) = ''<int32 Value>''"
| "value_String (Some (GOther ty)) = ''<'' @ ty @ '' Value>''"
| "value_String (Some (GPtr ty v)) = ''<*'' @ ty @ '' Value>''"
| "value_String (Some v) = ''<'' @ type_name v @ '' Value>''"

fun value_Int :: "gval option \<Rightarrow> int go" where
  "value_Int (Some (GInt i)) = Ret i"
| "value_Int _ = Panic ''reflect: call of reflect.Value.Int on a value that is not an integer''"

fun value_items :: "gval option \<Rightarrow> gval list go" where
  "value_items (Some (GSlice vs)) = Ret vs"
| "value_items _ = Panic ''reflect: call of reflect.Value.Len on a value that is not a slice''"

fun items_maps :: "(int \<Rightarrow> string) \<Rightarrow> gval list \<Rightarrow> string set \<Rightarrow> (string \<times> pval) list list go" where
  "items_maps rfc [] ins = Ret []"
| "items_maps rfc (v # vs) ins =
     go_bind (if v = GNil then Ret []
              else (case struct_fields v of
                      None \<Rightarrow> Panic nil_struct
                    | Some fs \<Rightarrow> map_fields rfc fs ins [] [])) (\<lambda>m.
     go_bind (items_maps rfc vs ins) (\<lambda>ms. Ret (m # ms)))"

definition SliceFilter ::
    "(int \<Rightarrow> string) \<Rightarrow> (string set \<Rightarrow> string list) \<Rightarrow> string list \<Rightarrow> gval
     \<Rightarrow> (service_error + projection_list) go" where
  "SliceFilter rfc ord fields2Store model =
     (if model = GNil then Ret (Inl (Validation ''Empty model'' []))
      else (case struct_fields model of
              None \<Rightarrow> Panic ''reflect: call of reflect.Value.FieldByName on a value that is not a struct''
            | Some fs \<Rightarrow>
                go_bind (value_Int (FieldByName ''Page'' fs)) (\<lambda>page.
                go_bind (value_Int (FieldByName ''Size'' fs)) (\<lambda>psize.
                go_bind (value_Int (FieldByName ''Total'' fs)) (\<lambda>total.
                go_bind (value_items (FieldByName ''Items'' fs)) (\<lambda>items.
                  (let result = \<lparr>plKind = value_String (FieldByName ''Kind'' fs), plPage = wrap32 page,
                                 plSize = wrap32 psize, plTotal = wrap32 total, plItems = []\<rparr>
                   in case items of
                        [] \<Rightarrow> Ret (Inr result)
                      | item0 # _ \<Rightarrow>
                          go_bind (validate ord item0 (set fields2Store) []) (\<lambda>err.
                            (case err of
                               Some err \<Rightarrow> Ret (Inl err)
                             | None \<Rightarrow>
                                 go_bind (items_maps rfc items (set fields2Store)) (\<lambda>ms.
                                   Ret (Inr (result\<lparr>plItems := ms\<rparr>))))))))))))"

section \<open>Facts\<close>

text \<open>
  Flat structs, such as the ones of the API: every field has a name in its tag, and holds a
  scalar or a pointer to a scalar or a time.
\<close>

fun flat_val :: "gval \<Rightarrow> bool" where
  "flat_val (GPtr ty None) = True"
| "flat_val (GPtr ty (Some (GTime t))) = (ty = ''time.Time'')"
| "flat_val (GPtr ty (Some v)) = (kind_of v = KOther)"
| "flat_val v = (kind_of v = KOther)"

definition flat_fields :: "gfield list \<Rightarrow> bool" where
  "flat_fields fs \<longleftrightarrow>
     list_all (\<lambda>f. flat_val (gfVal f) \<and> \<not> no_name (gfTag f) \<and> json_name (gfTag f) \<noteq> []) fs \<and>
     distinct (map (\<lambda>f. json_name (gfTag f)) fs)"

definition names :: "gfield list \<Rightarrow> string list" where
  "names fs = map (\<lambda>f. json_name (gfTag f)) fs"

lemma flat_val_kind:
  "flat_val v \<Longrightarrow> field_kind v = KStruct \<longleftrightarrow> (\<exists>t. v = GPtr ''time.Time'' (Some (GTime t)))"
  "flat_val v \<Longrightarrow> \<not> is_slice v" "flat_val v \<Longrightarrow> field_kind v \<noteq> KSlice"
  by (cases v rule: flat_val.cases; auto)+

lemma prefixed_Nil [simp]: "prefixed [] name = name"
  by (simp add: prefixed_def)

lemma validate_flat:
  assumes "list_all (\<lambda>f. flat_val (gfVal f) \<and> \<not> no_name (gfTag f)) fs"
  shows "validate_fields fs ins [] = Ret (ins - set (names fs))"
  using assms
proof (induction fs arbitrary: ins)
  case Nil
  then show ?case by (simp add: names_def)
next
  case (Cons f fs)
  then have fv: "flat_val (gfVal f)" "\<not> no_name (gfTag f)" by simp_all
  have "validate_fields (f # fs) ins [] = validate_fields fs (ins - {json_name (gfTag f)}) []"
    using fv flat_val_kind [OF fv(1)] by (auto simp: Let_def)
  also have "\<dots> = Ret (ins - {json_name (gfTag f)} - set (names fs))" using Cons by simp
  finally show ?case by (simp add: names_def Diff_insert2 [symmetric] insert_is_Un [symmetric])
qed

text \<open>What a field of a flat struct becomes.\<close>

fun present_field :: "(int \<Rightarrow> string) \<Rightarrow> gval \<Rightarrow> pval" where
  "present_field rfc (GPtr ty (Some (GTime t))) = PText (rfc t)"
| "present_field rfc v = PVal v"

definition project :: "(int \<Rightarrow> string) \<Rightarrow> string set \<Rightarrow> gfield list \<Rightarrow> (string \<times> pval) list" where
  "project rfc ins fs =
     map (\<lambda>f. (json_name (gfTag f), present_field rfc (gfVal f)))
       (filter (\<lambda>f. json_name (gfTag f) \<in> ins) fs)"

lemma put_fresh: "k \<notin> fst ` set m \<Longrightarrow> put k v m = m @ [(k, v)]"
  by (auto simp: put_def filter_id_conv)

lemma present_field_scalar: "\<not> (\<exists>t. v = GPtr ''time.Time'' (Some (GTime t))) \<Longrightarrow> flat_val v \<Longrightarrow> present_field rfc v = PVal v"
  by (cases v rule: flat_val.cases) auto

lemma map_fields_flat:
  assumes "flat_fields fs" and "''.*'' \<notin> ins" and "fst ` set res \<inter> set (names fs) = {}"
  shows "map_fields rfc fs ins [] res = Ret (res @ project rfc ins fs)"
  using assms(1,3)
proof (induction fs arbitrary: res)
  case Nil
  then show ?case by (simp add: project_def)
next
  case (Cons f fs)
  let ?n = "json_name (gfTag f)"
  from Cons.prems have fv: "flat_val (gfVal f)" "\<not> no_name (gfTag f)" "?n \<notin> set (names fs)"
      and fl: "flat_fields fs" and fresh: "?n \<notin> fst ` set res" "fst ` set res \<inter> set (names fs) = {}"
    by (auto simp: flat_fields_def names_def)
  have star: "sprintf ''%s.*'' [FStr []] = ''.*''" by (simp add: sprintf.simps)
  have "map_fields rfc (f # fs) ins [] res =
      map_fields rfc fs ins [] (if ?n \<in> ins then put ?n (present_field rfc (gfVal f)) res else res)"
  proof (cases "\<exists>t. gfVal f = GPtr ''time.Time'' (Some (GTime t))")
    case True
    then show ?thesis using fv(2) by (auto simp: Let_def)
  next
    case False
    with flat_val_kind [OF fv(1)] present_field_scalar [OF _ fv(1)] fv(2) assms(2) star show ?thesis
      by (auto simp: Let_def)
  qed
  also have "\<dots> = Ret ((if ?n \<in> ins then put ?n (present_field rfc (gfVal f)) res else res) @ project rfc ins fs)"
    by (rule Cons.IH [OF fl]) (use fresh fv(3) in \<open>auto simp: put_fresh\<close>)
  also have "\<dots> = Ret (res @ project rfc ins (f # fs))"
    by (auto simp: project_def put_fresh [OF fresh(1)])
  finally show ?case .
qed

definition list_model :: "string \<Rightarrow> string \<Rightarrow> int \<Rightarrow> int \<Rightarrow> int \<Rightarrow> gval list \<Rightarrow> gval" where
  "list_model ty kind page psize tot items =
     GStruct ty [GField ''Kind'' ''kind'' (GStr kind), GField ''Page'' ''page'' (GInt page),
                 GField ''Size'' ''size'' (GInt psize), GField ''Total'' ''total'' (GInt tot),
                 GField ''Items'' ''items'' (GSlice items)]"

lemma items_maps_flat:
  assumes "list_all flat_fields fss" and "''.*'' \<notin> ins"
  shows "items_maps rfc (map (GStruct ty) fss) ins = Ret (map (project rfc ins) fss)"
  using assms(1) by (induction fss) (simp_all add: map_fields_flat assms(2))

section \<open>Properties\<close>

text \<open>
  C24: On a list of flat structs of one type the filter returns, for every item and in order,
  exactly the requested fields with their values, times formatted; when a requested field does
  not exist in the struct it returns a validation error instead.
\<close>

theorem slice_filter_projects:
  assumes "list_all flat_fields (fs # fss)" and "''.*'' \<notin> set (names fs)"
  shows "\<exists>e. HttpCode e = 400 \<and>
    SliceFilter rfc ord wanted (list_model lty kind page psize tot (map (GStruct ty) (fs # fss))) =
      (if set wanted \<subseteq> set (names fs)
       then Ret (Inr \<lparr>plKind = kind, plPage = wrap32 page, plSize = wrap32 psize,
                      plTotal = wrap32 tot, plItems = map (project rfc (set wanted)) (fs # fss)\<rparr>)
       else Ret (Inl e))"
proof -
  let ?m = "list_model lty kind page psize tot (map (GStruct ty) (fs # fss))"
  have fields: "struct_fields ?m = Some [GField ''Kind'' ''kind'' (GStr kind), GField ''Page'' ''page'' (GInt page),
                 GField ''Size'' ''size'' (GInt psize), GField ''Total'' ''total'' (GInt tot),
                 GField ''Items'' ''items'' (GSlice (map (GStruct ty) (fs # fss)))]" "?m \<noteq> GNil"
    by (simp_all add: list_model_def)
  have val: "validate_fields fs (set wanted) [] = Ret (set wanted - set (names fs))"
    using assms(1) by (intro validate_flat) (simp add: flat_fields_def list_all_iff)
  show ?thesis
  proof (cases "set wanted \<subseteq> set (names fs)")
    case True
    then have "''.*'' \<notin> set wanted" using assms(2) by blast
    from items_maps_flat [OF assms(1) this, of rfc ty] True val fields show ?thesis
      by (intro exI [of _ "Validation [] []"])
         (simp add: SliceFilter_def FieldByName_def validate_def)
  next
    case False
    then have "set wanted - set (names fs) \<noteq> {}" by blast
    with False val fields show ?thesis
      by (simp add: SliceFilter_def FieldByName_def validate_def)
  qed
qed

theorem slice_filter_projects_witness:
  "\<exists>e. HttpCode e = 400 \<and>
    SliceFilter (\<lambda>t. ''then'') (\<lambda>ks. []) [''species'', ''created_at'']
      (list_model ''DinosaurList'' ''DinosaurList'' 1 1 7 (map (GStruct ''Dinosaur'')
        [[GField ''Id'' ''id,omitempty'' (GPtr ''string'' (Some (GStr ''1''))),
          GField ''CreatedAt'' ''created_at,omitempty'' (GPtr ''time.Time'' (Some (GTime 3))),
          GField ''Species'' ''species'' (GStr ''rex'')]])) =
      (if set [''species'', ''created_at''] \<subseteq> set [''id'', ''created_at'', ''species'']
       then Ret (Inr \<lparr>plKind = ''DinosaurList'', plPage = wrap32 1, plSize = wrap32 1, plTotal = wrap32 7,
              plItems = [[(''created_at'', PText ''then''), (''species'', PVal (GStr ''rex''))]]\<rparr>)
       else Ret (Inl e))"
proof -
  let ?fs = "[GField ''Id'' ''id,omitempty'' (GPtr ''string'' (Some (GStr ''1''))),
          GField ''CreatedAt'' ''created_at,omitempty'' (GPtr ''time.Time'' (Some (GTime 3))),
          GField ''Species'' ''species'' (GStr ''rex'')]"
  have nm: "json_name ''id,omitempty'' = ''id''" "json_name ''created_at,omitempty'' = ''created_at''"
      "json_name ''species'' = ''species''" by code_simp+
  have "list_all flat_fields [?fs]" by (simp add: flat_fields_def no_name_def nm)
  moreover have "''.*'' \<notin> set (names ?fs)" by (simp add: names_def nm)
  ultimately show ?thesis
    using slice_filter_projects [of ?fs "[]" "\<lambda>t. ''then''" "\<lambda>ks. []" "[''species'', ''created_at'']"
        "''DinosaurList''" "''DinosaurList''" 1 1 7 "''Dinosaur''"]
    by (simp add: names_def nm project_def)
qed

text \<open>
  The filter reads the paging of a list struct by field name, so handing it the bare slice
  of items makes it panic, whatever fields are requested.
\<close>

theorem slice_filter_slice_panics:
  "\<not> returns (SliceFilter rfc ord wanted (GSlice items))"
  by (simp add: SliceFilter_def)

end
