(* ===== verification/Go_Json.thy ===== *)
theory Go_Json
  imports Go_Prelude
begin

text \<open>
  What the program uses of \<^verbatim>\<open>encoding/json\<close>: the values of JSON, their printing as
  \<^verbatim>\<open>json.Marshal\<close> does it, and the parser behind \<^verbatim>\<open>json.Unmarshal\<close>. A number is its
  literal, an object the list of its members in the order of the text. A text is a list of bytes, valid
  UTF-8 or not: as in Go, a byte that is not part of a valid sequence is printed as the escape of the
  replacement character U+FFFD and read as that character. The limit of nesting of Go's parser, 10000,
  is left out.
\<close>

datatype json =
    JNull | JBool bool | JNum string | JStr string | JArr "json list" | JObj "(string \<times> json) list"

abbreviation quote_char :: char where "quote_char \<equiv> CHR 0x22"
abbreviation backslash :: char where "backslash \<equiv> CHR 0x5C"

section \<open>Strings\<close>

definition hex_digit :: "nat \<Rightarrow> char" where
  "hex_digit d = (if d < 10 then char_of (48 + d) else char_of (87 + d))"

definition hex_val :: "char \<Rightarrow> nat option" where
  "hex_val c =
     (let n = of_char c :: nat
      in if 48 \<le> n \<and> n \<le> 57 then Some (n - 48)
         else if 97 \<le> n \<and> n \<le> 102 then Some (n - 87)
         else if 65 \<le> n \<and> n \<le> 70 then Some (n - 55)
         else None)"

text \<open>The short escape sequences: a character and the one that stands for it after a backslash.\<close>

definition short_escapes :: "(char \<times> char) list" where
  "short_escapes =
     [(quote_char, quote_char), (backslash, backslash), (CHR 0x08, CHR ''b''), (CHR 0x09, CHR ''t''),
      (CHR 0x0A, CHR ''n''), (CHR 0x0C, CHR ''f''), (CHR 0x0D, CHR ''r'')]"

definition escape_char :: "char \<Rightarrow> string" where
  "escape_char c =
     (case map_of short_escapes c of
        Some e \<Rightarrow> [backslash, e]
      | None \<Rightarrow>
          (let n = of_char c :: nat
           in if n < 32 \<or> c \<in> {CHR ''<'', CHR ''>'', CHR ''&''}
              then [backslash, CHR ''u'', CHR ''0'', CHR ''0'', hex_digit (n div 16), hex_digit (n mod 16)]
              else [c]))"

text \<open>
  UTF-8, as \<^verbatim>\<open>utf8.DecodeRuneInString\<close> reads it: the number of bytes of the valid sequence a
  text starts with, 0 where it starts with none.
\<close>

definition continuation :: "char \<Rightarrow> bool" where
  "continuation c \<longleftrightarrow> 0x80 \<le> (of_char c :: nat) \<and> (of_char c :: nat) \<le> 0xBF"

text \<open>The second byte that may follow a first: no overlong forms, no surrogates, nothing above U+10FFFF.\<close>

definition second_byte :: "nat \<Rightarrow> char \<Rightarrow> bool" where
  "second_byte a c \<longleftrightarrow>
     continuation c \<and> (a = 0xE0 \<longrightarrow> 0xA0 \<le> (of_char c :: nat)) \<and> (a = 0xED \<longrightarrow> (of_char c :: nat) \<le> 0x9F) \<and>
     (a = 0xF0 \<longrightarrow> 0x90 \<le> (of_char c :: nat)) \<and> (a = 0xF4 \<longrightarrow> (of_char c :: nat) \<le> 0x8F)"

definition lead_len :: "nat \<Rightarrow> nat" where
  "lead_len a =
     (if a < 0x80 then 1 else if a < 0xC2 then 0 else if a < 0xE0 then 2 else if a < 0xF0 then 3
      else if a < 0xF5 then 4 else 0)"

definition rune_len :: "string \<Rightarrow> nat" where
  "rune_len s =
     (case s of
        [] \<Rightarrow> 0
      | c # r \<Rightarrow>
          (let a = of_char c; k = lead_len a; t = take (k - 1) r
           in if length t = k - 1 \<and> (t \<noteq> [] \<longrightarrow> second_byte a (hd t)) \<and> list_all continuation (drop 1 t)
              then k else 0))"

definition replacement :: string where
  "replacement = [CHR 0xEF, CHR 0xBF, CHR 0xBD]"

text \<open>A text with each byte outside a valid sequence replaced by U+FFFD; a valid text is left as it is.\<close>

fun coerce :: "string \<Rightarrow> string" where
  "coerce [] = []"
| "coerce (c # s) =
     (let k = rune_len (c # s)
      in if k = 0 then replacement @ coerce s else take k (c # s) @ coerce (drop (k - 1) s))"

definition valid_utf8 :: "string \<Rightarrow> bool" where
  "valid_utf8 s \<longleftrightarrow> coerce s = s"

text \<open>The line separators U+2028 and U+2029 are escaped, other sequences of several bytes are copied.\<close>

definition escape_rune :: "string \<Rightarrow> string" where
  "escape_rune u =
     (case u of
        [c] \<Rightarrow> escape_char c
      | _ \<Rightarrow>
          if u \<in> {[CHR 0xE2, CHR 0x80, CHR 0xA8], [CHR 0xE2, CHR 0x80, CHR 0xA9]}
          then backslash # ''u202'' @ [hex_digit (of_char (last u) mod 16)]
          else u)"

fun escape_str :: "string \<Rightarrow> string" where
  "escape_str [] = []"
| "escape_str (c # s) =
     (let k = rune_len (c # s)
      in if k = 0 then backslash # ''ufffd'' @ escape_str s
         else escape_rune (take k (c # s)) @ escape_str (drop (k - 1) s))"

definition print_str :: "string \<Rightarrow> string" where
  "print_str s = quote_char # escape_str s @ [quote_char]"

text \<open>The UTF-8 encoding of a code point.\<close>

definition utf8 :: "nat \<Rightarrow> string" where
  "utf8 n =
     (if n < 0x80 then [char_of n]
      else if n < 0x800 then [char_of (0xC0 + n div 64), char_of (0x80 + n mod 64)]
      else if n < 0x10000
      then [char_of (0xE0 + n div 4096), char_of (0x80 + n div 64 mod 64), char_of (0x80 + n mod 64)]
      else [char_of (0xF0 + n div 262144), char_of (0x80 + n div 4096 mod 64), char_of (0x80 + n div 64 mod 64),
            char_of (0x80 + n mod 64)])"

fun hex4 :: "string \<Rightarrow> (nat \<times> string) option" where
  "hex4 (a # b # c # d # r) =
     (case (hex_val a, hex_val b, hex_val c, hex_val d) of
        (Some w, Some x, Some y, Some z) \<Rightarrow> Some (((w * 16 + x) * 16 + y) * 16 + z, r)
      | _ \<Rightarrow> None)"
| "hex4 _ = None"

text \<open>The low half of a surrogate pair, if it is what follows.\<close>

definition low_surrogate :: "string \<Rightarrow> (nat \<times> string) option" where
  "low_surrogate r =
     (if has_prefix r [backslash, CHR ''u'']
      then (case hex4 (drop 2 r) of
              Some (n, r') \<Rightarrow> if 0xDC00 \<le> n \<and> n < 0xE000 then Some (n, r') else None
            | None \<Rightarrow> None)
      else None)"

text \<open>The characters an escape sequence stands for, after the backslash, and the rest.\<close>

definition short_unescape :: "char \<Rightarrow> char option" where
  "short_unescape e = map_of ((CHR ''/'', CHR ''/'') # map (\<lambda>(c, e). (e, c)) short_escapes) e"

definition unescape_u :: "string \<Rightarrow> (string \<times> string) option" where
  "unescape_u r =
     (case hex4 r of
        None \<Rightarrow> None
      | Some (n, r') \<Rightarrow>
          if 0xD800 \<le> n \<and> n < 0xE000
          then (case (n < 0xDC00, low_surrogate r') of
                  (True, Some (m, r'')) \<Rightarrow> Some (utf8 (0x10000 + (n - 0xD800) * 1024 + (m - 0xDC00)), r'')
                | _ \<Rightarrow> Some (utf8 0xFFFD, r'))
          else Some (utf8 n, r'))"

definition unescape :: "string \<Rightarrow> (string \<times> string) option" where
  "unescape s =
     (case s of
        [] \<Rightarrow> None
      | e # r \<Rightarrow>
          (case short_unescape e of
             Some c \<Rightarrow> Some ([c], r)
           | None \<Rightarrow> if e = CHR ''u'' then unescape_u r else None))"

lemma hex4_length: "hex4 s = Some (n, r) \<Longrightarrow> length r < length s"
  by (induction s rule: hex4.induct) (auto split: option.splits)

lemma low_surrogate_length: "low_surrogate s = Some (n, r) \<Longrightarrow> length r < length s"
  by (auto simp: low_surrogate_def dest!: hex4_length split: if_splits option.splits)

lemma unescape_length: "unescape s = Some (x, r) \<Longrightarrow> length r < length s"
  by (auto simp: unescape_def unescape_u_def dest!: hex4_length low_surrogate_length split: list.splits if_splits option.splits bool.splits)

text \<open>The contents of a string after its opening quote, and the rest.\<close>

function scan_str :: "string \<Rightarrow> (string \<times> string) option" where
  "scan_str s =
     (case s of
        [] \<Rightarrow> None
      | c # r \<Rightarrow>
          if c = quote_char then Some ([], r)
          else if c = backslash
          then (case unescape r of
                  None \<Rightarrow> None
                | Some (x, r') \<Rightarrow> map_option (\<lambda>(y, r''). (x @ y, r'')) (scan_str r'))
          else if (of_char c :: nat) < 32 then None
          else (let k = rune_len (c # r)
                in if k = 0 then map_option (\<lambda>(y, r''). (replacement @ y, r'')) (scan_str r)
                   else map_option (\<lambda>(y, r''). (take k (c # r) @ y, r'')) (scan_str (drop (k - 1) r))))"
  by pat_completeness auto
termination
  by (relation "measure length") (auto dest: unescape_length)

declare scan_str.simps [simp del]

lemma scan_str_length: "scan_str s = Some (x, r) \<Longrightarrow> length r < length s"
proof (induction s arbitrary: x r rule: scan_str.induct)
  case (1 s)
  show ?case
  proof (cases s)
    case Nil
    with "1.prems" show ?thesis by (simp add: scan_str.simps)
  next
    case (Cons c t)
    consider "c = quote_char" | "c = backslash" | "c \<noteq> quote_char" "c \<noteq> backslash" by blast
    then show ?thesis
    proof cases
      case 1
      with "1.prems" Cons show ?thesis by (simp add: scan_str.simps)
    next
      case 2
      with "1.prems" Cons obtain y t1 z where t1: "unescape t = Some (y, t1)" "scan_str t1 = Some (z, r)"
        by (subst (asm) scan_str.simps) (auto split: option.splits)
      with "1.IH" (1) [OF Cons _ 2 t1(1)] 2 have "length r < length t1" by simp
      with unescape_length [OF t1(1)] Cons show ?thesis by simp
    next
      case 3
      with "1.prems" Cons have c: "\<not> (of_char c :: nat) < 32"
        by (subst (asm) scan_str.simps) (auto split: if_splits)
      show ?thesis
      proof (cases "rune_len (c # t) = 0")
        case True
        with "1.prems" Cons 3 c obtain z where "scan_str t = Some (z, r)"
          by (subst (asm) scan_str.simps) auto
        with "1.IH" (2) [OF Cons 3 c refl True] Cons show ?thesis by fastforce
      next
        case False
        with "1.prems" Cons 3 c obtain z where "scan_str (drop (rune_len (c # t) - 1) t) = Some (z, r)"
          by (subst (asm) scan_str.simps) (auto simp: Let_def)
        with "1.IH" (3) [OF Cons 3 c refl False] Cons show ?thesis by fastforce
      qed
    qed
  qed
qed

section \<open>Printing\<close>

fun print_json :: "json \<Rightarrow> string" and print_elems :: "json list \<Rightarrow> string"
  and print_members :: "(string \<times> json) list \<Rightarrow> string" where
  "print_json JNull = ''null''"
| "print_json (JBool b) = (if b then ''true'' else ''false'')"
| "print_json (JNum n) = n"
| "print_json (JStr s) = print_str s"
| "print_json (JArr []) = ''[]''"
| "print_json (JArr (j # js)) = ''['' @ print_json j @ print_elems js"
| "print_json (JObj []) = ''{}''"
| "print_json (JObj ((k, j) # ms)) = ''{'' @ print_str k @ '':'' @ print_json j @ print_members ms"
| "print_elems [] = '']''"
| "print_elems (j # js) = '','' @ print_json j @ print_elems js"
| "print_members [] = ''}''"
| "print_members ((k, j) # ms) = '','' @ print_str k @ '':'' @ print_json j @ print_members ms"

section \<open>Parsing\<close>

definition json_space :: "char \<Rightarrow> bool" where
  "json_space c \<longleftrightarrow> of_char c \<in> {9, 10, 13, 32 :: nat}"

definition skip_space :: "string \<Rightarrow> string" where
  "skip_space s = dropWhile json_space s"

definition is_digit :: "char \<Rightarrow> bool" where
  "is_digit c \<longleftrightarrow> digit_val c \<noteq> None"

text \<open>The digits at the start of a text, of which there must be one.\<close>

definition scan_digits :: "string \<Rightarrow> (string \<times> string) option" where
  "scan_digits s = (let ds = takeWhile is_digit s in if ds = [] then None else Some (ds, dropWhile is_digit s))"

definition scan_integer :: "string \<Rightarrow> (string \<times> string) option" where
  "scan_integer s =
     (case s of
        c # r \<Rightarrow> if c = CHR ''0'' then Some ([c], r) else scan_digits s
      | [] \<Rightarrow> None)"

definition scan_fraction :: "string \<Rightarrow> (string \<times> string) option" where
  "scan_fraction s =
     (case s of
        c # r \<Rightarrow> if c = CHR ''.'' then map_option (\<lambda>(ds, r'). (c # ds, r')) (scan_digits r) else Some ([], s)
      | [] \<Rightarrow> Some ([], s))"

definition scan_exponent :: "string \<Rightarrow> (string \<times> string) option" where
  "scan_exponent s =
     (case s of
        c # r \<Rightarrow>
          if c = CHR ''e'' \<or> c = CHR ''E''
          then (let sign = (if r \<noteq> [] \<and> hd r \<in> {CHR ''+'', CHR ''-''} then [hd r] else [])
                in map_option (\<lambda>(ds, r'). (c # sign @ ds, r')) (scan_digits (drop (length sign) r)))
          else Some ([], s)
      | [] \<Rightarrow> Some ([], s))"

definition scan_number :: "string \<Rightarrow> (string \<times> string) option" where
  "scan_number s =
     (let sign = (if s \<noteq> [] \<and> hd s = CHR ''-'' then [hd s] else [])
      in case scan_integer (drop (length sign) s) of
           None \<Rightarrow> None
         | Some (i, r1) \<Rightarrow>
             (case scan_fraction r1 of
                None \<Rightarrow> None
              | Some (f, r2) \<Rightarrow>
                  (case scan_exponent r2 of
                     None \<Rightarrow> None
                   | Some (x, r3) \<Rightarrow> Some (sign @ i @ f @ x, r3))))"

definition scan_literal :: "string \<Rightarrow> (json \<times> string) option" where
  "scan_literal s =
     (if has_prefix s ''null'' then Some (JNull, drop 4 s)
      else if has_prefix s ''true'' then Some (JBool True, drop 4 s)
      else if has_prefix s ''false'' then Some (JBool False, drop 5 s)
      else map_option (\<lambda>(n, r). (JNum n, r)) (scan_number s))"

text \<open>A key and its colon.\<close>

definition scan_key :: "string \<Rightarrow> (string \<times> string) option" where
  "scan_key s =
     (case skip_space s of
        c # r \<Rightarrow>
          if c = quote_char
          then (case scan_str r of
                  None \<Rightarrow> None
                | Some (k, r1) \<Rightarrow>
                    (case skip_space r1 of
                       c' # r2 \<Rightarrow> if c' = CHR '':'' then Some (k, r2) else None
                     | [] \<Rightarrow> None))
          else None
      | [] \<Rightarrow> None)"

text \<open>The first argument bounds the calls; the length of the text is always enough.\<close>

fun parse_val :: "nat \<Rightarrow> string \<Rightarrow> (json \<times> string) option"
  and parse_elems :: "nat \<Rightarrow> string \<Rightarrow> (json list \<times> string) option"
  and parse_members :: "nat \<Rightarrow> string \<Rightarrow> ((string \<times> json) list \<times> string) option" where
  "parse_val 0 s = None"
| "parse_val (Suc n) s =
     (case skip_space s of
        [] \<Rightarrow> None
      | c # r \<Rightarrow>
          if c = quote_char then map_option (\<lambda>(x, r'). (JStr x, r')) (scan_str r)
          else if c = CHR ''[''
          then (case skip_space r of
                  [] \<Rightarrow> None
                | d # r1 \<Rightarrow>
                    if d = CHR '']'' then Some (JArr [], r1)
                    else (case parse_val n r of
                            None \<Rightarrow> None
                          | Some (j, r2) \<Rightarrow> map_option (\<lambda>(js, r3). (JArr (j # js), r3)) (parse_elems n r2)))
          else if c = CHR ''{''
          then (case skip_space r of
                  [] \<Rightarrow> None
                | d # r1 \<Rightarrow>
                    if d = CHR ''}'' then Some (JObj [], r1)
                    else (case scan_key r of
                            None \<Rightarrow> None
                          | Some (k, r2) \<Rightarrow>
                              (case parse_val n r2 of
                                 None \<Rightarrow> None
                               | Some (j, r3) \<Rightarrow>
                                   map_option (\<lambda>(ms, r4). (JObj ((k, j) # ms), r4)) (parse_members n r3))))
          else scan_literal (c # r))"
| "parse_elems 0 s = None"
| "parse_elems (Suc n) s =
     (case skip_space s of
        [] \<Rightarrow> None
      | c # r \<Rightarrow>
          if c = CHR '']'' then Some ([], r)
          else if c = CHR '',''
          then (case parse_val n r of
                  None \<Rightarrow> None
                | Some (j, r1) \<Rightarrow> map_option (\<lambda>(js, r2). (j # js, r2)) (parse_elems n r1))
          else None)"
| "parse_members 0 s = None"
| "parse_members (Suc n) s =
     (case skip_space s of
        [] \<Rightarrow> None
      | c # r \<Rightarrow>
          if c = CHR ''}'' then Some ([], r)
          else if c = CHR '',''
          then (case scan_key r of
                  None \<Rightarrow> None
                | Some (k, r1) \<Rightarrow>
                    (case parse_val n r1 of
                       None \<Rightarrow> None
                     | Some (j, r2) \<Rightarrow> map_option (\<lambda>(ms, r3). ((k, j) # ms, r3)) (parse_members n r2)))
          else None)"

definition parse_json :: "string \<Rightarrow> json option" where
  "parse_json s =
     (case parse_val (Suc (length s)) s of
        Some (j, r) \<Rightarrow> if skip_space r = [] then Some j else None
      | None \<Rightarrow> None)"

section \<open>Reading back what is printed\<close>

lemma hex_val_digit [simp]: "d < 16 \<Longrightarrow> hex_val (hex_digit d) = Some d"
  by (simp add: hex_val_def hex_digit_def of_char_of Let_def)

lemma char_of_parts [simp]:
  fixes c :: char
  assumes "(of_char c :: nat) < 128"
  shows "utf8 ((of_char c div 16) * 16 + of_char c mod 16) = [c]"
  using assms by (simp add: utf8_def)

lemma short_unescape_escape: "map_of short_escapes c = Some e \<Longrightarrow> short_unescape e = Some c"
  by (drule map_of_SomeD) (auto simp: short_escapes_def short_unescape_def)

lemma unescape_u_ascii:
  fixes c :: char
  assumes "(of_char c :: nat) < 128"
  shows "unescape_u (CHR ''0'' # CHR ''0'' # hex_digit (of_char c div 16) # hex_digit (of_char c mod 16) # r)
    = Some ([c], r)"
proof -
  have "hex4 (CHR ''0'' # CHR ''0'' # hex_digit (of_char c div 16) # hex_digit (of_char c mod 16) # r)
      = Some (of_char c, r)"
    using assms by (simp add: hex_val_def [of "CHR ''0''"] Let_def)
  with assms show ?thesis by (simp add: unescape_u_def utf8_def)
qed

lemma rune_len_Cons: "rune_len (c # r) =
    (let a = of_char c; k = lead_len a; t = take (k - 1) r
     in if length t = k - 1 \<and> (t \<noteq> [] \<longrightarrow> second_byte a (hd t)) \<and> list_all continuation (drop 1 t) then k else 0)"
  by (simp add: rune_len_def)

lemma rune_len_ascii [simp]: "(of_char c :: nat) < 128 \<Longrightarrow> rune_len (c # r) = 1"
  by (simp add: rune_len_Cons lead_len_def Let_def)

text \<open>A sequence is what it is whatever follows it.\<close>

lemma rune_len_local:
  assumes "rune_len (c # s) = Suc k"
  shows "k \<le> length s" and "rune_len (c # take k s @ r) = Suc k"
  using assms by (auto simp: rune_len_Cons Let_def split: if_splits)

lemma rune_len_single: "rune_len (c # s) = 1 \<Longrightarrow> (of_char c :: nat) < 128"
  by (auto simp: rune_len_Cons lead_len_def Let_def split: if_splits)

lemma rune_len_bytes:
  assumes "rune_len (c # s) = Suc (Suc k)"
  shows "128 \<le> (of_char c :: nat)"
  using assms by (auto simp: rune_len_Cons lead_len_def Let_def split: if_splits)

lemma scan_rune:
  assumes "rune_len (c # s) = Suc k" and "c \<noteq> quote_char" and "c \<noteq> backslash" and "\<not> (of_char c :: nat) < 32"
  shows "scan_str ((c # take k s) @ r) = map_option (\<lambda>(y, r'). (c # take k s @ y, r')) (scan_str r)"
  using assms rune_len_local [OF assms(1)]
  by (subst scan_str.simps) (simp add: Let_def)

lemma scan_escape_char:
  assumes "(of_char c :: nat) < 128"
  shows "scan_str (escape_char c @ r) = map_option (\<lambda>(y, r'). (c # y, r')) (scan_str r)"
proof (cases "map_of short_escapes c")
  case (Some e)
  then show ?thesis
    by (subst scan_str.simps) (simp add: escape_char_def unescape_def short_unescape_escape)
next
  case None
  then have c: "c \<noteq> quote_char" "c \<noteq> backslash" by (auto simp: short_escapes_def)
  let ?n = "of_char c :: nat"
  show ?thesis
  proof (cases "?n < 32 \<or> c \<in> {CHR ''<'', CHR ''>'', CHR ''&''}")
    case True
    moreover have "short_unescape CHR ''u'' = None" by (simp add: short_unescape_def short_escapes_def)
    ultimately show ?thesis
      using None assms
      by (subst scan_str.simps) (simp add: escape_char_def unescape_def unescape_u_ascii Let_def)
  next
    case False
    with None c assms show ?thesis by (subst scan_str.simps) (simp add: escape_char_def Let_def)
  qed
qed

lemma scan_unicode_escapes:
  "scan_str (backslash # ''ufffd'' @ r) = map_option (\<lambda>(y, r'). (replacement @ y, r')) (scan_str r)"
  "scan_str (backslash # ''u2028'' @ r) = map_option (\<lambda>(y, r'). ([CHR 0xE2, CHR 0x80, CHR 0xA8] @ y, r')) (scan_str r)"
  "scan_str (backslash # ''u2029'' @ r) = map_option (\<lambda>(y, r'). ([CHR 0xE2, CHR 0x80, CHR 0xA9] @ y, r')) (scan_str r)"
proof -
  have u: "short_unescape CHR ''u'' = None" by (simp add: short_unescape_def short_escapes_def)
  have "utf8 0xFFFD = replacement" "utf8 0x2028 = [CHR 0xE2, CHR 0x80, CHR 0xA8]" "utf8 0x2029 = [CHR 0xE2, CHR 0x80, CHR 0xA9]"
    by (simp_all add: utf8_def replacement_def char_of_eq_iff)
  then have
    "unescape_u (''fffd'' @ r) = Some (replacement, r)"
    "unescape_u (''2028'' @ r) = Some ([CHR 0xE2, CHR 0x80, CHR 0xA8], r)"
    "unescape_u (''2029'' @ r) = Some ([CHR 0xE2, CHR 0x80, CHR 0xA9], r)"
    by (simp_all add: unescape_u_def hex_val_def Let_def)
  with u show
    "scan_str (backslash # ''ufffd'' @ r) = map_option (\<lambda>(y, r'). (replacement @ y, r')) (scan_str r)"
    "scan_str (backslash # ''u2028'' @ r) = map_option (\<lambda>(y, r'). ([CHR 0xE2, CHR 0x80, CHR 0xA8] @ y, r')) (scan_str r)"
    "scan_str (backslash # ''u2029'' @ r) = map_option (\<lambda>(y, r'). ([CHR 0xE2, CHR 0x80, CHR 0xA9] @ y, r')) (scan_str r)"
    by (subst scan_str.simps, simp add: unescape_def)+
qed

lemma scan_escape_rune:
  assumes "rune_len (c # s) = Suc k"
  shows "scan_str (escape_rune (c # take k s) @ r) = map_option (\<lambda>(y, r'). (c # take k s @ y, r')) (scan_str r)"
proof (cases k)
  case 0
  with assms rune_len_single [of c s] show ?thesis by (simp add: escape_rune_def scan_escape_char)
next
  case (Suc m)
  with assms have c: "128 \<le> (of_char c :: nat)" using rune_len_bytes [of c s m] by simp
  then have plain: "c \<noteq> quote_char" "c \<noteq> backslash" "\<not> (of_char c :: nat) < 32" by auto
  have long: "take k s \<noteq> []" using rune_len_local(1) [OF assms] Suc by (cases s) simp_all
  have "hex_digit (of_char (CHR 0xA8) mod 16) = CHR ''8''" "hex_digit (of_char (CHR 0xA9) mod 16) = CHR ''9''"
    by (simp_all add: hex_digit_def char_of_eq_iff)
  then have "escape_rune (c # take k s) =
      (if c # take k s = [CHR 0xE2, CHR 0x80, CHR 0xA8] then backslash # ''u2028''
       else if c # take k s = [CHR 0xE2, CHR 0x80, CHR 0xA9] then backslash # ''u2029'' else c # take k s)"
    using long by (auto simp: escape_rune_def split: list.split)
  with scan_rune [OF assms plain, of r] show ?thesis
    using scan_unicode_escapes(2,3) [of r] by auto
qed

lemma scan_print_str: "scan_str (escape_str s @ quote_char # r) = Some (coerce s, r)"
proof (induction s rule: coerce.induct)
  case 1
  show ?case by (subst scan_str.simps) simp
next
  case (2 c s)
  show ?case
  proof (cases "rune_len (c # s)")
    case 0
    with 2(1) [OF refl 0] show ?thesis using scan_unicode_escapes(1) by simp
  next
    case (Suc k)
    with 2(2) [OF refl] show ?thesis by (simp add: scan_escape_rune [OF Suc])
  qed
qed

text \<open>What is read is valid, and a valid text is read as it was.\<close>

lemma coerce_rune: "rune_len (c # s) = Suc k \<Longrightarrow> coerce (c # take k s @ r) = c # take k s @ coerce r"
  using rune_len_local(1) [of c s k] rune_len_local(2) [of c s k r] by simp

lemma coerce_replacement [simp]: "coerce (replacement @ s) = replacement @ coerce s"
  using coerce_rune [where c = "CHR 0xEF" and s = "[CHR 0xBF, CHR 0xBD]" and k = 2 and r = s]
  by (simp add: replacement_def rune_len_Cons lead_len_def second_byte_def continuation_def Let_def del: coerce.simps)

lemma coerce_idem [simp]: "coerce (coerce s) = coerce s"
proof (induction s rule: coerce.induct)
  case (2 c s)
  show ?case
  proof (cases "rune_len (c # s)")
    case 0
    then have "coerce (c # s) = replacement @ coerce s" by simp
    with 2(1) [OF refl 0] show ?thesis by (simp del: coerce.simps)
  next
    case (Suc k)
    then have "coerce (c # s) = c # take k s @ coerce (drop k s)" by simp
    with 2(2) [OF refl] coerce_rune [OF Suc] Suc show ?thesis by (simp del: coerce.simps)
  qed
qed simp

lemma coerce_Nil_iff [simp]: "coerce s = [] \<longleftrightarrow> s = []"
proof (cases s)
  case (Cons c r)
  then show ?thesis by (cases "rune_len (c # r)") (simp_all add: replacement_def)
qed simp

lemma coerce_ascii: "\<forall>c \<in> set s. (of_char c :: nat) < 128 \<Longrightarrow> coerce s = s"
  by (induction s) simp_all

lemma valid_coerce [simp]: "valid_utf8 (coerce s)"
  by (simp add: valid_utf8_def)

text \<open>The same for a value.\<close>

fun coerce_json :: "json \<Rightarrow> json" where
  "coerce_json (JStr s) = JStr (coerce s)"
| "coerce_json (JArr js) = JArr (map coerce_json js)"
| "coerce_json (JObj ms) = JObj (map (\<lambda>m. (coerce (fst m), coerce_json (snd m))) ms)"
| "coerce_json j = j"

text \<open>What may follow a value: no part of a number.\<close>

definition number_stops :: "string \<Rightarrow> bool" where
  "number_stops r \<longleftrightarrow> (\<forall>c. r \<noteq> [] \<and> c = hd r \<longrightarrow> \<not> is_digit c \<and> c \<notin> {CHR ''.'', CHR ''e'', CHR ''E''})"

lemma number_stops_simps [simp]:
  "number_stops []"
  "number_stops (c # r) \<longleftrightarrow> \<not> is_digit c \<and> c \<notin> {CHR ''.'', CHR ''e'', CHR ''E''}"
  by (simp_all add: number_stops_def)

lemma is_digit_digit_char [simp]: "d < 10 \<Longrightarrow> is_digit (digit_char d)"
  by (simp add: is_digit_def)

lemma digit_char_0: "digit_char 0 = CHR ''0''"
proof -
  have "(of_char (digit_char 0) :: nat) = of_char CHR ''0''" by (simp add: of_char_digit_char)
  then show ?thesis by (simp only: of_char_eq_iff)
qed

lemma itoa_nat_is_digit: "c \<in> set (itoa_nat n) \<Longrightarrow> is_digit c"
  using itoa_nat_digits by fastforce

lemma hd_itoa_nat_zero: "hd (itoa_nat n) = CHR ''0'' \<Longrightarrow> n = 0"
proof (induction n rule: itoa_nat.induct)
  case (1 n)
  show ?case
  proof (cases "n < 10")
    case True
    with "1.prems" have "digit_char n = digit_char 0"
      by (subst (asm) itoa_nat.simps) (simp add: digit_char_0)
    with True show ?thesis by (metis digit_val_digit_char option.inject zero_less_numeral)
  next
    case False
    with "1.prems" have "hd (itoa_nat (n div 10)) = CHR ''0''"
      by (subst (asm) itoa_nat.simps) simp
    with "1.IH" False show ?thesis by simp
  qed
qed

lemma scan_integer_itoa:
  assumes "number_stops r"
  shows "scan_integer (itoa_nat n @ r) = Some (itoa_nat n, r)"
proof -
  obtain c s where n: "itoa_nat n = c # s" by (cases "itoa_nat n") simp_all
  show ?thesis
  proof (cases "c = CHR ''0''")
    case True
    with n have "n = 0" using hd_itoa_nat_zero [of n] by simp
    then show ?thesis by (subst itoa_nat.simps, subst (2) itoa_nat.simps) (simp add: scan_integer_def digit_char_0)
  next
    case False
    have digits: "\<forall>d \<in> set (itoa_nat n). is_digit d" using itoa_nat_is_digit by blast
    have "takeWhile is_digit r = []" "dropWhile is_digit r = r" using assms by (cases r; simp)+
    with digits have "scan_digits (itoa_nat n @ r) = Some (itoa_nat n, r)"
      by (simp add: scan_digits_def Let_def takeWhile_append dropWhile_append)
    with False n show ?thesis by (simp add: scan_integer_def)
  qed
qed

lemma scan_number_itoa:
  assumes "number_stops r"
  shows "scan_number (itoa i @ r) = Some (itoa i, r)"
proof -
  have "scan_fraction r = Some ([], r)" "scan_exponent r = Some ([], r)"
    using assms by (cases r; simp add: scan_fraction_def scan_exponent_def)+
  moreover have "hd (itoa_nat n @ r) \<noteq> CHR ''-''" for n using hd_itoa_nat [of n] by simp
  ultimately show ?thesis
    using assms by (simp add: scan_number_def itoa_def scan_integer_itoa Let_def)
qed

text \<open>Values whose numbers are integers, as the program prints them.\<close>

fun integers :: "json \<Rightarrow> bool" where
  "integers (JNum n) \<longleftrightarrow> (\<exists>i. n = itoa i)"
| "integers (JArr js) \<longleftrightarrow> (\<forall>j \<in> set js. integers j)"
| "integers (JObj ms) \<longleftrightarrow> (\<forall>m \<in> set ms. integers (snd m))"
| "integers _ \<longleftrightarrow> True"

lemma json_space_char: "json_space c \<Longrightarrow> c \<notin> {CHR '','', CHR '']'', CHR ''}'', CHR '':'', CHR ''['', CHR ''{'', quote_char}"
  by (auto simp: json_space_def)

lemma skip_space_Cons [simp]: "\<not> json_space c \<Longrightarrow> skip_space (c # s) = c # s"
  by (simp add: skip_space_def)

lemma skip_space_Nil [simp]: "skip_space [] = []"
  by (simp add: skip_space_def)

lemma skip_space_length: "length (skip_space s) \<le> length s"
  by (simp add: skip_space_def length_dropWhile_le)

lemma not_json_space [simp]:
  "\<not> json_space CHR '',''" "\<not> json_space CHR '']''" "\<not> json_space CHR ''}''" "\<not> json_space CHR '':''"
  "\<not> json_space CHR ''[''" "\<not> json_space CHR ''{''" "\<not> json_space quote_char"
  by (simp_all add: json_space_def)

lemma not_digit [simp]:
  "\<not> is_digit CHR '',''" "\<not> is_digit CHR '']''" "\<not> is_digit CHR ''}''"
  by (simp_all add: is_digit_def digit_val_def)

lemma scan_key_print [simp]: "scan_key (print_str k @ CHR '':'' # r) = Some (coerce k, r)"
  by (simp add: scan_key_def print_str_def scan_print_str)

text \<open>The first character of a printed value decides how it is parsed.\<close>

lemma itoa_start: "\<exists>c s. itoa i = c # s \<and> (is_digit c \<or> c = CHR ''-'')"
proof (cases "i < 0")
  case True
  then show ?thesis by (simp add: itoa_def)
next
  case False
  obtain c s where "itoa_nat (nat i) = c # s" by (cases "itoa_nat (nat i)") simp_all
  with False itoa_nat_is_digit [of c "nat i"] show ?thesis by (simp add: itoa_def)
qed

lemma digit_start:
  assumes "is_digit c \<or> c = CHR ''-''"
  shows "\<not> json_space c \<and> c \<notin> {quote_char, CHR ''['', CHR ''{'', CHR '']'', CHR ''}'', CHR ''n'', CHR ''t'', CHR ''f''}"
  using assms by (auto simp: is_digit_def digit_val_def json_space_def split: if_splits)

lemma scan_literal_itoa:
  assumes "number_stops r"
  shows "scan_literal (itoa i @ r) = Some (JNum (itoa i), r)"
proof -
  obtain c s where c: "itoa i = c # s" "is_digit c \<or> c = CHR ''-''" using itoa_start by blast
  from digit_start [OF c(2)] have "c \<noteq> CHR ''n''" "c \<noteq> CHR ''t''" "c \<noteq> CHR ''f''" by simp_all
  moreover have "scan_number (c # s @ r) = Some (c # s, r)" using scan_number_itoa [OF assms, of i] c(1) by simp
  ultimately show ?thesis by (simp add: scan_literal_def has_prefix_def c(1))
qed

lemma print_json_start:
  assumes "integers j"
  shows "\<exists>c s. print_json j = c # s \<and> \<not> json_space c \<and> c \<notin> {CHR '']'', CHR ''}'', CHR '',''}"
proof (cases j)
  case (JNum n)
  with assms obtain i where i: "n = itoa i" by auto
  obtain c s where c: "itoa i = c # s" "is_digit c \<or> c = CHR ''-''" using itoa_start by blast
  have "c \<noteq> CHR '',''" using c(2) by auto
  with JNum i c(1) digit_start [OF c(2)] show ?thesis by auto
next
  case (JArr js)
  then show ?thesis by (cases js) auto
next
  case (JObj ms)
  then show ?thesis by (cases ms) auto
qed (auto simp: print_str_def json_space_def)

lemma stops_elems [simp]: "number_stops (print_elems js @ r)"
  by (cases js) simp_all

lemma stops_members [simp]: "number_stops (print_members ms @ r)"
  by (cases ms) auto

lemma parse_print:
  "integers j \<Longrightarrow> number_stops r \<Longrightarrow> length (print_json j) \<le> n \<Longrightarrow> parse_val n (print_json j @ r) = Some (coerce_json j, r)"
  "(\<forall>j \<in> set js. integers j) \<Longrightarrow> length (print_elems js) \<le> n \<Longrightarrow> parse_elems n (print_elems js @ r) = Some (map coerce_json js, r)"
  "(\<forall>m \<in> set ms. integers (snd m)) \<Longrightarrow> length (print_members ms) \<le> n \<Longrightarrow>
     parse_members n (print_members ms @ r) = Some (map (\<lambda>m. (coerce (fst m), coerce_json (snd m))) ms, r)"
proof (induction j and js and ms arbitrary: n r and n r and n r rule: print_json_print_elems_print_members.induct)
  case 1
  then obtain m where "n = Suc m" by (cases n) simp_all
  then show ?case by (simp add: scan_literal_def has_prefix_def json_space_def)
next
  case (2 b)
  then obtain m where "n = Suc m" by (cases n) (simp_all split: if_splits)
  then show ?case by (simp add: scan_literal_def has_prefix_def json_space_def)
next
  case (3 i)
  then obtain i' where i: "i = itoa i'" by auto
  obtain c s where c: "itoa i' = c # s" "is_digit c \<or> c = CHR ''-''" using itoa_start by blast
  with 3 i obtain m where "n = Suc m" by (cases n) simp_all
  with 3 i c digit_start [of c] scan_literal_itoa [of r i'] show ?case by simp
next
  case (4 s)
  then obtain m where "n = Suc m" by (cases n) (simp_all add: print_str_def)
  then show ?case by (simp add: print_str_def scan_print_str)
next
  case 5
  then obtain m where "n = Suc m" by (cases n) simp_all
  then show ?case by simp
next
  case (6 j js)
  then obtain m where m: "n = Suc m" by (cases n) simp_all
  obtain c s where "print_json j = c # s" "\<not> json_space c" "c \<noteq> CHR '']''"
    using print_json_start [of j] 6 by auto
  with 6 m show ?case by simp
next
  case 7
  then obtain m where "n = Suc m" by (cases n) simp_all
  then show ?case by simp
next
  case (8 k j ms)
  then obtain m where m: "n = Suc m" by (cases n) simp_all
  have "\<exists>s. print_str k = quote_char # s" by (simp add: print_str_def)
  then obtain s where k: "print_str k = quote_char # s" ..
  have key: "scan_key (quote_char # s @ CHR '':'' # r') = Some (coerce k, r')" for r'
    using scan_key_print [of k r'] k by simp
  from 8 m key show ?case by (simp add: k)
next
  case 9
  then obtain m where "n = Suc m" by (cases n) simp_all
  then show ?case by simp
next
  case (10 j js)
  then obtain m where "n = Suc m" by (cases n) simp_all
  with 10 show ?case by simp
next
  case 11
  then obtain m where "n = Suc m" by (cases n) simp_all
  then show ?case by simp
next
  case (12 k j ms)
  then obtain m where "n = Suc m" by (cases n) simp_all
  with 12 show ?case by simp
qed

lemma parse_print_json:
  assumes "integers j" and "\<forall>c \<in> set r. json_space c"
  shows "parse_json (print_json j @ r) = Some (coerce_json j)"
proof -
  have "number_stops r" using assms(2) by (cases r) (auto simp: is_digit_def digit_val_def json_space_def)
  moreover have "skip_space r = []" using assms(2) by (simp add: skip_space_def)
  ultimately show ?thesis
    using parse_print(1) [OF assms(1), of r "Suc (length (print_json j @ r))"] by (simp add: parse_json_def)
qed

section \<open>The bound on the calls suffices\<close>

lemma scan_digits_length: "scan_digits s = Some (x, r) \<Longrightarrow> length r < length s"
  by (cases s) (auto simp: scan_digits_def Let_def length_dropWhile_le less_Suc_eq_le split: if_splits)

lemma scan_number_length:
  assumes "scan_number s = Some (x, r)"
  shows "length r < length s"
proof -
  have i: "length r' < length t" if "scan_integer t = Some (y, r')" for t y r'
    using that by (auto simp: scan_integer_def dest: scan_digits_length split: list.splits if_splits)
  have f: "length r' \<le> length t" if "scan_fraction t = Some (y, r')" for t y r'
    using that by (auto simp: scan_fraction_def dest: scan_digits_length split: list.splits if_splits)
  have e: "length r' \<le> length t" if "scan_exponent t = Some (y, r')" for t y r'
    using that by (auto simp: scan_exponent_def Let_def dest!: scan_digits_length split: list.splits if_splits)
  let ?sign = "if s \<noteq> [] \<and> hd s = CHR ''-'' then [hd s] else []"
  from assms obtain i r1 f r2 x' where "scan_integer (drop (length ?sign) s) = Some (i, r1)"
      "scan_fraction r1 = Some (f, r2)" "scan_exponent r2 = Some (x', r)"
    by (auto simp: scan_number_def Let_def split: option.splits)
  from i [OF this(1)] f [OF this(2)] e [OF this(3)] show ?thesis by simp
qed

lemma scan_literal_length: "scan_literal s = Some (j, r) \<Longrightarrow> length r < length s"
  by (auto simp: scan_literal_def has_prefix_iff dest: scan_number_length split: if_splits)

lemma scan_key_length:
  assumes "scan_key s = Some (k, r)"
  shows "length r < length s"
proof -
  from assms obtain t r1 where "skip_space s = quote_char # t" "scan_str t = Some (k, r1)"
      "skip_space r1 = CHR '':'' # r"
    by (auto simp: scan_key_def split: list.splits if_splits option.splits)
  with skip_space_length [of s] skip_space_length [of r1] scan_str_length [of t k r1] show ?thesis by simp
qed

lemma skip_space_Cons_length: "skip_space s = c # r \<Longrightarrow> length r < length s"
  using skip_space_length [of s] by simp

lemmas scan_lengths = skip_space_Cons_length scan_str_length scan_literal_length scan_key_length

lemma parse_length:
  "parse_val n s = Some (j, r) \<Longrightarrow> length r < length s"
  "parse_elems n s = Some (js, r) \<Longrightarrow> length r < length s"
  "parse_members n s = Some (ms, r) \<Longrightarrow> length r < length s"
proof (induction n arbitrary: s j js ms r)
  case 0
  { case 1 then show ?case by simp next case 2 then show ?case by simp next case 3 then show ?case by simp }
next
  case (Suc n)
  {
    case 1
    then obtain c t where t: "skip_space s = c # t" by (auto split: list.splits)
    from 1 t show ?case
      by (auto dest!: scan_lengths Suc.IH split: if_splits list.splits option.splits)
  next
    case 2
    then show ?case by (auto dest!: scan_lengths Suc.IH split: if_splits list.splits option.splits)
  next
    case 3
    then show ?case by (auto dest!: scan_lengths Suc.IH split: if_splits list.splits option.splits)
  }
qed

lemma parse_bound:
  "length s < n \<Longrightarrow> length s < m \<Longrightarrow> parse_val n s = parse_val m s"
  "length s < n \<Longrightarrow> length s < m \<Longrightarrow> parse_elems n s = parse_elems m s"
  "length s < n \<Longrightarrow> length s < m \<Longrightarrow> parse_members n s = parse_members m s"
proof (induction n arbitrary: m s)
  case 0
  { case 1 then show ?case by simp next case 2 then show ?case by simp next case 3 then show ?case by simp }
next
  case (Suc n)
  {
    case 1
    then obtain m' where m: "m = Suc m'" by (cases m) simp_all
    show ?case
    proof (cases "skip_space s")
      case (Cons c t)
      then have t: "length t < n" "length t < m'" using skip_space_Cons_length [OF Cons] 1 m by simp_all
      have v: "parse_val n t = parse_val m' t" using t by (rule Suc.IH)
      have e: "parse_elems n u = parse_elems m' u" if "parse_val m' t = Some (j, u)" for j u
        using parse_length(1) [OF that] t by (intro Suc.IH) simp_all
      have k: "parse_val n u = parse_val m' u" if "scan_key t = Some (k, u)" for k u
        using scan_key_length [OF that] t by (intro Suc.IH) simp_all
      have ms: "parse_members n u' = parse_members m' u'"
        if "scan_key t = Some (k, u)" "parse_val m' u = Some (j, u')" for k u j u'
        using scan_key_length [OF that(1)] parse_length(1) [OF that(2)] t by (intro Suc.IH) simp_all
      show ?thesis using v e k ms by (simp add: Cons m split: list.split option.split)
    qed (simp add: m)
  next
    case 2
    then obtain m' where m: "m = Suc m'" by (cases m) simp_all
    show ?case
    proof (cases "skip_space s")
      case (Cons c t)
      then have t: "length t < n" "length t < m'" using skip_space_Cons_length [OF Cons] 2 m by simp_all
      have v: "parse_val n t = parse_val m' t" using t by (rule Suc.IH)
      have e: "parse_elems n u = parse_elems m' u" if "parse_val m' t = Some (j, u)" for j u
        using parse_length(1) [OF that] t by (intro Suc.IH) simp_all
      show ?thesis using v e by (simp add: Cons m split: option.split)
    qed (simp add: m)
  next
    case 3
    then obtain m' where m: "m = Suc m'" by (cases m) simp_all
    show ?case
    proof (cases "skip_space s")
      case (Cons c t)
      then have t: "length t < n" "length t < m'" using skip_space_Cons_length [OF Cons] 3 m by simp_all
      have k: "parse_val n u = parse_val m' u" if "scan_key t = Some (k, u)" for k u
        using scan_key_length [OF that] t by (intro Suc.IH) simp_all
      have ms: "parse_members n u' = parse_members m' u'"
        if "scan_key t = Some (k, u)" "parse_val m' u = Some (j, u')" for k u j u'
        using scan_key_length [OF that(1)] parse_length(1) [OF that(2)] t by (intro Suc.IH) simp_all
      show ?thesis using k ms by (simp add: Cons m split: option.split)
    qed (simp add: m)
  }
qed

lemma parse_json_bound: "length s < n \<Longrightarrow>
  parse_json s = (case parse_val n s of Some (j, r) \<Rightarrow> if skip_space r = [] then Some j else None | None \<Rightarrow> None)"
  unfolding parse_json_def using parse_bound(1) [of s "Suc (length s)" n] by simp

end
