(* ===== verification/Openapi_Models.thy ===== *)
theory Openapi_Models
  imports Go_Json Api_Types "HOL-Library.List_Lexorder" "HOL-Library.Char_ord"
begin

text \<open>
  The models of \<^verbatim>\<open>pkg/api/openapi\<close>, which the handlers decode a body into and write as
  a response: their fields, their form in JSON (\<^verbatim>\<open>ToMap\<close>, \<^verbatim>\<open>MarshalJSON\<close>) and
  their reading of it (\<^verbatim>\<open>UnmarshalJSON\<close>, or the reading of a struct by
  \<^verbatim>\<open>encoding/json\<close> where a model has none). The texts of the library's errors, the range of
  a float and the form of a time are the record \<open>json_lib\<close>.
\<close>

record json_lib =
  jlText :: "string \<Rightarrow> string \<Rightarrow> string" \<comment> \<open>the text of an error, by the type and the bytes read\<close>
  jlNumber :: "string \<Rightarrow> bool" \<comment> \<open>a literal is in the range of a float64\<close>
  jlTime :: "string \<Rightarrow> time option"
  jlTimeText :: "time \<Rightarrow> string option" \<comment> \<open>RFC 3339, for the years 0 to 9999\<close>

datatype json_error = SyntaxError | TypeError | TimeError | UnknownField string | RequiredProperty string

definition json_error_text :: "json_lib \<Rightarrow> string \<Rightarrow> string \<Rightarrow> json_error \<Rightarrow> string" where
  "json_error_text L ty bytes e =
     (case e of
        RequiredProperty p \<Rightarrow> sprintf ''no value given for required property %v'' [FStr p]
      | _ \<Rightarrow> jlText L ty bytes)"

section \<open>Reading a struct\<close>

text \<open>
  Reading a value into a field of \<open>'r\<close>: an error that ends the reading, or the new value with the
  error that is kept while the reading goes on. A null leaves a string or a number as it is.
\<close>

type_synonym 'r json_field = "json \<Rightarrow> 'r \<Rightarrow> json_error + json_error option \<times> 'r"

definition read_string :: "(string \<Rightarrow> 'r \<Rightarrow> 'r) \<Rightarrow> 'r json_field" where
  "read_string upd j r =
     (case j of JStr s \<Rightarrow> Inr (None, upd s r) | JNull \<Rightarrow> Inr (None, r) | _ \<Rightarrow> Inr (Some TypeError, r))"

definition read_string_ptr :: "(string option \<Rightarrow> 'r \<Rightarrow> 'r) \<Rightarrow> 'r json_field" where
  "read_string_ptr upd j r =
     (case j of
        JStr s \<Rightarrow> Inr (None, upd (Some s) r)
      | JNull \<Rightarrow> Inr (None, upd None r)
      | _ \<Rightarrow> Inr (Some TypeError, upd (Some []) r))"

definition read_time_ptr :: "json_lib \<Rightarrow> (time option \<Rightarrow> 'r \<Rightarrow> 'r) \<Rightarrow> 'r json_field" where
  "read_time_ptr L upd j r =
     (case j of
        JStr s \<Rightarrow> (case jlTime L s of None \<Rightarrow> Inl TimeError | Some t \<Rightarrow> Inr (None, upd (Some t) r))
      | JNull \<Rightarrow> Inr (None, upd None r)
      | _ \<Rightarrow> Inl TimeError)"

definition read_int32 :: "(int \<Rightarrow> 'r \<Rightarrow> 'r) \<Rightarrow> 'r json_field" where
  "read_int32 upd j r =
     (case j of
        JNum n \<Rightarrow>
          (case parse_int n of
             (i, ok) \<Rightarrow> if ok \<and> wrap32 i = i then Inr (None, upd i r) else Inr (Some TypeError, r))
      | JNull \<Rightarrow> Inr (None, r)
      | _ \<Rightarrow> Inr (Some TypeError, r))"

text \<open>A slice of structs that read themselves.\<close>

fun read_all :: "(json \<Rightarrow> json_error + 'a) \<Rightarrow> json list \<Rightarrow> json_error + 'a list" where
  "read_all f [] = Inr []"
| "read_all f (j # js) =
     (case f j of
        Inl e \<Rightarrow> Inl e
      | Inr a \<Rightarrow> (case read_all f js of Inl e \<Rightarrow> Inl e | Inr l \<Rightarrow> Inr (a # l)))"

definition read_slice :: "(json \<Rightarrow> json_error + 'a) \<Rightarrow> ('a list \<Rightarrow> 'r \<Rightarrow> 'r) \<Rightarrow> 'r json_field" where
  "read_slice f upd j r =
     (case j of
        JArr js \<Rightarrow> (case read_all f js of Inl e \<Rightarrow> Inl e | Inr l \<Rightarrow> Inr (None, upd l r))
      | JNull \<Rightarrow> Inr (None, upd [] r)
      | _ \<Rightarrow> Inr (Some TypeError, r))"

text \<open>The field of a key: the one of that name, or one whose name differs in case only.\<close>

definition field_of :: "(string \<times> 'f) list \<Rightarrow> string \<Rightarrow> 'f option" where
  "field_of fs k =
     (case map_of fs k of
        Some f \<Rightarrow> Some f
      | None \<Rightarrow> map_option snd (find (\<lambda>f. equal_fold k (fst f)) fs))"

definition keep_error :: "json_error option \<Rightarrow> json_error option \<Rightarrow> json_error option" where
  "keep_error e e' = (case e of None \<Rightarrow> e' | Some _ \<Rightarrow> e)"

fun read_members ::
    "bool \<Rightarrow> (string \<times> 'r json_field) list \<Rightarrow> (string \<times> json) list \<Rightarrow> json_error option \<Rightarrow> 'r
     \<Rightarrow> json_error + json_error option \<times> 'r" where
  "read_members strict fs [] err r = Inr (err, r)"
| "read_members strict fs ((k, j) # ms) err r =
     (case field_of fs k of
        None \<Rightarrow> read_members strict fs ms (keep_error err (if strict then Some (UnknownField k) else None)) r
      | Some f \<Rightarrow>
          (case f j r of
             Inl e \<Rightarrow> Inl e
           | Inr (err', r') \<Rightarrow> read_members strict fs ms (keep_error err err') r'))"

text \<open>The decoder, strict after \<^verbatim>\<open>DisallowUnknownFields\<close>.\<close>

definition read_struct :: "bool \<Rightarrow> (string \<times> 'r json_field) list \<Rightarrow> 'r \<Rightarrow> json \<Rightarrow> json_error + 'r" where
  "read_struct strict fs zero j =
     (case j of
        JObj ms \<Rightarrow>
          (case read_members strict fs ms None zero of
             Inl e \<Rightarrow> Inl e
           | Inr (Some e, r) \<Rightarrow> Inl e
           | Inr (None, r) \<Rightarrow> Inr r)
      | JNull \<Rightarrow> Inr zero
      | _ \<Rightarrow> Inl TypeError)"

text \<open>The keys of a value read into \<^verbatim>\<open>map[string]interface{}\<close>.\<close>

fun float_range :: "json_lib \<Rightarrow> json \<Rightarrow> bool" where
  "float_range L (JNum n) \<longleftrightarrow> jlNumber L n"
| "float_range L (JArr js) \<longleftrightarrow> (\<forall>j \<in> set js. float_range L j)"
| "float_range L (JObj ms) \<longleftrightarrow> (\<forall>m \<in> set ms. float_range L (snd m))"
| "float_range L _ \<longleftrightarrow> True"

definition all_properties :: "json_lib \<Rightarrow> json \<Rightarrow> json_error + string list" where
  "all_properties L j =
     (case j of
        JObj ms \<Rightarrow> if float_range L j then Inr (map fst ms) else Inl TypeError
      | JNull \<Rightarrow> Inr []
      | _ \<Rightarrow> Inl TypeError)"

text \<open>The generated \<^verbatim>\<open>UnmarshalJSON\<close>, which all models with required properties share.\<close>

definition read_required ::
    "json_lib \<Rightarrow> string list \<Rightarrow> (string \<times> 'r json_field) list \<Rightarrow> 'r \<Rightarrow> json \<Rightarrow> json_error + 'r" where
  "read_required L requiredProperties fs zero j =
     (case all_properties L j of
        Inl err \<Rightarrow> Inl err
      | Inr allProperties \<Rightarrow>
          (case find (\<lambda>p. p \<notin> set allProperties) requiredProperties of
             Some p \<Rightarrow> Inl (RequiredProperty p)
           | None \<Rightarrow> read_struct True fs zero j))"

section \<open>Writing a map\<close>

text \<open>
  The entries of the map that \<^verbatim>\<open>ToMap\<close> returns, each with what \<^verbatim>\<open>json.Marshal\<close>
  makes of its value; the keys of a map are printed in order.
\<close>

type_synonym json_map = "(string \<times> (json_error + json)) list"

definition set_entries :: "(string \<times> (json_error + json) option) list \<Rightarrow> json_map" where
  "set_entries es = map (\<lambda>e. (fst e, the (snd e))) (filter (\<lambda>e. snd e \<noteq> None) es)"

fun entries :: "json_map \<Rightarrow> json_error + (string \<times> json) list" where
  "entries [] = Inr []"
| "entries ((k, v) # es) =
     (case v of
        Inl e \<Rightarrow> Inl e
      | Inr j \<Rightarrow> (case entries es of Inl e \<Rightarrow> Inl e | Inr ms \<Rightarrow> Inr ((k, j) # ms)))"

definition marshal_map :: "json_map \<Rightarrow> json_error + json" where
  "marshal_map m = (case entries (sort_key fst m) of Inl e \<Rightarrow> Inl e | Inr ms \<Rightarrow> Inr (JObj ms))"

definition string_json :: "string \<Rightarrow> json_error + json" where
  "string_json s = Inr (JStr s)"

definition int_json :: "int \<Rightarrow> json_error + json" where
  "int_json i = Inr (JNum (itoa i))"

definition time_json :: "json_lib \<Rightarrow> time \<Rightarrow> json_error + json" where
  "time_json L t = (case jlTimeText L t of None \<Rightarrow> Inl TimeError | Some s \<Rightarrow> Inr (JStr s))"

fun write_all :: "('a \<Rightarrow> json_error + json) \<Rightarrow> 'a list \<Rightarrow> json_error + json list" where
  "write_all f [] = Inr []"
| "write_all f (a # l) =
     (case f a of
        Inl e \<Rightarrow> Inl e
      | Inr j \<Rightarrow> (case write_all f l of Inl e \<Rightarrow> Inl e | Inr js \<Rightarrow> Inr (j # js)))"

definition slice_json :: "('a \<Rightarrow> json_error + json) \<Rightarrow> 'a list \<Rightarrow> json_error + json" where
  "slice_json f l = (case write_all f l of Inl e \<Rightarrow> Inl e | Inr js \<Rightarrow> Inr (JArr js))"

text \<open>The text of a value, as a body.\<close>

definition marshal_text :: "json_error + json \<Rightarrow> json_error + string" where
  "marshal_text v = (case v of Inl e \<Rightarrow> Inl e | Inr j \<Rightarrow> Inr (print_json j))"

section \<open>model\_dinosaur.go\<close>

record api_dinosaur =
  adId :: "string option"
  adKind :: "string option"
  adHref :: "string option"
  adCreatedAt :: "time option"
  adUpdatedAt :: "time option"
  adSpecies :: string

definition NewDinosaurWithDefaults :: api_dinosaur where
  "NewDinosaurWithDefaults =
     \<lparr>adId = None, adKind = None, adHref = None, adCreatedAt = None, adUpdatedAt = None, adSpecies = []\<rparr>"

definition NewDinosaur :: "string \<Rightarrow> api_dinosaur" where
  "NewDinosaur species = NewDinosaurWithDefaults\<lparr>adSpecies := species\<rparr>"

definition Dinosaur_ToMap :: "json_lib \<Rightarrow> api_dinosaur \<Rightarrow> json_map" where
  "Dinosaur_ToMap L d =
     set_entries
       [(''id'', map_option string_json (adId d)),
        (''kind'', map_option string_json (adKind d)),
        (''href'', map_option string_json (adHref d)),
        (''created_at'', map_option (time_json L) (adCreatedAt d)),
        (''updated_at'', map_option (time_json L) (adUpdatedAt d)),
        (''species'', Some (string_json (adSpecies d)))]"

definition Dinosaur_MarshalJSON :: "json_lib \<Rightarrow> api_dinosaur \<Rightarrow> json_error + json" where
  "Dinosaur_MarshalJSON L d = marshal_map (Dinosaur_ToMap L d)"

definition dinosaur_fields :: "json_lib \<Rightarrow> (string \<times> api_dinosaur json_field) list" where
  "dinosaur_fields L =
     [(''id'', read_string_ptr (\<lambda>v d. d\<lparr>adId := v\<rparr>)),
      (''kind'', read_string_ptr (\<lambda>v d. d\<lparr>adKind := v\<rparr>)),
      (''href'', read_string_ptr (\<lambda>v d. d\<lparr>adHref := v\<rparr>)),
      (''created_at'', read_time_ptr L (\<lambda>v d. d\<lparr>adCreatedAt := v\<rparr>)),
      (''updated_at'', read_time_ptr L (\<lambda>v d. d\<lparr>adUpdatedAt := v\<rparr>)),
      (''species'', read_string (\<lambda>v d. d\<lparr>adSpecies := v\<rparr>))]"

definition Dinosaur_UnmarshalJSON :: "json_lib \<Rightarrow> json \<Rightarrow> json_error + api_dinosaur" where
  "Dinosaur_UnmarshalJSON L j = read_required L [''species''] (dinosaur_fields L) NewDinosaurWithDefaults j"

section \<open>model\_dinosaur\_patch\_request.go\<close>

record dinosaur_patch =
  dpSpecies :: "string option"

definition NewDinosaurPatchRequest :: dinosaur_patch where
  "NewDinosaurPatchRequest = \<lparr>dpSpecies = None\<rparr>"

definition DinosaurPatchRequest_ToMap :: "dinosaur_patch \<Rightarrow> json_map" where
  "DinosaurPatchRequest_ToMap p = set_entries [(''species'', map_option string_json (dpSpecies p))]"

definition DinosaurPatchRequest_MarshalJSON :: "dinosaur_patch \<Rightarrow> json_error + json" where
  "DinosaurPatchRequest_MarshalJSON p = marshal_map (DinosaurPatchRequest_ToMap p)"

definition patch_fields :: "(string \<times> dinosaur_patch json_field) list" where
  "patch_fields = [(''species'', read_string_ptr (\<lambda>v p. p\<lparr>dpSpecies := v\<rparr>))]"

section \<open>model\_list.go and model\_dinosaur\_list.go\<close>

record api_list =
  alKind :: string
  alPage :: int
  alSize :: int
  alTotal :: int

record api_dinosaur_list = api_list +
  alItems :: "api_dinosaur list"

definition NewList :: "string \<Rightarrow> int \<Rightarrow> int \<Rightarrow> int \<Rightarrow> api_list" where
  "NewList kind page sz n = \<lparr>alKind = kind, alPage = page, alSize = sz, alTotal = n\<rparr>"

definition List_ToMap :: "api_list \<Rightarrow> json_map" where
  "List_ToMap l =
     set_entries
       [(''kind'', Some (string_json (alKind l))), (''page'', Some (int_json (alPage l))),
        (''size'', Some (int_json (alSize l))), (''total'', Some (int_json (alTotal l)))]"

definition List_MarshalJSON :: "api_list \<Rightarrow> json_error + json" where
  "List_MarshalJSON l = marshal_map (List_ToMap l)"

definition list_fields :: "(string \<times> 'z api_list_scheme json_field) list" where
  "list_fields =
     [(''kind'', read_string (\<lambda>v l. l\<lparr>alKind := v\<rparr>)), (''page'', read_int32 (\<lambda>v l. l\<lparr>alPage := v\<rparr>)),
      (''size'', read_int32 (\<lambda>v l. l\<lparr>alSize := v\<rparr>)), (''total'', read_int32 (\<lambda>v l. l\<lparr>alTotal := v\<rparr>))]"

definition List_UnmarshalJSON :: "json_lib \<Rightarrow> json \<Rightarrow> json_error + api_list" where
  "List_UnmarshalJSON L j =
     read_required L [''kind'', ''page'', ''size'', ''total''] list_fields (NewList [] 0 0 0) j"

definition NewDinosaurList :: "string \<Rightarrow> int \<Rightarrow> int \<Rightarrow> int \<Rightarrow> api_dinosaur list \<Rightarrow> api_dinosaur_list" where
  "NewDinosaurList kind page sz n items =
     \<lparr>alKind = kind, alPage = page, alSize = sz, alTotal = n, alItems = items\<rparr>"

definition DinosaurList_ToMap :: "json_lib \<Rightarrow> api_dinosaur_list \<Rightarrow> json_map" where
  "DinosaurList_ToMap L l =
     set_entries
       [(''kind'', Some (string_json (alKind l))), (''page'', Some (int_json (alPage l))),
        (''size'', Some (int_json (alSize l))), (''total'', Some (int_json (alTotal l))),
        (''items'', Some (slice_json (Dinosaur_MarshalJSON L) (alItems l)))]"

definition DinosaurList_MarshalJSON :: "json_lib \<Rightarrow> api_dinosaur_list \<Rightarrow> json_error + json" where
  "DinosaurList_MarshalJSON L l = marshal_map (DinosaurList_ToMap L l)"

definition dinosaur_list_fields :: "json_lib \<Rightarrow> (string \<times> api_dinosaur_list json_field) list" where
  "dinosaur_list_fields L =
     list_fields @ [(''items'', read_slice (Dinosaur_UnmarshalJSON L) (\<lambda>v l. l\<lparr>alItems := v\<rparr>))]"

definition DinosaurList_UnmarshalJSON :: "json_lib \<Rightarrow> json \<Rightarrow> json_error + api_dinosaur_list" where
  "DinosaurList_UnmarshalJSON L j =
     read_required L [''kind'', ''page'', ''size'', ''total'', ''items''] (dinosaur_list_fields L)
       (NewDinosaurList [] 0 0 0 []) j"

section \<open>model\_error.go and model\_object\_reference.go\<close>

definition NewError :: openapi_error where
  "NewError =
     \<lparr>oe_Kind = None, oe_Id = None, oe_Href = None, oe_Code = None, oe_Reason = None, oe_OperationId = None,
      oe_CreatedAt = None, oe_UpdatedAt = None\<rparr>"

definition Error_ToMap :: "json_lib \<Rightarrow> openapi_error \<Rightarrow> json_map" where
  "Error_ToMap L e =
     set_entries
       [(''id'', map_option string_json (oe_Id e)),
        (''kind'', map_option string_json (oe_Kind e)),
        (''href'', map_option string_json (oe_Href e)),
        (''created_at'', map_option (time_json L) (oe_CreatedAt e)),
        (''updated_at'', map_option (time_json L) (oe_UpdatedAt e)),
        (''code'', map_option string_json (oe_Code e)),
        (''reason'', map_option string_json (oe_Reason e)),
        (''operation_id'', map_option string_json (oe_OperationId e))]"

definition Error_MarshalJSON :: "json_lib \<Rightarrow> openapi_error \<Rightarrow> json_error + json" where
  "Error_MarshalJSON L e = marshal_map (Error_ToMap L e)"

definition error_fields :: "json_lib \<Rightarrow> (string \<times> openapi_error json_field) list" where
  "error_fields L =
     [(''id'', read_string_ptr (\<lambda>v e. e\<lparr>oe_Id := v\<rparr>)),
      (''kind'', read_string_ptr (\<lambda>v e. e\<lparr>oe_Kind := v\<rparr>)),
      (''href'', read_string_ptr (\<lambda>v e. e\<lparr>oe_Href := v\<rparr>)),
      (''created_at'', read_time_ptr L (\<lambda>v e. e\<lparr>oe_CreatedAt := v\<rparr>)),
      (''updated_at'', read_time_ptr L (\<lambda>v e. e\<lparr>oe_UpdatedAt := v\<rparr>)),
      (''code'', read_string_ptr (\<lambda>v e. e\<lparr>oe_Code := v\<rparr>)),
      (''reason'', read_string_ptr (\<lambda>v e. e\<lparr>oe_Reason := v\<rparr>)),
      (''operation_id'', read_string_ptr (\<lambda>v e. e\<lparr>oe_OperationId := v\<rparr>))]"

definition ObjectReference_ToMap :: "json_lib \<Rightarrow> object_reference \<Rightarrow> json_map" where
  "ObjectReference_ToMap L r =
     set_entries
       [(''id'', map_option string_json (orId r)),
        (''kind'', map_option string_json (orKind r)),
        (''href'', map_option string_json (orHref r)),
        (''created_at'', map_option (time_json L) (orCreatedAt r)),
        (''updated_at'', map_option (time_json L) (orUpdatedAt r))]"

definition ObjectReference_MarshalJSON :: "json_lib \<Rightarrow> object_reference \<Rightarrow> json_error + json" where
  "ObjectReference_MarshalJSON L r = marshal_map (ObjectReference_ToMap L r)"

definition reference_fields :: "json_lib \<Rightarrow> (string \<times> object_reference json_field) list" where
  "reference_fields L =
     [(''id'', read_string_ptr (\<lambda>v r. r\<lparr>orId := v\<rparr>)),
      (''kind'', read_string_ptr (\<lambda>v r. r\<lparr>orKind := v\<rparr>)),
      (''href'', read_string_ptr (\<lambda>v r. r\<lparr>orHref := v\<rparr>)),
      (''created_at'', read_time_ptr L (\<lambda>v r. r\<lparr>orCreatedAt := v\<rparr>)),
      (''updated_at'', read_time_ptr L (\<lambda>v r. r\<lparr>orUpdatedAt := v\<rparr>))]"

section \<open>json.Unmarshal\<close>

text \<open>
  Reading a text into a pointer to a model, which the reader \<open>f\<close> fills; \<open>ty\<close> names the model.
  A null sets the pointer to nil and leaves the model as it is.
\<close>

definition unmarshal ::
    "json_lib \<Rightarrow> string \<Rightarrow> (json \<Rightarrow> json_error + 'r) \<Rightarrow> string \<Rightarrow> string + 'r option" where
  "unmarshal L ty f bytes =
     (case parse_json bytes of
        None \<Rightarrow> Inl (json_error_text L ty bytes SyntaxError)
      | Some JNull \<Rightarrow> Inr None
      | Some j \<Rightarrow>
          (case f j of Inl e \<Rightarrow> Inl (json_error_text L ty bytes e) | Inr r \<Rightarrow> Inr (Some r)))"

text \<open>What the handlers see in the variable of the body.\<close>

definition decode_dinosaur :: "json_lib \<Rightarrow> string \<Rightarrow> string + api_dinosaur" where
  "decode_dinosaur L bytes =
     (case unmarshal L ''Dinosaur'' (Dinosaur_UnmarshalJSON L) bytes of
        Inl e \<Rightarrow> Inl e
      | Inr v \<Rightarrow> Inr (case v of None \<Rightarrow> NewDinosaurWithDefaults | Some d \<Rightarrow> d))"

definition decode_patch :: "json_lib \<Rightarrow> string \<Rightarrow> string + dinosaur_patch" where
  "decode_patch L bytes =
     (case unmarshal L ''DinosaurPatchRequest'' (read_struct False patch_fields NewDinosaurPatchRequest) bytes of
        Inl e \<Rightarrow> Inl e
      | Inr v \<Rightarrow> Inr (case v of None \<Rightarrow> NewDinosaurPatchRequest | Some p \<Rightarrow> p))"

section \<open>Reading back what is written\<close>

text \<open>
  What is documented of the library: the form of a time is valid UTF-8 (it is ASCII) and read as that
  time, and the numbers of 32 bits are in the range of a float.
\<close>

definition json_law :: "json_lib \<Rightarrow> bool" where
  "json_law L \<longleftrightarrow>
     (\<forall>t s. jlTimeText L t = Some s \<longrightarrow> valid_utf8 s \<and> jlTime L s = Some t) \<and> (\<forall>i. wrap32 i = i \<longrightarrow> jlNumber L (itoa i))"

lemma insort_key_map: "insort_key f (g x) (map g xs) = map g (insort_key (\<lambda>y. f (g y)) x xs)"
  by (induction xs) auto

lemma sort_key_map: "sort_key f (map g xs) = map g (sort_key (\<lambda>y. f (g y)) xs)"
  by (induction xs) (simp_all add: insort_key_map)

lemma sort_set_entries: "sort_key fst (set_entries es) = set_entries (sort_key fst es)"
  by (simp add: set_entries_def sort_key_map filter_sort)

text \<open>Reading the entries that were set leads from \<open>r\<close> to \<open>r'\<close>.\<close>

definition reads ::
    "(string \<times> 'r json_field) list \<Rightarrow> (string \<times> (json_error + json) option) list \<Rightarrow> 'r \<Rightarrow> 'r \<Rightarrow> bool" where
  "reads fs es r r' \<longleftrightarrow>
     (\<forall>ms strict err. entries (set_entries es) = Inr ms \<longrightarrow> read_members strict fs ms err r = Inr (err, r'))"

lemma readsD: "reads fs es r r' \<Longrightarrow> entries (set_entries es) = Inr ms \<Longrightarrow> read_members strict fs ms err r = Inr (err, r')"
  by (simp add: reads_def)

lemma field_found: "map_of fs k = Some f \<Longrightarrow> field_of fs k = Some f"
  by (simp add: field_of_def)

lemma map_of_here: "map_of ((k, f) # fs) k = Some f"
  by simp

lemma map_of_there: "k \<noteq> k' \<Longrightarrow> map_of fs k = Some f \<Longrightarrow> map_of ((k', f') # fs) k = Some f"
  by simp

lemma reads_Nil: "r = r' \<Longrightarrow> reads fs [] r r'"
  by (simp add: reads_def set_entries_def)

lemma reads_Some:
  assumes "field_of fs k = Some f" and "\<And>j. v = Inr j \<Longrightarrow> f j r = Inr (None, r1)" and "reads fs es r1 r'"
  shows "reads fs ((k, Some v) # es) r r'"
  using assms by (auto simp: reads_def set_entries_def keep_error_def split: sum.splits option.splits)

lemma reads_None: "reads fs es r r' \<Longrightarrow> reads fs ((k, None) # es) r r'"
  by (simp add: reads_def set_entries_def)

lemma reads_string_ptr:
  assumes "field_of fs k = Some (read_string_ptr upd)" and "upd None r = r" and "reads fs es (upd v r) r'"
  shows "reads fs ((k, map_option string_json v) # es) r r'"
proof (cases v)
  case None
  with assms show ?thesis by (simp add: reads_None)
next
  case (Some s)
  have "read_string_ptr upd j r = Inr (None, upd v r)" if "string_json s = Inr j" for j
    using that Some by (auto simp: string_json_def read_string_ptr_def)
  from reads_Some [OF assms(1) this assms(3)] Some show ?thesis by simp
qed

lemma reads_time_ptr:
  assumes "json_law L" and "field_of fs k = Some (read_time_ptr L upd)" and "upd None r = r" and "reads fs es (upd v r) r'"
  shows "reads fs ((k, map_option (time_json L) v) # es) r r'"
proof (cases v)
  case None
  with assms show ?thesis by (simp add: reads_None)
next
  case (Some t)
  have "read_time_ptr L upd j r = Inr (None, upd v r)" if "time_json L t = Inr j" for j
    using that assms(1) Some by (auto simp: time_json_def read_time_ptr_def json_law_def split: option.splits)
  from reads_Some [OF assms(2) this assms(4)] Some show ?thesis by simp
qed

lemma reads_string:
  assumes "field_of fs k = Some (read_string upd)" and "reads fs es (upd v r) r'"
  shows "reads fs ((k, Some (string_json v)) # es) r r'"
proof -
  have "read_string upd j r = Inr (None, upd v r)" if "string_json v = Inr j" for j
    using that by (auto simp: string_json_def read_string_def)
  from reads_Some [OF assms(1) this assms(2)] show ?thesis .
qed

lemma reads_int32:
  assumes "wrap32 i = i" and "field_of fs k = Some (read_int32 upd)" and "reads fs es (upd i r) r'"
  shows "reads fs ((k, Some (int_json i)) # es) r r'"
proof -
  have "min_int64 \<le> i" "i \<le> max_int64"
    using wrap32_range [of i] assms(1) by (simp_all add: min_int64_def max_int64_def)
  with assms(1) have "read_int32 upd j r = Inr (None, upd i r)" if "int_json i = Inr j" for j
    using that by (auto simp: int_json_def read_int32_def parse_int_itoa)
  from reads_Some [OF assms(2) this assms(3)] show ?thesis .
qed

lemma read_write_all:
  assumes "\<And>a j. a \<in> set l \<Longrightarrow> g a = Inr j \<Longrightarrow> f j = Inr a" and "write_all g l = Inr js"
  shows "read_all f js = Inr l"
proof -
  have "\<forall>a \<in> set l. \<forall>j. g a = Inr j \<longrightarrow> f j = Inr a" using assms(1) by blast
  with assms(2) show ?thesis by (induction l arbitrary: js) (auto split: sum.splits)
qed

lemma reads_slice:
  assumes "\<And>a j. a \<in> set l \<Longrightarrow> g a = Inr j \<Longrightarrow> f j = Inr a" and "field_of fs k = Some (read_slice f upd)"
    and "reads fs es (upd l r) r'"
  shows "reads fs ((k, Some (slice_json g l)) # es) r r'"
proof -
  have "read_slice f upd j r = Inr (None, upd l r)" if "slice_json g l = Inr j" for j
    using that read_write_all [of l g f] assms(1)
    by (auto simp: slice_json_def read_slice_def split: sum.splits)
  from reads_Some [OF assms(2) this assms(3)] show ?thesis by simp
qed

text \<open>The keys that are written, and that a map is written as an object.\<close>

lemma entries_keys: "entries m = Inr ms \<Longrightarrow> map fst ms = map fst m"
  by (induction m arbitrary: ms rule: entries.induct) (auto split: sum.splits)

lemma marshal_map_Inr:
  assumes "marshal_map (set_entries es) = Inr j"
  obtains ms where "j = JObj ms" "entries (set_entries (sort_key fst es)) = Inr ms"
    "set (map fst ms) = {k. \<exists>v. (k, Some v) \<in> set es}"
proof -
  from assms obtain ms where ms: "j = JObj ms" "entries (sort_key fst (set_entries es)) = Inr ms"
    by (auto simp: marshal_map_def split: sum.splits)
  then have "set (map fst ms) = fst ` set (set_entries es)" by (simp add: entries_keys)
  also have "\<dots> = {k. \<exists>v. (k, Some v) \<in> set es}" by (force simp: set_entries_def)
  finally show ?thesis using that ms by (simp add: sort_set_entries)
qed

text \<open>The numbers of what is written.\<close>

definition written :: "json_lib \<Rightarrow> json \<Rightarrow> bool" where
  "written L j \<longleftrightarrow> integers j \<and> float_range L j"

lemma entries_mem: "entries m = Inr ms \<Longrightarrow> (k, j) \<in> set ms \<Longrightarrow> (k, Inr j) \<in> set m"
proof (induction m arbitrary: ms)
  case (Cons e es)
  obtain k' v where e: "e = (k', v)" by fastforce
  with Cons.prems(1) obtain j' ms' where v: "v = Inr j'" "entries es = Inr ms'" "ms = (k', j') # ms'"
    by (auto split: sum.splits)
  with Cons.IH [OF v(2)] Cons.prems(2) e show ?case by auto
qed simp

lemma written_map:
  assumes "marshal_map (set_entries es) = Inr j" and "\<And>k v j. (k, Some v) \<in> set es \<Longrightarrow> v = Inr j \<Longrightarrow> written L j"
  shows "written L j"
proof -
  from assms(1) obtain ms where j: "j = JObj ms" and ms: "entries (set_entries (sort_key fst es)) = Inr ms"
    by (rule marshal_map_Inr)
  have "written L j'" if "(k, j') \<in> set ms" for k j'
  proof -
    have "(k, Inr j') \<in> set (set_entries (sort_key fst es))" using ms that by (rule entries_mem)
    then have "(k, Some (Inr j')) \<in> set es" by (auto simp: set_entries_def)
    then show ?thesis using assms(2) by blast
  qed
  then show ?thesis by (auto simp: j written_def)
qed

lemma written_leaves:
  "string_json s = Inr j \<Longrightarrow> written L j"
  "time_json L' t = Inr j \<Longrightarrow> written L j"
  "json_law L \<Longrightarrow> wrap32 i = i \<Longrightarrow> int_json i = Inr j \<Longrightarrow> written L j"
  by (auto simp: written_def string_json_def time_json_def int_json_def json_law_def split: option.splits)

lemma written_options:
  "Some (Inr j) = map_option string_json v \<Longrightarrow> written L j"
  "Some (Inr j) = map_option (time_json L') u \<Longrightarrow> written L j"
  by (cases v; cases u; auto dest: written_leaves(1,2) [OF sym])+

text \<open>A struct without required properties, and one with them.\<close>

lemma read_struct_written:
  assumes "marshal_map (set_entries es) = Inr j" and "reads fs (sort_key fst es) zero r"
  shows "read_struct strict fs zero j = Inr r"
proof -
  from assms(1) obtain ms where "j = JObj ms" "entries (set_entries (sort_key fst es)) = Inr ms"
    by (rule marshal_map_Inr)
  with readsD [OF assms(2)] show ?thesis by (simp add: read_struct_def)
qed

lemma read_required_written:
  assumes "marshal_map (set_entries es) = Inr j" and "reads fs (sort_key fst es) zero r"
    and "written L j" and "\<And>p. p \<in> set ps \<Longrightarrow> \<exists>v. (p, Some v) \<in> set es"
  shows "read_required L ps fs zero j = Inr r"
proof -
  from assms(1) obtain ms where ms: "j = JObj ms" "set (map fst ms) = {k. \<exists>v. (k, Some v) \<in> set es}"
    by (rule marshal_map_Inr)
  have "find (\<lambda>p. p \<notin> set (map fst ms)) ps = None" using assms(4) ms(2) by (auto simp: find_None_iff)
  with assms(3) ms(1) read_struct_written [OF assms(1,2)] show ?thesis
    by (simp add: read_required_def all_properties_def written_def)
qed

lemma key_order [simp]:
  "sort_key fst [(''id'', a), (''kind'', b), (''href'', c), (''created_at'', d), (''updated_at'', e), (''species'', f)] =
    [(''created_at'', d), (''href'', c), (''id'', a), (''kind'', b), (''species'', f), (''updated_at'', e)]"
  "sort_key fst [(''kind'', a), (''page'', b), (''size'', c), (''total'', d), (''items'', e)] =
    [(''items'', e), (''kind'', a), (''page'', b), (''size'', c), (''total'', d)]"
  "sort_key fst [(''kind'', a), (''page'', b), (''size'', c), (''total'', d)] =
    [(''kind'', a), (''page'', b), (''size'', c), (''total'', d)]"
  "sort_key fst [(''id'', a), (''kind'', b), (''href'', c), (''created_at'', d), (''updated_at'', e),
      (''code'', f), (''reason'', g), (''operation_id'', h)] =
    [(''code'', f), (''created_at'', d), (''href'', c), (''id'', a), (''kind'', b), (''operation_id'', h),
     (''reason'', g), (''updated_at'', e)]"
  by (simp_all add: less_eq_char_def)

lemma dinosaur_written: "Dinosaur_MarshalJSON L d = Inr j \<Longrightarrow> written L j"
  unfolding Dinosaur_MarshalJSON_def Dinosaur_ToMap_def
  by (erule written_map) (auto dest: written_options written_leaves(1) [OF sym])

lemma dinosaur_read_back:
  assumes "json_law L" and "Dinosaur_MarshalJSON L d = Inr j"
  shows "Dinosaur_UnmarshalJSON L j = Inr d"
  unfolding Dinosaur_UnmarshalJSON_def
proof (rule read_required_written [OF assms(2) [unfolded Dinosaur_MarshalJSON_def Dinosaur_ToMap_def]])
  show "written L j" using assms(2) by (rule dinosaur_written)
  show "\<exists>v. (p, Some v) \<in> set [(''id'', map_option string_json (adId d)), (''kind'', map_option string_json (adKind d)),
        (''href'', map_option string_json (adHref d)), (''created_at'', map_option (time_json L) (adCreatedAt d)),
        (''updated_at'', map_option (time_json L) (adUpdatedAt d)), (''species'', Some (string_json (adSpecies d)))]"
    if "p \<in> set [''species'']" for p using that by auto
  show "reads (dinosaur_fields L) (sort_key fst [(''id'', map_option string_json (adId d)),
        (''kind'', map_option string_json (adKind d)), (''href'', map_option string_json (adHref d)),
        (''created_at'', map_option (time_json L) (adCreatedAt d)),
        (''updated_at'', map_option (time_json L) (adUpdatedAt d)), (''species'', Some (string_json (adSpecies d)))])
      NewDinosaurWithDefaults d"
    unfolding key_order dinosaur_fields_def NewDinosaurWithDefaults_def
    by ((rule reads_time_ptr [OF assms(1)] reads_string_ptr reads_string, (rule field_found, (rule map_of_here | (rule map_of_there, simp))+),
          (simp; fail)?)+, rule reads_Nil, simp)
qed

lemma error_read_back:
  assumes "json_law L" and "Error_MarshalJSON L e = Inr j"
  shows "read_struct False (error_fields L) NewError j = Inr e"
proof (rule read_struct_written [OF assms(2) [unfolded Error_MarshalJSON_def Error_ToMap_def]])
  show "reads (error_fields L) (sort_key fst [(''id'', map_option string_json (oe_Id e)),
        (''kind'', map_option string_json (oe_Kind e)), (''href'', map_option string_json (oe_Href e)),
        (''created_at'', map_option (time_json L) (oe_CreatedAt e)),
        (''updated_at'', map_option (time_json L) (oe_UpdatedAt e)),
        (''code'', map_option string_json (oe_Code e)), (''reason'', map_option string_json (oe_Reason e)),
        (''operation_id'', map_option string_json (oe_OperationId e))]) NewError e"
    unfolding key_order error_fields_def NewError_def
    by ((rule reads_time_ptr [OF assms(1)] reads_string_ptr, (rule field_found, (rule map_of_here | (rule map_of_there, simp))+),
          (simp; fail)?)+, rule reads_Nil, simp)
qed

lemma error_written: "Error_MarshalJSON L e = Inr j \<Longrightarrow> written L j"
  unfolding Error_MarshalJSON_def Error_ToMap_def by (erule written_map) (auto dest: written_options)

lemma patch_read_back:
  assumes "DinosaurPatchRequest_MarshalJSON p = Inr j"
  shows "read_struct False patch_fields NewDinosaurPatchRequest j = Inr p"
proof (rule read_struct_written [OF assms [unfolded DinosaurPatchRequest_MarshalJSON_def DinosaurPatchRequest_ToMap_def]])
  show "reads patch_fields (sort_key fst [(''species'', map_option string_json (dpSpecies p))]) NewDinosaurPatchRequest p"
    unfolding patch_fields_def NewDinosaurPatchRequest_def
    by (simp, (rule reads_string_ptr, (rule field_found, (rule map_of_here | (rule map_of_there, simp))+),
          (simp; fail)?)+, rule reads_Nil, simp)
qed

lemma list_read_back:
  assumes "json_law L" and "DinosaurList_MarshalJSON L l = Inr j"
    and "wrap32 (alPage l) = alPage l" "wrap32 (alSize l) = alSize l" "wrap32 (alTotal l) = alTotal l"
  shows "written L j" and "DinosaurList_UnmarshalJSON L j = Inr l"
proof -
  have items: "written L i" if "slice_json (Dinosaur_MarshalJSON L) ds = Inr i" for ds i
  proof -
    from that obtain js where i: "i = JArr js" "write_all (Dinosaur_MarshalJSON L) ds = Inr js"
      by (auto simp: slice_json_def split: sum.splits)
    from i(2) have "\<forall>j \<in> set js. written L j"
      by (induction ds arbitrary: js) (auto dest: dinosaur_written split: sum.splits)
    with i(1) show ?thesis by (simp add: written_def)
  qed
  note marshal = assms(2) [unfolded DinosaurList_MarshalJSON_def DinosaurList_ToMap_def]
  from marshal show w: "written L j"
    by (rule written_map) (use assms(1,3-5) in \<open>auto dest: written_leaves(3) [OF _ _ sym] written_leaves(1) [OF sym] items [OF sym]\<close>)
  show "DinosaurList_UnmarshalJSON L j = Inr l"
    unfolding DinosaurList_UnmarshalJSON_def
  proof (rule read_required_written [OF marshal])
    show "reads (dinosaur_list_fields L) (sort_key fst [(''kind'', Some (string_json (alKind l))),
          (''page'', Some (int_json (alPage l))), (''size'', Some (int_json (alSize l))),
          (''total'', Some (int_json (alTotal l))),
          (''items'', Some (slice_json (Dinosaur_MarshalJSON L) (alItems l)))]) (NewDinosaurList [] 0 0 0 []) l"
      unfolding key_order dinosaur_list_fields_def list_fields_def NewDinosaurList_def append.simps
      by (rule reads_slice [OF dinosaur_read_back [OF assms(1)]], assumption,
          (rule field_found, (rule map_of_here | (rule map_of_there, simp))+),
          ((rule reads_int32 [OF assms(3)] reads_int32 [OF assms(4)] reads_int32 [OF assms(5)] reads_string,
            (rule field_found, (rule map_of_here | (rule map_of_there, simp))+))+),
          rule reads_Nil, simp)
    show "written L j" by (rule w)
    show "\<exists>v. (p, Some v) \<in> set [(''kind'', Some (string_json (alKind l))), (''page'', Some (int_json (alPage l))),
          (''size'', Some (int_json (alSize l))), (''total'', Some (int_json (alTotal l))),
          (''items'', Some (slice_json (Dinosaur_MarshalJSON L) (alItems l)))]"
      if "p \<in> set [''kind'', ''page'', ''size'', ''total'', ''items'']" for p
      using that by simp blast
  qed
qed

section \<open>Strings that are not valid UTF-8\<close>

text \<open>
  The models with their strings as JSON carries them: what is not UTF-8 has become U+FFFD, and a valid
  string is unchanged.
\<close>

definition utf8_dinosaur :: "api_dinosaur \<Rightarrow> api_dinosaur" where
  "utf8_dinosaur d =
     d\<lparr>adId := map_option coerce (adId d), adKind := map_option coerce (adKind d),
       adHref := map_option coerce (adHref d), adSpecies := coerce (adSpecies d)\<rparr>"

definition utf8_patch :: "dinosaur_patch \<Rightarrow> dinosaur_patch" where
  "utf8_patch p = p\<lparr>dpSpecies := map_option coerce (dpSpecies p)\<rparr>"

definition utf8_list :: "api_dinosaur_list \<Rightarrow> api_dinosaur_list" where
  "utf8_list l = l\<lparr>alKind := coerce (alKind l), alItems := map utf8_dinosaur (alItems l)\<rparr>"

definition utf8_error :: "openapi_error \<Rightarrow> openapi_error" where
  "utf8_error e =
     e\<lparr>oe_Id := map_option coerce (oe_Id e), oe_Kind := map_option coerce (oe_Kind e),
       oe_Href := map_option coerce (oe_Href e), oe_Code := map_option coerce (oe_Code e),
       oe_Reason := map_option coerce (oe_Reason e), oe_OperationId := map_option coerce (oe_OperationId e)\<rparr>"

text \<open>A model whose strings are all valid.\<close>

definition valid_dinosaur :: "api_dinosaur \<Rightarrow> bool" where
  "valid_dinosaur d \<longleftrightarrow>
     pred_option valid_utf8 (adId d) \<and> pred_option valid_utf8 (adKind d) \<and> pred_option valid_utf8 (adHref d) \<and>
     valid_utf8 (adSpecies d)"

definition valid_list :: "api_dinosaur_list \<Rightarrow> bool" where
  "valid_list l \<longleftrightarrow> valid_utf8 (alKind l) \<and> list_all valid_dinosaur (alItems l)"

lemma pred_option_valid: "pred_option valid_utf8 v \<Longrightarrow> map_option coerce v = v"
  by (cases v) (simp_all add: valid_utf8_def)

lemma utf8_valid_dinosaur [simp]: "valid_dinosaur d \<Longrightarrow> utf8_dinosaur d = d"
  by (simp add: valid_dinosaur_def utf8_dinosaur_def pred_option_valid valid_utf8_def)

lemma utf8_valid_list [simp]: "valid_list l \<Longrightarrow> utf8_list l = l"
  by (simp add: valid_list_def utf8_list_def list_all_iff map_idI valid_utf8_def)

text \<open>Writing such a model is writing the value that is read.\<close>

abbreviation coerced :: "json_error + json \<Rightarrow> json_error + json" where
  "coerced v \<equiv> map_sum (\<lambda>e. e) coerce_json v"

lemma coerced_entries:
  "entries m = Inr ms \<Longrightarrow> \<forall>e \<in> set m. coerce (fst e) = fst e \<Longrightarrow>
     entries (map (\<lambda>e. (fst e, coerced (snd e))) m) = Inr (map (\<lambda>m. (coerce (fst m), coerce_json (snd m))) ms)"
  by (induction m arbitrary: ms rule: entries.induct) (auto split: sum.splits)

lemma coerced_map:
  assumes "marshal_map (set_entries es) = Inr j" and "\<forall>e \<in> set es. coerce (fst e) = fst e"
  shows "marshal_map (set_entries (map (\<lambda>e. (fst e, map_option coerced (snd e))) es)) = Inr (coerce_json j)"
proof -
  let ?g = "\<lambda>e :: string \<times> (json_error + json) option. (fst e, map_option coerced (snd e))"
  from assms(1) obtain ms where ms: "j = JObj ms" "entries (set_entries (sort_key fst es)) = Inr ms"
    by (rule marshal_map_Inr)
  have "set_entries (sort_key fst (map ?g es)) = map (\<lambda>e. (fst e, coerced (snd e))) (set_entries (sort_key fst es))"
    by (auto simp: set_entries_def sort_key_map filter_map comp_def)
  moreover have "\<forall>e \<in> set (set_entries (sort_key fst es)). coerce (fst e) = fst e"
    using assms(2) by (auto simp: set_entries_def)
  ultimately show ?thesis
    using coerced_entries [OF ms(2)] ms(1) by (simp add: marshal_map_def sort_set_entries)
qed

lemma coerced_strings:
  "map_option string_json (map_option coerce v) = map_option coerced (map_option string_json v)"
  "string_json (coerce s) = coerced (string_json s)"
  by (simp_all add: string_json_def option.map_comp comp_def)

lemma coerced_time:
  assumes "json_law L"
  shows "map_option (time_json L) t = map_option coerced (map_option (time_json L) t)"
  using assms by (cases t) (simp_all add: time_json_def json_law_def valid_utf8_def split: option.split)

lemma coerced_int: "int_json i = coerced (int_json i)"
  by (simp add: int_json_def)

lemma model_keys [simp]:
  "coerce ''id'' = ''id''" "coerce ''kind'' = ''kind''" "coerce ''href'' = ''href''"
  "coerce ''created_at'' = ''created_at''" "coerce ''updated_at'' = ''updated_at''" "coerce ''species'' = ''species''"
  "coerce ''code'' = ''code''" "coerce ''reason'' = ''reason''" "coerce ''operation_id'' = ''operation_id''"
  "coerce ''page'' = ''page''" "coerce ''size'' = ''size''" "coerce ''total'' = ''total''" "coerce ''items'' = ''items''"
  by (rule coerce_ascii, simp)+

lemma dinosaur_coerced:
  assumes "json_law L" and "Dinosaur_MarshalJSON L d = Inr j"
  shows "Dinosaur_MarshalJSON L (utf8_dinosaur d) = Inr (coerce_json j)"
proof -
  note coerced_map [OF assms(2) [unfolded Dinosaur_MarshalJSON_def Dinosaur_ToMap_def]]
  moreover note coerced_time [OF assms(1), symmetric, simp]
  ultimately show ?thesis
    by (simp add: Dinosaur_MarshalJSON_def Dinosaur_ToMap_def utf8_dinosaur_def coerced_strings del: map_option_eq_Some option.map_comp)
qed

lemma error_coerced:
  assumes "json_law L" and "Error_MarshalJSON L e = Inr j"
  shows "Error_MarshalJSON L (utf8_error e) = Inr (coerce_json j)"
proof -
  note coerced_map [OF assms(2) [unfolded Error_MarshalJSON_def Error_ToMap_def]]
  moreover note coerced_time [OF assms(1), symmetric, simp]
  ultimately show ?thesis
    by (simp add: Error_MarshalJSON_def Error_ToMap_def utf8_error_def coerced_strings del: option.map_comp)
qed

lemma patch_coerced:
  assumes "DinosaurPatchRequest_MarshalJSON p = Inr j"
  shows "DinosaurPatchRequest_MarshalJSON (utf8_patch p) = Inr (coerce_json j)"
  using coerced_map [OF assms [unfolded DinosaurPatchRequest_MarshalJSON_def DinosaurPatchRequest_ToMap_def]]
  by (simp add: DinosaurPatchRequest_MarshalJSON_def DinosaurPatchRequest_ToMap_def utf8_patch_def coerced_strings
      del: option.map_comp)

lemma coerced_items:
  assumes "json_law L" and "slice_json (Dinosaur_MarshalJSON L) ds = Inr i"
  shows "slice_json (Dinosaur_MarshalJSON L) (map utf8_dinosaur ds) = Inr (coerce_json i)"
proof -
  from assms(2) obtain js where i: "i = JArr js" "write_all (Dinosaur_MarshalJSON L) ds = Inr js"
    by (auto simp: slice_json_def split: sum.splits)
  from i(2) have "write_all (Dinosaur_MarshalJSON L) (map utf8_dinosaur ds) = Inr (map coerce_json js)"
    by (induction ds arbitrary: js) (auto simp: dinosaur_coerced [OF assms(1)] split: sum.splits)
  with i(1) show ?thesis by (simp add: slice_json_def)
qed

lemma list_coerced:
  assumes "json_law L" and "DinosaurList_MarshalJSON L l = Inr j"
  shows "DinosaurList_MarshalJSON L (utf8_list l) = Inr (coerce_json j)"
proof -
  note marshal = assms(2) [unfolded DinosaurList_MarshalJSON_def DinosaurList_ToMap_def]
  have "\<exists>i. slice_json (Dinosaur_MarshalJSON L) (alItems l) = Inr i"
  proof (cases "slice_json (Dinosaur_MarshalJSON L) (alItems l)")
    case (Inl e)
    with assms(2) show ?thesis
      by (simp add: DinosaurList_MarshalJSON_def DinosaurList_ToMap_def set_entries_def marshal_map_def)
  qed simp
  then obtain i where i: "slice_json (Dinosaur_MarshalJSON L) (alItems l) = Inr i" ..
  note coerced_map [OF marshal]
  with i coerced_items [OF assms(1) i] show ?thesis
    by (simp add: DinosaurList_MarshalJSON_def DinosaurList_ToMap_def utf8_list_def coerced_strings int_json_def)
qed

section \<open>Bodies\<close>

lemma marshal_object: "marshal_map (set_entries es) = Inr j \<Longrightarrow> \<exists>ms. j = JObj ms"
  by (erule marshal_map_Inr) blast

lemma unmarshal_written:
  assumes "written L j" and "j \<noteq> JNull" and "f (coerce_json j) = Inr r" and "\<forall>c \<in> set sp. json_space c"
  shows "unmarshal L ty f (print_json j @ sp) = Inr (Some r)"
proof -
  have "parse_json (print_json j @ sp) = Some (coerce_json j)" using assms(1,4) by (simp add: written_def parse_print_json)
  then show ?thesis using assms(2,3) by (cases j) (simp_all add: unmarshal_def)
qed

lemma dinosaur_body:
  assumes "json_law L" and "Dinosaur_MarshalJSON L d = Inr j" and "\<forall>c \<in> set sp. json_space c"
  shows "unmarshal L ty (Dinosaur_UnmarshalJSON L) (print_json j @ sp) = Inr (Some (utf8_dinosaur d))"
    and "decode_dinosaur L (print_json j @ sp) = Inr (utf8_dinosaur d)"
proof -
  have "j \<noteq> JNull"
    using marshal_object [OF assms(2) [unfolded Dinosaur_MarshalJSON_def Dinosaur_ToMap_def]] by auto
  note body = unmarshal_written [where f = "Dinosaur_UnmarshalJSON L", OF dinosaur_written [OF assms(2)] this
      dinosaur_read_back [OF assms(1) dinosaur_coerced [OF assms(1,2)]] assms(3)]
  show "unmarshal L ty (Dinosaur_UnmarshalJSON L) (print_json j @ sp) = Inr (Some (utf8_dinosaur d))" by (rule body)
  show "decode_dinosaur L (print_json j @ sp) = Inr (utf8_dinosaur d)" by (simp add: decode_dinosaur_def body)
qed

lemma patch_body:
  assumes "DinosaurPatchRequest_MarshalJSON p = Inr j" and "\<forall>c \<in> set sp. json_space c"
  shows "decode_patch L (print_json j @ sp) = Inr (utf8_patch p)"
proof -
  note marshal = assms(1) [unfolded DinosaurPatchRequest_MarshalJSON_def DinosaurPatchRequest_ToMap_def]
  have "j \<noteq> JNull" using marshal_object [OF marshal] by auto
  moreover have "written L j" using marshal by (rule written_map) (auto dest: written_options)
  ultimately show ?thesis
    using unmarshal_written [where f = "read_struct False patch_fields NewDinosaurPatchRequest", OF _ _
        patch_read_back [OF patch_coerced [OF assms(1)]] assms(2)] by (simp add: decode_patch_def)
qed

lemma dinosaur_list_body:
  assumes "json_law L" and "DinosaurList_MarshalJSON L l = Inr j"
    and "wrap32 (alPage l) = alPage l" "wrap32 (alSize l) = alSize l" "wrap32 (alTotal l) = alTotal l"
  shows "unmarshal L ty (DinosaurList_UnmarshalJSON L) (print_json j) = Inr (Some (utf8_list l))"
proof -
  have "j \<noteq> JNull"
    using marshal_object [OF assms(2) [unfolded DinosaurList_MarshalJSON_def DinosaurList_ToMap_def]] by auto
  then show ?thesis using unmarshal_written [of L j _ "utf8_list l" "[]"] list_read_back(1) [OF assms]
      list_read_back(2) [OF assms(1) list_coerced [OF assms(1,2)]] assms(3-) by (simp add: utf8_list_def)
qed

lemma error_body:
  assumes "json_law L" and "Error_MarshalJSON L e = Inr j"
  shows "unmarshal L ty (read_struct False (error_fields L) NewError) (print_json j) = Inr (Some (utf8_error e))"
proof -
  have "j \<noteq> JNull" using marshal_object [OF assms(2) [unfolded Error_MarshalJSON_def Error_ToMap_def]] by auto
  then show ?thesis
    using unmarshal_written [of L j _ "utf8_error e" "[]"] error_written [OF assms(2)]
      error_read_back [OF assms(1) error_coerced [OF assms]] by simp
qed

text \<open>What the reading of a dinosaur refuses.\<close>

lemma keep_error_Some [simp]: "keep_error (Some e) e' = Some e"
  by (simp add: keep_error_def)

lemma read_members_error: "read_members strict fs ms (Some e) r \<noteq> Inr (None, r')"
  by (induction ms arbitrary: r) (auto split: option.splits sum.splits)

lemma read_members_unknown:
  assumes "k \<in> fst ` set ms" and "field_of fs k = None"
  shows "read_members True fs ms err r \<noteq> Inr (None, r')"
  using assms(1)
proof (induction ms arbitrary: err r)
  case (Cons m ms)
  obtain k' j where m: "m = (k', j)" by fastforce
  show ?case
  proof (cases "k' = k")
    case True
    have "keep_error err (Some (UnknownField k)) \<noteq> None" by (simp add: keep_error_def split: option.splits)
    then obtain e where "keep_error err (Some (UnknownField k)) = Some e" by blast
    with assms(2) m True read_members_error [of True fs ms e r r'] show ?thesis by simp
  next
    case False
    with Cons m show ?thesis by (auto split: option.splits sum.splits)
  qed
qed simp

lemma decode_unknown_field:
  assumes "parse_json bytes = Some (JObj ms)" and "k \<in> fst ` set ms" and "field_of (dinosaur_fields L) k = None"
  shows "\<exists>e. decode_dinosaur L bytes = Inl e"
proof -
  have "read_struct True (dinosaur_fields L) NewDinosaurWithDefaults (JObj ms) \<noteq> Inr r" for r
    using read_members_unknown [OF assms(2,3)] by (auto simp: read_struct_def split: sum.splits option.splits)
  then have "\<exists>e. Dinosaur_UnmarshalJSON L (JObj ms) = Inl e"
    by (cases "Dinosaur_UnmarshalJSON L (JObj ms)")
       (auto simp: Dinosaur_UnmarshalJSON_def read_required_def split: sum.splits option.splits)
  then show ?thesis using assms(1) by (auto simp: decode_dinosaur_def unmarshal_def)
qed

lemma decode_without_species:
  assumes "parse_json bytes = Some (JObj ms)" and "''species'' \<notin> fst ` set ms" and "float_range L (JObj ms)"
  shows "decode_dinosaur L bytes = Inl ''no value given for required property species''"
proof -
  have "Dinosaur_UnmarshalJSON L (JObj ms) = Inl (RequiredProperty ''species'')"
    using assms(2,3) by (simp add: Dinosaur_UnmarshalJSON_def read_required_def all_properties_def)
  with assms(1) show ?thesis by (simp add: decode_dinosaur_def unmarshal_def json_error_text_def)
qed

end
