(* ===== verification/Dinosaur_Handlers.thy ===== *)
theory Dinosaur_Handlers
  imports Dinosaur_Service Http_Handlers List_Service Slice_Filter Openapi_Models
begin

text \<open>
  The REST surface of the dinosaurs plugin: \<^verbatim>\<open>plugins/dinosaurs/handler.go\<close> and
  \<^verbatim>\<open>presenter.go\<close>, on the handler framework, the dinosaur service and the generic list
  service. A request is a record of what the handlers read of it; the JSON decoding of a body is an
  argument, which \<open>Client_Server\<close> instantiates with the decoders of \<open>Openapi_Models\<close>. The package variables of errors and presenters, and the operation id of the request,
  are one record.
\<close>

section \<open>Data\<close>

datatype dino_payload = PDinosaur api_dinosaur | PDinosaurs api_dinosaur_list | PProjected projection_list

record http_env =
  heErrors :: error_config
  heOperation :: string
  heBasePath :: string
  heKinds :: registry
  hePaths :: registry

record http_request =
  rqContext :: req_context
  rqVarID :: string
  rqQuery :: url_values
  rqBody :: "string + string"

text \<open>The generic service, as an interface.\<close>

record ('r, 's) generic_service =
  gsList :: "req_context \<Rightarrow> string \<Rightarrow> list_arguments \<Rightarrow> 'r resource_list
    \<Rightarrow> ('s, service_error + paging_meta \<times> 'r resource_list) proc"

definition sqlGenericService ::
    "error_config \<Rightarrow> ('v, 'q) tsl_lib \<Rightarrow> (joins \<Rightarrow> joins) \<Rightarrow> (string \<rightharpoonup> (string \<rightharpoonup> string))
     \<Rightarrow> ('s \<Rightarrow> ('d, 'v, 'r) generic_dao) \<Rightarrow> (string \<Rightarrow> 'd) \<Rightarrow> ('r, 's) generic_service" where
  "sqlGenericService g lib ord SearchDisallowedFields dao GetInstanceDao =
     \<lparr>gsList = (\<lambda>ctx username args rl s.
        run_go (GenericService_List g lib ord SearchDisallowedFields (dao s) GetInstanceDao username args rl) s)\<rparr>"

section \<open>presenter.go\<close>

definition ConvertDinosaur :: "api_dinosaur \<Rightarrow> dinosaur" where
  "ConvertDinosaur d =
     \<lparr>ID = NilToEmptyString (adId d), CreatedAt = 0, UpdatedAt = 0, DeletedAt = None, Species = adSpecies d\<rparr>"

definition PresentDinosaur :: "http_env \<Rightarrow> dinosaur \<Rightarrow> api_dinosaur" where
  "PresentDinosaur h d =
     (let reference = PresentReference (heBasePath h) (heKinds h) (hePaths h) (IdString (ID d)) ''*dinosaurs.Dinosaur''
      in \<lparr>adId = orId reference, adKind = orKind reference, adHref = orHref reference,
          adCreatedAt = Some (CreatedAt d), adUpdatedAt = Some (UpdatedAt d), adSpecies = Species d\<rparr>)"

text \<open>The value reflection sees of an item of the list.\<close>

definition dinosaur_gval :: "api_dinosaur \<Rightarrow> gval" where
  "dinosaur_gval d =
     (let str = (\<lambda>p. GPtr ''string'' (map_option GStr p));
          tm = (\<lambda>p. GPtr ''time.Time'' (map_option GTime p))
      in GStruct ''Dinosaur''
           [GField ''Id'' ''id,omitempty'' (str (adId d)), GField ''Kind'' ''kind,omitempty'' (str (adKind d)),
            GField ''Href'' ''href,omitempty'' (str (adHref d)),
            GField ''CreatedAt'' ''created_at,omitempty'' (tm (adCreatedAt d)),
            GField ''UpdatedAt'' ''updated_at,omitempty'' (tm (adUpdatedAt d)),
            GField ''Species'' ''species'' (GStr (adSpecies d))])"

section \<open>handler.go\<close>

text \<open>A call of the service, its result presented.\<close>

definition presented :: "http_env \<Rightarrow> ('s, service_error + dinosaur) proc \<Rightarrow> ('s, service_error + dino_payload option) proc" where
  "presented h m = run_try m (\<lambda>e. e) (\<lambda>dino. run_ret (Inr (Some (PDinosaur (PresentDinosaur h dino)))))"

definition create_config ::
    "http_env \<Rightarrow> 's dinosaur_service \<Rightarrow> http_request \<Rightarrow> (api_dinosaur, dino_payload, 's) handler_config" where
  "create_config h svc rq =
     \<lparr>hcValidators = [ValidateEmpty (\<lambda>d. FieldPtr (adId d)) ''id'', ValidateNotEmpty (\<lambda>d. FieldString (adSpecies d)) ''species''],
      hcAction = (\<lambda>body. presented h (dsCreate svc (rqContext rq) (ConvertDinosaur body))),
      hcErrorHandler = Some (HandleError (heErrors h) (heOperation h))\<rparr>"

definition dinosaur_Create ::
    "http_env \<Rightarrow> (string \<Rightarrow> string + api_dinosaur) \<Rightarrow> 's dinosaur_service \<Rightarrow> http_request
     \<Rightarrow> dino_payload body response \<Rightarrow> 's \<Rightarrow> unit outcome \<times> dino_payload body response \<times> 's" where
  "dinosaur_Create h decode svc rq w s =
     Handle (heErrors h) (heOperation h) decode (rqBody rq) (create_config h svc rq) 201 w s"

definition validateDinosaurPatch :: "dinosaur_patch \<Rightarrow> service_error option" where
  "validateDinosaurPatch patch =
     (case dpSpecies patch of
        None \<Rightarrow> Some (Validation ''species cannot be nil'' [])
      | Some sp \<Rightarrow> if length sp = 0 then Some (Validation ''species cannot be empty'' []) else None)"

definition patch_config ::
    "http_env \<Rightarrow> 's dinosaur_service \<Rightarrow> http_request \<Rightarrow> (dinosaur_patch, dino_payload, 's) handler_config" where
  "patch_config h svc rq =
     \<lparr>hcValidators = [validateDinosaurPatch],
      hcAction = (\<lambda>patch. case dpSpecies patch of
          None \<Rightarrow> run_go (Panic nil_deref)
        | Some sp \<Rightarrow> presented h (dsReplace svc (rqContext rq)
            \<lparr>ID = rqVarID rq, CreatedAt = 0, UpdatedAt = 0, DeletedAt = None, Species = sp\<rparr>)),
      hcErrorHandler = Some (HandleError (heErrors h) (heOperation h))\<rparr>"

definition dinosaur_Patch ::
    "http_env \<Rightarrow> (string \<Rightarrow> string + dinosaur_patch) \<Rightarrow> 's dinosaur_service \<Rightarrow> http_request
     \<Rightarrow> dino_payload body response \<Rightarrow> 's \<Rightarrow> unit outcome \<times> dino_payload body response \<times> 's" where
  "dinosaur_Patch h decode svc rq w s =
     Handle (heErrors h) (heOperation h) decode (rqBody rq) (patch_config h svc rq) 200 w s"

definition list_config ::
    "http_env \<Rightarrow> (int \<Rightarrow> string) \<Rightarrow> (string set \<Rightarrow> string list) \<Rightarrow> (dinosaur, 's) generic_service \<Rightarrow> http_request
     \<Rightarrow> (unit, dino_payload, 's) handler_config" where
  "list_config h rfc ord gen rq =
     \<lparr>hcValidators = [],
      hcAction = (\<lambda>_.
        (let listArgs = NewListArguments (rqQuery rq)
         in run_try (gsList gen (rqContext rq) ''username'' listArgs (PtrSlice ''Dinosaur'' [])) (\<lambda>e. e)
              (\<lambda>(paging, dinosaurs).
                 (let dinoList = \<lparr>alKind = ''DinosaurList'', alPage = wrap32 (pmPage paging),
                        alSize = wrap32 (pmSize paging), alTotal = wrap32 (pmTotal paging),
                        alItems = map (PresentDinosaur h) (list_rows dinosaurs)\<rparr>
                  in if laFields listArgs \<noteq> []
                     then run_try (run_go (SliceFilter rfc ord (laFields listArgs)
                              (GSlice (map dinosaur_gval (alItems dinoList))))) (\<lambda>e. e)
                            (\<lambda>filteredItems. run_ret (Inr (Some (PProjected filteredItems))))
                     else run_ret (Inr (Some (PDinosaurs dinoList))))))),
      hcErrorHandler = None\<rparr>"

definition dinosaur_List ::
    "http_env \<Rightarrow> (int \<Rightarrow> string) \<Rightarrow> (string set \<Rightarrow> string list) \<Rightarrow> (dinosaur, 's) generic_service \<Rightarrow> http_request
     \<Rightarrow> dino_payload body response \<Rightarrow> 's \<Rightarrow> unit outcome \<times> dino_payload body response \<times> 's" where
  "dinosaur_List h rfc ord gen rq w s =
     HandleList (heErrors h) (heOperation h) () (list_config h rfc ord gen rq) w s"

definition get_config ::
    "http_env \<Rightarrow> 's dinosaur_service \<Rightarrow> http_request \<Rightarrow> (unit, dino_payload, 's) handler_config" where
  "get_config h svc rq =
     \<lparr>hcValidators = [], hcAction = (\<lambda>_. presented h (dsGet svc (rqContext rq) (rqVarID rq))), hcErrorHandler = None\<rparr>"

definition dinosaur_Get ::
    "http_env \<Rightarrow> 's dinosaur_service \<Rightarrow> http_request
     \<Rightarrow> dino_payload body response \<Rightarrow> 's \<Rightarrow> unit outcome \<times> dino_payload body response \<times> 's" where
  "dinosaur_Get h svc rq w s = HandleGet (heErrors h) (heOperation h) () (get_config h svc rq) w s"

definition delete_config ::
    "http_env \<Rightarrow> 's dinosaur_service \<Rightarrow> http_request \<Rightarrow> (unit, dino_payload, 's) handler_config" where
  "delete_config h svc rq =
     \<lparr>hcValidators = [],
      hcAction = (\<lambda>_. run_bind (dsDelete svc (rqContext rq) (rqVarID rq)) (\<lambda>err.
        case err of Some e \<Rightarrow> run_ret (Inl e) | None \<Rightarrow> run_ret (Inr None))),
      hcErrorHandler = None\<rparr>"

definition dinosaur_Delete ::
    "http_env \<Rightarrow> 's dinosaur_service \<Rightarrow> http_request
     \<Rightarrow> dino_payload body response \<Rightarrow> 's \<Rightarrow> unit outcome \<times> dino_payload body response \<times> 's" where
  "dinosaur_Delete h svc rq w s = HandleDelete (heErrors h) (heOperation h) () (delete_config h svc rq) 204 w s"

section \<open>Facts\<close>

lemma HandleGetError_status:
  "HttpCode (HandleGetError g ty f v err) = (if err = ErrRecordNotFound then 404 else 500)"
  by (simp add: HandleGetError_def Let_def)

lemma app_get:
  "dsGet (app_service uuid g mode pg td te exec) ctx i A =
     (Done (case gtTake td i (twDb (apTx A)) of
        Inl err \<Rightarrow> Inl (HandleGetError g ''Dinosaur'' ''id'' i err) | Inr d \<Rightarrow> Inr d), A)"
  by (simp add: app_service_sel DinosaurService_Get_def run_try_def run_bind_def app_dinosaurs_def
      lift_dinosaur_dao_def run_in_def sqlDinosaurDao_def DinosaurDao_Get_def split: sum.splits)

text \<open>What a GET answers, by what the table returns.\<close>

lemma dinosaur_Get_app:
  assumes "rStatus w = None"
  shows "\<exists>w'. dinosaur_Get h (app_service uuid g mode pg td te exec) rq w A = (Done (), w', A) \<and>
    (case gtTake td (rqVarID rq) (twDb (apTx A)) of
       Inr d \<Rightarrow> rStatus w' = Some 200 \<and> rBody w' = rBody w @ [BResult (PDinosaur (PresentDinosaur h d))]
     | Inl err \<Rightarrow> rStatus w' = Some (if err = ErrRecordNotFound then 404 else 500))"
  using assms
  by (cases "gtTake td (rqVarID rq) (twDb (apTx A))")
     (simp_all add: dinosaur_Get_def HandleGet_def run_action_def get_config_def presented_def run_try_def
        run_bind_def app_get finish_def error_handler_def HandleGetError_status)

lemma presented_Inr:
  "presented h m s = (Done (Inr p), s') \<longleftrightarrow>
     (\<exists>d. m s = (Done (Inr d), s') \<and> p = Some (PDinosaur (PresentDinosaur h d)))"
  by (auto simp: presented_def run_elims)

lemma HandleCreateError_status: "HttpCode (HandleCreateError g r err) \<noteq> 201"
  by (simp add: HandleCreateError_def)

lemma app_create_error:
  assumes "dsCreate (app_service uuid g mode pg td te exec) ctx d A = (Done (Inl e), A')"
  shows "HttpCode e \<noteq> 201"
  using assms
  by (auto simp: app_service_sel DinosaurService_Create_def run_try_Inl_iff HandleCreateError_status)

text \<open>A 201 answer comes from a creation that succeeded.\<close>

lemma create_201:
  assumes "dinosaur_Create h decode (app_service uuid g mode pg td te exec) rq w A = (Done (), w', A')"
    and "rStatus w = None" and "rStatus w' = Some 201"
  obtains raw b d where "rqBody rq = Inr raw" "decode raw = Inr b"
    "dsCreate (app_service uuid g mode pg td te exec) (rqContext rq) (ConvertDinosaur b) A = (Done (Inr d), A')"
    "rBody w' = rBody w @ [BResult (PDinosaur (PresentDinosaur h d))]"
proof -
  from assms obtain raw b where req: "rqBody rq = Inr raw" "decode raw = Inr b"
    and run: "run_action (heErrors h) (heOperation h) (create_config h (app_service uuid g mode pg td te exec) rq) 201 b w A
      = (Done (), w', A')"
    by (auto simp: dinosaur_Create_def Handle_def create_config_def error_handler_def ValidateEmpty_def
        ValidateNotEmpty_def split: sum.splits option.splits if_splits)
  from run obtain res where act: "presented h (dsCreate (app_service uuid g mode pg td te exec) (rqContext rq)
        (ConvertDinosaur b)) A = (Done res, A')"
    and w': "w' = finish (heErrors h) (heOperation h) (create_config h (app_service uuid g mode pg td te exec) rq) 201 res w"
    by (auto simp: run_action_def create_config_def split: prod.splits outcome.splits)
  show thesis
  proof (cases res)
    case (Inl e)
    from act Inl have "HttpCode e \<noteq> 201"
      by (auto simp: presented_def run_try_Inl_iff dest: app_create_error)
    with w' Inl assms(2,3) show thesis by (simp add: finish_def error_handler_def create_config_def)
  next
    case (Inr p)
    from act [unfolded Inr presented_Inr] obtain d where
        "dsCreate (app_service uuid g mode pg td te exec) (rqContext rq) (ConvertDinosaur b) A = (Done (Inr d), A')"
        "p = Some (PDinosaur (PresentDinosaur h d))" by blast
    with req w' Inr show thesis by (intro that) (simp_all add: finish_def)
  qed
qed

section \<open>Properties\<close>

text \<open>
  A create request whose body carries an id, or no species, is answered with status 400 and one
  error body, and nothing is called: the state is unchanged.
\<close>

theorem create_rejects_invalid:
  assumes "rqBody rq = Inr raw" and "decode raw = Inr b"
    and "NilToEmptyString (adId b) \<noteq> [] \<or> adSpecies b = []" and "rStatus w = None"
  shows "\<exists>w' e. dinosaur_Create h decode svc rq w s = (Done (), w', s) \<and> rStatus w' = Some 400 \<and>
    rBody w' = rBody w @ [BError e]"
proof -
  have "\<exists>e. first_error (hcValidators (create_config h svc rq)) b = Some e \<and> HttpCode e = 400"
    using assms(3) by (auto simp: create_config_def ValidateEmpty_def ValidateNotEmpty_def NilToEmptyString_def
        split: option.splits)
  with assms show ?thesis by (auto simp: dinosaur_Create_def Handle_def error_handler_def create_config_def)
qed

text \<open>A body that is an object with fields of a dinosaur only, the required one among them.\<close>

definition acceptable_body :: "json_lib \<Rightarrow> string \<Rightarrow> bool" where
  "acceptable_body L bytes \<longleftrightarrow>
     (case parse_json bytes of
        Some (JObj ms) \<Rightarrow>
          ''species'' \<in> fst ` set ms \<and> (\<forall>k \<in> fst ` set ms. field_of (dinosaur_fields L) k \<noteq> None)
      | _ \<Rightarrow> False)"

lemma decode_unacceptable:
  assumes "\<not> acceptable_body L bytes"
  shows "(\<exists>e. decode_dinosaur L bytes = Inl e) \<or> decode_dinosaur L bytes = Inr NewDinosaurWithDefaults"
proof (cases "parse_json bytes")
  case (Some j)
  show ?thesis
  proof (cases j)
    case (JObj ms)
    have "\<exists>e. Dinosaur_UnmarshalJSON L (JObj ms) = Inl e" if "''species'' \<notin> fst ` set ms"
      using that by (simp add: Dinosaur_UnmarshalJSON_def read_required_def all_properties_def)
    with assms Some JObj decode_unknown_field [of bytes ms _ L] show ?thesis
      by (auto simp: acceptable_body_def decode_dinosaur_def unmarshal_def)
  qed (use Some in \<open>simp_all add: decode_dinosaur_def unmarshal_def Dinosaur_UnmarshalJSON_def read_required_def
        all_properties_def\<close>)
qed (simp add: decode_dinosaur_def unmarshal_def)

text \<open>
  C22: A create request whose body is not JSON, not an object, has a key that no field of a dinosaur has
  (in any folding of its case, the Unicode folds of s and k included), or has no species, is answered
  with status 400 and one error body, whatever the other members are; no call is made and the state is
  unchanged.
\<close>

theorem create_refuses_body:
  assumes "rqBody rq = Inr bytes" and "\<not> acceptable_body L bytes" and "rStatus w = None"
  shows "\<exists>w' e. dinosaur_Create h (decode_dinosaur L) svc rq w s = (Done (), w', s) \<and> rStatus w' = Some 400 \<and>
    rBody w' = rBody w @ [BError e]"
proof (cases "decode_dinosaur L bytes")
  case (Inl e)
  with assms(1,3) show ?thesis by (simp add: dinosaur_Create_def Handle_def)
next
  case (Inr d)
  with decode_unacceptable [OF assms(2)] have "adSpecies d = []" by (auto simp: NewDinosaurWithDefaults_def)
  then have "NilToEmptyString (adId d) \<noteq> [] \<or> adSpecies d = []" by blast
  with Inr assms(1,3) show ?thesis by (intro create_rejects_invalid) simp_all
qed

definition shop_http :: http_env where
  "shop_http = \<lparr>heErrors = default_error_config, heOperation = ''op'', heBasePath = default_basePath,
     heKinds = [''*dinosaurs.Dinosaur'' \<mapsto> ''Dinosaur''], hePaths = [''*dinosaurs.Dinosaur'' \<mapsto> ''dinosaurs'']\<rparr>"

definition shop_request :: "string \<Rightarrow> http_request" where
  "shop_request i = \<lparr>rqContext = background, rqVarID = i, rqQuery = Map.empty, rqBody = Inr ''body''\<rparr>"

definition shop_body :: "string option \<Rightarrow> string \<Rightarrow> string + api_dinosaur" where
  "shop_body i raw = Inr \<lparr>adId = i, adKind = None, adHref = None, adCreatedAt = None, adUpdatedAt = None, adSpecies = ''Stego''\<rparr>"

theorem create_rejects_invalid_witness:
  "\<exists>w' e. dinosaur_Create shop_http (shop_body (Some ''mine'')) (shop_service default_lock_mode) (shop_request [])
      empty_response (shop_app False) = (Done (), w', shop_app False) \<and>
    rStatus w' = Some 400 \<and> rBody w' = [BError e]"
  using create_rejects_invalid [of "shop_request []" "''body''" "shop_body (Some ''mine'')"
      "the (map_option projr (Some (shop_body (Some ''mine'') [])))" empty_response shop_http
      "shop_service default_lock_mode" "shop_app False"]
  by (simp add: shop_request_def shop_body_def NilToEmptyString_def)

definition typo_json :: json_lib where
  "typo_json = \<lparr>jlText = (\<lambda>ty b. ''bad '' @ ty), jlNumber = (\<lambda>n. True), jlTime = (\<lambda>s. None), jlTimeText = (\<lambda>t. None)\<rparr>"

definition typo_request :: http_request where
  "typo_request = (shop_request [])\<lparr>rqBody := Inr (print_json (JObj [(''specie'', JStr ''Trex'')]))\<rparr>"

theorem create_refuses_body_witness:
  "\<exists>w' e. dinosaur_Create shop_http (decode_dinosaur typo_json) (shop_service default_lock_mode) typo_request
      empty_response (shop_app False) = (Done (), w', shop_app False) \<and>
    rStatus w' = Some 400 \<and> rBody w' = [BError e]"
proof -
  have "\<not> acceptable_body typo_json (print_json (JObj [(''specie'', JStr ''Trex'')]))" by code_simp
  from create_refuses_body [OF _ this, of typo_request empty_response] show ?thesis
    by (simp add: typo_request_def)
qed

lemma present_rounded:
  "same_but_times d x \<Longrightarrow> \<exists>c u. PresentDinosaur h x = (PresentDinosaur h d)\<lparr>adCreatedAt := c, adUpdatedAt := u\<rparr>"
  by (cases d) (auto simp: same_but_times_def PresentDinosaur_def PresentReference_def Let_def)


lemma shop_post_run:
  "case dinosaur_Create shop_http (shop_body None) (shop_service default_lock_mode) (shop_request []) empty_response
      (shop_app False) of (Done u, w1, A1) \<Rightarrow> rStatus w1 = Some 201 | _ \<Rightarrow> False"
  by code_simp


text \<open>
  C23: A delete request answers 204 with no body when it succeeds, for an identifier that is not
  stored as well, and adds exactly one entry to the events, a Delete event about the identifier under a
  key that was free; a later GET never answers 200.
\<close>

theorem deleted_is_gone:
  assumes "app_ok uuid pg td te exec drows erows A"
    and "dsDelete (app_service uuid g mode pg td te exec) (rqContext rq) (rqVarID rq) A = (Done None, A1)"
    and "rStatus w = None" and "rStatus v = None"
  shows "\<exists>w1 v' e. dinosaur_Delete h (app_service uuid g mode pg td te exec) rq w A = (Done (), w1, A1) \<and>
    rStatus w1 = Some 204 \<and> rBody w1 = rBody w \<and> about (rqVarID rq) DeleteEventType e \<and>
    logged e (erows (twDb (apTx A))) (erows (twDb (apTx A1))) \<and>
    dinosaur_Get h (app_service uuid g mode pg td te exec) rq v A1 = (Done (), v', A1) \<and> rStatus v' \<noteq> Some 200"
proof -
  have del: "DinosaurService_Delete g (app_dinosaurs td) (app_events g te exec) (rqContext rq) (rqVarID rq) A = (Done None, A1)"
    using assms(2) by (simp add: app_service_sel)
  from sqlenv.delete_spec [OF assms(1) del] obtain e where
      e: "drows (twDb (apTx A1)) (rqVarID rq) = None" "about (rqVarID rq) DeleteEventType e"
        "logged e (erows (twDb (apTx A))) (erows (twDb (apTx A1)))" by auto
  have law: "table_law td drows" using assms(1) by (simp add: app_ok_def app_laws_def)
  have "\<forall>x. gtTake td (rqVarID rq) (twDb (apTx A1)) \<noteq> Inr x"
    using e(1) table_lawD(2) [OF law, of "rqVarID rq" "twDb (apTx A1)"] by auto
  then obtain err where "gtTake td (rqVarID rq) (twDb (apTx A1)) = Inl err" by (cases "gtTake td (rqVarID rq) (twDb (apTx A1))") auto
  with dinosaur_Get_app [OF assms(4), of h uuid g mode pg td te exec rq A1] obtain v' where
      "dinosaur_Get h (app_service uuid g mode pg td te exec) rq v A1 = (Done (), v', A1)" "rStatus v' \<noteq> Some 200"
    by (auto split: if_splits)
  moreover have "dinosaur_Delete h (app_service uuid g mode pg td te exec) rq w A =
      (Done (), writeJSONResponse 204 None w, A1)"
    using assms(2) by (simp add: dinosaur_Delete_def HandleDelete_def delete_config_def run_action_def run_bind_def finish_def)
  ultimately show ?thesis using e assms(3) by auto
qed

theorem deleted_is_gone_witness:
  "\<exists>w1 A1. dinosaur_Delete shop_http (shop_service default_lock_mode) (shop_request ''d'') empty_response (shop_app False)
      = (Done (), w1, A1) \<and> rStatus w1 = Some 204 \<and> rBody w1 = []"
proof -
  from shop_delete_run obtain A' where
      run: "dsDelete (shop_service default_lock_mode) background ''d'' (shop_app False) = (Done None, A')"
    by (auto split: prod.splits outcome.splits option.splits)
  have req: "rqContext (shop_request ''d'') = background" "rqVarID (shop_request ''d'') = ''d''"
    by (simp_all add: shop_request_def)
  from deleted_is_gone [OF shop_ok [of False], where rq = "shop_request ''d''" and h = shop_http and w = empty_response
      and v = empty_response, unfolded req, OF run [unfolded shop_service_def]]
  show ?thesis by (auto simp: shop_service_def)
qed

text \<open>
  A list request with a \<open>fields\<close> parameter panics as soon as the generic service
  has returned the page, whatever the fields are: the filter is handed the bare items.
\<close>

theorem list_fields_panics:
  assumes "laFields (NewListArguments (rqQuery rq)) \<noteq> []"
    and "gsList gen (rqContext rq) ''username'' (NewListArguments (rqQuery rq)) (PtrSlice ''Dinosaur'' []) s
       = (Done (Inr (paging, rl)), s')"
  shows "\<exists>msg. dinosaur_List h rfc ord gen rq w s = (Panicked msg, w, s')"
  using assms
  by (simp add: dinosaur_List_def HandleList_def run_action_def list_config_def run_try_def run_bind_def Let_def
      SliceFilter_def)

definition shop_fields_request :: http_request where
  "shop_fields_request = (shop_request [])\<lparr>rqQuery := [''fields'' \<mapsto> [''species'']]\<rparr>"

definition shop_generic :: "dinosaur list \<Rightarrow> (dinosaur, unit) generic_service" where
  "shop_generic ds =
     \<lparr>gsList = (\<lambda>ctx u args rl. run_ret (Inr (\<lparr>pmPage = laPage args, pmSize = int (length ds), pmTotal = int (length ds)\<rparr>,
        PtrSlice ''Dinosaur'' ds)))\<rparr>"

theorem list_fields_panics_witness:
  "\<exists>msg. dinosaur_List shop_http itoa (\<lambda>_. []) (shop_generic [shop_rex]) shop_fields_request empty_response ()
     = (Panicked msg, empty_response, ())"
proof -
  have f: "laFields (NewListArguments (rqQuery shop_fields_request)) \<noteq> []" by code_simp
  show ?thesis
    by (rule list_fields_panics [OF f]) (simp add: shop_generic_def)
qed

text \<open>
  A list request without fields is answered 200 with the page presented: one item per row in
  the order of the rows, and the paging of the generic service narrowed to 32 bits.
\<close>

theorem list_answers_page:
  assumes "laFields (NewListArguments (rqQuery rq)) = []" and "rStatus w = None"
    and "gsList gen (rqContext rq) ''username'' (NewListArguments (rqQuery rq)) (PtrSlice ''Dinosaur'' []) s
       = (Done (Inr (paging, rl)), s')"
  shows "\<exists>w' l. dinosaur_List h rfc ord gen rq w s = (Done (), w', s') \<and> rStatus w' = Some 200 \<and>
    rBody w' = rBody w @ [BResult (PDinosaurs l)] \<and> map adSpecies (alItems l) = map Species (list_rows rl) \<and>
    alTotal l = wrap32 (pmTotal paging) \<and> alSize l = wrap32 (pmSize paging) \<and> alPage l = wrap32 (pmPage paging)"
  using assms
  by (simp add: dinosaur_List_def HandleList_def run_action_def list_config_def run_try_def run_bind_def Let_def
      finish_def PresentDinosaur_def)

theorem list_answers_page_witness:
  "\<exists>w' l. dinosaur_List shop_http itoa (\<lambda>_. []) (shop_generic [shop_rex, shop_new_rex]) (shop_request []) empty_response ()
      = (Done (), w', ()) \<and> rStatus w' = Some 200 \<and> rBody w' = [BResult (PDinosaurs l)] \<and>
    map adSpecies (alItems l) = [''Trex'', ''Raptor''] \<and> alTotal l = 2"
proof -
  have f: "laFields (NewListArguments (rqQuery (shop_request []))) = []" by code_simp
  have two: "wrap32 2 = 2" by code_simp
  from list_answers_page [OF f, of empty_response "shop_generic [shop_rex, shop_new_rex]" "()"] show ?thesis
    by (force simp: shop_generic_def shop_rex_def shop_new_rex_def two)
qed

text \<open>
  Presenting a stored dinosaur and converting it back keeps its identifier and species, and
  drops the times, which the database sets.
\<close>

theorem convert_present:
  "ConvertDinosaur (PresentDinosaur h d) = d\<lparr>CreatedAt := 0, UpdatedAt := 0, DeletedAt := None\<rparr>"
  by (cases d) (simp add: ConvertDinosaur_def PresentDinosaur_def PresentReference_def makeReferenceId_def
      NilToEmptyString_def Let_def)

section \<open>The documented answers\<close>

text \<open>The HTTP codes with which a call may fail, by rules for the ways calls are put together.\<close>

definition fails_with :: "int set \<Rightarrow> (service_error + 'a) outcome \<times> 's \<Rightarrow> bool" where
  "fails_with codes out \<longleftrightarrow> (\<forall>e s'. out = (Done (Inl e), s') \<longrightarrow> HttpCode e \<in> codes)"

named_theorems fails_intros \<open>with which codes a call may fail\<close>

lemma fails_simps [simp]:
  "fails_with codes (Done (Inr a), s)" "fails_with codes (Panicked p, s)"
  "fails_with codes (Done (Inl e), s) \<longleftrightarrow> HttpCode e \<in> codes"
  by (simp_all add: fails_with_def)

lemma fails_bind [fails_intros]: "(\<And>a t. fails_with codes (f a t)) \<Longrightarrow> fails_with codes (run_bind m f s)"
  by (auto simp: fails_with_def run_bind_def split: prod.splits outcome.splits)

lemma fails_try [fails_intros]:
  "(\<And>e. HttpCode (h e) \<in> codes) \<Longrightarrow> (\<And>a t. fails_with codes (f a t)) \<Longrightarrow> fails_with codes (run_try m h f s)"
  by (auto simp: fails_with_def run_try_def run_bind_def split: prod.splits outcome.splits sum.splits)

lemma fails_same:
  "fails_with codes (m s) \<Longrightarrow> (\<And>a t. fails_with codes (f a t)) \<Longrightarrow> fails_with codes (run_try m (\<lambda>e. e) f s)"
  by (auto simp: fails_with_def run_try_def run_bind_def split: prod.splits outcome.splits sum.splits)

lemma fails_defer [fails_intros]: "fails_with codes (m s) \<Longrightarrow> fails_with codes (run_defer d m s)"
  by (auto simp: fails_with_def run_defer_def split: prod.splits outcome.splits)

lemmas service_error_defs = HandleGetError_status HandleCreateError_def HandleUpdateError_def HandleDeleteError_def

lemma replace_locked_fails: "fails_with {404, 409, 500} (replace_locked g dao ev ctx d s)"
  unfolding replace_locked_def by (auto intro!: fails_intros simp: service_error_defs)

lemma service_fails:
  "fails_with {404, 500} (DinosaurService_Get g dao ctx i s)"
  "fails_with {409, 500} (DinosaurService_Create g dao ev ctx d s)"
  "fails_with {404, 409, 500} (DinosaurService_Replace g mode lf dao ev ctx d s)"
  unfolding DinosaurService_Get_def DinosaurService_Create_def DinosaurService_Replace_def
  by (auto intro!: fails_intros replace_locked_fails simp: service_error_defs split: option.splits)

lemma delete_fails:
  assumes "DinosaurService_Delete g dao ev ctx i s = (Done (Some e), s')"
  shows "HttpCode e = 500"
proof -
  obtain err t where 1: "daoDelete dao ctx i s = (Done err, t)" and 2: "(case err of
       Some err \<Rightarrow> run_ret (Some (HandleDeleteError g ''Dinosaur''
           (SvcError (GeneralError ''Unable to delete dinosaur: %s'' [FStr (Error g err)]))))
     | None \<Rightarrow>
         run_bind (esCreate ev ctx (dinosaur_event i DeleteEventType)) (\<lambda>r. case r of
           Inl err \<Rightarrow> run_ret (Some (HandleDeleteError g ''Dinosaur'' (SvcError err)))
         | Inr _ \<Rightarrow> run_ret None)) t = (Done (Some e), s')"
    using assms unfolding DinosaurService_Delete_def run_bind_Done_iff by blast
  show ?thesis
  proof (cases err)
    case None
    with 2 obtain r :: "service_error + event" and u where "(case r of
           Inl err \<Rightarrow> run_ret (Some (HandleDeleteError g ''Dinosaur'' (SvcError err)))
         | Inr _ \<Rightarrow> run_ret None) u = (Done (Some e), s')"
      by (auto simp: run_bind_Done_iff)
    then show ?thesis by (cases r) (auto simp: HandleDeleteError_def)
  next
    case (Some err)
    with 2 show ?thesis by (auto simp: HandleDeleteError_def)
  qed
qed

text \<open>What a handler may answer: a status of the list, or nothing when it does not return.\<close>

definition answers :: "int set \<Rightarrow> unit outcome \<times> 'p response \<times> 's \<Rightarrow> bool" where
  "answers codes out \<longleftrightarrow>
     (case out of (Done u, w, s') \<Rightarrow> (\<exists>c \<in> codes. rStatus w = Some c) | (_, w, s') \<Rightarrow> rStatus w = None)"

lemma run_action_answers:
  assumes "fails_with codes (hcAction cfg b s)" and "hcErrorHandler cfg = None \<or> hcErrorHandler cfg = Some (HandleError g op)"
    and "rStatus w = None" and "ok \<in> answered" and "codes \<subseteq> answered"
  shows "answers answered (run_action g op cfg ok b w s)"
proof -
  obtain r s' where r: "hcAction cfg b s = (r, s')" by fastforce
  have h: "error_handler g op cfg = HandleError g op" using assms(2) by (auto simp: error_handler_def)
  show ?thesis
    using assms r
    by (cases r) (auto simp: run_action_def answers_def finish_def h fails_with_def split: sum.splits unit.splits)
qed

lemma first_error_mem: "first_error vs b = Some e \<Longrightarrow> \<exists>v \<in> set vs. v b = Some e"
  by (induction vs) (auto split: option.splits)

lemma Handle_answers:
  assumes "\<And>b. first_error (hcValidators cfg) b = None \<Longrightarrow> fails_with codes (hcAction cfg b s)"
    and "\<And>v b e. v \<in> set (hcValidators cfg) \<Longrightarrow> v b = Some e \<Longrightarrow> HttpCode e = 400"
    and "hcErrorHandler cfg = Some (HandleError g op)" and "rStatus w = None" and "insert ok (insert 400 codes) \<subseteq> answered"
  shows "answers answered (Handle g op decode raw cfg ok w s)"
proof -
  have h: "error_handler g op cfg = HandleError g op" using assms(3) by (simp add: error_handler_def)
  have bad: "answers answered (Done (), HandleError g op e w, s)" if "HttpCode e = 400" for e
    using that assms(4,5) by (simp add: answers_def)
  show ?thesis
  proof (cases raw)
    case (Inl err)
    then show ?thesis by (simp add: Handle_def bad)
  next
    case raw: (Inr bytes)
    show ?thesis
    proof (cases "decode bytes")
      case (Inl err)
      with raw show ?thesis by (simp add: Handle_def bad)
    next
      case dec: (Inr b)
      show ?thesis
      proof (cases "first_error (hcValidators cfg) b")
        case None
        have "answers answered (run_action g op cfg ok b w s)"
          by (rule run_action_answers [OF assms(1) [OF None]]) (use assms(3-5) in auto)
        with raw dec None show ?thesis by (simp add: Handle_def)
      next
        case (Some e)
        from first_error_mem [OF this] assms(2) have "HttpCode e = 400" by blast
        with raw dec \<open>first_error (hcValidators cfg) b = Some e\<close> show ?thesis by (simp add: Handle_def h bad)
      qed
    qed
  qed
qed

lemma presented_fails: "fails_with codes (m s) \<Longrightarrow> fails_with codes (presented h m s)"
  unfolding presented_def by (rule fails_same) simp_all


end
