(* ===== verification/Environments.thy ===== *)
theory Environments
  imports Auth Trex_Config Session_Factory Dinosaur_Handlers Kind_Controllers
begin

text \<open>
  \<^verbatim>\<open>pkg/environments\<close>, \<^verbatim>\<open>pkg/registry\<close> and the service locators of
  the plugins: the four runtime environments with the defaults they give the flags, the registry
  that finds the services, and the start of the program (\<^verbatim>\<open>Initialize\<close>).

  A locator is a closure over the one environment, so a registered value is the Go type of the
  locator, and calling it reads the environment at that time. What the services are made of for a
  session factory is the record \<open>wiring\<close>. Where Go ranges over a map, the order is a parameter.
\<close>

section \<open>The service registry\<close>

text \<open>The values plugins register: their typed locators, or a plain function of the event service.\<close>

datatype locator = EventsLocator | GenericLocator | DinosaursLocator | EventServiceFunc

type_synonym services = "(string \<rightharpoonup> locator) option" \<comment> \<open>\<open>None\<close> is the nil map\<close>

definition GetService :: "string \<Rightarrow> services \<Rightarrow> locator option" where
  "GetService name s = (case s of None \<Rightarrow> None | Some m \<Rightarrow> m name)"

definition SetService :: "string \<Rightarrow> locator \<Rightarrow> services \<Rightarrow> services" where
  "SetService name service s = Some ((case s of None \<Rightarrow> Map.empty | Some m \<Rightarrow> m)(name \<mapsto> service))"

definition InitRegistry :: "services \<Rightarrow> services" where
  "InitRegistry s = Some Map.empty"

record ('f, 'n) env =
  evName :: string
  evServices :: services
  evClient :: "'n ocm_client option"
  evDatabase :: "'f option"
  evConfig :: application_config

type_synonym ('f, 'n) service_registry = "string \<rightharpoonup> (('f, 'n) env \<Rightarrow> locator)"

definition RegisterService ::
    "string \<Rightarrow> (('f, 'n) env \<Rightarrow> locator) \<Rightarrow> ('f, 'n) service_registry \<Rightarrow> ('f, 'n) service_registry" where
  "RegisterService name locatorFunc reg = reg(name \<mapsto> locatorFunc)"

text \<open>\<open>nms\<close> is the order in which the map of registered services is ranged over.\<close>

fun LoadDiscoveredServices ::
    "string list \<Rightarrow> ('f, 'n) service_registry \<Rightarrow> ('f, 'n) env \<Rightarrow> services \<Rightarrow> services" where
  "LoadDiscoveredServices [] reg e s = s"
| "LoadDiscoveredServices (name # nms) reg e s =
     (case reg name of
        None \<Rightarrow> LoadDiscoveredServices nms reg e s
      | Some locatorFunc \<Rightarrow> LoadDiscoveredServices nms reg e (SetService name (locatorFunc e) s))"

section \<open>The plugins' services\<close>

record ('f, 's) wiring =
  wiErrors :: error_config
  wiMode :: lock_mode
  wiLocks :: "'f option \<Rightarrow> 's lock_factory" \<comment> \<open>\<^verbatim>\<open>db.NewAdvisoryLockFactory\<close>\<close>
  wiDinosaurs :: "'f option \<Rightarrow> 's dinosaur_dao" \<comment> \<open>\<^verbatim>\<open>NewDinosaurDao\<close>\<close>
  wiEvents :: "'f option \<Rightarrow> (event, 's) crud_dao" \<comment> \<open>\<^verbatim>\<open>dao.NewEventDao\<close>\<close>
  wiGeneric :: "'f option \<Rightarrow> (dinosaur, 's) generic_service" \<comment> \<open>the generic service on its DAO\<close>

definition conversion_panic :: "string \<Rightarrow> string" where
  "conversion_panic t = ''interface conversion: interface {} is not '' @ t"

definition nil_event_service :: "'s event_service" where
  "nil_event_service =
     \<lparr>esGet = \<lambda>_ _. run_go (Panic nil_deref), esCreate = \<lambda>_ _. run_go (Panic nil_deref),
      esReplace = \<lambda>_ _. run_go (Panic nil_deref), esDelete = \<lambda>_ _. run_go (Panic nil_deref),
      esAll = \<lambda>_. run_go (Panic nil_deref), esFindByIDs = \<lambda>_ _. run_go (Panic nil_deref)\<rparr>"

text \<open>Calling the locators.\<close>

definition events_locator :: "('f, 's) wiring \<Rightarrow> ('f, 'n) env \<Rightarrow> 's event_service" where
  "events_locator wi e = sqlEventService (wiErrors wi) (wiEvents wi (evDatabase e))"

definition events_Service :: "('f, 's) wiring \<Rightarrow> ('f, 'n) env option \<Rightarrow> 's event_service option go" where
  "events_Service wi p =
     (case p of
        None \<Rightarrow> Ret None
      | Some e \<Rightarrow>
          (case GetService ''Events'' (evServices e) of
             None \<Rightarrow> Ret None
           | Some EventsLocator \<Rightarrow> Ret (Some (events_locator wi e))
           | Some obj \<Rightarrow> Panic (conversion_panic ''events.ServiceLocator'')))"

definition generic_Service :: "('f, 's) wiring \<Rightarrow> ('f, 'n) env option \<Rightarrow> (dinosaur, 's) generic_service option go" where
  "generic_Service wi p =
     (case p of
        None \<Rightarrow> Ret None
      | Some e \<Rightarrow>
          (case GetService ''Generic'' (evServices e) of
             None \<Rightarrow> Ret None
           | Some GenericLocator \<Rightarrow> Ret (Some (wiGeneric wi (evDatabase e)))
           | Some obj \<Rightarrow> Panic (conversion_panic ''generic.ServiceLocator'')))"

definition dinosaurs_locator :: "('f, 's) wiring \<Rightarrow> ('f, 'n) env \<Rightarrow> 's dinosaur_service go" where
  "dinosaurs_locator wi e =
     go_bind (events_Service wi (Some e)) (\<lambda>ev.
       Ret (NewDinosaurService (wiErrors wi) (wiMode wi) (wiLocks wi (evDatabase e)) (wiDinosaurs wi (evDatabase e))
              (case ev of None \<Rightarrow> nil_event_service | Some svc \<Rightarrow> svc)))"

definition dinosaurs_Service :: "('f, 's) wiring \<Rightarrow> ('f, 'n) env option \<Rightarrow> 's dinosaur_service option go" where
  "dinosaurs_Service wi p =
     (case p of
        None \<Rightarrow> Ret None
      | Some e \<Rightarrow>
          (case GetService ''Dinosaurs'' (evServices e) of
             None \<Rightarrow> Ret None
           | Some DinosaursLocator \<Rightarrow> go_bind (dinosaurs_locator wi e) (\<lambda>svc. Ret (Some svc))
           | Some obj \<Rightarrow> Panic (conversion_panic ''dinosaurs.ServiceLocator'')))"

text \<open>The registrations in the \<^verbatim>\<open>init\<close> functions of the plugins.\<close>

definition events_init :: "('f, 'n) service_registry \<Rightarrow> ('f, 'n) service_registry" where
  "events_init = RegisterService ''Events'' (\<lambda>e. EventsLocator)"

definition generic_init :: "('f, 'n) service_registry \<Rightarrow> ('f, 'n) service_registry" where
  "generic_init = RegisterService ''Generic'' (\<lambda>e. GenericLocator)"

definition dinosaurs_init :: "('f, 'n) service_registry \<Rightarrow> ('f, 'n) service_registry" where
  "dinosaurs_init = RegisterService ''Dinosaurs'' (\<lambda>e. DinosaursLocator)"

section \<open>The runtime environments\<close>

definition UnitTestingEnv :: string where "UnitTestingEnv = ''unit_testing''"
definition IntegrationTestingEnv :: string where "IntegrationTestingEnv = ''integration_testing''"
definition DevelopmentEnv :: string where "DevelopmentEnv = ''development''"
definition ProductionEnv :: string where "ProductionEnv = ''production''"
definition EnvironmentStringKey :: string where "EnvironmentStringKey = ''OCM_ENV''"
definition EnvironmentDefault :: string where "EnvironmentDefault = DevelopmentEnv"

text \<open>
  What the program asks of its surroundings: the environment variables, the factories of sessions,
  the SDK, the files, the hostname with its error, and the error of starting Sentry.
\<close>

record sentry_options =
  soDsn :: string
  soTimeout :: int
  soBufferSize :: int
  soDebug :: bool
  soAttachStacktrace :: bool
  soEnvironment :: string
  soServerName :: string

record ('f, 'n, 'q) boot_lib =
  blGetenv :: "string \<Rightarrow> string option"
  blProdFactory :: "database_config \<Rightarrow> 'f go"
  blTestFactory :: "database_config \<Rightarrow> 'f go"
  blContainerFactory :: "database_config \<Rightarrow> 'f go"
  blMockFactory :: "'f go"
  blSdk :: "('n, 'q) ocm_sdk"
  blFiles :: config_io
  blHostname :: "string \<times> string option"
  blSentryInit :: "sentry_options \<Rightarrow> string option"

text \<open>
  An implementation of the environment interface. Its methods return an error; of the handlers,
  whose only field nothing reads, just that error is kept.
\<close>

record ('f, 'n) env_impl =
  eiFlags :: "(string \<times> string) list"
  eiOverrideConfig :: "application_config \<Rightarrow> application_config \<times> string option"
  eiOverrideDatabase :: "application_config \<Rightarrow> 'f option \<Rightarrow> ('f option \<times> string option) go"
  eiOverrideClients :: "'n ocm_client option \<Rightarrow> 'n ocm_client option \<times> string option"
  eiOverrideServices :: "services \<Rightarrow> services \<times> string option"
  eiOverrideHandlers :: "string option"

definition DevEnvImpl :: "('f, 'n, 'q) boot_lib \<Rightarrow> ('f, 'n) env_impl" where
  "DevEnvImpl bl =
     \<lparr>eiFlags =
        [(''v'', ''10''), (''enable-authz'', ''false''), (''ocm-debug'', ''false''), (''enable-ocm-mock'', ''true''),
         (''enable-https'', ''false''), (''enable-metrics-https'', ''false''), (''api-server-hostname'', ''localhost''),
         (''api-server-bindaddress'', ''localhost:8000''), (''enable-sentry'', ''false'')],
      eiOverrideConfig = (\<lambda>c. (c\<lparr>acServer := (acServer c)\<lparr>scEnableJWT := False, scEnableHTTPS := False\<rparr>\<rparr>, None)),
      eiOverrideDatabase = (\<lambda>c _. go_bind (blProdFactory bl (acDatabase c)) (\<lambda>f. Ret (Some f, None))),
      eiOverrideClients = (\<lambda>c. (c, None)), eiOverrideServices = (\<lambda>s. (s, None)), eiOverrideHandlers = None\<rparr>"

definition testing_flags :: "(string \<times> string) list" where
  "testing_flags =
     [(''v'', ''0''), (''logtostderr'', ''true''), (''ocm-base-url'', ''https://api.integration.openshift.com''),
      (''enable-https'', ''false''), (''enable-metrics-https'', ''false''), (''enable-authz'', ''true''),
      (''ocm-debug'', ''false''), (''enable-ocm-mock'', ''true''), (''enable-sentry'', ''false'')]"

definition debug_from_env :: "('f, 'n, 'q) boot_lib \<Rightarrow> application_config \<Rightarrow> application_config \<times> string option" where
  "debug_from_env bl c =
     (if blGetenv bl ''DB_DEBUG'' = Some ''true'' then c\<lparr>acDatabase := (acDatabase c)\<lparr>dcDebug := True\<rparr>\<rparr> else c, None)"

definition UnitTestingEnvImpl :: "('f, 'n, 'q) boot_lib \<Rightarrow> ('f, 'n) env_impl" where
  "UnitTestingEnvImpl bl =
     \<lparr>eiFlags = testing_flags, eiOverrideConfig = debug_from_env bl,
      eiOverrideDatabase = (\<lambda>c _. go_bind (blMockFactory bl) (\<lambda>f. Ret (Some f, None))),
      eiOverrideClients = (\<lambda>c. (c, None)), eiOverrideServices = (\<lambda>s. (s, None)), eiOverrideHandlers = None\<rparr>"

definition IntegrationTestingEnvImpl :: "('f, 'n, 'q) boot_lib \<Rightarrow> ('f, 'n) env_impl" where
  "IntegrationTestingEnvImpl bl =
     \<lparr>eiFlags = testing_flags, eiOverrideConfig = debug_from_env bl,
      eiOverrideDatabase = (\<lambda>c _.
        go_bind (if blGetenv bl ''DB_FACTORY_MODE'' = Some ''external'' then blTestFactory bl (acDatabase c)
                 else blContainerFactory bl (acDatabase c)) (\<lambda>f. Ret (Some f, None))),
      eiOverrideClients = (\<lambda>c. (c, None)), eiOverrideServices = (\<lambda>s. (s, None)), eiOverrideHandlers = None\<rparr>"

definition ProductionEnvImpl :: "('f, 'n, 'q) boot_lib \<Rightarrow> ('f, 'n) env_impl" where
  "ProductionEnvImpl bl =
     \<lparr>eiFlags = [(''v'', ''1''), (''ocm-debug'', ''false''), (''enable-ocm-mock'', ''false''), (''enable-sentry'', ''true'')],
      eiOverrideConfig = (\<lambda>c. (c, None)),
      eiOverrideDatabase = (\<lambda>c _. go_bind (blProdFactory bl (acDatabase c)) (\<lambda>f. Ret (Some f, None))),
      eiOverrideClients = (\<lambda>c. (c, None)), eiOverrideServices = (\<lambda>s. (s, None)), eiOverrideHandlers = None\<rparr>"

definition DefaultEnvironmentImpls :: "('f, 'n, 'q) boot_lib \<Rightarrow> string \<rightharpoonup> ('f, 'n) env_impl" where
  "DefaultEnvironmentImpls bl =
     [DevelopmentEnv \<mapsto> DevEnvImpl bl, UnitTestingEnv \<mapsto> UnitTestingEnvImpl bl,
      IntegrationTestingEnv \<mapsto> IntegrationTestingEnvImpl bl, ProductionEnv \<mapsto> ProductionEnvImpl bl]"

definition GetEnvironmentStrFromEnv :: "('f, 'n, 'q) boot_lib \<Rightarrow> string" where
  "GetEnvironmentStrFromEnv bl =
     (case blGetenv bl EnvironmentStringKey of
        None \<Rightarrow> EnvironmentDefault
      | Some envStr \<Rightarrow> if envStr = [] then EnvironmentDefault else envStr)"

text \<open>The global environment and the implementations, set once.\<close>

record ('f, 'n) env_globals =
  egEnv :: "('f, 'n) env option"
  egImpls :: "string \<rightharpoonup> ('f, 'n) env_impl"

definition start_env :: "('f, 'n, 'q) boot_lib \<Rightarrow> ('f, 'n) env" where
  "start_env bl =
     \<lparr>evName = GetEnvironmentStrFromEnv bl, evServices = None, evClient = None, evDatabase = None,
      evConfig = NewApplicationConfig\<rparr>"

definition NewEnvironment ::
    "('f, 'n, 'q) boot_lib \<Rightarrow> (string \<rightharpoonup> ('f, 'n) env_impl) \<Rightarrow> ('f, 'n) env_globals \<Rightarrow> ('f, 'n) env_globals" where
  "NewEnvironment bl impls G =
     (case egEnv G of Some e \<Rightarrow> G | None \<Rightarrow> G\<lparr>egEnv := Some (start_env bl), egImpls := impls\<rparr>)"

definition NewDefaultEnvironment :: "('f, 'n, 'q) boot_lib \<Rightarrow> ('f, 'n) env_globals \<Rightarrow> ('f, 'n) env_globals" where
  "NewDefaultEnvironment bl G = NewEnvironment bl (DefaultEnvironmentImpls bl) G"

section \<open>Flags\<close>

text \<open>\<^verbatim>\<open>pflag\<close>'s \<^verbatim>\<open>Set\<close> of a flag by name.\<close>

definition set_flag :: "'c flags \<Rightarrow> string \<Rightarrow> string \<Rightarrow> 'c \<Rightarrow> string + 'c" where
  "set_flag fs name value c =
     (case fs name of
        None \<Rightarrow> Inl (''no such flag -'' @ name)
      | Some f \<Rightarrow>
          (case f value c of
             Inl err \<Rightarrow> Inl (''invalid argument '' @ go_quote value @ '' for '' @ go_quote (''--'' @ name) @ '' flag: '' @ err)
           | Inr c' \<Rightarrow> Inr c'))"

text \<open>The defaults in the order in which the map is ranged over.\<close>

fun SetConfigDefaults :: "'c flags \<Rightarrow> (string \<times> string) list \<Rightarrow> 'c \<Rightarrow> 'c \<times> string option" where
  "SetConfigDefaults fs [] c = (c, None)"
| "SetConfigDefaults fs ((name, value) # defaults) c =
     (case set_flag fs name value c of
        Inl err \<Rightarrow> (c, Some err)
      | Inr c' \<Rightarrow> SetConfigDefaults fs defaults c')"

text \<open>\<open>rng\<close> orders the defaults of the environment; an unknown environment is a nil interface.\<close>

definition env_AddFlags ::
    "config_io \<Rightarrow> application_config flags \<Rightarrow> ((string \<times> string) list \<Rightarrow> (string \<times> string) list)
     \<Rightarrow> (string \<rightharpoonup> ('f, 'n) env_impl) \<Rightarrow> ('f, 'n) env \<Rightarrow> (('f, 'n) env \<times> string option) go" where
  "env_AddFlags io goFlags rng impls e =
     go_bind (AddFlags io goFlags (evConfig e)) (\<lambda>(fs, c).
       (case impls (evName e) of
          None \<Rightarrow> Panic nil_deref
        | Some impl \<Rightarrow>
            (case SetConfigDefaults fs (rng (eiFlags impl)) c of
               (c', err) \<Rightarrow> Ret (e\<lparr>evConfig := c'\<rparr>, err))))"

section \<open>Initialize\<close>

datatype boot = Booted | BootFailed string | BootExited string \<comment> \<open>by \<^verbatim>\<open>glog.Fatalf\<close>\<close>

definition or_fatal ::
    "string \<Rightarrow> string option \<Rightarrow> ('f, 'n) env \<Rightarrow> (boot \<times> ('f, 'n) env) go \<Rightarrow> (boot \<times> ('f, 'n) env) go" where
  "or_fatal format err e rest =
     (case err of None \<Rightarrow> rest | Some x \<Rightarrow> Ret (BootExited (sprintf format [FStr x]), e))"

definition or_return :: "string option \<Rightarrow> ('f, 'n) env \<Rightarrow> (boot \<times> ('f, 'n) env) go \<Rightarrow> (boot \<times> ('f, 'n) env) go" where
  "or_return err e rest = (case err of None \<Rightarrow> rest | Some x \<Rightarrow> Ret (BootFailed x, e))"

definition LoadClients :: "('f, 'n, 'q) boot_lib \<Rightarrow> ('f, 'n) env \<Rightarrow> ('f, 'n) env \<times> string option" where
  "LoadClients bl e =
     (let c = acOCM (evConfig e);
          settings = \<lparr>osBaseURL = ocBaseURL c, osClientID = ocClientID c, osClientSecret = ocClientSecret c,
                      osSelfToken = ocSelfToken c, osTokenURL = ocTokenURL c, osDebug = ocDebug c\<rparr>
      in case (if ocEnableMock c then NewClientMock settings else NewClient (blSdk bl) settings) of
           Inl err \<Rightarrow> (e\<lparr>evClient := None\<rparr>, Some err)
         | Inr client \<Rightarrow> (e\<lparr>evClient := Some client\<rparr>, None))"

definition LoadServices ::
    "string list \<Rightarrow> ('f, 'n) service_registry \<Rightarrow> ('f, 'n) env \<Rightarrow> ('f, 'n) env" where
  "LoadServices nms reg e = e\<lparr>evServices := LoadDiscoveredServices nms reg e (InitRegistry (evServices e))\<rparr>"

definition sentry_client_options :: "('f, 'n, 'q) boot_lib \<Rightarrow> ('f, 'n) env \<Rightarrow> sentry_options" where
  "sentry_client_options bl e =
     (let c = acSentry (evConfig e);
          (hostname, err) = blHostname bl
      in \<lparr>soDsn = (if stEnabled c then sprintf ''https://%s@%s/%s'' [FStr (stKey c), FStr (stURL c), FStr (stProject c)]
                   else []),
          soTimeout = stTimeout c, soBufferSize = 10, soDebug = stDebug c, soAttachStacktrace = True,
          soEnvironment = evName e, soServerName = (if err \<noteq> None \<and> hostname \<noteq> [] then hostname else [])\<rparr>)"

definition InitializeSentry :: "('f, 'n, 'q) boot_lib \<Rightarrow> ('f, 'n) env \<Rightarrow> string option" where
  "InitializeSentry bl e = blSentryInit bl (sentry_client_options bl e)"

definition Seed :: "('f, 'n) env \<Rightarrow> service_error option" where
  "Seed e = None"

definition Initialize ::
    "('f, 'n, 'q) boot_lib \<Rightarrow> string list \<Rightarrow> ('f, 'n) service_registry \<Rightarrow> (string \<rightharpoonup> ('f, 'n) env_impl)
     \<Rightarrow> ('f, 'n) env \<Rightarrow> (boot \<times> ('f, 'n) env) go" where
  "Initialize bl nms reg impls e =
     (case impls (evName e) of
        None \<Rightarrow> Ret (BootExited (sprintf ''Unknown runtime environment: %s'' [FStr (evName e)]), e)
      | Some impl \<Rightarrow>
          (case eiOverrideConfig impl (evConfig e) of (c0, err) \<Rightarrow>
           or_fatal ''Failed to configure ApplicationConfig: %s'' err (e\<lparr>evConfig := c0\<rparr>)
          (case ReadFiles (blFiles bl) c0 of (c, messages) \<Rightarrow>
           let e1 = e\<lparr>evConfig := c\<rparr>
           in if messages \<noteq> []
              then Ret (BootExited (sprintf (''unable to read configuration files:'' @ [CHR 0x0A] @ ''%s'')
                          [FStr (join [CHR 0x0A] messages)]), e1)
              else
           go_bind (eiOverrideDatabase impl c (evDatabase e1)) (\<lambda>(f, err).
           let e2 = e1\<lparr>evDatabase := f\<rparr>
           in or_fatal ''Failed to configure Database: %s'' err e2
          (case LoadClients bl e2 of (e3, err) \<Rightarrow>
           or_return err e3
          (case eiOverrideClients impl (evClient e3) of (cl, err) \<Rightarrow>
           let e4 = e3\<lparr>evClient := cl\<rparr>
           in or_fatal ''Failed to configure Clients: %s'' err e4
          (let e5 = LoadServices nms reg e4
           in case eiOverrideServices impl (evServices e5) of (svcs, err) \<Rightarrow>
           let e6 = e5\<lparr>evServices := svcs\<rparr>
           in or_fatal ''Failed to configure Services: %s'' err e6
          (or_return (InitializeSentry bl e6) e6
          (or_return (map_option Reason (Seed e6)) e6
          (or_fatal ''Failed to configure Handlers: %s'' (eiOverrideHandlers impl) e6
          (Ret (Booted, e6))))))))))))"

text \<open>What the end of the program closes, in this order.\<close>

datatype ('f, 'n) closing = CloseFactory 'f | CloseConnection 'n

definition Teardown :: "('f, 'n) env \<Rightarrow> ('f, 'n) closing list go" where
  "Teardown e =
     (let factory = (case evDatabase e of None \<Rightarrow> [] | Some f \<Rightarrow> [CloseFactory f])
      in case evClient e of
           None \<Rightarrow> Panic nil_deref
         | Some client \<Rightarrow>
             Ret (factory @ (case ocConnection client of None \<Rightarrow> [] | Some n \<Rightarrow> [CloseConnection n])))"

section \<open>Facts about flags\<close>

lemma map_of_part:
  "map_of (part_flags gt pt fs) n = map_option (\<lambda>f v c. map_sum id (\<lambda>d. pt d c) (f v (gt c))) (map_of fs n)"
  by (induction fs) (auto simp: part_flags_def id_def)

lemma map_of_append_eq: "map_of (xs @ ys) n = (case map_of xs n of None \<Rightarrow> map_of ys n | Some f \<Rightarrow> Some f)"
  by (simp add: map_of_append map_add_def split: option.splits)

lemma app_flag_lookup:
  "map_of (application_flags io) ''enable-authz'' =
     Some (\<lambda>v c. map_sum id (\<lambda>d. c\<lparr>acServer := d\<rparr>) (BoolVar (\<lambda>v c. c\<lparr>scEnableAuthz := v\<rparr>) v (acServer c)))"
  "map_of (application_flags io) ''enable-https'' =
     Some (\<lambda>v c. map_sum id (\<lambda>d. c\<lparr>acServer := d\<rparr>) (BoolVar (\<lambda>v c. c\<lparr>scEnableHTTPS := v\<rparr>) v (acServer c)))"
  "map_of (application_flags io) ''api-server-hostname'' =
     Some (\<lambda>v c. map_sum id (\<lambda>d. c\<lparr>acServer := d\<rparr>) (StringVar (\<lambda>v c. c\<lparr>scHostname := v\<rparr>) v (acServer c)))"
  "map_of (application_flags io) ''api-server-bindaddress'' =
     Some (\<lambda>v c. map_sum id (\<lambda>d. c\<lparr>acServer := d\<rparr>) (StringVar (\<lambda>v c. c\<lparr>scBindAddress := v\<rparr>) v (acServer c)))"
  "map_of (application_flags io) ''enable-metrics-https'' =
     Some (\<lambda>v c. map_sum id (\<lambda>d. c\<lparr>acMetrics := d\<rparr>) (BoolVar (\<lambda>v c. c\<lparr>mcEnableHTTPS := v\<rparr>) v (acMetrics c)))"
  "map_of (application_flags io) ''ocm-debug'' =
     Some (\<lambda>v c. map_sum id (\<lambda>d. c\<lparr>acOCM := d\<rparr>) (BoolVar (\<lambda>v c. c\<lparr>ocDebug := v\<rparr>) v (acOCM c)))"
  "map_of (application_flags io) ''enable-ocm-mock'' =
     Some (\<lambda>v c. map_sum id (\<lambda>d. c\<lparr>acOCM := d\<rparr>) (BoolVar (\<lambda>v c. c\<lparr>ocEnableMock := v\<rparr>) v (acOCM c)))"
  "map_of (application_flags io) ''ocm-base-url'' =
     Some (\<lambda>v c. map_sum id (\<lambda>d. c\<lparr>acOCM := d\<rparr>) (StringVar (\<lambda>v c. c\<lparr>ocBaseURL := v\<rparr>) v (acOCM c)))"
  "map_of (application_flags io) ''enable-sentry'' =
     Some (\<lambda>v c. map_sum id (\<lambda>d. c\<lparr>acSentry := d\<rparr>) (BoolVar (\<lambda>v c. c\<lparr>stEnabled := v\<rparr>) v (acSentry c)))"
  "map_of (application_flags io) ''v'' = None"
  "map_of (application_flags io) ''logtostderr'' = None"
  by (simp_all add: application_flags_def map_of_append_eq map_of_part part_flag_defs del: map_of_append)


text \<open>The effect of a flag that accepts its value.\<close>

definition flag_effect :: "'c flags \<Rightarrow> string \<times> string \<Rightarrow> 'c \<Rightarrow> 'c" where
  "flag_effect fs nv c = (case set_flag fs (fst nv) (snd nv) c of Inr c' \<Rightarrow> c' | Inl _ \<Rightarrow> c)"

definition accepts :: "'c flags \<Rightarrow> string \<times> string \<Rightarrow> bool" where
  "accepts fs nv \<longleftrightarrow> (\<forall>c. \<not> isl (set_flag fs (fst nv) (snd nv) c))"

lemma SetConfigDefaults_fold:
  "\<forall>nv \<in> set l. accepts fs nv \<Longrightarrow> SetConfigDefaults fs l c = (fold (flag_effect fs) l c, None)"
proof (induction l arbitrary: c)
  case (Cons nv l)
  obtain n v where nv: "nv = (n, v)" by (cases nv)
  from Cons.prems obtain c' where "set_flag fs n v c = Inr c'"
    by (cases "set_flag fs n v c") (auto simp: accepts_def nv dest: spec [where x = c])
  with Cons show ?case by (simp add: nv flag_effect_def)
qed simp

text \<open>What a reading of the configuration sees of the defaults: those that concern it say the same.\<close>

lemma fold_reading:
  assumes "\<forall>nv \<in> set l. \<forall>c. rd (flag_effect fs nv c) = (if P nv then x else rd c)"
  shows "rd (fold (flag_effect fs) l c) = (if \<exists>nv \<in> set l. P nv then x else rd c)"
  using assms by (induction l arbitrary: c) auto

text \<open>The flags of other packages: glog's two accept what the environments set, and no name clashes.\<close>

definition glog_flags :: "config_io \<Rightarrow> application_config flags \<Rightarrow> bool" where
  "glog_flags io goFlags \<longleftrightarrow>
     set (map fst (application_flags io)) \<inter> dom goFlags = {} \<and>
     (\<exists>f. goFlags ''v'' = Some f \<and> (\<forall>v \<in> {''0'', ''1'', ''10''}. \<forall>c. f v c = Inr c)) \<and>
     (\<exists>f. goFlags ''logtostderr'' = Some f \<and> (\<forall>c. f ''true'' c = Inr c))"

lemma env_flags_accepted:
  assumes "glog_flags io goFlags" and "fs = goFlags ++ map_of (application_flags io)"
  shows
    "v \<in> {''0'', ''1'', ''10''} \<Longrightarrow> set_flag fs ''v'' v c = Inr c"
    "set_flag fs ''logtostderr'' ''true'' c = Inr c"
    "set_flag fs ''enable-authz'' ''false'' c = Inr (c\<lparr>acServer := (acServer c)\<lparr>scEnableAuthz := False\<rparr>\<rparr>)"
    "set_flag fs ''enable-authz'' ''true'' c = Inr (c\<lparr>acServer := (acServer c)\<lparr>scEnableAuthz := True\<rparr>\<rparr>)"
    "set_flag fs ''enable-https'' ''false'' c = Inr (c\<lparr>acServer := (acServer c)\<lparr>scEnableHTTPS := False\<rparr>\<rparr>)"
    "set_flag fs ''api-server-hostname'' h c = Inr (c\<lparr>acServer := (acServer c)\<lparr>scHostname := h\<rparr>\<rparr>)"
    "set_flag fs ''api-server-bindaddress'' h c = Inr (c\<lparr>acServer := (acServer c)\<lparr>scBindAddress := h\<rparr>\<rparr>)"
    "set_flag fs ''enable-metrics-https'' ''false'' c = Inr (c\<lparr>acMetrics := (acMetrics c)\<lparr>mcEnableHTTPS := False\<rparr>\<rparr>)"
    "set_flag fs ''ocm-debug'' ''false'' c = Inr (c\<lparr>acOCM := (acOCM c)\<lparr>ocDebug := False\<rparr>\<rparr>)"
    "set_flag fs ''enable-ocm-mock'' ''true'' c = Inr (c\<lparr>acOCM := (acOCM c)\<lparr>ocEnableMock := True\<rparr>\<rparr>)"
    "set_flag fs ''enable-ocm-mock'' ''false'' c = Inr (c\<lparr>acOCM := (acOCM c)\<lparr>ocEnableMock := False\<rparr>\<rparr>)"
    "set_flag fs ''ocm-base-url'' h c = Inr (c\<lparr>acOCM := (acOCM c)\<lparr>ocBaseURL := h\<rparr>\<rparr>)"
    "set_flag fs ''enable-sentry'' ''false'' c = Inr (c\<lparr>acSentry := (acSentry c)\<lparr>stEnabled := False\<rparr>\<rparr>)"
    "set_flag fs ''enable-sentry'' ''true'' c = Inr (c\<lparr>acSentry := (acSentry c)\<lparr>stEnabled := True\<rparr>\<rparr>)"
  using assms
  by (auto simp: glog_flags_def set_flag_def map_add_def app_flag_lookup BoolVar_def StringVar_def ParseBool_def)


definition flag_readings :: "application_config \<Rightarrow> bool \<times> bool \<times> bool \<times> bool \<times> string" where
  "flag_readings c =
     (ocEnableMock (acOCM c), stEnabled (acSentry c), scEnableAuthz (acServer c), scEnableHTTPS (acServer c),
      scHostname (acServer c))"

lemma defaults_readings:
  assumes glog: "glog_flags io goFlags" and fs: "fs = goFlags ++ map_of (application_flags io)"
    and l: "set l = set flags"
    and flags: "flags = eiFlags (DevEnvImpl bl) \<and> r = (True, False, False, False, ''localhost'') \<or>
      flags = testing_flags \<and> r = (True, False, True, False, scHostname (acServer c)) \<or>
      flags = eiFlags (ProductionEnvImpl bl) \<and> r = (False, True, scEnableAuthz (acServer c), scEnableHTTPS (acServer c), scHostname (acServer c))"
  shows "\<exists>c'. SetConfigDefaults fs l c = (c', None) \<and> flag_readings c' = r"
proof -
  note accepted = env_flags_accepted [OF glog fs]
  have acc: "\<forall>nv \<in> set l. accepts fs nv"
    using flags unfolding l
    by (elim disjE conjE) (simp_all add: accepts_def DevEnvImpl_def ProductionEnvImpl_def testing_flags_def accepted)
  note reading = fold_reading [where fs = fs and l = l and c = c]
  have mock: "ocEnableMock (acOCM (fold (flag_effect fs) l c)) = fst r"
    using flags l
    by (elim disjE conjE; subst reading [where rd = "\<lambda>c. ocEnableMock (acOCM c)" and P = "\<lambda>nv. fst nv = ''enable-ocm-mock''" and x = "fst r"])
      (simp_all add: flag_effect_def DevEnvImpl_def ProductionEnvImpl_def testing_flags_def accepted)
  have sentry: "stEnabled (acSentry (fold (flag_effect fs) l c)) = fst (snd r)"
    using flags l
    by (elim disjE conjE; subst reading [where rd = "\<lambda>c. stEnabled (acSentry c)" and P = "\<lambda>nv. fst nv = ''enable-sentry''" and x = "fst (snd r)"])
      (simp_all add: flag_effect_def DevEnvImpl_def ProductionEnvImpl_def testing_flags_def accepted)
  have authz: "scEnableAuthz (acServer (fold (flag_effect fs) l c)) = fst (snd (snd r))"
    using flags l
    by (elim disjE conjE; subst reading [where rd = "\<lambda>c. scEnableAuthz (acServer c)" and P = "\<lambda>nv. fst nv = ''enable-authz''" and x = "fst (snd (snd r))"])
      (simp_all add: flag_effect_def DevEnvImpl_def ProductionEnvImpl_def testing_flags_def accepted)
  have https: "scEnableHTTPS (acServer (fold (flag_effect fs) l c)) = fst (snd (snd (snd r)))"
    using flags l
    by (elim disjE conjE; subst reading [where rd = "\<lambda>c. scEnableHTTPS (acServer c)" and P = "\<lambda>nv. fst nv = ''enable-https''" and x = "fst (snd (snd (snd r)))"])
      (simp_all add: flag_effect_def DevEnvImpl_def ProductionEnvImpl_def testing_flags_def accepted)
  have host: "scHostname (acServer (fold (flag_effect fs) l c)) = snd (snd (snd (snd r)))"
    using flags l
    by (elim disjE conjE; subst reading [where rd = "\<lambda>c. scHostname (acServer c)" and P = "\<lambda>nv. fst nv = ''api-server-hostname''" and x = "snd (snd (snd (snd r)))"])
      (simp_all add: flag_effect_def DevEnvImpl_def ProductionEnvImpl_def testing_flags_def accepted)
  show ?thesis
    using SetConfigDefaults_fold [OF acc, of c] mock sentry authz https host
    by (cases r) (simp add: flag_readings_def)
qed

section \<open>Facts about the registry\<close>

lemma LoadDiscoveredServices_eq:
  "s \<noteq> None \<Longrightarrow> GetService name (LoadDiscoveredServices nms reg e s) =
     (if name \<in> set nms \<and> reg name \<noteq> None then map_option (\<lambda>f. f e) (reg name) else GetService name s)"
proof (induction nms arbitrary: s)
  case (Cons n nms)
  show ?case
  proof (cases "reg n")
    case None
    with Cons show ?thesis by auto
  next
    case (Some f)
    have "SetService n (f e) s \<noteq> None" by (simp add: SetService_def)
    from Cons.IH [OF this] Cons.prems Some show ?thesis
      by (auto simp: GetService_def SetService_def split: option.splits)
  qed
qed simp

definition plugins_registry :: "('f, 'n) service_registry" where
  "plugins_registry = dinosaurs_init (events_init (generic_init Map.empty))"

lemma plugins_registry_simps:
  "plugins_registry ''Events'' = Some (\<lambda>e. EventsLocator)"
  "plugins_registry ''Generic'' = Some (\<lambda>e. GenericLocator)"
  "plugins_registry ''Dinosaurs'' = Some (\<lambda>e. DinosaursLocator)"
  by (simp_all add: plugins_registry_def dinosaurs_init_def events_init_def generic_init_def RegisterService_def)

lemma LoadServices_plugins:
  assumes "set nms = {''Events'', ''Generic'', ''Dinosaurs''}"
  shows "GetService ''Events'' (evServices (LoadServices nms plugins_registry e)) = Some EventsLocator"
    "GetService ''Generic'' (evServices (LoadServices nms plugins_registry e)) = Some GenericLocator"
    "GetService ''Dinosaurs'' (evServices (LoadServices nms plugins_registry e)) = Some DinosaursLocator"
  using assms by (simp_all add: LoadServices_def InitRegistry_def LoadDiscoveredServices_eq plugins_registry_simps)

lemma or_fatal_Booted: "or_fatal m err e rest = Ret (Booted, e') \<longleftrightarrow> err = None \<and> rest = Ret (Booted, e')"
  by (simp add: or_fatal_def split: option.splits)

lemma or_return_Booted: "or_return err e rest = Ret (Booted, e') \<longleftrightarrow> err = None \<and> rest = Ret (Booted, e')"
  by (simp add: or_return_def split: option.splits)

lemma Initialize_Booted:
  assumes run: "Initialize bl nms reg impls e = Ret (Booted, e')" and impl: "impls (evName e) = Some impl"
    and same: "eiOverrideServices impl = (\<lambda>s. (s, None))" "eiOverrideClients impl = (\<lambda>c. (c, None))"
  obtains c f e3 where "ReadFiles (blFiles bl) (fst (eiOverrideConfig impl (evConfig e))) = (c, [])"
    and "eiOverrideDatabase impl c (evDatabase e) = Ret (f, None)"
    and "LoadClients bl (e\<lparr>evConfig := c, evDatabase := f\<rparr>) = (e3, None)" and "e' = LoadServices nms reg e3"
proof -
  obtain c0 x0 where 0: "eiOverrideConfig impl (evConfig e) = (c0, x0)" by (cases "eiOverrideConfig impl (evConfig e)")
  obtain c ms where 1: "ReadFiles (blFiles bl) c0 = (c, ms)" by (cases "ReadFiles (blFiles bl) c0")
  from run impl 0 1 obtain f x2 where 2: "ms = []" "eiOverrideDatabase impl c (evDatabase e) = Ret (f, x2)"
    by (cases "eiOverrideDatabase impl c (evDatabase e)")
      (auto simp: Initialize_def or_fatal_Booted Let_def split: if_splits)
  obtain e3 x3 where 3: "LoadClients bl (e\<lparr>evConfig := c, evDatabase := f\<rparr>) = (e3, x3)"
    by (cases "LoadClients bl (e\<lparr>evConfig := c, evDatabase := f\<rparr>)")
  from run impl 0 1 2 3 same have "x2 = None" and "x3 = None" and "e' = LoadServices nms reg e3"
    by (simp_all add: Initialize_def or_fatal_Booted or_return_Booted Let_def)
  with that 0 1 2 3 show thesis by simp
qed

section \<open>Properties\<close>


definition demo_go_flags :: "application_config flags" where
  "demo_go_flags = [''v'' \<mapsto> (\<lambda>v c. Inr c), ''logtostderr'' \<mapsto> (\<lambda>v c. Inr c)]"

definition demo_boot :: "(unit, unit, access_request) boot_lib" where
  "demo_boot =
     \<lparr>blGetenv = Map.empty, blProdFactory = (\<lambda>_. Ret ()), blTestFactory = (\<lambda>_. Ret ()), blContainerFactory = (\<lambda>_. Ret ()),
      blMockFactory = Ret (), blSdk = demo_sdk, blFiles = demo_config_io ''s3cret'', blHostname = (''host'', None),
      blSentryInit = (\<lambda>_. None)\<rparr>"

lemma demo_go_flags_ok: "glog_flags io demo_go_flags"
  using app_flag_lookup(10,11) [of io]
  by (auto simp: glog_flags_def demo_go_flags_def map_of_eq_None_iff)


text \<open>
  C15: A program that has started finds its services: whatever the environment is and whatever the
  order in which the plugins' services are loaded, the configuration has been read from the files
  without a message, there is a session factory and an OCM client, which is the mock exactly when the
  configuration asks for it, and the registry gives the event service and the dinosaur service on
  that factory.
\<close>

theorem initialize_ready:
  assumes "Initialize bl nms plugins_registry (DefaultEnvironmentImpls bl) e = Ret (Booted, e')"
    and "set nms = {''Events'', ''Generic'', ''Dinosaurs''}"
  shows "\<exists>f client c0. evDatabase e' = Some f \<and> evClient e' = Some client \<and> ReadFiles (blFiles bl) c0 = (evConfig e', []) \<and>
    (ocAuthorization client = AuthorizationMock) = ocEnableMock (acOCM (evConfig e')) \<and>
    events_Service wi (Some e') = Ret (Some (sqlEventService (wiErrors wi) (wiEvents wi (Some f)))) \<and>
    generic_Service wi (Some e') = Ret (Some (wiGeneric wi (Some f))) \<and>
    dinosaurs_Service wi (Some e') =
      Ret (Some (NewDinosaurService (wiErrors wi) (wiMode wi) (wiLocks wi (Some f)) (wiDinosaurs wi (Some f))
        (sqlEventService (wiErrors wi) (wiEvents wi (Some f)))))"
proof -
  obtain impl where impl: "DefaultEnvironmentImpls bl (evName e) = Some impl"
    using assms(1) by (cases "DefaultEnvironmentImpls bl (evName e)") (simp_all add: Initialize_def)
  then have same: "eiOverrideServices impl = (\<lambda>s. (s, None))" "eiOverrideClients impl = (\<lambda>c. (c, None))"
    and some: "\<And>c f0 f. eiOverrideDatabase impl c f0 = Ret (f, None) \<Longrightarrow> f \<noteq> None"
    by (auto simp: DefaultEnvironmentImpls_def DevEnvImpl_def UnitTestingEnvImpl_def IntegrationTestingEnvImpl_def
        ProductionEnvImpl_def split: if_splits)
  obtain c f e3 where c: "ReadFiles (blFiles bl) (fst (eiOverrideConfig impl (evConfig e))) = (c, [])"
    and "eiOverrideDatabase impl c (evDatabase e) = Ret (f, None)"
    and cl: "LoadClients bl (e\<lparr>evConfig := c, evDatabase := f\<rparr>) = (e3, None)"
    and e': "e' = LoadServices nms plugins_registry e3"
    by (rule Initialize_Booted [where bl = bl and nms = nms and reg = plugins_registry, OF assms(1) impl same])
  from some this(2) obtain f1 where f1: "f = Some f1" by blast
  from cl obtain client where e3: "evClient e3 = Some client" "evDatabase e3 = f" "evConfig e3 = c"
    "(ocAuthorization client = AuthorizationMock) = ocEnableMock (acOCM c)"
    by (auto simp: LoadClients_def NewClientMock_def NewClient_def Let_def split: sum.splits option.splits if_splits)
  have sel: "evDatabase e' = f" "evClient e' = Some client" "evConfig e' = c" by (simp_all add: e' LoadServices_def e3)
  note found = LoadServices_plugins [OF assms(2), of e3, folded e']
  show ?thesis
    using c e3(4) by (intro exI [of _ f1] exI [of _ client] exI [of _ "fst (eiOverrideConfig impl (evConfig e))"])
      (simp add: sel f1 events_Service_def generic_Service_def dinosaurs_Service_def dinosaurs_locator_def
        events_locator_def found)
qed

lemma demo_read:
  "\<exists>c'. ReadFiles (demo_config_io ''s3cret'') (NewApplicationConfig\<lparr>acServer := s\<rparr>) = (c', []) \<and> acOCM c' = NewOCMConfig"
proof -
  have "snd (database_ReadFiles (demo_config_io ''s3cret'') NewDatabaseConfig) = None" by code_simp
  then show ?thesis
    by (simp add: ReadFiles_eq NewApplicationConfig_def ocm_ReadFiles_def sentry_ReadFiles_def NewOCMConfig_def
        NewSentryConfig_def map_filter_simps)
qed

lemma demo_started:
  "\<exists>e'. Initialize demo_boot [''Generic'', ''Events'', ''Dinosaurs''] plugins_registry (DefaultEnvironmentImpls demo_boot)
     (start_env demo_boot) = Ret (Booted, e')"
proof -
  have name: "evName (start_env demo_boot) = DevelopmentEnv" "evConfig (start_env demo_boot) = NewApplicationConfig"
    by (simp_all add: start_env_def GetEnvironmentStrFromEnv_def demo_boot_def EnvironmentDefault_def)
  obtain c' where r: "ReadFiles (demo_config_io ''s3cret'') (NewApplicationConfig\<lparr>acServer :=
      (acServer NewApplicationConfig)\<lparr>scEnableJWT := False, scEnableHTTPS := False\<rparr>\<rparr>) = (c', [])" and o: "acOCM c' = NewOCMConfig"
    using demo_read by blast
  have m: "ocEnableMock NewOCMConfig" by (simp add: NewOCMConfig_def)
  show ?thesis
    unfolding Initialize_def name
    by (simp add: DefaultEnvironmentImpls_def DevEnvImpl_def DevelopmentEnv_def UnitTestingEnv_def IntegrationTestingEnv_def
        ProductionEnv_def or_fatal_def or_return_def demo_boot_def r LoadClients_def NewClientMock_def o m
        InitializeSentry_def Seed_def Let_def)
qed

theorem initialize_ready_witness:
  "\<exists>e' f. Initialize demo_boot [''Generic'', ''Events'', ''Dinosaurs''] plugins_registry (DefaultEnvironmentImpls demo_boot)
     (start_env demo_boot) = Ret (Booted, e') \<and> evDatabase e' = Some f \<and>
   (\<forall>wi :: (unit, unit) wiring.
     events_Service wi (Some e') = Ret (Some (sqlEventService (wiErrors wi) (wiEvents wi (Some f)))))"
proof -
  obtain e' where e': "Initialize demo_boot [''Generic'', ''Events'', ''Dinosaurs''] plugins_registry
      (DefaultEnvironmentImpls demo_boot) (start_env demo_boot) = Ret (Booted, e')" using demo_started by blast
  from initialize_ready [OF this] have "\<exists>f. evDatabase e' = Some f \<and> events_Service wi (Some e') =
      Ret (Some (sqlEventService (wiErrors wi) (wiEvents wi (Some f))))" for wi :: "(unit, unit) wiring" by auto
  with e' show ?thesis by auto
qed

end
