(* ===== verification/Http_Servers.thy ===== *)
theory Http_Servers
  imports Auth
begin

text \<open>
  The parts of \<^verbatim>\<open>pkg/server\<close> that do not know the routes: how a server ends,
  the health check, the request metrics; and what the middleware of the request log, the operation
  id and the metrics have in common: each is a layer, which runs the handler once and passes the
  status it sends.
\<close>

section \<open>server.go\<close>

record server_settings =
  svBindAddress :: string
  svEnableHTTPS :: bool
  svHTTPSCertFile :: string
  svHTTPSKeyFile :: string
  svSentryTimeout :: int

definition RemoveTrailingSlash :: "('tok, 's, 'p) web_handler \<Rightarrow> ('tok, 's, 'p) web_handler" where
  "RemoveTrailingSlash next r s = next (r\<lparr>wrPath := trim_suffix (wrPath r) ''/''\<rparr>) s"

datatype serve_error = ErrServerClosed | ServeError string

text \<open>How a server ends: the process exits with the logged line, or the server has terminated.\<close>

datatype server_end = Exited string | Terminated

definition Check :: "serve_error option \<Rightarrow> string \<Rightarrow> server_end \<Rightarrow> server_end" where
  "Check err msg rest =
     (case err of
        Some (ServeError e) \<Rightarrow> Exited (sprintf ''%s: %s'' [FStr msg, FStr e])
      | _ \<Rightarrow> rest)"

datatype serve_mode = ServeTLS string string | ServePlain

definition missing_files :: serve_error where
  "missing_files = ServeError ''unspecified required --https-cert-file, --https-key-file''"

text \<open>\<open>serve\<close> is the error with which the HTTP server ends.\<close>

definition serve_until_end :: "string \<Rightarrow> server_settings \<Rightarrow> (serve_mode \<Rightarrow> serve_error option) \<Rightarrow> server_end" where
  "serve_until_end msg cfg serve =
     (if svEnableHTTPS cfg
      then Check (if svHTTPSCertFile cfg = [] \<or> svHTTPSKeyFile cfg = [] then Some missing_files else None)
             (''Can'' @ [CHR 0x27] @ ''t start https server'')
             (Check (serve (ServeTLS (svHTTPSCertFile cfg) (svHTTPSKeyFile cfg))) msg Terminated)
      else Check (serve ServePlain) msg Terminated)"

definition HealthCheckServer_Start :: "server_settings \<Rightarrow> (serve_mode \<Rightarrow> serve_error option) \<Rightarrow> server_end" where
  "HealthCheckServer_Start = serve_until_end ''HealthCheck server terminated with errors''"

definition metricsServer_Start :: "server_settings \<Rightarrow> (serve_mode \<Rightarrow> serve_error option) \<Rightarrow> server_end" where
  "metricsServer_Start = serve_until_end ''Metrics server terminated with errors''"

section \<open>healthcheck.go\<close>

text \<open>The status updater holds the error of the check; the status is 503 with one and 200 without.\<close>

type_synonym updater = "string option"

definition upHandler :: "updater \<Rightarrow> updater" where
  "upHandler u = None"

definition downHandler :: "updater \<Rightarrow> updater" where
  "downHandler u = Some ''maintenance mode''"

datatype health_action = HealthStatus | HealthDown | HealthUp

definition health_routes :: "(string \<times> string \<times> health_action) list" where
  "health_routes =
     [(''GET'', ''/healthcheck'', HealthStatus), (''POST'', ''/healthcheck/down'', HealthDown),
      (''POST'', ''/healthcheck/up'', HealthUp)]"

definition StatusHandler :: "updater \<Rightarrow> int" where
  "StatusHandler u = (if u = None then 200 else 503)"

text \<open>
  A request to the health check server: the status of the answer and the updater. The router
  answers 405 to a path with another method and 404 to any other path.
\<close>

definition health_request :: "string \<Rightarrow> string \<Rightarrow> updater \<Rightarrow> int \<times> updater" where
  "health_request m path u =
     (case List.find (\<lambda>(rm, rp, a). rm = m \<and> rp = path) health_routes of
        Some (_, _, HealthStatus) \<Rightarrow> (StatusHandler u, u)
      | Some (_, _, HealthDown) \<Rightarrow> (200, downHandler u)
      | Some (_, _, HealthUp) \<Rightarrow> (200, upHandler u)
      | None \<Rightarrow> (if path \<in> set (map (fst \<circ> snd) health_routes) then 405 else 404, u))"

section \<open>metrics.go\<close>

text \<open>The replacement of the matches of \<^verbatim>\<open>{[^}]*}\<close> by a dash.\<close>

definition PathVarSub :: string where "PathVarSub = ''-''"

function replace_vars :: "string \<Rightarrow> string" where
  "replace_vars [] = []"
| "replace_vars (c # cs) =
     (if c = CHR ''{'' \<and> CHR ''}'' \<in> set cs
      then PathVarSub @ replace_vars (tl (dropWhile (\<lambda>d. d \<noteq> CHR ''}'') cs))
      else c # replace_vars cs)"
  by pat_completeness auto
termination
  by (relation "measure length") (auto simp: less_Suc_eq_le intro: order.trans [OF diff_le_self length_dropWhile_le])

fun metrics_call :: "'p write_call \<Rightarrow> int \<Rightarrow> int" where
  "metrics_call (CallBody p) code = (if code = 0 then 200 else code)"
| "metrics_call (CallStatus c) code = c"
| "metrics_call (CallHeader k v) code = code"

record request_metrics =
  rmCount :: "(string \<times> string \<times> string) list" \<comment> \<open>the labels method, path, code of each request\<close>
  rmDuration :: "((string \<times> string \<times> string) \<times> int) list"

text \<open>The metrics and the clock in the state.\<close>

record 's metrics_io =
  miGet :: "'s \<Rightarrow> request_metrics"
  miPut :: "request_metrics \<Rightarrow> 's \<Rightarrow> 's"
  miNow :: "'s \<Rightarrow> int"

definition metrics_path :: "'tok web_request \<Rightarrow> string" where
  "metrics_path r = (case wrTemplate r of None \<Rightarrow> ''/'' @ PathVarSub | Some template \<Rightarrow> replace_vars template)"

definition count_request :: "(string \<times> string \<times> string) \<Rightarrow> int \<Rightarrow> request_metrics \<Rightarrow> request_metrics" where
  "count_request labels elapsed m =
     m\<lparr>rmCount := rmCount m @ [labels], rmDuration := rmDuration m @ [(labels, elapsed)]\<rparr>"

definition MetricsMiddleware :: "'s metrics_io \<Rightarrow> ('tok, 's, 'p) web_handler \<Rightarrow> ('tok, 's, 'p) web_handler" where
  "MetricsMiddleware mio handler r s =
     (case handler r s of
        (Done (), calls, s') \<Rightarrow>
          (let elapsed = miNow mio s' - miNow mio s;
               labels = (wrMethod r, metrics_path r, itoa (fold metrics_call calls 0))
           in (Done (), calls, miPut mio (count_request labels elapsed (miGet mio s')) s'))
      | (res, calls, s') \<Rightarrow> (res, calls, s'))"

definition ResetMetricCollectors :: "request_metrics \<Rightarrow> request_metrics" where
  "ResetMetricCollectors m = \<lparr>rmCount = [], rmDuration = []\<rparr>"

section \<open>Layers\<close>

definition sent_status :: "'p write_call list \<Rightarrow> int option" where
  "sent_status calls = rStatus (apply_calls calls empty_response)"

text \<open>
  A middleware that calls the handler once, with the token of the request, and passes the status of
  what the handler writes.
\<close>

definition passes_status :: "(unit outcome \<times> 'p write_call list \<times> 's \<Rightarrow> unit outcome \<times> 'p write_call list \<times> 's) \<Rightarrow> bool" where
  "passes_status k \<longleftrightarrow>
     (\<forall>calls s. \<exists>calls' s'. k (Done (), calls, s) = (Done (), calls', s') \<and> sent_status calls' = sent_status calls)"

definition layer :: "(('tok, 's, 'p) web_handler \<Rightarrow> ('tok, 's, 'p) web_handler) \<Rightarrow> bool" where
  "layer t \<longleftrightarrow>
     (\<forall>r s. \<exists>r' s1 k. wrToken r' = wrToken r \<and> (\<forall>next. t next r s = k (next r' s1)) \<and> passes_status k)"

lemma layerI:
  assumes "\<And>r s. \<exists>r' s1 k. wrToken r' = wrToken r \<and> (\<forall>next. t next r s = k (next r' s1)) \<and> passes_status k"
  shows "layer t"
  using assms by (simp add: layer_def)

lemma layerE:
  assumes "layer t"
  obtains r' s1 k where "wrToken r' = wrToken r" "\<And>next. t next r s = k (next r' s1)" "passes_status k"
  using assms unfolding layer_def by metis

lemma passes_statusE:
  assumes "passes_status k"
  obtains calls' s' where "k (Done (), calls, s) = (Done (), calls', s')" "sent_status calls' = sent_status calls"
  using assms unfolding passes_status_def by metis

lemma passes_status_comp:
  assumes "passes_status k" and "passes_status k'"
  shows "passes_status (\<lambda>x. k (k' x))"
  unfolding passes_status_def
proof (intro allI)
  fix calls s
  obtain c1 s1 where 1: "k' (Done (), calls, s) = (Done (), c1, s1)" "sent_status c1 = sent_status calls"
    using assms(2) by (rule passes_statusE)
  obtain c2 s2 where 2: "k (Done (), c1, s1) = (Done (), c2, s2)" "sent_status c2 = sent_status c1"
    using assms(1) by (rule passes_statusE)
  show "\<exists>calls' s'. k (k' (Done (), calls, s)) = (Done (), calls', s') \<and> sent_status calls' = sent_status calls"
    using 1 2 by simp
qed

lemma layer_id: "layer (\<lambda>next. next)"
proof (rule layerI)
  fix r :: "'tok web_request" and s :: 's
  have "passes_status (\<lambda>x. x)" by (simp add: passes_status_def)
  then show "\<exists>r' s1 k. wrToken r' = wrToken r \<and> (\<forall>next :: ('tok, 's, 'p) web_handler. next r s = k (next r' s1)) \<and> passes_status k"
    by (intro exI [of _ r] exI [of _ s] exI [of _ "\<lambda>x. x"]) simp
qed

lemma layer_comp:
  assumes "layer t" and "layer u"
  shows "layer (\<lambda>next. t (u next))"
proof (rule layerI)
  fix r s
  obtain r1 s1 k1 where 1: "wrToken r1 = wrToken r" "\<And>next. t next r s = k1 (next r1 s1)" "passes_status k1"
    using assms(1) by (rule layerE [where r = r and s = s]) blast
  obtain r2 s2 k2 where 2: "wrToken r2 = wrToken r1" "\<And>next. u next r1 s1 = k2 (next r2 s2)" "passes_status k2"
    using assms(2) by (rule layerE [where r = r1 and s = s1]) blast
  show "\<exists>r' s1 k. wrToken r' = wrToken r \<and> (\<forall>next. t (u next) r s = k (next r' s1)) \<and> passes_status k"
    using 1 2 passes_status_comp [OF 1(3) 2(3)] by (intro exI [of _ r2] exI [of _ s2] exI [of _ "\<lambda>x. k1 (k2 x)"]) simp
qed

lemma layer_foldr:
  assumes "\<forall>m \<in> set ms. layer (f m)"
  shows "layer (\<lambda>next. foldr f ms next)"
  using assms
proof (induction ms)
  case (Cons m ms)
  then show ?case using layer_comp [of "f m" "\<lambda>next. foldr f ms next"] by simp
next
  case Nil
  show ?case using layer_id by (simp add: id_def)
qed

text \<open>Behind layers, a handler that does not depend on the next one is not passed.\<close>

lemma layer_stops:
  assumes "layer t" and "\<And>r' s'. wrToken r' = wrToken r \<Longrightarrow> \<exists>calls s2. (\<forall>next. h next r' s' = (Done (), calls, s2)) \<and> sent_status calls = st"
  shows "\<exists>calls s'. (\<forall>next. t (h next) r s = (Done (), calls, s')) \<and> sent_status calls = st"
proof -
  obtain r1 s1 k where 1: "wrToken r1 = wrToken r" "\<And>next. t next r s = k (next r1 s1)" "passes_status k"
    using assms(1) by (rule layerE [where r = r and s = s]) blast
  obtain calls s2 where h: "\<And>next. h next r1 s1 = (Done (), calls, s2)" "sent_status calls = st"
    using assms(2) [OF 1(1)] by blast
  obtain calls' s' where "k (Done (), calls, s2) = (Done (), calls', s')" "sent_status calls' = sent_status calls"
    using 1(3) by (rule passes_statusE)
  then show ?thesis using 1(2) h by auto
qed

text \<open>
  A middleware that either answers on its own, whatever the handler is, or runs the handler once with
  the token of the request.
\<close>

definition filters :: "(('tok, 's, 'p) web_handler \<Rightarrow> ('tok, 's, 'p) web_handler) \<Rightarrow> bool" where
  "filters t \<longleftrightarrow>
     (\<forall>r s. (\<exists>out. \<forall>next. t next r s = out) \<or>
        (\<exists>r' s1 k. wrToken r' = wrToken r \<and> (\<forall>next. t next r s = k (next r' s1))))"

lemma layer_filters: "layer t \<Longrightarrow> filters t"
  unfolding layer_def filters_def by metis

lemma filters_stops:
  assumes "filters t" and "\<And>r' s'. wrToken r' = wrToken r \<Longrightarrow> \<exists>out. \<forall>next. h next r' s' = out"
  shows "\<exists>out. \<forall>next. t (h next) r s = out"
proof -
  consider out where "\<And>next. t next r s = out" |
    r' s1 k where "wrToken r' = wrToken r" "\<And>next. t next r s = k (next r' s1)"
    using assms(1) unfolding filters_def by meson
  then show ?thesis
  proof cases
    case 2
    then obtain out where "\<And>next. h next r' s1 = out" using assms(2) by blast
    then show ?thesis using 2(2) by (intro exI [of _ "k out"]) simp
  qed auto
qed

lemma filters_foldr_stops:
  fixes r :: "'tok web_request"
  assumes "\<forall>m \<in> set ms. filters (f m)" and "\<And>r' s'. wrToken r' = wrToken r \<Longrightarrow> \<exists>out. \<forall>next. h next r' s' = out"
  shows "\<exists>out. \<forall>next. foldr f ms (h next) r s = out"
  using assms
proof (induction ms arbitrary: r s)
  case (Cons m ms)
  have "\<exists>out. \<forall>next. f m (foldr f ms (h next)) r s = out"
  proof (rule filters_stops [where t = "f m" and h = "\<lambda>next. foldr f ms (h next)"])
    fix r' :: "'tok web_request" and s'
    assume "wrToken r' = wrToken r"
    then show "\<exists>out. \<forall>next. foldr f ms (h next) r' s' = out"
      using Cons.prems by (intro Cons.IH) auto
  qed (use Cons.prems in simp)
  then show ?case by simp
qed simp

lemma status_call:
  "rStatus (apply_call c w) = (case c of CallHeader k v \<Rightarrow> rStatus w
     | CallStatus n \<Rightarrow> Some (case rStatus w of None \<Rightarrow> n | Some m \<Rightarrow> m)
     | CallBody p \<Rightarrow> Some (case rStatus w of None \<Rightarrow> 200 | Some m \<Rightarrow> m))"
  by (cases c; cases "rStatus w") (simp_all add: header_set_def write_header_def write_body_def)

lemma status_apply:
  assumes "rStatus w = rStatus w'"
  shows "rStatus (apply_calls calls w) = rStatus (apply_calls calls w')"
proof -
  have "rStatus (fold apply_call calls w) = rStatus (fold apply_call calls w')"
    using assms
  proof (induction calls arbitrary: w w')
    case (Cons c calls)
    have "rStatus (apply_call c w) = rStatus (apply_call c w')" by (simp only: status_call Cons.prems)
    then have "rStatus (fold apply_call calls (apply_call c w)) = rStatus (fold apply_call calls (apply_call c w'))"
      by (rule Cons.IH)
    then show ?case by (simp only: fold_simps)
  qed simp
  then show ?thesis by (simp only: apply_calls_def)
qed

lemma sent_status_header: "sent_status (CallHeader k v # calls) = sent_status calls"
proof -
  have "rStatus (apply_call (CallHeader k v) empty_response) = rStatus empty_response" by (simp add: status_call)
  from status_apply [OF this] show ?thesis by (simp only: sent_status_def apply_calls_def fold_simps)
qed

lemma do_log_returns: "\<exists>s'. do_log io ctx b msg s = Ret s'"
  by (cases msg) (auto simp: do_log_def log_message_def Extra_def NewOCMLogger_def Let_def)

lemma layer_OperationID: "layer (OperationIDMiddleware io ksuid)"
proof (rule layerI)
  fix r :: "'tok web_request" and s
  let ?ctx = "WithOpID (ksuid s) (wrLog r)"
  let ?pre = "case lcOpID ?ctx of Some opID \<Rightarrow> if length opID > 0 then [CallHeader OpIDHeader opID] else [] | None \<Rightarrow> []"
  have "passes_status (\<lambda>(res, calls, s'). (res, ?pre @ calls, s'))"
    by (auto simp: passes_status_def sent_status_header split: option.splits)
  then show "\<exists>r' s1 k. wrToken r' = wrToken r \<and> (\<forall>next. OperationIDMiddleware io ksuid next r s = k (next r' s1)) \<and> passes_status k"
    by (intro exI [of _ "r\<lparr>wrLog := ?ctx\<rparr>"] exI [of _ "on_scope io ?ctx (ScopeTag ''operation_id'' (GetOperationID ?ctx)) s"]
        exI [of _ "\<lambda>(res, calls, s'). (res, ?pre @ calls, s')"])
      (simp add: OperationIDMiddleware_def Let_def)
qed

lemma layer_RequestLogging:
  fixes io :: "('s, 'p) log_io"
  shows "layer (RequestLoggingMiddleware io (Ret base))"
proof (rule layerI)
  fix r :: "'tok web_request" and s
  let ?doLog = "trim_suffix (wrPath r) ''/'' \<noteq> trim_suffix (trim_suffix base ''/v1'') ''/''"
  obtain s1 where s1: "do_log io (wrLog r) ?doLog (FormatRequestLog (loRequest io) (lsVerbosity (loGet io s)) r) s = Ret s1"
    by (rule exE [OF do_log_returns])
  let ?k = "\<lambda>res. case res of
      (Done (), calls, s2) \<Rightarrow>
        (let lw = fold logging_call calls NewLoggingWriter
         in case go_bind (Ret base) (\<lambda>base. do_log io (wrLog r) (trim_suffix (wrPath r) ''/'' \<noteq> trim_suffix (trim_suffix base ''/v1'') ''/'')
              (FormatResponseLog (loResponse io) (lsVerbosity (loGet io s2)) (lwStatus lw) (lwBody lw) (loElapsed io s1 s2)) s2) of
              Panic m \<Rightarrow> (Panicked m, calls, s2) | Ret s3 \<Rightarrow> (Done (), calls, s3))
    | (res, calls, s2) \<Rightarrow> (res, calls, s2)"
  have eq: "RequestLoggingMiddleware io (Ret base) next r s = ?k (next r s1)" for "next"
    by (simp add: RequestLoggingMiddleware_def Let_def s1)
  have "passes_status ?k"
    unfolding passes_status_def
  proof (intro allI)
    fix calls :: "'p write_call list" and s2 :: 's
    let ?lw = "fold logging_call calls NewLoggingWriter"
    obtain s3 where "do_log io (wrLog r) ?doLog (FormatResponseLog (loResponse io) (lsVerbosity (loGet io s2)) (lwStatus ?lw)
        (lwBody ?lw) (loElapsed io s1 s2)) s2 = Ret s3" by (rule exE [OF do_log_returns])
    then show "\<exists>calls' s'. ?k (Done (), calls, s2) = (Done (), calls', s') \<and> sent_status calls' = sent_status calls"
      by (simp add: Let_def split: unit.splits)
  qed
  with eq show "\<exists>r' s1 k. wrToken r' = wrToken r \<and>
      (\<forall>next. RequestLoggingMiddleware io (Ret base) next r s = k (next r' s1)) \<and> passes_status k"
    by blast
qed

lemma layer_Metrics: "layer (MetricsMiddleware mio)"
proof (rule layerI)
  fix r :: "'tok web_request" and s
  let ?labels = "\<lambda>calls. (wrMethod r, metrics_path r, itoa (fold metrics_call calls 0))"
  let ?k = "\<lambda>res. case res of
      (Done (), calls, s') \<Rightarrow>
        (Done (), calls, miPut mio (count_request (?labels calls) (miNow mio s' - miNow mio s) (miGet mio s')) s')
    | (res, calls, s') \<Rightarrow> (res, calls, s')"
  have eq: "MetricsMiddleware mio next r s = ?k (next r s)" for "next"
    by (simp only: MetricsMiddleware_def Let_def)
  have "passes_status ?k" by (simp add: passes_status_def split: unit.splits)
  with eq show "\<exists>r' s1 k. wrToken r' = wrToken r \<and> (\<forall>next. MetricsMiddleware mio next r s = k (next r' s1)) \<and> passes_status k"
    by blast
qed

section \<open>Properties\<close>

lemma fold_header_calls:
  "fold metrics_call (List.map_filter (\<lambda>k. map_option (CallHeader k) (h k)) keys) n = n"
  by (induction keys) (auto simp: map_filter_simps split: option.splits)

lemma fold_body_calls: "n \<noteq> 0 \<Longrightarrow> fold metrics_call (map CallBody b) n = n"
  by (induction b) simp_all

lemma sent_status_headers:
  "sent_status (List.map_filter (\<lambda>k. map_option (CallHeader k) (h k)) keys @ calls) = sent_status calls"
  by (induction keys) (auto simp: map_filter_simps sent_status_header split: option.splits)

lemma sent_status_first: "sent_status (CallStatus n # calls) = Some n"
proof -
  have "rStatus w = Some n \<Longrightarrow> rStatus (fold apply_call calls w) = Some n" for w :: "'a response"
    by (induction calls arbitrary: w) (simp_all add: status_call split: write_call.splits)
  then show ?thesis by (simp add: sent_status_def apply_calls_def status_call empty_response_def write_header_def)
qed

text \<open>
  A response of a handler is counted once, under the method and the template of the request and
  under the status that the client gets.
\<close>

theorem metrics_status:
  assumes "handler r s = (Done (), calls_of keys w, s')" and "rStatus w = Some code" and "code \<noteq> 0"
    and "\<And>m t. miGet mio (miPut mio m t) = m"
  shows "\<exists>s''. MetricsMiddleware mio handler r s = (Done (), calls_of keys w, s'') \<and>
    rmCount (miGet mio s'') = rmCount (miGet mio s') @ [(wrMethod r, metrics_path r, itoa code)] \<and>
    sent_status (calls_of keys w) = Some code"
proof -
  have "fold metrics_call (calls_of keys w) 0 = code"
    using assms(2,3) by (simp add: calls_of_def fold_header_calls fold_body_calls)
  moreover have "sent_status (calls_of keys w) = Some code"
    using assms(2) by (simp add: calls_of_def sent_status_headers sent_status_first)
  ultimately show ?thesis
    using assms(1,4) by (simp add: MetricsMiddleware_def Let_def count_request_def split: unit.splits)
qed

definition demo_metrics_io :: "request_metrics metrics_io" where
  "demo_metrics_io = \<lparr>miGet = (\<lambda>s. s), miPut = (\<lambda>m s. m), miNow = (\<lambda>s. int (length (rmCount s)))\<rparr>"

theorem metrics_status_witness:
  "\<exists>s''. MetricsMiddleware demo_metrics_io
       (\<lambda>r s. (Done (), calls_of [''Vary''] (writeJSONResponse 201 (Some ''{}'') empty_response), s))
       (demo_web_request ''ada'') (ResetMetricCollectors \<lparr>rmCount = [], rmDuration = []\<rparr>) =
     (Done (), calls_of [''Vary''] (writeJSONResponse 201 (Some ''{}'') empty_response), s'') \<and>
   rmCount (miGet demo_metrics_io s'') = [(''GET'', ''/-'', itoa 201)] \<and>
   sent_status (calls_of [''Vary''] (writeJSONResponse 201 (Some ''{}'') empty_response)) = Some 201"
proof -
  let ?w = "writeJSONResponse 201 (Some ''{}'') empty_response"
  let ?s = "ResetMetricCollectors \<lparr>rmCount = [], rmDuration = []\<rparr>"
  have w: "rStatus ?w = Some 201" by code_simp
  have "metrics_path (demo_web_request ''ada'') = ''/-''" "wrMethod (demo_web_request ''ada'') = ''GET''"
    "rmCount (miGet demo_metrics_io ?s) = []" by code_simp+
  then show ?thesis
    using metrics_status [of "\<lambda>r s. (Done (), calls_of [''Vary''] ?w, s)" "demo_web_request ''ada''" ?s "[''Vary'']" ?w ?s 201
      demo_metrics_io] w by (simp add: demo_metrics_io_def)
qed

definition health_run :: "(string \<times> string) list \<Rightarrow> updater \<Rightarrow> updater" where
  "health_run requests u = fold (\<lambda>(m, path) u. snd (health_request m path u)) requests u"

definition health_switches :: "(string \<times> string) list \<Rightarrow> (string \<times> string) list" where
  "health_switches requests =
     filter (\<lambda>q. q = (''POST'', ''/healthcheck/up'') \<or> q = (''POST'', ''/healthcheck/down'')) requests"

lemma health_request_updater:
  "snd (health_request m path u) =
     (if (m, path) = (''POST'', ''/healthcheck/up'') then upHandler u
      else if (m, path) = (''POST'', ''/healthcheck/down'') then downHandler u else u)"
  by (auto simp: health_request_def health_routes_def)

lemma health_run_updater:
  "health_run requests u =
     (if health_switches requests = [] then u
      else if last (health_switches requests) = (''POST'', ''/healthcheck/up'') then None else Some ''maintenance mode'')"
proof (induction requests rule: rev_induct)
  case (snoc q requests)
  obtain m path where q: "q = (m, path)" by (cases q)
  have "health_run (requests @ [q]) u = snd (health_request m path (health_run requests u))"
    by (simp add: health_run_def q)
  then show ?case
    using snoc by (auto simp: health_request_updater health_switches_def q upHandler_def downHandler_def)
qed (simp add: health_run_def health_switches_def)

text \<open>
  The health check follows the switches: after any sequence of requests, of which only the posts
  to the two switches change anything, it answers 200 or 503 as the last switch says, and as before
  where there was none.
\<close>

theorem health_follows_switches:
  "fst (health_request ''GET'' ''/healthcheck'' (health_run requests u)) =
     (if health_switches requests = [] then StatusHandler u
      else if last (health_switches requests) = (''POST'', ''/healthcheck/up'') then 200 else 503)"
proof -
  have "fst (health_request ''GET'' ''/healthcheck'' v) = StatusHandler v" for v
    by (simp add: health_request_def health_routes_def)
  then show ?thesis by (simp add: health_run_updater StatusHandler_def)
qed

end
