(* ===== verification/Api_Server.thy ===== *)
theory Api_Server
  imports Environments Http_Servers
begin

text \<open>
  \<^verbatim>\<open>pkg/server\<close> and \<^verbatim>\<open>pkg/cmd\<close>: the table of routes with the
  middleware in front of each endpoint, running a route, the servers built on it, and the commands.
  What does not depend on the routes is in \<open>Http_Servers\<close>. A router of \<^verbatim>\<open>gorilla/mux\<close> is the list of its routes;
  the middleware of a route is listed from the outermost on, those of a parent router before those of
  its subrouters. Matching a request to a route, compression, the Sentry handler and the SDK's
  authentication handler are parameters or names.
\<close>

section \<open>Routes\<close>

datatype middleware =
    UseOperationID | UseRequestLogging | UseSentry | UseMetrics | UseTransaction | UseCompress
  | UseAuth | UseAuthMock | UseAuthz | UseAuthzMock

datatype endpoint =
    MetadataGet | OpenAPIGet | OpenAPIUI | DinosaurList | DinosaurGet | DinosaurCreate | DinosaurPatch | DinosaurDelete

record route =
  rtMethod :: string
  rtPath :: string
  rtMiddleware :: "middleware list"
  rtEndpoint :: endpoint

text \<open>
  A plugin's registration of its routes under the prefix of the version router, with the middleware
  of that router and the two it is handed.
\<close>

type_synonym ('f, 'n) route_registration =
  "string \<Rightarrow> middleware list \<Rightarrow> ('f, 'n) env \<Rightarrow> middleware \<Rightarrow> middleware \<Rightarrow> route list go"

definition RegisterRoutes ::
    "string \<Rightarrow> ('f, 'n) route_registration \<Rightarrow> (string \<rightharpoonup> ('f, 'n) route_registration)
     \<Rightarrow> (string \<rightharpoonup> ('f, 'n) route_registration)" where
  "RegisterRoutes name f reg = reg(name \<mapsto> f)"

fun LoadDiscoveredRoutes ::
    "string list \<Rightarrow> (string \<rightharpoonup> ('f, 'n) route_registration) \<Rightarrow> string \<Rightarrow> middleware list \<Rightarrow> ('f, 'n) env
     \<Rightarrow> middleware \<Rightarrow> middleware \<Rightarrow> route list go" where
  "LoadDiscoveredRoutes [] reg prefix mw e auth authz = Ret []"
| "LoadDiscoveredRoutes (name # nms) reg prefix mw e auth authz =
     go_bind (case reg name of None \<Rightarrow> Ret [] | Some f \<Rightarrow> f prefix mw e auth authz) (\<lambda>rs.
     go_bind (LoadDiscoveredRoutes nms reg prefix mw e auth authz) (\<lambda>rest. Ret (rs @ rest)))"

definition dinosaurs_routes :: "('f, 's) wiring \<Rightarrow> ('f, 'n) route_registration" where
  "dinosaurs_routes wi prefix mw e auth authz =
     go_bind (dinosaurs_Service wi (Some e)) (\<lambda>_.
     go_bind (generic_Service wi (Some e)) (\<lambda>_.
       (let at = (\<lambda>m path ep. \<lparr>rtMethod = m, rtPath = prefix @ ''/dinosaurs'' @ path, rtMiddleware = mw @ [auth, authz],
                             rtEndpoint = ep\<rparr>)
        in Ret [at ''GET'' [] DinosaurList, at ''GET'' ''/{id}'' DinosaurGet, at ''POST'' [] DinosaurCreate,
                at ''PATCH'' ''/{id}'' DinosaurPatch, at ''DELETE'' ''/{id}'' DinosaurDelete])))"

text \<open>
  \<open>main\<close> is the middleware of the main router, where the API server may add the Sentry handler;
  \<open>spec\<close> the error of loading the OpenAPI documents.
\<close>

definition BuildDefaultRoutes ::
    "middleware list \<Rightarrow> trex_state \<Rightarrow> string option \<Rightarrow> string list \<Rightarrow> (string \<rightharpoonup> ('f, 'n) route_registration)
     \<Rightarrow> ('f, 'n) env \<Rightarrow> (server_end + route list) go" where
  "BuildDefaultRoutes main trex spec nms reg e =
     (let authMiddleware = (if scEnableJWT (acServer (evConfig e)) then UseAuth else UseAuthMock);
          authzMiddleware = UseAuthzMock
      in go_bind (GetConfig trex) (\<lambda>cfg.
           let apiPrefix = trim_suffix (tcBasePath cfg) ''/v1'';
               v1 = apiPrefix @ ''/v1'';
               mw = main @ [UseMetrics, UseTransaction, UseCompress];
               at = (\<lambda>path ms ep. \<lparr>rtMethod = ''GET'', rtPath = path, rtMiddleware = ms, rtEndpoint = ep\<rparr>)
           in case spec of
                Some err \<Rightarrow> Ret (Inl (Check (Some (ServeError err)) ''Unable to create OpenAPI handler'' Terminated))
              | None \<Rightarrow>
                  go_bind (LoadDiscoveredRoutes nms reg v1 mw e authMiddleware authzMiddleware) (\<lambda>rs.
                    Ret (Inr ([at apiPrefix main MetadataGet, at (v1 @ ''/openapi.html'') mw OpenAPIUI,
                               at (v1 @ ''/openapi'') mw OpenAPIGet] @ rs)))))"

section \<open>apiserver.go\<close>

record api_server =
  asRoutes :: "route list"
  asPublic :: "string list option" \<comment> \<open>the public paths of the SDK's handler, when there is one\<close>
  asOrigins :: "string list"
  asMethods :: "string list"
  asHeaders :: "string list"
  asMaxAge :: int
  asAddr :: string

definition public_patterns :: "string \<Rightarrow> string list" where
  "public_patterns base =
     [''^'' @ trim_suffix base ''/v1'' @ ''/?$'', ''^'' @ base @ ''/?$'', ''^'' @ base @ ''/openapi/?$'',
      ''^'' @ base @ ''/openapi.html/?$'', ''^'' @ base @ ''/errors(/.*)?$'']"

text \<open>\<open>authn\<close> is the error of building the SDK's logger and handler.\<close>

definition NewDefaultAPIServer ::
    "trex_state \<Rightarrow> string option \<Rightarrow> serve_error option \<Rightarrow> string list \<Rightarrow> (string \<rightharpoonup> ('f, 'n) route_registration)
     \<Rightarrow> ('f, 'n) env \<Rightarrow> (server_end + api_server) go" where
  "NewDefaultAPIServer trex spec authn nms reg e =
     (let main = [UseOperationID, UseRequestLogging] @ (if stEnabled (acSentry (evConfig e)) then [UseSentry] else [])
      in go_bind (BuildDefaultRoutes main trex spec nms reg e) (\<lambda>r. case r of
           Inl x \<Rightarrow> Ret (Inl x)
         | Inr routes \<Rightarrow>
             go_bind (GetConfig trex) (\<lambda>cfg.
             go_bind (GetCORSOrigins trex) (\<lambda>origins.
               (let jwt = scEnableJWT (acServer (evConfig e));
                    server = \<lparr>asRoutes = routes,
                              asPublic = (if jwt then Some (public_patterns (tcBasePath cfg)) else None),
                              asOrigins = origins, asMethods = [''DELETE'', ''GET'', ''PATCH'', ''POST''],
                              asHeaders = [''Authorization'', ''Content-Type''], asMaxAge = 600,
                              asAddr = scBindAddress (acServer (evConfig e))\<rparr>
                in case (if jwt then authn else None) of
                     Some (ServeError err) \<Rightarrow>
                       Ret (Inl (Check (Some (ServeError err)) ''Unable to create authentication handler'' Terminated))
                   | _ \<Rightarrow> Ret (Inr server))))))"

definition api_settings :: "('f, 'n) env \<Rightarrow> server_settings" where
  "api_settings e =
     \<lparr>svBindAddress = scBindAddress (acServer (evConfig e)), svEnableHTTPS = scEnableHTTPS (acServer (evConfig e)),
      svHTTPSCertFile = scHTTPSCertFile (acServer (evConfig e)), svHTTPSKeyFile = scHTTPSKeyFile (acServer (evConfig e)),
      svSentryTimeout = stTimeout (acSentry (evConfig e))\<rparr>"

definition APIServer_Serve :: "('f, 'n) env \<Rightarrow> (serve_mode \<Rightarrow> serve_error option) \<Rightarrow> server_end" where
  "APIServer_Serve e = serve_until_end ''Web server terminated with errors'' (api_settings e)"

text \<open>The end of the server, and whether the session factory has been closed.\<close>

definition APIServer_Start ::
    "(string \<Rightarrow> string option) \<Rightarrow> ('f, 'n) env \<Rightarrow> (serve_mode \<Rightarrow> serve_error option) \<Rightarrow> server_end \<times> bool" where
  "APIServer_Start listen e serve =
     (case listen (scBindAddress (acServer (evConfig e))) of
        Some err \<Rightarrow> (Exited (sprintf ''Unable to start API server: %s'' [FStr err]), False)
      | None \<Rightarrow> (case APIServer_Serve e serve of Terminated \<Rightarrow> (Terminated, True) | x \<Rightarrow> (x, False)))"

section \<open>controllers.go\<close>

record ('f, 's) controllers_server =
  csControllers :: "'s controllers"
  csLocks :: "'s lock_factory"
  csEvents :: "'s event_service option"
  csFactory :: "'f option"

type_synonym ('f, 'n, 's) controller_registration = "'s controllers \<Rightarrow> ('f, 'n) env \<Rightarrow> 's controllers go"

definition RegisterController ::
    "string \<Rightarrow> ('f, 'n, 's) controller_registration \<Rightarrow> (string \<rightharpoonup> ('f, 'n, 's) controller_registration)
     \<Rightarrow> (string \<rightharpoonup> ('f, 'n, 's) controller_registration)" where
  "RegisterController name f reg = reg(name \<mapsto> f)"

fun LoadDiscoveredControllers ::
    "string list \<Rightarrow> (string \<rightharpoonup> ('f, 'n, 's) controller_registration) \<Rightarrow> 's controllers \<Rightarrow> ('f, 'n) env \<Rightarrow> 's controllers go" where
  "LoadDiscoveredControllers [] reg km e = Ret km"
| "LoadDiscoveredControllers (name # nms) reg km e =
     go_bind (case reg name of None \<Rightarrow> Ret km | Some f \<Rightarrow> f km e) (\<lambda>km. LoadDiscoveredControllers nms reg km e)"

text \<open>The plugin's registration; a method of a nil service is a nil dereference.\<close>

definition dinosaurs_controllers :: "('f, 's) wiring \<Rightarrow> ('f, 'n, 's) controller_registration" where
  "dinosaurs_controllers wi km e =
     go_bind (dinosaurs_Service wi (Some e)) (\<lambda>svc. case svc of
       None \<Rightarrow> Panic nil_deref
     | Some svc \<Rightarrow> Ret (km_Add (dinosaur_controller svc) km))"

definition NewDefaultControllersServer ::
    "('f, 's) wiring \<Rightarrow> string list \<Rightarrow> (string \<rightharpoonup> ('f, 'n, 's) controller_registration) \<Rightarrow> ('f, 'n) env
     \<Rightarrow> ('f, 's) controllers_server go" where
  "NewDefaultControllersServer wi nms reg e =
     go_bind (case GetService ''Events'' (evServices e) of
                None \<Rightarrow> Ret None
              | Some EventServiceFunc \<Rightarrow> Ret (Some (events_locator wi e))
              | Some locator \<Rightarrow> Panic (conversion_panic ''func() services.EventService'')) (\<lambda>eventService.
     go_bind (LoadDiscoveredControllers nms reg NewKindControllerManager e) (\<lambda>km.
       Ret \<lparr>csControllers = km, csLocks = wiLocks wi (evDatabase e), csEvents = eventService, csFactory = evDatabase e\<rparr>))"

definition NewDefaultHealthCheckServer :: "('f, 'n) env \<Rightarrow> server_settings" where
  "NewDefaultHealthCheckServer e =
     \<lparr>svBindAddress = hcBindAddress (acHealthCheck (evConfig e)), svEnableHTTPS = hcEnableHTTPS (acHealthCheck (evConfig e)),
      svHTTPSCertFile = scHTTPSCertFile (acServer (evConfig e)), svHTTPSKeyFile = scHTTPSKeyFile (acServer (evConfig e)),
      svSentryTimeout = stTimeout (acSentry (evConfig e))\<rparr>"

definition NewDefaultMetricsServer :: "('f, 'n) env \<Rightarrow> server_settings" where
  "NewDefaultMetricsServer e =
     \<lparr>svBindAddress = mcBindAddress (acMetrics (evConfig e)), svEnableHTTPS = mcEnableHTTPS (acMetrics (evConfig e)),
      svHTTPSCertFile = scHTTPSCertFile (acServer (evConfig e)), svHTTPSKeyFile = scHTTPSKeyFile (acServer (evConfig e)),
      svSentryTimeout = stTimeout (acSentry (evConfig e))\<rparr>"

section \<open>The commands\<close>

text \<open>
  The four goroutines of \<^verbatim>\<open>serve\<close>: what building each server comes to. A panic in any
  of them ends the process.
\<close>

record ('f, 's) goroutines =
  grAPI :: "(server_end + api_server) go"
  grMetrics :: server_settings
  grHealth :: server_settings
  grControllers :: "('f, 's) controllers_server go"

definition crashes :: "('f, 's) goroutines \<Rightarrow> bool" where
  "crashes g \<longleftrightarrow> \<not> returns (grAPI g) \<or> \<not> returns (grControllers g)"

text \<open>The registries and the rest of what serving needs; each list of names is an order of a map.\<close>

record ('f, 'n, 's) plugins =
  pgServiceNames :: "string list"
  pgServices :: "('f, 'n) service_registry"
  pgRouteNames :: "string list"
  pgRoutes :: "string \<rightharpoonup> ('f, 'n) route_registration"
  pgControllerNames :: "string list"
  pgControllers :: "string \<rightharpoonup> ('f, 'n, 's) controller_registration"

definition runServe ::
    "('f, 's) wiring \<Rightarrow> ('f, 'n, 'q) boot_lib \<Rightarrow> trex_state \<Rightarrow> ('f, 'n, 's) plugins \<Rightarrow> (string \<rightharpoonup> ('f, 'n) env_impl)
     \<Rightarrow> string option \<Rightarrow> string option \<Rightarrow> serve_error option \<Rightarrow> ('f, 'n) env \<Rightarrow> (string + ('f, 's) goroutines) go" where
  "runServe wi bl trex pg impls specData spec authn e0 =
     go_bind (Initialize bl (pgServiceNames pg) (pgServices pg) impls e0) (\<lambda>(b, e). case b of
         BootExited m \<Rightarrow> Ret (Inl m)
       | BootFailed err \<Rightarrow> Ret (Inl (sprintf ''Unable to initialize environment: %s'' [FStr err]))
       | Booted \<Rightarrow>
           (case specData of
              Some err \<Rightarrow> Ret (Inl (sprintf ''Unable to load OpenAPI spec: %s'' [FStr err]))
            | None \<Rightarrow>
                Ret (Inr \<lparr>grAPI = NewDefaultAPIServer trex spec authn (pgRouteNames pg) (pgRoutes pg) e,
                          grMetrics = NewDefaultMetricsServer e, grHealth = NewDefaultHealthCheckServer e,
                          grControllers = NewDefaultControllersServer wi (pgControllerNames pg) (pgControllers pg) e\<rparr>)))"

text \<open>The line with which the migration command ends the process, if it does not succeed.\<close>

definition migrate_Run ::
    "('h, 'w) sql_driver \<Rightarrow> config_io \<Rightarrow> ('h, 'w) gormigrate \<Rightarrow> (('h, 'w) migration list \<Rightarrow> ('h, 'w) migration list)
     \<Rightarrow> ('h, 'w) migration list \<Rightarrow> database_config \<Rightarrow> ('w, string option) session_proc" where
  "migrate_Run dr io gm srt registry c0 =
     (case database_ReadFiles io c0 of
        (c, Some err) \<Rightarrow> run_ret (Some err)
      | (c, None) \<Rightarrow>
          run_bind (NewProdFactory dr c) (\<lambda>connection.
          run_bind (run_go (Default_New connection)) (\<lambda>(h, debug).
          on_sw (Migrate gm srt registry h))))"

section \<open>Facts\<close>

lemma runServe_started:
  assumes "runServe wi bl trex pg impls specData spec authn e0 = Ret (Inr g)"
  obtains e where "Initialize bl (pgServiceNames pg) (pgServices pg) impls e0 = Ret (Booted, e)"
    and "grAPI g = NewDefaultAPIServer trex spec authn (pgRouteNames pg) (pgRoutes pg) e"
    and "grControllers g = NewDefaultControllersServer wi (pgControllerNames pg) (pgControllers pg) e"
proof (cases "Initialize bl (pgServiceNames pg) (pgServices pg) impls e0")
  case (Ret be)
  obtain b e where be: "be = (b, e)" by (cases be)
  from assms Ret be that show ?thesis by (cases b) (auto simp: runServe_def split: option.splits)
qed (use assms in \<open>simp add: runServe_def\<close>)

section \<open>Properties\<close>

text \<open>
  C39: Serving always crashes: once the program has started with its plugins, building the controllers
  server panics, because the event service is registered as the plugin's own type of locator and the
  server asks for a plain function.
\<close>

theorem serve_crashes:
  assumes "runServe wi bl trex pg (DefaultEnvironmentImpls bl) specData spec authn e0 = Ret (Inr g)"
    and "set (pgServiceNames pg) = {''Events'', ''Generic'', ''Dinosaurs''}" and "pgServices pg = plugins_registry"
  shows "crashes g \<and> grControllers g = Panic (conversion_panic ''func() services.EventService'')"
proof -
  obtain e where run: "Initialize bl (pgServiceNames pg) plugins_registry (DefaultEnvironmentImpls bl) e0 = Ret (Booted, e)"
    and g: "grControllers g = NewDefaultControllersServer wi (pgControllerNames pg) (pgControllers pg) e"
    using runServe_started [OF assms(1)] assms(3) by metis
  obtain impl where impl: "DefaultEnvironmentImpls bl (evName e0) = Some impl"
    using run by (cases "DefaultEnvironmentImpls bl (evName e0)") (simp_all add: Initialize_def)
  then have same: "eiOverrideServices impl = (\<lambda>s. (s, None))" "eiOverrideClients impl = (\<lambda>c. (c, None))"
    by (auto simp: DefaultEnvironmentImpls_def DevEnvImpl_def UnitTestingEnvImpl_def IntegrationTestingEnvImpl_def
        ProductionEnvImpl_def split: if_splits)
  obtain c f e3 where "e = LoadServices (pgServiceNames pg) plugins_registry e3"
    by (rule Initialize_Booted [where bl = bl and nms = "pgServiceNames pg" and reg = plugins_registry, OF run impl same])
  then have "GetService ''Events'' (evServices e) = Some EventsLocator" using LoadServices_plugins [OF assms(2)] by simp
  then show ?thesis using g by (simp add: NewDefaultControllersServer_def crashes_def)
qed

section \<open>Running a route\<close>

record ('s, 'r) mw_env =
  meIO :: "('s, 'r body) log_io"
  meMetrics :: "'s metrics_io"
  meKsuid :: "'s \<Rightarrow> string"
  meBase :: "string go" \<comment> \<open>the base path of \<^verbatim>\<open>trex.GetConfig\<close>\<close>
  meErrors :: error_config
  meOther :: "middleware \<Rightarrow> (jwt_claims, 's, 'r body) web_handler \<Rightarrow> (jwt_claims, 's, 'r body) web_handler"

text \<open>
  The middleware by name; the transaction, the compression, the Sentry handler and the review of the
  OCM service are \<open>meOther\<close>.
\<close>

fun apply_mw ::
    "('s, 'r) mw_env \<Rightarrow> middleware \<Rightarrow> (jwt_claims, 's, 'r body) web_handler \<Rightarrow> (jwt_claims, 's, 'r body) web_handler" where
  "apply_mw me UseOperationID next = OperationIDMiddleware (meIO me) (meKsuid me) next"
| "apply_mw me UseRequestLogging next = RequestLoggingMiddleware (meIO me) (meBase me) next"
| "apply_mw me UseMetrics next = MetricsMiddleware (meMetrics me) next"
| "apply_mw me UseAuth next = AuthenticateAccountJWT (meIO me) (meErrors me) next"
| "apply_mw me UseAuthMock next = Mock_AuthenticateAccountJWT next"
| "apply_mw me UseAuthzMock next = Mock_AuthorizeApi next"
| "apply_mw me m next = meOther me m next"

lemma apply_mw_eqs:
  "apply_mw me UseOperationID = OperationIDMiddleware (meIO me) (meKsuid me)"
  "apply_mw me UseRequestLogging = RequestLoggingMiddleware (meIO me) (meBase me)"
  "apply_mw me UseMetrics = MetricsMiddleware (meMetrics me)"
  by (simp_all add: fun_eq_iff)

definition serve_route ::
    "('s, 'r) mw_env \<Rightarrow> route \<Rightarrow> (jwt_claims, 's, 'r body) web_handler \<Rightarrow> (jwt_claims, 's, 'r body) web_handler" where
  "serve_route me rt endpoint = foldr (apply_mw me) (rtMiddleware rt) endpoint"

lemma dinosaurs_routes_middleware:
  assumes "dinosaurs_routes wi prefix mw e auth authz = Ret rs" and "rt \<in> set rs"
  shows "rtMiddleware rt = mw @ [auth, authz]"
  using assms by (auto simp: dinosaurs_routes_def Let_def)

lemma LoadDiscoveredRoutes_from:
  assumes "LoadDiscoveredRoutes nms reg prefix mw e auth authz = Ret rs" and "rt \<in> set rs"
  shows "\<exists>name f rs'. reg name = Some f \<and> f prefix mw e auth authz = Ret rs' \<and> rt \<in> set rs'"
  using assms
proof (induction nms arbitrary: rs)
  case (Cons name nms)
  from Cons.prems(1) obtain rs1 rs2 where
    1: "(case reg name of None \<Rightarrow> Ret [] | Some f \<Rightarrow> f prefix mw e auth authz) = Ret rs1"
    and 2: "LoadDiscoveredRoutes nms reg prefix mw e auth authz = Ret rs2" and rs: "rs = rs1 @ rs2"
    by (auto)
  show ?case
  proof (cases "rt \<in> set rs1")
    case True
    with 1 show ?thesis by (cases "reg name") auto
  next
    case False
    with Cons.prems(2) rs have "rt \<in> set rs2" by simp
    with Cons.IH [OF 2] show ?thesis by blast
  qed
qed simp

lemma plugin_route_middleware:
  fixes e :: "('f, 'n) env" and wi :: "('f, 's) wiring"
  assumes "NewDefaultAPIServer trex spec authn nms (RegisterRoutes ''dinosaurs'' (dinosaurs_routes wi) Map.empty) e = Ret (Inr srv)"
    and "rt \<in> set (asRoutes srv)" and "rtEndpoint rt \<notin> {MetadataGet, OpenAPIGet, OpenAPIUI}"
  shows "rtMiddleware rt =
    [UseOperationID, UseRequestLogging] @ (if stEnabled (acSentry (evConfig e)) then [UseSentry] else []) @
    [UseMetrics, UseTransaction, UseCompress, if scEnableJWT (acServer (evConfig e)) then UseAuth else UseAuthMock, UseAuthzMock]"
proof -
  define main where "main = [UseOperationID, UseRequestLogging] @ (if stEnabled (acSentry (evConfig e)) then [UseSentry] else [])"
  define auth where "auth = (if scEnableJWT (acServer (evConfig e)) then UseAuth else UseAuthMock)"
  define reg where "reg = RegisterRoutes ''dinosaurs'' (dinosaurs_routes wi :: ('f, 'n) route_registration) Map.empty"
  obtain x where x: "BuildDefaultRoutes main trex spec nms reg e = Ret x"
    using assms(1) unfolding NewDefaultAPIServer_def main_def [symmetric] reg_def [symmetric] by (auto simp: Let_def)
  obtain routes where routes: "x = Inr routes"
    using assms(1) unfolding NewDefaultAPIServer_def main_def [symmetric] reg_def [symmetric]
    by (cases x) (simp_all add: Let_def x)
  have "asRoutes srv = routes"
    using assms(1) unfolding NewDefaultAPIServer_def main_def [symmetric] reg_def [symmetric]
    by (cases authn; cases "the authn") (auto simp: Let_def x routes split: if_splits)
  with assms(2) have rt: "rt \<in> set routes" by simp
  from x routes have "BuildDefaultRoutes main trex spec nms reg e = Ret (Inr routes)" by simp
  then obtain cfg :: trex_config and rs where rs: "LoadDiscoveredRoutes nms reg (trim_suffix (tcBasePath cfg) ''/v1'' @ ''/v1'')
      (main @ [UseMetrics, UseTransaction, UseCompress]) e auth UseAuthzMock = Ret rs" and "rt \<in> set rs"
    using rt assms(3) unfolding BuildDefaultRoutes_def auth_def [symmetric]
    by (auto simp: Let_def split: option.splits)
  from LoadDiscoveredRoutes_from [OF this] obtain name f rs' where f: "reg name = Some f"
    "f (trim_suffix (tcBasePath cfg) ''/v1'' @ ''/v1'') (main @ [UseMetrics, UseTransaction, UseCompress]) e auth UseAuthzMock = Ret rs'"
    "rt \<in> set rs'" by blast
  from f(1) have "f = dinosaurs_routes wi" by (auto simp: reg_def RegisterRoutes_def split: if_splits)
  with f(2,3) have "rtMiddleware rt = (main @ [UseMetrics, UseTransaction, UseCompress]) @ [auth, UseAuthzMock]"
    using dinosaurs_routes_middleware by blast
  then show ?thesis by (simp add: main_def auth_def)
qed

lemma GetAuthPayload_refused:
  assumes "\<forall>claims. wrToken r \<noteq> Inr (Some (MapClaims claims))"
  obtains err where "GetAuthPayload r = Inl err"
proof (cases "wrToken r")
  case (Inl err)
  then show ?thesis using that by (simp add: GetAuthPayload_def GetAuthPayloadFromContext_def)
next
  case (Inr t)
  show ?thesis
  proof (cases t)
    case None
    with Inr show ?thesis using that by (simp add: GetAuthPayload_def GetAuthPayloadFromContext_def)
  next
    case (Some c)
    with Inr assms show ?thesis using that
      by (cases c) (simp_all add: GetAuthPayload_def GetAuthPayloadFromContext_def)
  qed
qed

lemma AuthenticateAccountJWT_refuses:
  assumes "\<forall>claims. wrToken r \<noteq> Inr (Some (MapClaims claims))"
  shows "\<exists>calls s'. (\<forall>next. AuthenticateAccountJWT io g next r s = (Done (), calls, s')) \<and> sent_status calls = Some 403"
proof -
  obtain err where err: "GetAuthPayload r = Inl err"
    by (rule GetAuthPayload_refused [OF assms])
  have h: "HttpCode (New ErrorUnauthorized ''%s'' v) = 403" for v
    using ctor_HttpCode(3) [of "''%s''" v] by (simp only: Unauthorized_def)
  show ?thesis
    by (simp add: AuthenticateAccountJWT_def err handleError_def auth_writeJSONResponse_def Let_def h sent_status_header
        sent_status_first)
qed

section \<open>Requests without a token\<close>

lemma foldr_split: "foldr f (ms @ [m, m']) x = foldr f ms (f m (f m' x))"
  by simp

text \<open>Every middleware of a route is a layer, or a filter, when those outside the repository are.\<close>

lemma apply_mw_other: "m \<in> {UseSentry, UseTransaction, UseCompress} \<Longrightarrow> apply_mw me m = meOther me m"
  by (auto simp: fun_eq_iff)

lemma apply_mw_known:
  assumes "meBase me = Ret base" and "m \<in> {UseOperationID, UseRequestLogging, UseMetrics}"
  shows "layer (apply_mw me m)"
  using assms(2) by (auto simp: apply_mw_eqs assms(1) layer_OperationID layer_RequestLogging layer_Metrics)

lemma apply_mw_all:
  assumes "meBase me = Ret base"
    and "m \<in> {UseOperationID, UseRequestLogging, UseMetrics} \<union> {UseSentry, UseTransaction, UseCompress}"
  shows "\<forall>m \<in> {UseSentry, UseTransaction, UseCompress}. filters (meOther me m) \<Longrightarrow> filters (apply_mw me m)"
    and "\<forall>m \<in> {UseSentry, UseTransaction, UseCompress}. layer (meOther me m) \<Longrightarrow> layer (apply_mw me m)"
  using assms(2) apply_mw_known [OF assms(1), of m] layer_filters [of "apply_mw me m"] apply_mw_other [of m me]
  by (metis Un_iff)+


definition trex_zero :: trex_config where
  "trex_zero =
     \<lparr>tcServiceName = [], tcBasePath = [], tcErrorHref = [], tcMetadataID = [], tcProjectRootDir = [], tcCORSOrigins = []\<rparr>"

definition demo_plugins_env :: "(unit, unit) env" where
  "demo_plugins_env = LoadServices [''Generic'', ''Events'', ''Dinosaurs''] plugins_registry (start_env demo_boot)"

lemma demo_dinosaurs_routes:
  fixes wi :: "(unit, unit) wiring"
  shows "dinosaurs_routes wi prefix mw demo_plugins_env auth authz =
    Ret (map (\<lambda>(m, path, ep). \<lparr>rtMethod = m, rtPath = prefix @ ''/dinosaurs'' @ path, rtMiddleware = mw @ [auth, authz],
                             rtEndpoint = ep\<rparr>)
      [(''GET'', [], DinosaurList), (''GET'', ''/{id}'', DinosaurGet), (''POST'', [], DinosaurCreate),
       (''PATCH'', ''/{id}'', DinosaurPatch), (''DELETE'', ''/{id}'', DinosaurDelete)])"
proof -
  have "set [''Generic'', ''Events'', ''Dinosaurs''] = {''Events'', ''Generic'', ''Dinosaurs''}" by auto
  note found = LoadServices_plugins [OF this, where e = "start_env demo_boot", folded demo_plugins_env_def]
  have e: "events_Service wi (Some demo_plugins_env) = Ret (Some (events_locator wi demo_plugins_env))"
    by (simp add: events_Service_def found)
  have d: "dinosaurs_Service wi (Some demo_plugins_env) = go_bind (dinosaurs_locator wi demo_plugins_env) (\<lambda>svc. Ret (Some svc))"
    by (simp add: dinosaurs_Service_def found)
  have g: "generic_Service wi (Some demo_plugins_env) = Ret (Some (wiGeneric wi (evDatabase demo_plugins_env)))"
    by (simp add: generic_Service_def found)
  show ?thesis by (simp add: dinosaurs_routes_def d g e dinosaurs_locator_def Let_def)
qed

definition demo_mw_env :: "(request_metrics, unit) mw_env" where
  "demo_mw_env =
     \<lparr>meIO = \<lparr>loGet = (\<lambda>_. demo_log), loPut = (\<lambda>_ s. s), loElapsed = (\<lambda>_ _. ''1ms''), loRequest = (\<lambda>_. Inr ''request''),
             loResponse = (\<lambda>_. Inr ''response'')\<rparr>,
      meMetrics = demo_metrics_io, meKsuid = (\<lambda>_. ''op1''), meBase = Ret ''/api/rh-trex/v1'', meErrors = default_error_config,
      meOther = (\<lambda>m next. next)\<rparr>"


definition demo_plugins :: "('f, 's) wiring \<Rightarrow> ('f, 'n, 's) plugins" where
  "demo_plugins wi =
     \<lparr>pgServiceNames = [''Generic'', ''Events'', ''Dinosaurs''], pgServices = plugins_registry,
      pgRouteNames = [''dinosaurs''], pgRoutes = RegisterRoutes ''dinosaurs'' (dinosaurs_routes wi) Map.empty,
      pgControllerNames = [''dinosaurs''], pgControllers = RegisterController ''dinosaurs'' (dinosaurs_controllers wi) Map.empty\<rparr>"

theorem serve_crashes_witness:
  "\<forall>wi :: (unit, unit) wiring. \<exists>g.
     runServe wi demo_boot (trex_start (demo_config_io [])) (demo_plugins wi) (DefaultEnvironmentImpls demo_boot) None None None
       (start_env demo_boot) = Ret (Inr g) \<and> crashes g"
proof
  fix wi :: "(unit, unit) wiring"
  obtain e where e: "Initialize demo_boot [''Generic'', ''Events'', ''Dinosaurs''] plugins_registry (DefaultEnvironmentImpls demo_boot)
      (start_env demo_boot) = Ret (Booted, e)" using demo_started by blast
  have "\<exists>g. runServe wi demo_boot (trex_start (demo_config_io [])) (demo_plugins wi) (DefaultEnvironmentImpls demo_boot) None None None
       (start_env demo_boot) = Ret (Inr g)"
    by (simp add: runServe_def demo_plugins_def e)
  then obtain g where g: "runServe wi demo_boot (trex_start (demo_config_io [])) (demo_plugins wi) (DefaultEnvironmentImpls demo_boot)
       None None None (start_env demo_boot) = Ret (Inr g)" by blast
  have "crashes g \<and> grControllers g = Panic (conversion_panic ''func() services.EventService'')"
    by (rule serve_crashes [OF g]) (auto simp: demo_plugins_def)
  with g show "\<exists>g. runServe wi demo_boot (trex_start (demo_config_io [])) (demo_plugins wi) (DefaultEnvironmentImpls demo_boot)
       None None None (start_env demo_boot) = Ret (Inr g) \<and> crashes g" by blast
qed

end
