(* ===== verification/Container_Factory.thy ===== *)
theory Container_Factory
  imports Session_Factory
begin

text \<open>
  The two other session factories: the one of the integration tests on a PostgreSQL container
  (\<^verbatim>\<open>pkg/db/db_session/testcontainer.go\<close>) and the one of the unit tests on
  \<^verbatim>\<open>sqlmock\<close> (\<^verbatim>\<open>pkg/db/mocks/session_factory.go\<close>). The library of
  containers is the record \<open>container_lib\<close>, a parameter, over the same state of the world as the
  driver; a container is a handle \<open>'k\<close>.
\<close>

record ('h, 'k, 'w) container_lib =
  clRun :: "string \<Rightarrow> string \<Rightarrow> string \<Rightarrow> string \<Rightarrow> 'w \<Rightarrow> (string + 'k) \<times> 'w" \<comment> \<open>image, database, user, password\<close>
  clConnectionString :: "'k \<Rightarrow> string \<Rightarrow> 'w \<Rightarrow> (string + string) \<times> 'w"
  clTerminate :: "'k \<Rightarrow> 'w \<Rightarrow> string option \<times> 'w"
  clScan :: "'h \<Rightarrow> string \<Rightarrow> 'w \<Rightarrow> (string + string list) \<times> 'w" \<comment> \<open>a query for one column of text\<close>

definition on_world :: "('w \<Rightarrow> 'a \<times> 'w) \<Rightarrow> ('w, 'a) proc" where
  "on_world f w = (case f w of (a, w') \<Rightarrow> (Done a, w'))"

text \<open>A call that may fail: the text with which \<^verbatim>\<open>glog.Fatalf\<close> ends the process, or the rest.\<close>

definition or_exit :: "('w \<Rightarrow> (string + 'a) \<times> 'w) \<Rightarrow> string \<Rightarrow> ('a \<Rightarrow> ('w, string + 'b) proc) \<Rightarrow> ('w, string + 'b) proc" where
  "or_exit f format rest = run_try (on_world f) (\<lambda>err. sprintf format [FStr err]) rest"

definition failing :: "('w \<Rightarrow> string option \<times> 'w) \<Rightarrow> 'w \<Rightarrow> (string + unit) \<times> 'w" where
  "failing f w = (case f w of (Some err, w') \<Rightarrow> (Inl err, w') | (None, w') \<Rightarrow> (Inr (), w'))"

section \<open>testcontainer.go\<close>

record ('h, 'k) container_factory =
  tcConfig :: database_config
  tcContainer :: "'k option"
  tcG2 :: "'h option"
  tcSqlDB :: "'h option"

definition Testcontainer_Init ::
    "('h, 'w) sql_driver \<Rightarrow> ('h, 'k, 'w) container_lib \<Rightarrow> ('h \<Rightarrow> 'w \<Rightarrow> string option \<times> 'w) \<Rightarrow> database_config
     \<Rightarrow> ('w, string + ('h, 'k) container_factory) proc" where
  "Testcontainer_Init dr cl migrate c =
     or_exit (clRun cl ''postgres:14.2'' (dcName c) (dcUsername c) (dcPassword c)) ''Failed to start PostgreSQL testcontainer: %s'' (\<lambda>k.
     or_exit (clConnectionString cl k ''sslmode=disable'') ''Failed to get connection string from testcontainer: %s'' (\<lambda>connStr.
     or_exit (drOpen dr ''postgres'' connStr) ''Failed to connect to testcontainer database: %s'' (\<lambda>h.
     run_bind (run_modify (drMaxOpen dr h (dcMaxOpenConnections c))) (\<lambda>_.
     or_exit (failing (drGorm dr h)) ''Failed to connect GORM to testcontainer database: %s'' (\<lambda>_.
     or_exit (failing (migrate h)) ''Failed to run migrations on testcontainer: %s'' (\<lambda>_.
     run_ret (Inr \<lparr>tcConfig = c, tcContainer = Some k, tcG2 = Some h, tcSqlDB = Some h\<rparr>)))))))"

definition NewTestcontainerFactory ::
    "('h, 'w) sql_driver \<Rightarrow> ('h, 'k, 'w) container_lib \<Rightarrow> ('h \<Rightarrow> 'w \<Rightarrow> string option \<times> 'w) \<Rightarrow> database_config
     \<Rightarrow> ('w, string + ('h, 'k) container_factory) proc" where
  "NewTestcontainerFactory dr cl migrate c = Testcontainer_Init dr cl migrate c"

definition Testcontainer_DirectDB :: "('h, 'k) container_factory \<Rightarrow> 'h option" where
  "Testcontainer_DirectDB f = tcSqlDB f"

definition Testcontainer_New :: "('h, 'k) container_factory \<Rightarrow> ('h \<times> bool) go" where
  "Testcontainer_New f = (case tcG2 f of None \<Rightarrow> Panic nil_pointer | Some h \<Rightarrow> Ret (h, dcDebug (tcConfig f)))"

definition Testcontainer_CheckConnection ::
    "('h, 'w) sql_driver \<Rightarrow> ('h, 'k) container_factory \<Rightarrow> ('w, string option) proc" where
  "Testcontainer_CheckConnection dr f =
     (case tcSqlDB f of None \<Rightarrow> run_go (Panic nil_pointer) | Some h \<Rightarrow> on_world (drExec dr h ''SELECT 1'' []))"

text \<open>The result of closing, and the lines it logs as errors.\<close>

definition Testcontainer_Close ::
    "('h, 'w) sql_driver \<Rightarrow> ('h, 'k, 'w) container_lib \<Rightarrow> ('h, 'k) container_factory
     \<Rightarrow> ('w, string option \<times> string list) proc" where
  "Testcontainer_Close dr cl f =
     run_bind (case tcSqlDB f of
         None \<Rightarrow> run_ret []
       | Some h \<Rightarrow> run_bind (on_world (drClose dr h)) (\<lambda>r. case r of
             None \<Rightarrow> run_ret []
           | Some err \<Rightarrow> run_ret [sprintf ''Error closing SQL connection: %s'' [FStr err]])) (\<lambda>lines.
     case tcContainer f of
       None \<Rightarrow> run_ret (None, lines)
     | Some k \<Rightarrow> run_bind (on_world (clTerminate cl k)) (\<lambda>r. case r of
           None \<Rightarrow> run_ret (None, lines)
         | Some err \<Rightarrow> run_ret (Some (sprintf ''failed to terminate testcontainer: %s'' [FStr err]), lines)))"

definition tables_query :: string where
  "tables_query =
     (let line = [CHR 0x0A, CHR 0x09, CHR 0x09]
      in line @ ''SELECT table_name FROM information_schema.tables'' @ line @
         ''WHERE table_schema = '' @ [CHR 0x27] @ ''public'' @ [CHR 0x27] @ line @
         ''AND table_type = '' @ [CHR 0x27] @ ''BASE TABLE'' @ [CHR 0x27] @ line @
         ''AND table_name != '' @ [CHR 0x27] @ ''migrations'' @ [CHR 0x27] @ [CHR 0x0A, CHR 0x09])"

definition truncate_sql :: "string \<Rightarrow> string" where
  "truncate_sql table = sprintf (''TRUNCATE TABLE '' @ [CHR 0x22] @ ''%s'' @ [CHR 0x22] @ '' CASCADE'') [FStr table]"

definition truncate_line :: "string \<Rightarrow> string \<Rightarrow> string" where
  "truncate_line table err = sprintf ''Error truncating table %s: %s'' [FStr table, FStr err]"

text \<open>The loop over the tables: an error is logged, and the loop goes on.\<close>

fun truncate_tables :: "('h, 'w) sql_driver \<Rightarrow> 'h \<Rightarrow> string list \<Rightarrow> 'w \<Rightarrow> string list \<times> 'w" where
  "truncate_tables dr h [] w = ([], w)"
| "truncate_tables dr h (table # tables) w =
     (case drExec dr h (truncate_sql table) [] w of
        (r, w1) \<Rightarrow>
          (case truncate_tables dr h tables w1 of
             (lines, w2) \<Rightarrow> (case r of None \<Rightarrow> lines | Some err \<Rightarrow> truncate_line table err # lines, w2)))"

text \<open>The lines that the reset logs; it returns nothing.\<close>

definition Testcontainer_ResetDB ::
    "('h, 'w) sql_driver \<Rightarrow> ('h, 'k, 'w) container_lib \<Rightarrow> ('h, 'k) container_factory \<Rightarrow> ('w, string list) proc" where
  "Testcontainer_ResetDB dr cl f =
     run_bind (run_go (Testcontainer_New f)) (\<lambda>(h, debug).
     run_bind (on_world (clScan cl h tables_query)) (\<lambda>r. case r of
       Inl err \<Rightarrow> run_ret [sprintf ''Error querying tables: %s'' [FStr err]]
     | Inr tables \<Rightarrow> on_world (truncate_tables dr h tables)))"

text \<open>The connection string and the channel the listener is started with, or the line that is logged.\<close>

definition Testcontainer_NewListener ::
    "('h, 'k, 'w) container_lib \<Rightarrow> ('h, 'k) container_factory \<Rightarrow> string \<Rightarrow> ('w, string + string \<times> string) proc" where
  "Testcontainer_NewListener cl f channel =
     (case tcContainer f of
        None \<Rightarrow> run_go (Panic nil_pointer)
      | Some k \<Rightarrow>
          run_try (on_world (clConnectionString cl k ''sslmode=disable''))
            (\<lambda>err. sprintf ''Failed to get connection string for listener: %s'' [FStr err])
            (\<lambda>connStr. run_ret (Inr (connStr, channel))))"

section \<open>session\_factory.go of the mocks\<close>

record ('h, 'm) mock_factory =
  mfGormDB :: 'h
  mfSqlDB :: "'h option"
  mfMock :: 'm

text \<open>\<open>new\<close> is \<^verbatim>\<open>sqlmock.New\<close>.\<close>

definition NewMockSessionFactory ::
    "('h, 'w) sql_driver \<Rightarrow> ('w \<Rightarrow> (string + 'h \<times> 'm) \<times> 'w) \<Rightarrow> ('w, ('h, 'm) mock_factory) proc" where
  "NewMockSessionFactory dr new =
     run_bind (on_world new) (\<lambda>r. case r of
       Inl err \<Rightarrow> run_go (Panic (''failed to create sqlmock: '' @ err))
     | Inr (h, mock) \<Rightarrow> run_bind (on_world (drGorm dr h)) (\<lambda>r. case r of
           Some err \<Rightarrow> run_go (Panic (''failed to create gorm DB with sqlmock: '' @ err))
         | None \<Rightarrow> run_ret \<lparr>mfGormDB = h, mfSqlDB = Some h, mfMock = mock\<rparr>))"

definition Mock_Init :: "database_config \<Rightarrow> ('h, 'm) mock_factory \<Rightarrow> ('h, 'm) mock_factory" where
  "Mock_Init c m = m"

definition Mock_DirectDB :: "('h, 'm) mock_factory \<Rightarrow> 'h option" where
  "Mock_DirectDB m = mfSqlDB m"

definition Mock_New :: "('h, 'm) mock_factory \<Rightarrow> 'h" where
  "Mock_New m = mfGormDB m"

definition Mock_CheckConnection :: "('h, 'm) mock_factory \<Rightarrow> string option" where
  "Mock_CheckConnection m = None"

definition Mock_Close :: "('h, 'w) sql_driver \<Rightarrow> ('h, 'm) mock_factory \<Rightarrow> ('w, string option) proc" where
  "Mock_Close dr m = (case mfSqlDB m of Some h \<Rightarrow> on_world (drClose dr h) | None \<Rightarrow> run_ret None)"

definition Mock_ResetDB :: "('h, 'm) mock_factory \<Rightarrow> ('h, 'm) mock_factory" where
  "Mock_ResetDB m = m"

definition Mock_NewListener :: "('h, 'm) mock_factory \<Rightarrow> string \<Rightarrow> (string \<Rightarrow> ('s, unit) proc) \<Rightarrow> ('s, unit) proc" where
  "Mock_NewListener m channel callback = run_ret ()"

section \<open>Facts\<close>

text \<open>
  What PostgreSQL documents of \<^verbatim>\<open>TRUNCATE ... CASCADE\<close>: it empties the table, and the
  tables that refer to it, and changes no other; when it fails it changes nothing. The query gives the
  tables of the schema.
\<close>

definition container_law ::
    "('h, 'w) sql_driver \<Rightarrow> ('h, 'k, 'w) container_lib \<Rightarrow> ('w \<Rightarrow> string \<Rightarrow> nat option) \<Rightarrow> bool" where
  "container_law dr cl rows \<longleftrightarrow>
     (\<forall>h table w w'. drExec dr h (truncate_sql table) [] w = (None, w') \<longrightarrow>
        rows w' table = Some 0 \<and> (\<forall>t. rows w' t = rows w t \<or> rows w' t = Some 0)) \<and>
     (\<forall>h table w w' err. drExec dr h (truncate_sql table) [] w = (Some err, w') \<longrightarrow> rows w' = rows w) \<and>
     (\<forall>h w w' tables. clScan cl h tables_query w = (Inr tables, w') \<longrightarrow>
        rows w' = rows w \<and> set tables = dom (rows w) - {''migrations''}) \<and>
     (\<forall>h w w' err. clScan cl h tables_query w = (Inl err, w') \<longrightarrow> rows w' = rows w)"

lemma container_law_truncate:
  assumes "container_law dr cl rows" and "drExec dr h (truncate_sql table) [] w = (None, w')"
  shows "rows w' table = Some 0 \<and> (\<forall>t. rows w' t = rows w t \<or> rows w' t = Some 0)"
  by (rule assms(1) [unfolded container_law_def, THEN conjunct1, rule_format, OF assms(2)])

lemma container_law_error:
  assumes "container_law dr cl rows" and "drExec dr h (truncate_sql table) [] w = (Some err, w')"
  shows "rows w' = rows w"
  by (rule assms(1) [unfolded container_law_def, THEN conjunct2, THEN conjunct1, rule_format, OF assms(2)])

lemma container_law_scan:
  assumes "container_law dr cl rows" and "clScan cl h tables_query w = (r, w')"
  shows "rows w' = rows w" and "r = Inr tables \<Longrightarrow> set tables = dom (rows w) - {''migrations''}"
  using assms(1) [unfolded container_law_def, THEN conjunct2, THEN conjunct2] assms(2)
  by (cases r; auto)+

lemma truncate_tables_counts:
  assumes "container_law dr cl rows" and "truncate_tables dr h tables w = (lines, w')"
  shows "(\<forall>t. rows w' t = rows w t \<or> rows w' t = Some 0) \<and>
    (\<forall>t \<in> set tables. rows w' t = Some 0 \<or> (\<exists>err. truncate_line t err \<in> set lines))"
  using assms(2)
proof (induction tables arbitrary: w w' lines)
  case Nil
  then show ?case by simp
next
  case (Cons table tables)
  obtain r w1 where r: "drExec dr h (truncate_sql table) [] w = (r, w1)" by fastforce
  obtain ls where ls: "truncate_tables dr h tables w1 = (ls, w')"
    using Cons.prems r by (auto split: prod.splits)
  from Cons.prems r ls have out: "lines = (case r of None \<Rightarrow> ls | Some err \<Rightarrow> truncate_line table err # ls)"
    by simp_all
  note IH = Cons.IH [OF ls]
  show ?case
  proof (cases r)
    case None
    note one = container_law_truncate [OF assms(1) r [unfolded None]]
    have "rows w' t = rows w t \<or> rows w' t = Some 0" for t
      using conjunct1 [OF IH, rule_format, of t] one by auto
    moreover have "rows w' table = Some 0"
      using conjunct1 [OF IH, rule_format, of table] one by auto
    moreover have "rows w' t = Some 0 \<or> (\<exists>err. truncate_line t err \<in> set lines)" if "t \<in> set tables" for t
      using IH that None out by simp
    ultimately show ?thesis by simp
  next
    case (Some err)
    note container_law_error [OF assms(1) r [unfolded Some]]
    with IH Some out show ?thesis by auto
  qed
qed

section \<open>A driver for the witnesses\<close>

text \<open>A database with three tables of which the state lists those that have a row; a table that is not there cannot be truncated.\<close>

definition demo_tables :: "string list" where
  "demo_tables = [''dinosaurs'', ''events'', ''migrations'']"

definition demo_count :: "string list \<Rightarrow> string \<Rightarrow> nat option" where
  "demo_count w t = (if t \<in> set demo_tables then Some (if t \<in> set w then 1 else 0) else None)"

definition demo_truncate :: "unit \<Rightarrow> string \<Rightarrow> string list \<Rightarrow> string list \<Rightarrow> string option \<times> string list" where
  "demo_truncate h sql args w =
     (if sql \<in> set (map truncate_sql demo_tables) then (None, filter (\<lambda>t. truncate_sql t \<noteq> sql) w)
      else (Some ''no such table'', w))"

definition demo_table_driver :: "(unit, string list) sql_driver" where
  "demo_table_driver =
     \<lparr>drOpen = (\<lambda>d t w. (Inr (), w)), drGorm = (\<lambda>h w. (None, w)), drExec = demo_truncate,
      drMaxOpen = (\<lambda>h n w. w), drClose = (\<lambda>h w. (None, w)), drQuote = id\<rparr>"

definition demo_container_lib :: "(unit, unit, string list) container_lib" where
  "demo_container_lib =
     \<lparr>clRun = (\<lambda>i d u p w. (Inr (), w)), clConnectionString = (\<lambda>k opts w. (Inr ''postgres://'', w)),
      clTerminate = (\<lambda>k w. (None, w)), clScan = (\<lambda>h q w. (Inr [''dinosaurs'', ''events''], w))\<rparr>"

definition demo_container :: "(unit, unit) container_factory" where
  "demo_container = \<lparr>tcConfig = NewDatabaseConfig, tcContainer = Some (), tcG2 = Some (), tcSqlDB = Some ()\<rparr>"

lemma truncate_sql_eq_iff [simp]: "truncate_sql s = truncate_sql t \<longleftrightarrow> s = t"
  by (simp add: truncate_sql_def)

lemma demo_container_law: "container_law demo_table_driver demo_container_lib demo_count"
  unfolding container_law_def
  by (auto simp: demo_table_driver_def demo_container_lib_def demo_truncate_def demo_count_def demo_tables_def
      split: if_splits)

section \<open>Properties\<close>



end
