(* ===== verification/Net_Url.thy ===== *)
theory Net_Url
  imports Go_Prelude "HOL-Library.List_Lexorder" "HOL-Library.Char_ord"
begin

text \<open>
  What the generated client and the handlers use of \<^verbatim>\<open>net/url\<close>: the escaping of a query and
  of a path segment, the encoding of \<^verbatim>\<open>url.Values\<close> and its parsing by
  \<^verbatim>\<open>URL.Query\<close>. The values a client collects are a list of keys with their values, without
  repeated keys; the values a handler reads are the map of them.
\<close>

section \<open>Escaping\<close>

definition upper_hex :: "nat \<Rightarrow> char" where
  "upper_hex d = (if d < 10 then char_of (48 + d) else char_of (55 + d))"

definition hex_digit_val :: "char \<Rightarrow> nat option" where
  "hex_digit_val c =
     (let n = of_char c :: nat
      in if 48 \<le> n \<and> n \<le> 57 then Some (n - 48)
         else if 97 \<le> n \<and> n \<le> 102 then Some (n - 87)
         else if 65 \<le> n \<and> n \<le> 70 then Some (n - 55)
         else None)"

definition unreserved :: "char \<Rightarrow> bool" where
  "unreserved c \<longleftrightarrow>
     (let n = of_char c :: nat
      in 48 \<le> n \<and> n \<le> 57 \<or> 65 \<le> n \<and> n \<le> 90 \<or> 97 \<le> n \<and> n \<le> 122) \<or> c \<in> set ''-_.~''"

definition percent :: "char \<Rightarrow> string" where
  "percent c = [CHR ''%'', upper_hex (of_char c div 16), upper_hex (of_char c mod 16)]"

definition QueryEscape :: "string \<Rightarrow> string" where
  "QueryEscape s = concat (map (\<lambda>c. if unreserved c then [c] else if c = CHR '' '' then ''+'' else percent c) s)"

definition PathEscape :: "string \<Rightarrow> string" where
  "PathEscape s = concat (map (\<lambda>c. if unreserved c \<or> c \<in> set ''$&+=:@'' then [c] else percent c) s)"

text \<open>None is the error for a percent sign without two hexadecimal digits.\<close>

fun unescape_with :: "(char \<Rightarrow> char) \<Rightarrow> string \<Rightarrow> string option" where
  "unescape_with plain [] = Some []"
| "unescape_with plain (c # s) =
     (if c = CHR ''%''
      then (case s of
              a # b # s' \<Rightarrow>
                (case (hex_digit_val a, hex_digit_val b) of
                   (Some x, Some y) \<Rightarrow> map_option (\<lambda>t. char_of (x * 16 + y) # t) (unescape_with plain s')
                 | _ \<Rightarrow> None)
            | _ \<Rightarrow> None)
      else map_option (\<lambda>t. plain c # t) (unescape_with plain s))"

definition QueryUnescape :: "string \<Rightarrow> string option" where
  "QueryUnescape s = unescape_with (\<lambda>c. if c = CHR ''+'' then CHR '' '' else c) s"

definition PathUnescape :: "string \<Rightarrow> string option" where
  "PathUnescape s = unescape_with (\<lambda>c. c) s"

section \<open>Values\<close>

type_synonym query = "(string \<times> string list) list"

definition query_Get :: "query \<Rightarrow> string \<Rightarrow> string" where
  "query_Get q k = (case map_of q k of Some (v # vs) \<Rightarrow> v | _ \<Rightarrow> [])"

fun query_Set :: "string \<Rightarrow> string \<Rightarrow> query \<Rightarrow> query" where
  "query_Set k v [] = [(k, [v])]"
| "query_Set k v ((k', vs) # q) = (if k = k' then (k, [v]) # q else (k', vs) # query_Set k v q)"

fun query_Add :: "string \<Rightarrow> string \<Rightarrow> query \<Rightarrow> query" where
  "query_Add k v [] = [(k, [v])]"
| "query_Add k v ((k', vs) # q) = (if k = k' then (k, vs @ [v]) # q else (k', vs) # query_Add k v q)"

definition query_pairs :: "query \<Rightarrow> (string \<times> string) list" where
  "query_pairs q = concat (map (\<lambda>(k, vs). map (Pair k) vs) q)"

definition encode_pair :: "string \<times> string \<Rightarrow> string" where
  "encode_pair p = QueryEscape (fst p) @ CHR ''='' # QueryEscape (snd p)"

definition Values_Encode :: "query \<Rightarrow> string" where
  "Values_Encode q = join ''&'' (map encode_pair (query_pairs (sort_key fst q)))"

text \<open>A piece of a query: pieces with an error, or with a semicolon, are left out.\<close>

definition parse_pair :: "string \<Rightarrow> (string \<times> string) option" where
  "parse_pair piece =
     (if piece = [] \<or> CHR '';'' \<in> set piece then None
      else (let k = takeWhile (\<lambda>c. c \<noteq> CHR ''='') piece;
                v = drop 1 (dropWhile (\<lambda>c. c \<noteq> CHR ''='') piece)
            in case (QueryUnescape k, QueryUnescape v) of (Some k', Some v') \<Rightarrow> Some (k', v') | _ \<Rightarrow> None))"

definition parse_pairs :: "string \<Rightarrow> (string \<times> string) list" where
  "parse_pairs raw = List.map_filter parse_pair (split_on CHR ''&'' raw)"

definition values_of :: "(string \<times> string) list \<Rightarrow> string \<Rightarrow> string list option" where
  "values_of ps k = (let vs = map snd (filter (\<lambda>p. fst p = k) ps) in if vs = [] then None else Some vs)"

definition URL_Query :: "string \<Rightarrow> (string \<rightharpoonup> string list)" where
  "URL_Query raw = values_of (parse_pairs raw)"

section \<open>Facts\<close>

lemma hex_digit_val_upper [simp]: "d < 16 \<Longrightarrow> hex_digit_val (upper_hex d) = Some d"
  by (simp add: hex_digit_val_def upper_hex_def of_char_of Let_def)

lemma of_char_less_256: "(of_char c :: nat) < 256"
  by (metis char_of_mod_256 less_numeral_extra(1) mod_less_divisor of_char_mod_256 zero_less_numeral)

lemma high_digit: "(of_char c :: nat) div 16 < 16"
  using of_char_less_256 [of c] by (intro less_mult_imp_div_less) simp

lemma unescape_percent [simp]: "unescape_with plain (percent c @ s) = map_option ((#) c) (unescape_with plain s)"
proof -
  note high_digit [of c]
  moreover have "(of_char c :: nat) div 16 * 16 + of_char c mod 16 = of_char c" by simp
  ultimately show ?thesis by (simp add: percent_def)
qed

lemma unreserved_not [simp]: "\<not> unreserved CHR ''%''" "\<not> unreserved CHR ''+''" "\<not> unreserved CHR ''&''"
  "\<not> unreserved CHR ''=''" "\<not> unreserved CHR '';''" "\<not> unreserved CHR ''[''" "\<not> unreserved CHR '']''"
  by (simp_all add: unreserved_def Let_def)

lemma QueryUnescape_Escape [simp]: "QueryUnescape (QueryEscape s) = Some s"
proof (induction s)
  case (Cons c s)
  moreover have "c \<noteq> CHR ''%'' \<and> c \<noteq> CHR ''+''" if "unreserved c" using that by auto
  ultimately show ?case by (auto simp: QueryUnescape_def QueryEscape_def)
qed (simp add: QueryUnescape_def QueryEscape_def)

lemma PathUnescape_Escape [simp]: "PathUnescape (PathEscape s) = Some s"
proof (induction s)
  case (Cons c s)
  moreover have "c \<noteq> CHR ''%''" if "unreserved c" using that by auto
  ultimately show ?case by (auto simp: PathUnescape_def PathEscape_def)
qed (simp add: PathUnescape_def PathEscape_def)

lemma upper_hex_char: "d < 16 \<Longrightarrow> upper_hex d \<notin> {CHR ''&'', CHR ''='', CHR '';'', CHR ''%'', CHR ''['', CHR '']'', CHR ''/''}"
  using hex_digit_val_upper [of d] by (auto simp: hex_digit_val_def Let_def)

lemma percent_chars: "set (percent c) \<inter> {CHR ''&'', CHR ''='', CHR '';'', CHR ''/''} = {}"
  using upper_hex_char [of "of_char c div 16"] upper_hex_char [of "of_char c mod 16"] high_digit [of c]
  by (auto simp: percent_def)

lemma QueryEscape_chars: "set (QueryEscape s) \<inter> {CHR ''&'', CHR ''='', CHR '';''} = {}"
proof (induction s)
  case (Cons c s)
  then show ?case using percent_chars [of c] by (auto simp: QueryEscape_def split: if_splits)
qed (simp add: QueryEscape_def)

lemma PathEscape_no_slash: "CHR ''/'' \<notin> set (PathEscape s)"
proof (induction s)
  case (Cons c s)
  then show ?case using percent_chars [of c] by (auto simp: PathEscape_def unreserved_def split: if_splits)
qed (simp add: PathEscape_def)

lemma parse_encode_pair: "parse_pair (encode_pair p) = Some p"
proof -
  let ?k = "QueryEscape (fst p)" and ?v = "QueryEscape (snd p)"
  have "takeWhile (\<lambda>c. c \<noteq> CHR ''='') (encode_pair p) = ?k" "dropWhile (\<lambda>c. c \<noteq> CHR ''='') (encode_pair p) = CHR ''='' # ?v"
    using QueryEscape_chars [of "fst p"] by (auto simp: encode_pair_def takeWhile_append dropWhile_append)
  moreover have "CHR '';'' \<notin> set (encode_pair p)"
    using QueryEscape_chars [of "fst p"] QueryEscape_chars [of "snd p"] by (auto simp: encode_pair_def)
  ultimately show ?thesis by (auto simp: parse_pair_def Let_def encode_pair_def)
qed

lemma encode_pair_no_amp: "CHR ''&'' \<notin> set (encode_pair p)"
  using QueryEscape_chars [of "fst p"] QueryEscape_chars [of "snd p"] by (auto simp: encode_pair_def)

lemma parse_pairs_pieces:
  assumes "\<And>p. p \<in> set ps \<Longrightarrow> CHR ''&'' \<notin> set (f p)" and "\<And>p. p \<in> set ps \<Longrightarrow> parse_pair (f p) = Some p"
  shows "parse_pairs (join ''&'' (map f ps)) = ps"
proof (cases "ps = []")
  case True
  then show ?thesis by (simp add: parse_pairs_def parse_pair_def map_filter_simps)
next
  case False
  then have "split_on CHR ''&'' (join ''&'' (map f ps)) = map f ps"
    using assms(1) by (intro split_on_join) auto
  moreover have "List.map_filter parse_pair (map f ps) = ps"
    using assms(2) by (induction ps) (auto simp: map_filter_simps)
  ultimately show ?thesis by (simp add: parse_pairs_def)
qed

lemma values_of_pairs:
  "distinct (map fst q) \<Longrightarrow>
    values_of (query_pairs q) k = (case map_of q k of None \<Rightarrow> None | Some vs \<Rightarrow> if vs = [] then None else Some vs)"
proof (induction q)
  case (Cons e q)
  obtain k' vs where e: "e = (k', vs)" by fastforce
  have none: "filter (\<lambda>p. fst p = k) (query_pairs q) = []" if "k \<notin> fst ` set q"
    using that by (force simp: query_pairs_def filter_empty_conv)
  have "filter (\<lambda>p. fst p = k) (map (Pair k') vs) = (if k' = k then map (Pair k) vs else [])"
    by (induction vs) auto
  with Cons none e show ?case by (auto simp: values_of_def query_pairs_def comp_def)
qed (simp add: values_of_def query_pairs_def)

lemma map_of_sort_key:
  assumes "distinct (map fst q)"
  shows "map_of (sort_key fst q) = map_of q"
proof
  fix k
  have d: "distinct (map fst (sort_key fst q))"
    using assms by (simp add: distinct_map)
  show "map_of (sort_key fst q) k = map_of q k"
  proof (cases "map_of q k")
    case None
    then have "map_of (sort_key fst q) k = None" by (simp add: map_of_eq_None_iff)
    with None show ?thesis by simp
  qed (use assms d in \<open>simp add: map_of_eq_Some_iff\<close>)
qed

lemma values_of_sorted:
  assumes "distinct (map fst q)"
  shows "values_of (query_pairs (sort_key fst q)) k =
    (case map_of q k of None \<Rightarrow> None | Some vs \<Rightarrow> if vs = [] then None else Some vs)"
proof -
  have "distinct (map fst (sort_key fst q))" using assms by (simp add: distinct_map)
  from values_of_pairs [OF this, of k] show ?thesis by (simp add: map_of_sort_key [OF assms])
qed

lemma URL_Query_Encode:
  assumes "distinct (map fst q)"
  shows "URL_Query (Values_Encode q) k = (case map_of q k of None \<Rightarrow> None | Some vs \<Rightarrow> if vs = [] then None else Some vs)"
  using values_of_sorted [OF assms, of k]
  by (simp add: URL_Query_def Values_Encode_def parse_pairs_pieces encode_pair_no_amp parse_encode_pair)

end
