(* ===== verification/Openapi_Client.thy ===== *)
theory Openapi_Client
  imports Openapi_Models Net_Url
begin

text \<open>
  The generated client of the API: \<^verbatim>\<open>pkg/api/openapi/configuration.go\<close>,
  \<^verbatim>\<open>client.go\<close> and \<^verbatim>\<open>api_default.go\<close>. The transport is the record
  \<open>http_client\<close> over a state \<open>'s\<close>, the parsing and printing of whole URLs the record
  \<open>url_lib\<close>, the XML encoding of a model an argument: parameters. The order in which Go ranges
  over a map is that of the list the map is here. No operation of the API has a form, so
  the forms of \<^verbatim>\<open>prepareRequest\<close> are left out.
\<close>

section \<open>configuration.go\<close>

record server_variable =
  svDescription :: string
  svDefaultValue :: string
  svEnumValues :: "string list"

record server_configuration =
  scURL :: string
  scDescription :: string
  scVariables :: "(string \<times> server_variable) list"

record client_configuration =
  cgHost :: string
  cgScheme :: string
  cgDefaultHeader :: "(string \<times> string) list"
  cgUserAgent :: string
  cgDebug :: bool
  cgServers :: "server_configuration list"
  cgOperationServers :: "(string \<times> server_configuration list) list"

definition NewConfiguration :: client_configuration where
  "NewConfiguration =
     \<lparr>cgHost = [], cgScheme = [], cgDefaultHeader = [], cgUserAgent = ''OpenAPI-Generator/1.0.0/go'', cgDebug = False,
      cgServers =
        [\<lparr>scURL = ''http://localhost:8000'', scDescription = ''current domain'', scVariables = []\<rparr>,
         \<lparr>scURL = ''https://api.openshift.com'', scDescription = ''Main (production) server'', scVariables = []\<rparr>,
         \<lparr>scURL = ''https://api.stage.openshift.com'', scDescription = ''Staging server'', scVariables = []\<rparr>],
      cgOperationServers = []\<rparr>"

definition AddDefaultHeader :: "string \<Rightarrow> string \<Rightarrow> client_configuration \<Rightarrow> client_configuration" where
  "AddDefaultHeader key value c =
     c\<lparr>cgDefaultHeader := (key, value) # filter (\<lambda>h. fst h \<noteq> key) (cgDefaultHeader c)\<rparr>"

fun server_variables ::
    "(string \<rightharpoonup> string) \<Rightarrow> (string \<times> server_variable) list \<Rightarrow> string \<Rightarrow> string + string" where
  "server_variables variables [] url = Inr url"
| "server_variables variables ((name, variable) # vs) url =
     (let placeholder = ''{'' @ name @ ''}''
      in case variables name of
           Some value \<Rightarrow>
             if svEnumValues variable = [] \<or> value \<in> set (svEnumValues variable)
             then server_variables variables vs (replace_all placeholder value url)
             else Inl (sprintf ''the variable %s in the server URL has invalid value %v. Must be %v''
                         [FStr name, FStr value, FStrs (svEnumValues variable)])
         | None \<Rightarrow> server_variables variables vs (replace_all placeholder (svDefaultValue variable) url))"

definition ServerConfigurations_URL ::
    "server_configuration list \<Rightarrow> int \<Rightarrow> (string \<rightharpoonup> string) \<Rightarrow> string + string" where
  "ServerConfigurations_URL sc index variables =
     (if index < 0 \<or> int (length sc) \<le> index
      then Inl (sprintf ''index %v out of range %v'' [FInt index, FInt (int (length sc) - 1)])
      else (let server = sc ! nat index in server_variables variables (scVariables server) (scURL server)))"

definition ServerURL :: "client_configuration \<Rightarrow> int \<Rightarrow> (string \<rightharpoonup> string) \<Rightarrow> string + string" where
  "ServerURL c index variables = ServerConfigurations_URL (cgServers c) index variables"

text \<open>
  A value of the context under one of the package's keys: of the type that is expected, or of another
  one, which is named.
\<close>

datatype 'a context_value = Typed 'a | OtherType string

record client_context =
  ctAccessToken :: "string context_value option"
  ctServerIndex :: "int context_value option"
  ctOperationServerIndices :: "(string \<rightharpoonup> int) context_value option"
  ctServerVariables :: "(string \<rightharpoonup> string) context_value option"
  ctOperationServerVariables :: "(string \<rightharpoonup> (string \<rightharpoonup> string)) context_value option"

definition getServerIndex :: "client_context \<Rightarrow> string + int" where
  "getServerIndex ctx =
     (case ctServerIndex ctx of
        None \<Rightarrow> Inr 0
      | Some (Typed index) \<Rightarrow> Inr index
      | Some (OtherType ty) \<Rightarrow> Inl (''Invalid type '' @ ty @ '' should be int''))"

definition getServerOperationIndex :: "client_context \<Rightarrow> string \<Rightarrow> string + int" where
  "getServerOperationIndex ctx endpoint =
     (case ctOperationServerIndices ctx of
        Some (OtherType ty) \<Rightarrow> Inl (''Invalid type '' @ ty @ '' should be map[string]int'')
      | Some (Typed operationIndices) \<Rightarrow>
          (case operationIndices endpoint of Some index \<Rightarrow> Inr index | None \<Rightarrow> getServerIndex ctx)
      | None \<Rightarrow> getServerIndex ctx)"

definition getServerVariables :: "client_context \<Rightarrow> string + (string \<rightharpoonup> string)" where
  "getServerVariables ctx =
     (case ctServerVariables ctx of
        None \<Rightarrow> Inr Map.empty
      | Some (Typed variables) \<Rightarrow> Inr variables
      | Some (OtherType ty) \<Rightarrow>
          Inl (''ctx value of ContextServerVariables has invalid type '' @ ty @ '' should be map[string]string''))"

definition getServerOperationVariables :: "client_context \<Rightarrow> string \<Rightarrow> string + (string \<rightharpoonup> string)" where
  "getServerOperationVariables ctx endpoint =
     (case ctOperationServerVariables ctx of
        Some (OtherType ty) \<Rightarrow>
          Inl (''ctx value of ContextOperationServerVariables has invalid type '' @ ty @
               '' should be map[string]map[string]string'')
      | Some (Typed operationVariables) \<Rightarrow>
          (case operationVariables endpoint of Some variables \<Rightarrow> Inr variables | None \<Rightarrow> getServerVariables ctx)
      | None \<Rightarrow> getServerVariables ctx)"

text \<open>A context of None is nil.\<close>

definition ServerURLWithContext :: "client_configuration \<Rightarrow> client_context option \<Rightarrow> string \<Rightarrow> string + string" where
  "ServerURLWithContext c ctx endpoint =
     (let sc = (case map_of (cgOperationServers c) endpoint of Some sc \<Rightarrow> sc | None \<Rightarrow> cgServers c)
      in case ctx of
           None \<Rightarrow> ServerConfigurations_URL sc 0 Map.empty
         | Some ctx \<Rightarrow>
             (case getServerOperationIndex ctx endpoint of
                Inl err \<Rightarrow> Inl err
              | Inr index \<Rightarrow>
                  (case getServerOperationVariables ctx endpoint of
                     Inl err \<Rightarrow> Inl err
                   | Inr variables \<Rightarrow> ServerConfigurations_URL sc index variables)))"

section \<open>client.go: headers and parameters\<close>

definition contains_fold :: "string list \<Rightarrow> string \<Rightarrow> bool" where
  "contains_fold haystack needle \<longleftrightarrow> (\<exists>a \<in> set haystack. equal_fold a needle)"

definition selectHeaderContentType :: "string list \<Rightarrow> string" where
  "selectHeaderContentType contentTypes =
     (case contentTypes of
        [] \<Rightarrow> []
      | c # cs \<Rightarrow> if contains_fold contentTypes ''application/json'' then ''application/json'' else c)"

definition selectHeaderAccept :: "string list \<Rightarrow> string" where
  "selectHeaderAccept accepts =
     (if accepts = [] then []
      else if contains_fold accepts ''application/json'' then ''application/json''
      else join '','' accepts)"

text \<open>The type of a value, None for nil.\<close>

definition typeCheckParameter :: "string option \<Rightarrow> string \<Rightarrow> string \<Rightarrow> string option" where
  "typeCheckParameter obj expected name =
     (case obj of
        None \<Rightarrow> None
      | Some ty \<Rightarrow>
          if ty \<noteq> expected
          then Some (sprintf ''expected %s to be of type %s but received %s'' [FStr name, FStr expected, FStr ty])
          else None)"

text \<open>
  The value of a parameter as reflection sees it. A time is its RFC 3339 form, a float its shortest
  form; \<open>PvMapped\<close> is a model with its \<^verbatim>\<open>ToMap\<close>, \<open>PvOther\<close> a value of another type.
\<close>

datatype param_value =
    PvNil | PvInvalid | PvMapped "string + (string \<times> param_value) list" | PvTime string | PvStruct string
  | PvSlice "param_value list" | PvMap "(string \<times> param_value) list" | PvPtr param_value
  | PvInt int | PvFloat string | PvBool bool | PvString string | PvOther string

text \<open>Adding a value to a query or to the headers.\<close>

definition put_query :: "string \<Rightarrow> string \<Rightarrow> string \<Rightarrow> query \<Rightarrow> query" where
  "put_query collectionType keyPrefix value q =
     (if collectionType = ''csv'' \<and> query_Get q keyPrefix \<noteq> []
      then query_Set keyPrefix (query_Get q keyPrefix @ '','' @ value) q
      else query_Add keyPrefix value q)"

definition put_header :: "string \<Rightarrow> string \<Rightarrow> (string \<times> string) list \<Rightarrow> (string \<times> string) list" where
  "put_header keyPrefix value hs = (keyPrefix, value) # filter (\<lambda>h. fst h \<noteq> keyPrefix) hs"

fun parameterAdd :: "(string \<Rightarrow> string \<Rightarrow> 'q \<Rightarrow> 'q) \<Rightarrow> string \<Rightarrow> string \<Rightarrow> param_value \<Rightarrow> 'q \<Rightarrow> 'q"
  and add_elements :: "(string \<Rightarrow> string \<Rightarrow> 'q \<Rightarrow> 'q) \<Rightarrow> string \<Rightarrow> string \<Rightarrow> nat \<Rightarrow> param_value list \<Rightarrow> 'q \<Rightarrow> 'q"
  and add_members :: "(string \<Rightarrow> string \<Rightarrow> 'q \<Rightarrow> 'q) \<Rightarrow> string \<Rightarrow> string \<Rightarrow> (string \<times> param_value) list \<Rightarrow> 'q \<Rightarrow> 'q" where
  "parameterAdd put style key PvNil q = put key ''null'' q"
| "parameterAdd put style key PvInvalid q = put key ''invalid'' q"
| "parameterAdd put style key (PvMapped (Inl err)) q = q"
| "parameterAdd put style key (PvMapped (Inr dataMap)) q = add_members put style key dataMap q"
| "parameterAdd put style key (PvTime t) q = put key t q"
| "parameterAdd put style key (PvStruct ty) q = put key (ty @ '' value'') q"
| "parameterAdd put style key (PvSlice vs) q = add_elements put style key 0 vs q"
| "parameterAdd put style key (PvMap ms) q = add_members put style key ms q"
| "parameterAdd put style key (PvPtr v) q = parameterAdd put style key v q"
| "parameterAdd put style key (PvInt i) q = put key (itoa i) q"
| "parameterAdd put style key (PvFloat f) q = put key f q"
| "parameterAdd put style key (PvBool b) q = put key (if b then ''true'' else ''false'') q"
| "parameterAdd put style key (PvString s) q = put key s q"
| "parameterAdd put style key (PvOther ty) q = put key (ty @ '' value'') q"
| "add_elements put style key i [] q = q"
| "add_elements put style key i (v # vs) q =
     add_elements put style key (Suc i) vs
       (parameterAdd put style (if style = ''deepObject'' then key @ ''['' @ itoa (int i) @ '']'' else key) v q)"
| "add_members put style key [] q = q"
| "add_members put style key ((k, v) # ms) q =
     add_members put style key ms (parameterAdd put style (sprintf ''%s[%s]'' [FStr key, FStr k]) v q)"

definition parameterAddToQuery :: "string \<Rightarrow> param_value \<Rightarrow> string \<Rightarrow> string \<Rightarrow> query \<Rightarrow> query" where
  "parameterAddToQuery keyPrefix obj style collectionType q =
     parameterAdd (put_query collectionType) style keyPrefix obj q"

text \<open>The value of a string parameter of the path.\<close>

definition parameterValueToString :: "string \<Rightarrow> string" where
  "parameterValueToString s = sprintf ''%v'' [FStr s]"

section \<open>client.go: bodies\<close>

fun suffixes_of :: "string \<Rightarrow> string list" where
  "suffixes_of [] = [[]]"
| "suffixes_of (c # s) = (c # s) # suffixes_of s"

text \<open>
  \<^verbatim>\<open>JsonCheck\<close> and \<^verbatim>\<open>XmlCheck\<close>: \<^verbatim>\<open>application/\<close> or
  \<^verbatim>\<open>text/\<close>, then perhaps something without a semicolon that ends in a plus sign, then the kind.
\<close>

definition media_check :: "string \<Rightarrow> string \<Rightarrow> bool" where
  "media_check kind contentType \<longleftrightarrow>
     (\<exists>t \<in> set (suffixes_of (to_lower contentType)). \<exists>p \<in> set [''application/'', ''text/''].
        has_prefix t p \<and>
        (let u = drop (length p) t
         in has_prefix u kind \<or> Go_Prelude.contains (drop 1 (takeWhile (\<lambda>c. c \<noteq> CHR '';'') u)) (CHR ''+'' # kind)))"

datatype post_body =
    PbReader "string + string" | PbFile "string + string" | PbBytes string | PbString string | PbStringPtr string
  | PbValue "string + string" "string + string" \<comment> \<open>its JSON and its XML, or the error of encoding it\<close>

definition setBody :: "post_body \<Rightarrow> string \<Rightarrow> string + string" where
  "setBody body contentType =
     (let bodyBuf =
        (case body of
           PbReader r \<Rightarrow> r
         | PbFile r \<Rightarrow> r
         | PbBytes b \<Rightarrow> Inr b
         | PbString s \<Rightarrow> Inr s
         | PbStringPtr s \<Rightarrow> Inr s
         | PbValue js xml \<Rightarrow>
             if media_check ''json'' contentType
             then (case js of Inl err \<Rightarrow> Inl err | Inr t \<Rightarrow> Inr (t @ [CHR 0x0A]))
             else if media_check ''xml'' contentType then xml
             else Inr [])
      in case bodyBuf of
           Inl err \<Rightarrow> Inl err
         | Inr b \<Rightarrow> if b = [] then Inl (''invalid body type '' @ contentType @ [CHR 0x0A]) else Inr b)"

datatype body_kind = KindStruct | KindMap | KindPtr | KindString | KindSlice | KindOther

text \<open>A body of bytes is sniffed by \<^verbatim>\<open>http.DetectContentType\<close>, here \<open>sniff\<close>.\<close>

definition detectContentType :: "(string \<Rightarrow> string) \<Rightarrow> body_kind \<Rightarrow> string option \<Rightarrow> string" where
  "detectContentType sniff kind bytes =
     (case kind of
        KindStruct \<Rightarrow> ''application/json; charset=utf-8''
      | KindMap \<Rightarrow> ''application/json; charset=utf-8''
      | KindPtr \<Rightarrow> ''application/json; charset=utf-8''
      | KindString \<Rightarrow> ''text/plain; charset=utf-8''
      | _ \<Rightarrow>
          (case bytes of
             Some b \<Rightarrow> sniff b
           | None \<Rightarrow> if kind = KindSlice then ''application/json; charset=utf-8'' else ''text/plain; charset=utf-8''))"

text \<open>
  Decoding a body: \<open>xml\<close> and \<open>js\<close> read its bytes into the variable, whose value is \<open>v\<close>, and
  give its new value with an error.
\<close>

definition client_decode ::
    "(string \<Rightarrow> 'v \<times> string option) \<Rightarrow> (string \<Rightarrow> 'v \<times> string option) \<Rightarrow> string \<Rightarrow> string \<Rightarrow> 'v \<Rightarrow> 'v \<times> string option" where
  "client_decode xml js b contentType v =
     (if b = [] then (v, None)
      else if media_check ''xml'' contentType then xml b
      else if media_check ''json'' contentType then js b
      else (v, Some ''undefined response type''))"

text \<open>
  \<^verbatim>\<open>json.Unmarshal\<close> into a nil pointer to a model: an object is read into a new model, which
  is \<open>zero\<close> when the reading fails.
\<close>

definition unmarshal_pointer ::
    "json_lib \<Rightarrow> string \<Rightarrow> 'r \<Rightarrow> (json \<Rightarrow> json_error + 'r) \<Rightarrow> string \<Rightarrow> 'r option \<times> string option" where
  "unmarshal_pointer L ty zero f bytes =
     (case unmarshal L ty f bytes of
        Inr v \<Rightarrow> (v, None)
      | Inl err \<Rightarrow> (if parse_json bytes = None then None else Some zero, Some err))"

section \<open>client.go: requests\<close>

record url =
  urScheme :: string
  urHost :: string
  urPath :: string
  urRawQuery :: string

record url_lib =
  ulParse :: "string \<Rightarrow> string + url"
  ulString :: "url \<Rightarrow> string"

record client_request =
  crMethod :: string
  crURL :: url
  crHeader :: "(string \<times> string list) list"
  crBody :: "string option"

record client_response =
  cpStatusCode :: int
  cpStatus :: string
  cpContentType :: string
  cpBody :: "string + string" \<comment> \<open>what reading it gives\<close>

record 's http_client =
  hcDo :: "client_request \<Rightarrow> 's \<Rightarrow> (string + client_response) \<times> 's"
  hcDumpRequest :: "client_request \<Rightarrow> string option"
  hcDumpResponse :: "client_response \<Rightarrow> string option"

definition callAPI ::
    "client_configuration \<Rightarrow> 's http_client \<Rightarrow> client_request \<Rightarrow> 's \<Rightarrow> (client_response option \<times> string option) \<times> 's" where
  "callAPI c hc request s =
     (case (if cgDebug c then hcDumpRequest hc request else None) of
        Some err \<Rightarrow> ((None, Some err), s)
      | None \<Rightarrow>
          (case hcDo hc request s of
             (Inl err, s') \<Rightarrow> ((None, Some err), s')
           | (Inr resp, s') \<Rightarrow>
               ((Some resp, if cgDebug c then hcDumpResponse hc resp else None), s')))"

text \<open>The canonical form of a header's name: words with a capital, unless a character is not a token's.\<close>

definition token_char :: "char \<Rightarrow> bool" where
  "token_char c \<longleftrightarrow>
     (let n = of_char c :: nat
      in 48 \<le> n \<and> n \<le> 57 \<or> 65 \<le> n \<and> n \<le> 90 \<or> 97 \<le> n \<and> n \<le> 122)
     \<or> c \<in> set ''!#$%&*+-.^_|~'' \<or> of_char c \<in> {39, 96 :: nat}"

fun capitals :: "bool \<Rightarrow> string \<Rightarrow> string" where
  "capitals up [] = []"
| "capitals up (c # s) = (if up then upper_char c else lower_char c) # capitals (c = CHR ''-'') s"

definition canonical_header :: "string \<Rightarrow> string" where
  "canonical_header h = (if h \<noteq> [] \<and> (\<forall>c \<in> set h. token_char c) then capitals True h else h)"

fun header_Add :: "string \<Rightarrow> string \<Rightarrow> (string \<times> string list) list \<Rightarrow> (string \<times> string list) list" where
  "header_Add k v [] = [(canonical_header k, [v])]"
| "header_Add k v ((k', vs) # hs) =
     (if k' = canonical_header k then (k', vs @ [v]) # hs else (k', vs) # header_Add k v hs)"

text \<open>
  The body of a request and the content type it gets; \<open>kind\<close> and \<open>bytes\<close> describe the value.
\<close>

definition prepare_body ::
    "(string \<Rightarrow> string) \<Rightarrow> body_kind \<Rightarrow> string option \<Rightarrow> post_body \<Rightarrow> (string \<times> string) list
     \<Rightarrow> string + string \<times> (string \<times> string) list" where
  "prepare_body sniff kind bytes postBody headerParams =
     (let given = (case map_of headerParams ''Content-Type'' of Some t \<Rightarrow> t | None \<Rightarrow> []);
          contentType = (if given = [] then detectContentType sniff kind bytes else given);
          headerParams' = (if given = [] then put_header ''Content-Type'' contentType headerParams else headerParams)
      in case setBody postBody contentType of Inl err \<Rightarrow> Inl err | Inr b \<Rightarrow> Inr (b, headerParams'))"

text \<open>\<^verbatim>\<open>queryDescape\<close> on the keys of an encoded query.\<close>

fun unescape_brackets :: "string \<Rightarrow> string" where
  "unescape_brackets [] = []"
| "unescape_brackets (c # s) =
     (if has_prefix (c # s) ''%5B'' then CHR ''['' # unescape_brackets (drop 2 s)
      else if has_prefix (c # s) ''%5D'' then CHR '']'' # unescape_brackets (drop 2 s)
      else c # unescape_brackets s)"

definition unescape_key :: "string \<Rightarrow> string" where
  "unescape_key piece =
     (case split_on CHR ''='' piece of
        [] \<Rightarrow> []
      | k # vs \<Rightarrow> join ''='' (unescape_brackets k # vs))"

definition restore_brackets :: "string \<Rightarrow> string" where
  "restore_brackets raw = join ''&'' (map unescape_key (split_on CHR ''&'' raw))"

text \<open>The rest of the preparation, after the forms: the URL with its query, and the headers.\<close>

definition prepareRequest ::
    "url_lib \<Rightarrow> client_configuration \<Rightarrow> client_context option \<Rightarrow> string \<Rightarrow> string \<Rightarrow> string option
     \<Rightarrow> (string \<times> string) list \<Rightarrow> query \<Rightarrow> string + client_request" where
  "prepareRequest U c ctx path method body headerParams queryParams =
     (case ulParse U path of
        Inl err \<Rightarrow> Inl err
      | Inr u0 \<Rightarrow>
          (let u1 = (if cgHost c \<noteq> [] then u0\<lparr>urHost := cgHost c\<rparr> else u0);
               u2 = (if cgScheme c \<noteq> [] then u1\<lparr>urScheme := cgScheme c\<rparr> else u1);
               given = fold (\<lambda>(k, v) q. query_Add k v q) (parse_pairs (urRawQuery u2)) [];
               query = fold (\<lambda>(k, v) q. query_Add k v q) (query_pairs queryParams) given;
               u3 = u2\<lparr>urRawQuery := restore_brackets (Values_Encode query)\<rparr>
           in case ulParse U (ulString U u3) of
                Inl err \<Rightarrow> Inl err
              | Inr u \<Rightarrow>
                  (let headers = map (\<lambda>(h, v). (h, [v])) headerParams;
                       headers1 = header_Add ''User-Agent'' (cgUserAgent c) headers;
                       headers2 =
                         (case ctx of
                            None \<Rightarrow> headers1
                          | Some x \<Rightarrow>
                              (case ctAccessToken x of
                                 Some (Typed auth) \<Rightarrow> header_Add ''Authorization'' (''Bearer '' @ auth) headers1
                               | _ \<Rightarrow> headers1));
                       headers3 = fold (\<lambda>(h, v) hs. header_Add h v hs) (cgDefaultHeader c) headers2
                   in Inr \<lparr>crMethod = method, crURL = u, crHeader = headers3, crBody = body\<rparr>)))"

section \<open>client.go: errors and caching\<close>

record api_error_value =
  gaBody :: string
  gaError :: string
  gaModel :: "openapi_error option"

datatype client_error = PlainError string | OpenAPIError api_error_value

definition GenericOpenAPIError_Error :: "api_error_value \<Rightarrow> string" where
  "GenericOpenAPIError_Error e = gaError e"

definition GenericOpenAPIError_Body :: "api_error_value \<Rightarrow> string" where
  "GenericOpenAPIError_Body e = gaBody e"

definition GenericOpenAPIError_Model :: "api_error_value \<Rightarrow> openapi_error option" where
  "GenericOpenAPIError_Model e = gaModel e"

text \<open>The printed fields of the model by their names; \<open>None\<close> for a value that is no struct.\<close>

definition formatErrorMessage :: "string \<Rightarrow> (string \<rightharpoonup> string) option \<Rightarrow> string" where
  "formatErrorMessage status named =
     (let str =
        (case named of
           None \<Rightarrow> []
         | Some f \<Rightarrow>
             (let title = (case f ''Title'' of None \<Rightarrow> [] | Some t \<Rightarrow> t)
              in case f ''Detail'' of None \<Rightarrow> title | Some d \<Rightarrow> sprintf ''%s (%s)'' [FStr title, FStr d]))
      in trim_space (sprintf ''%s %s'' [FStr status, FStr str]))"

text \<open>The model of an error has neither of the two fields.\<close>

definition error_model_fields :: "string \<rightharpoonup> string" where
  "error_model_fields = Map.empty"

definition cache_entry :: "string \<Rightarrow> (string \<times> string) option" where
  "cache_entry part0 =
     (let part = trim CHR '' '' part0
      in if part = [] then None
         else if CHR ''='' \<in> set part
         then (let keyval = split_on CHR ''='' part in Some (trim CHR '' '' (keyval ! 0), trim CHR '','' (keyval ! 1)))
         else Some (part, []))"

definition parseCacheControl :: "string \<Rightarrow> (string \<rightharpoonup> string)" where
  "parseCacheControl ccHeader =
     fold (\<lambda>part cc. case cache_entry part of None \<Rightarrow> cc | Some (k, v) \<Rightarrow> cc(k \<mapsto> v)) (split_on CHR '','' ccHeader) Map.empty"

text \<open>
  When a response expires; \<open>parse\<close> reads a time in RFC 1123, \<open>duration\<close> a duration, and \<open>now\<close>
  is the clock. The zero time is 0.
\<close>

definition CacheExpires ::
    "(string \<Rightarrow> time option) \<Rightarrow> (string \<Rightarrow> int option) \<Rightarrow> time \<Rightarrow> (string \<Rightarrow> string) \<Rightarrow> time" where
  "CacheExpires parse duration clock header =
     (case parse (header ''date'') of
        None \<Rightarrow> clock
      | Some now \<Rightarrow>
          (case parseCacheControl (header ''Cache-Control'') ''max-age'' of
             Some maxAge \<Rightarrow> (case duration (maxAge @ ''s'') of None \<Rightarrow> now | Some lifetime \<Rightarrow> now + lifetime)
           | None \<Rightarrow>
               (let expiresHeader = header ''Expires''
                in if expiresHeader = [] then 0
                   else (case parse expiresHeader of None \<Rightarrow> now | Some expires \<Rightarrow> expires))))"

section \<open>api\_default.go\<close>

text \<open>What the operations of the API share: the libraries, the configuration, the context.\<close>

record 's api_service =
  asJson :: json_lib
  asUrl :: url_lib
  asConfig :: client_configuration
  asHttp :: "'s http_client"
  asXmlDinosaur :: "string \<Rightarrow> api_dinosaur option \<times> string option"
  asXmlList :: "string \<Rightarrow> api_dinosaur_list option \<times> string option"
  asXmlError :: "string \<Rightarrow> openapi_error \<times> string option"

type_synonym 'v api_result = "'v option \<times> client_response option \<times> client_error option"

definition accept_headers :: "string list \<Rightarrow> (string \<times> string) list" where
  "accept_headers contentTypes =
     (let contentType = selectHeaderContentType contentTypes;
          accept = selectHeaderAccept [''application/json'']
      in (if contentType \<noteq> [] then [(''Content-Type'', contentType)] else []) @
         (if accept \<noteq> [] then [(''Accept'', accept)] else []))"

text \<open>
  The last part of every operation: sending the request and reading the response; \<open>documented\<close> are the
  statuses for which the body is decoded as the model of an error.
\<close>

definition unmarshal_error :: "json_lib \<Rightarrow> string \<Rightarrow> openapi_error \<times> string option" where
  "unmarshal_error L bytes =
     (case unmarshal L ''Error'' (read_struct False (error_fields L) NewError) bytes of
        Inl err \<Rightarrow> (NewError, Some err)
      | Inr v \<Rightarrow> (case v of None \<Rightarrow> NewError | Some e \<Rightarrow> e, None))"

definition error_result ::
    "'s api_service \<Rightarrow> int list \<Rightarrow> client_response \<Rightarrow> string \<Rightarrow> client_error" where
  "error_result a documented resp body =
     (let newErr = \<lparr>gaBody = body, gaError = cpStatus resp, gaModel = None\<rparr>
      in if cpStatusCode resp \<in> set documented
         then (case client_decode (asXmlError a) (unmarshal_error (asJson a)) body (cpContentType resp) NewError of
                 (v, Some err) \<Rightarrow> OpenAPIError (newErr\<lparr>gaError := err\<rparr>)
               | (v, None) \<Rightarrow>
                   OpenAPIError (newErr\<lparr>gaError := formatErrorMessage (cpStatus resp) (Some error_model_fields),
                     gaModel := Some v\<rparr>))
         else OpenAPIError newErr)"

definition send ::
    "'s api_service \<Rightarrow> int list \<Rightarrow> (string \<Rightarrow> 'v option \<times> string option) \<Rightarrow> (string \<Rightarrow> 'v option \<times> string option)
     \<Rightarrow> string + client_request \<Rightarrow> 's \<Rightarrow> 'v api_result \<times> 's" where
  "send a documented xml js prepared s =
     (case prepared of
        Inl err \<Rightarrow> ((None, None, Some (PlainError err)), s)
      | Inr req \<Rightarrow>
          (case callAPI (asConfig a) (asHttp a) req s of
             ((resp, Some err), s') \<Rightarrow> ((None, resp, Some (PlainError err)), s')
           | ((None, None), s') \<Rightarrow> ((None, None, None), s')
           | ((Some resp, None), s') \<Rightarrow>
               (case cpBody resp of
                  Inl err \<Rightarrow> ((None, Some resp, Some (PlainError err)), s')
                | Inr body \<Rightarrow>
                    if cpStatusCode resp \<ge> 300
                    then ((None, Some resp, Some (error_result a documented resp body)), s')
                    else (case client_decode xml js body (cpContentType resp) None of
                            (v, Some err) \<Rightarrow>
                              ((v, Some resp, Some (OpenAPIError \<lparr>gaBody = body, gaError = err, gaModel = None\<rparr>)), s')
                          | (v, None) \<Rightarrow> ((v, Some resp, None), s')))))"

text \<open>The answers with a dinosaur.\<close>

definition send_dinosaur ::
    "'s api_service \<Rightarrow> int list \<Rightarrow> string + client_request \<Rightarrow> 's \<Rightarrow> api_dinosaur api_result \<times> 's" where
  "send_dinosaur a documented prepared s =
     send a documented (asXmlDinosaur a)
       (unmarshal_pointer (asJson a) ''Dinosaur'' NewDinosaurWithDefaults (Dinosaur_UnmarshalJSON (asJson a))) prepared s"

definition base_path_error :: "string \<Rightarrow> 'v api_result" where
  "base_path_error err = (None, None, Some (OpenAPIError \<lparr>gaBody = [], gaError = err, gaModel = None\<rparr>))"

record list_request =
  lrContext :: "client_context option"
  lrPage :: "int option"
  lrSize :: "int option"
  lrSearch :: "string option"
  lrOrderBy :: "string option"
  lrFields :: "string option"

definition DinosaursGet :: "client_context option \<Rightarrow> list_request" where
  "DinosaursGet ctx =
     \<lparr>lrContext = ctx, lrPage = None, lrSize = None, lrSearch = None, lrOrderBy = None, lrFields = None\<rparr>"

definition Request_Page :: "int \<Rightarrow> list_request \<Rightarrow> list_request" where
  "Request_Page page r = r\<lparr>lrPage := Some page\<rparr>"

definition Request_Size :: "int \<Rightarrow> list_request \<Rightarrow> list_request" where
  "Request_Size sz r = r\<lparr>lrSize := Some sz\<rparr>"

definition Request_Search :: "string \<Rightarrow> list_request \<Rightarrow> list_request" where
  "Request_Search search r = r\<lparr>lrSearch := Some search\<rparr>"

definition Request_OrderBy :: "string \<Rightarrow> list_request \<Rightarrow> list_request" where
  "Request_OrderBy orderBy r = r\<lparr>lrOrderBy := Some orderBy\<rparr>"

definition Request_Fields :: "string \<Rightarrow> list_request \<Rightarrow> list_request" where
  "Request_Fields names r = r\<lparr>lrFields := Some names\<rparr>"

definition add_optional :: "string \<Rightarrow> param_value option \<Rightarrow> query \<Rightarrow> query" where
  "add_optional key v q = (case v of None \<Rightarrow> q | Some v \<Rightarrow> parameterAddToQuery key (PvPtr v) ''form'' [] q)"

definition list_query :: "list_request \<Rightarrow> query" where
  "list_query r =
     add_optional ''fields'' (map_option PvString (lrFields r))
       (add_optional ''orderBy'' (map_option PvString (lrOrderBy r))
         (add_optional ''search'' (map_option PvString (lrSearch r))
           (add_optional ''size'' (map_option PvInt (lrSize r))
             (add_optional ''page'' (map_option PvInt (lrPage r)) []))))"

definition DinosaursGetExecute :: "'s api_service \<Rightarrow> list_request \<Rightarrow> 's \<Rightarrow> api_dinosaur_list api_result \<times> 's" where
  "DinosaursGetExecute a r s =
     (case ServerURLWithContext (asConfig a) (lrContext r) ''DefaultAPIService.ApiRhTrexV1DinosaursGet'' of
        Inl err \<Rightarrow> (base_path_error err, s)
      | Inr localBasePath \<Rightarrow>
          send a [401, 403, 500] (asXmlList a)
            (unmarshal_pointer (asJson a) ''DinosaurList'' (NewDinosaurList [] 0 0 0 [])
              (DinosaurList_UnmarshalJSON (asJson a)))
            (prepareRequest (asUrl a) (asConfig a) (lrContext r) (localBasePath @ ''/api/rh-trex/v1/dinosaurs'') ''GET''
               None (accept_headers []) (list_query r)) s)"

record id_request =
  irContext :: "client_context option"
  irId :: string

definition DinosaursIdGet :: "client_context option \<Rightarrow> string \<Rightarrow> id_request" where
  "DinosaursIdGet ctx i = \<lparr>irContext = ctx, irId = i\<rparr>"

definition id_path :: "string \<Rightarrow> string \<Rightarrow> string" where
  "id_path localBasePath i =
     replace_all ''{id}'' (PathEscape (parameterValueToString i)) (localBasePath @ ''/api/rh-trex/v1/dinosaurs/{id}'')"

definition DinosaursIdGetExecute :: "'s api_service \<Rightarrow> id_request \<Rightarrow> 's \<Rightarrow> api_dinosaur api_result \<times> 's" where
  "DinosaursIdGetExecute a r s =
     (case ServerURLWithContext (asConfig a) (irContext r) ''DefaultAPIService.ApiRhTrexV1DinosaursIdGet'' of
        Inl err \<Rightarrow> (base_path_error err, s)
      | Inr localBasePath \<Rightarrow>
          send_dinosaur a [401, 403, 404, 500]
            (prepareRequest (asUrl a) (asConfig a) (irContext r) (id_path localBasePath (irId r)) ''GET''
               None (accept_headers []) []) s)"

text \<open>The body of an operation that has one: a pointer to the model, whose content type is that of JSON.\<close>

definition prepare_json ::
    "'s api_service \<Rightarrow> client_context option \<Rightarrow> string \<Rightarrow> string \<Rightarrow> string \<Rightarrow> json_error + json \<Rightarrow> string + client_request" where
  "prepare_json a ctx path method ty v =
     (let js = (case marshal_text v of Inl e \<Rightarrow> Inl (json_error_text (asJson a) ty [] e) | Inr t \<Rightarrow> Inr t)
      in case prepare_body (\<lambda>b. []) KindPtr None (PbValue js (Inl [])) (accept_headers [''application/json'']) of
           Inl err \<Rightarrow> Inl err
         | Inr (body, headers) \<Rightarrow> prepareRequest (asUrl a) (asConfig a) ctx path method (Some body) headers [])"

record patch_request = id_request +
  prPatch :: "dinosaur_patch option"

definition DinosaursIdPatch :: "client_context option \<Rightarrow> string \<Rightarrow> patch_request" where
  "DinosaursIdPatch ctx i = \<lparr>irContext = ctx, irId = i, prPatch = None\<rparr>"

definition Request_DinosaurPatchRequest :: "dinosaur_patch \<Rightarrow> patch_request \<Rightarrow> patch_request" where
  "Request_DinosaurPatchRequest p r = r\<lparr>prPatch := Some p\<rparr>"

definition DinosaursIdPatchExecute :: "'s api_service \<Rightarrow> patch_request \<Rightarrow> 's \<Rightarrow> api_dinosaur api_result \<times> 's" where
  "DinosaursIdPatchExecute a r s =
     (case ServerURLWithContext (asConfig a) (irContext r) ''DefaultAPIService.ApiRhTrexV1DinosaursIdPatch'' of
        Inl err \<Rightarrow> (base_path_error err, s)
      | Inr localBasePath \<Rightarrow>
          (case prPatch r of
             None \<Rightarrow> ((None, None, Some (PlainError ''dinosaurPatchRequest is required and must be specified'')), s)
           | Some p \<Rightarrow>
               send_dinosaur a [400, 401, 403, 404, 409, 500]
                 (prepare_json a (irContext r) (id_path localBasePath (irId r)) ''PATCH'' ''DinosaurPatchRequest''
                    (DinosaurPatchRequest_MarshalJSON p)) s))"

record post_request =
  psContext :: "client_context option"
  psDinosaur :: "api_dinosaur option"

definition DinosaursPost :: "client_context option \<Rightarrow> post_request" where
  "DinosaursPost ctx = \<lparr>psContext = ctx, psDinosaur = None\<rparr>"

definition Request_Dinosaur :: "api_dinosaur \<Rightarrow> post_request \<Rightarrow> post_request" where
  "Request_Dinosaur d r = r\<lparr>psDinosaur := Some d\<rparr>"

definition DinosaursPostExecute :: "'s api_service \<Rightarrow> post_request \<Rightarrow> 's \<Rightarrow> api_dinosaur api_result \<times> 's" where
  "DinosaursPostExecute a r s =
     (case ServerURLWithContext (asConfig a) (psContext r) ''DefaultAPIService.ApiRhTrexV1DinosaursPost'' of
        Inl err \<Rightarrow> (base_path_error err, s)
      | Inr localBasePath \<Rightarrow>
          (case psDinosaur r of
             None \<Rightarrow> ((None, None, Some (PlainError ''dinosaur is required and must be specified'')), s)
           | Some d \<Rightarrow>
               send_dinosaur a [400, 401, 403, 409, 500]
                 (prepare_json a (psContext r) (localBasePath @ ''/api/rh-trex/v1/dinosaurs'') ''POST'' ''Dinosaur''
                    (Dinosaur_MarshalJSON (asJson a) d)) s))"

end
