(* ===== verification/Client_Server.thy ===== *)
theory Client_Server
  imports Openapi_Client Dinosaur_Handlers
begin

text \<open>
  The generated client against the handlers of the dinosaurs: what \<^verbatim>\<open>net/http\<close> carries
  between them is a request with its query and its body in bytes, and a response with its status, its
  content type and its body in bytes. What the router makes of a path is the argument \<open>var_id\<close>, the
  JSON of a projected list the argument \<open>proj\<close>.
\<close>

section \<open>Between the client and a handler\<close>

definition payload_json ::
    "json_lib \<Rightarrow> (projection_list \<Rightarrow> json_error + json) \<Rightarrow> dino_payload body \<Rightarrow> json_error + json" where
  "payload_json L proj p =
     (case p of
        BResult (PDinosaur d) \<Rightarrow> Dinosaur_MarshalJSON L d
      | BResult (PDinosaurs l) \<Rightarrow> DinosaurList_MarshalJSON L l
      | BResult (PProjected l) \<Rightarrow> proj l
      | BError e \<Rightarrow> Error_MarshalJSON L e)"

text \<open>\<^verbatim>\<open>writeJSONResponse\<close> ignores an error of \<^verbatim>\<open>json.Marshal\<close> and writes nothing then.\<close>

definition payload_text :: "json_lib \<Rightarrow> (projection_list \<Rightarrow> json_error + json) \<Rightarrow> dino_payload body \<Rightarrow> string" where
  "payload_text L proj p = (case marshal_text (payload_json L proj p) of Inl e \<Rightarrow> [] | Inr t \<Rightarrow> t)"

definition handler_request :: "req_context \<Rightarrow> (url \<Rightarrow> string) \<Rightarrow> client_request \<Rightarrow> http_request" where
  "handler_request ctx var_id req =
     \<lparr>rqContext = ctx, rqVarID = var_id (crURL req), rqQuery = URL_Query (urRawQuery (crURL req)),
      rqBody = Inr (case crBody req of None \<Rightarrow> [] | Some b \<Rightarrow> b)\<rparr>"

text \<open>
  A handler that panics, or does not return, leaves the client with an error of the connection, here
  \<open>broken\<close>.
\<close>

definition carried ::
    "json_lib \<Rightarrow> (projection_list \<Rightarrow> json_error + json) \<Rightarrow> (int \<Rightarrow> string) \<Rightarrow> string
     \<Rightarrow> unit outcome \<times> dino_payload body response \<times> 's \<Rightarrow> (string + client_response) \<times> 's" where
  "carried L proj status_text broken out =
     (case out of
        (Done u, w, s') \<Rightarrow>
          (Inr \<lparr>cpStatusCode = final_status w, cpStatus = status_text (final_status w),
                cpContentType = (case rHeader w ''Content-Type'' of None \<Rightarrow> [] | Some t \<Rightarrow> t),
                cpBody = Inr (concat (map (payload_text L proj) (rBody w)))\<rparr>, s')
      | (_, w, s') \<Rightarrow> (Inl broken, s'))"

record 's exchange =
  exService :: "'s api_service"
  exProjection :: "projection_list \<Rightarrow> json_error + json"
  exStatusText :: "int \<Rightarrow> string"
  exBroken :: string
  exContext :: req_context
  exVarID :: "url \<Rightarrow> string"

text \<open>A configuration that leaves the host and the scheme to the servers, and does not dump requests.\<close>

definition plain_config :: "client_configuration \<Rightarrow> bool" where
  "plain_config c \<longleftrightarrow> cgHost c = [] \<and> cgScheme c = [] \<and> \<not> cgDebug c"

text \<open>The transport of the client delivers to a handler.\<close>

definition delivers ::
    "'s exchange
     \<Rightarrow> (http_request \<Rightarrow> dino_payload body response \<Rightarrow> 's \<Rightarrow> unit outcome \<times> dino_payload body response \<times> 's) \<Rightarrow> bool" where
  "delivers x handler \<longleftrightarrow>
     plain_config (asConfig (exService x)) \<and>
     (\<forall>req s. hcDo (asHttp (exService x)) req s =
        carried (asJson (exService x)) (exProjection x) (exStatusText x) (exBroken x)
          (handler (handler_request (exContext x) (exVarID x) req) empty_response s))"

text \<open>
  What is documented of URLs: one that was parsed, with an encoded query in the place of its own, is
  printed as a text that is parsed as the same URL.
\<close>

definition query_char :: "char \<Rightarrow> bool" where
  "query_char c \<longleftrightarrow> unreserved c \<or> c \<in> set ''%+&=[]''"

definition url_law :: "url_lib \<Rightarrow> bool" where
  "url_law U \<longleftrightarrow>
     (\<forall>path u q. ulParse U path = Inr u \<longrightarrow> (\<forall>c \<in> set q. query_char c) \<longrightarrow>
        ulParse U (ulString U (u\<lparr>urRawQuery := q\<rparr>)) = Inr (u\<lparr>urRawQuery := q\<rparr>))"

section \<open>Facts\<close>

lemma media_json [simp]: "media_check ''json'' ''application/json''" "\<not> media_check ''xml'' ''application/json''"
  by (simp_all add: media_check_def to_lower_def lower_char_def has_prefix_def Let_def)

lemma select_json [simp]:
  "selectHeaderContentType [''application/json''] = ''application/json''"
  "selectHeaderAccept [''application/json''] = ''application/json''"
  by (simp_all add: selectHeaderContentType_def selectHeaderAccept_def contains_fold_def)

subsection \<open>Queries\<close>

lemma query_Add_new: "k \<notin> fst ` set q \<Longrightarrow> query_Add k v q = q @ [(k, [v])]"
  by (induction q) auto

lemma query_Add_last: "k \<notin> fst ` set q \<Longrightarrow> query_Add k v (q @ [(k, vs)]) = q @ [(k, vs @ [v])]"
  by (induction q) auto

lemma rebuild_key:
  "k \<notin> fst ` set q \<Longrightarrow> fold (\<lambda>(k, v) q. query_Add k v q) (map (Pair k) vs) (q @ [(k, us)]) = q @ [(k, us @ vs)]"
  by (induction vs arbitrary: us) (simp_all add: query_Add_last)

lemma rebuild_query:
  assumes "distinct (map fst q)" and "\<forall>e \<in> set q. snd e \<noteq> []"
  shows "fold (\<lambda>(k, v) q. query_Add k v q) (query_pairs q) [] = q"
proof -
  have "fold (\<lambda>(k, v) q. query_Add k v q) (query_pairs q) p = p @ q"
    if "distinct (map fst q)" "\<forall>e \<in> set q. snd e \<noteq> []" "fst ` set p \<inter> fst ` set q = {}" for p q
    using that
  proof (induction q arbitrary: p)
    case (Cons e q)
    obtain k vs where e: "e = (k, vs)" by fastforce
    with Cons.prems(2) obtain v vs' where vs: "vs = v # vs'" by (cases vs) auto
    have k: "k \<notin> fst ` set p" using Cons.prems(3) e by auto
    then have "fold (\<lambda>(k, v) q. query_Add k v q) (map (Pair k) vs) p = p @ [(k, vs)]"
      using rebuild_key [OF k, of vs' "[v]"] by (simp add: vs query_Add_new)
    moreover have "fold (\<lambda>(k, v) q. query_Add k v q) (query_pairs q) (p @ [(k, vs)]) = (p @ [(k, vs)]) @ q"
      using Cons.prems e by (intro Cons.IH) auto
    ultimately show ?case by (simp add: query_pairs_def e)
  qed (simp add: query_pairs_def)
  from this [OF assms, of "[]"] show ?thesis by simp
qed

lemma upper_hex_eq: "d < 16 \<Longrightarrow> e < 16 \<Longrightarrow> upper_hex d = upper_hex e \<longleftrightarrow> d = e"
  by (metis hex_digit_val_upper option.inject)

lemma unescape_brackets_other: "c \<noteq> CHR ''%'' \<Longrightarrow> unescape_brackets (c # s) = c # unescape_brackets s"
  by (simp add: has_prefix_def)

lemma hex_parts:
  fixes n e :: nat
  assumes "e < 16"
  shows "n div 16 = 5 \<and> n mod 16 = e \<longleftrightarrow> n = 80 + e"
proof
  assume "n div 16 = 5 \<and> n mod 16 = e"
  then show "n = 80 + e" using div_mult_mod_eq [of n 16] by simp
next
  assume "n = 80 + e"
  then have "n = 5 * 16 + e" by simp
  then show "n div 16 = 5 \<and> n mod 16 = e" using \<open>e < 16\<close> by (simp only: div_mult_self3 mod_mult_self3) simp
qed

lemma unescape_brackets_percent:
  "unescape_brackets (percent c @ s) =
     (if c \<in> {CHR ''['', CHR '']''} then [c] else percent c) @ unescape_brackets s"
proof -
  let ?a = "of_char c div 16 :: nat" and ?b = "of_char c mod 16 :: nat"
  have ab: "?a < 16" "?b < 16" using high_digit by simp_all
  have hex: "upper_hex 5 = CHR ''5''" "upper_hex 11 = CHR ''B''" "upper_hex 13 = CHR ''D''"
    by (simp_all add: upper_hex_def char_of_eq_iff)
  have b: "has_prefix (percent c @ s) [CHR ''%'', CHR ''5'', upper_hex e] \<longleftrightarrow> of_char c = 80 + e" if "e < 16" for e
  proof -
    have "has_prefix (percent c @ s) [CHR ''%'', CHR ''5'', upper_hex e] \<longleftrightarrow> ?a = 5 \<and> ?b = e"
      using ab that by (simp add: percent_def has_prefix_def upper_hex_eq hex(1) [symmetric])
    also have "\<dots> \<longleftrightarrow> of_char c = 80 + e"
      using that by (rule hex_parts)
    finally show ?thesis .
  qed
  have "of_char c = (91 :: nat) \<longleftrightarrow> c = CHR ''[''" "of_char c = (93 :: nat) \<longleftrightarrow> c = CHR '']''"
    using of_char_eq_iff [of c "CHR ''[''", where ?'a = nat] of_char_eq_iff [of c "CHR '']''", where ?'a = nat] by simp_all
  then show ?thesis
    using b [of 11] b [of 13] upper_hex_char [OF ab(1)] upper_hex_char [OF ab(2)]
    by (simp add: hex percent_def unescape_brackets_other unescape_brackets.simps(2) [of "CHR ''%''"]
        del: unescape_brackets.simps(2))
qed

lemma unescape_key_encode: "unescape_key (encode_pair p) = unescape_brackets (QueryEscape (fst p)) @ CHR ''='' # QueryEscape (snd p)"
proof -
  have "CHR ''='' \<notin> set (QueryEscape (fst p))" "CHR ''='' \<notin> set (QueryEscape (snd p))"
    using QueryEscape_chars [of "fst p"] QueryEscape_chars [of "snd p"] by auto
  then show ?thesis by (simp add: unescape_key_def encode_pair_def split_on_append split_on_notin)
qed

lemma unescaped_key:
  "QueryUnescape (unescape_brackets (QueryEscape s)) = Some s \<and>
   set (unescape_brackets (QueryEscape s)) \<inter> {CHR ''&'', CHR ''='', CHR '';''} = {}"
proof (induction s)
  case Nil
  show ?case by (simp add: QueryEscape_def QueryUnescape_def)
next
  case (Cons c s)
  have e: "QueryEscape (c # s) = (if unreserved c then [c] else if c = CHR '' '' then ''+'' else percent c) @ QueryEscape s"
    by (simp add: QueryEscape_def)
  consider "unreserved c" | "c = CHR '' ''" "\<not> unreserved c" | "\<not> unreserved c" "c \<noteq> CHR '' ''" by blast
  then show ?case
  proof cases
    case 1
    then have "c \<noteq> CHR ''%''" "c \<notin> {CHR ''&'', CHR ''='', CHR '';'', CHR ''+''}" by auto
    with 1 Cons show ?thesis by (simp add: e unescape_brackets_other QueryUnescape_def del: unescape_brackets.simps(2))
  next
    case 2
    have "unescape_brackets (QueryEscape (c # s)) = CHR ''+'' # unescape_brackets (QueryEscape s)"
      using 2 unfolding e by (simp add: unescape_brackets_other del: unescape_brackets.simps(2))
    with Cons 2(1) show ?thesis by (simp add: QueryUnescape_def)
  next
    case 3
    have plain: "unescape_brackets (QueryEscape (c # s)) =
        (if c \<in> {CHR ''['', CHR '']''} then [c] else percent c) @ unescape_brackets (QueryEscape s)"
      using 3 by (simp add: e unescape_brackets_percent del: unescape_brackets.simps(2))
    show ?thesis
    proof (cases "c \<in> {CHR ''['', CHR '']''}")
      case True
      with Cons plain show ?thesis by (auto simp: QueryUnescape_def)
    next
      case False
      with Cons plain percent_chars [of c] show ?thesis by (auto simp: QueryUnescape_def)
    qed
  qed
qed

lemma restored:
  assumes "ps \<noteq> []"
  shows "restore_brackets (join ''&'' (map encode_pair ps)) =
    join ''&'' (map (\<lambda>p. unescape_brackets (QueryEscape (fst p)) @ CHR ''='' # QueryEscape (snd p)) ps)"
proof -
  have "split_on CHR ''&'' (join ''&'' (map encode_pair ps)) = map encode_pair ps"
    using assms encode_pair_no_amp by (intro split_on_join) auto
  then show ?thesis by (simp add: restore_brackets_def unescape_key_encode comp_def)
qed

lemma parse_restored: "parse_pairs (restore_brackets (join ''&'' (map encode_pair ps))) = ps"
proof (cases "ps = []")
  case True
  then show ?thesis by (simp add: restore_brackets_def unescape_key_def parse_pairs_def parse_pair_def map_filter_simps)
next
  case False
  let ?f = "\<lambda>p. unescape_brackets (QueryEscape (fst p)) @ CHR ''='' # QueryEscape (snd p)"
  have "CHR ''&'' \<notin> set (?f p)" for p using unescaped_key [of "fst p"] QueryEscape_chars [of "snd p"] by auto
  moreover have "parse_pair (?f p) = Some p" for p
  proof -
    let ?k = "unescape_brackets (QueryEscape (fst p))"
    have k: "CHR ''='' \<notin> set ?k" "CHR '';'' \<notin> set ?k" "QueryUnescape ?k = Some (fst p)"
      using unescaped_key [of "fst p"] by auto
    then have "takeWhile (\<lambda>c. c \<noteq> CHR ''='') (?f p) = ?k" "dropWhile (\<lambda>c. c \<noteq> CHR ''='') (?f p) = CHR ''='' # QueryEscape (snd p)"
      by (auto simp: takeWhile_append dropWhile_append)
    with k QueryEscape_chars [of "snd p"] show ?thesis by (auto simp: parse_pair_def Let_def)
  qed
  ultimately show ?thesis unfolding restored [OF False] by (intro parse_pairs_pieces) simp_all
qed

lemma query_chars: "c \<in> set (restore_brackets (Values_Encode q)) \<Longrightarrow> query_char c"
proof -
  have escaped: "\<forall>c \<in> set (QueryEscape s). query_char c" for s
  proof (induction s)
    case (Cons c s)
    have "unreserved (upper_hex d)" if "d < 16" for d
      using that by (simp add: unreserved_def upper_hex_def of_char_of Let_def)
    then have "\<forall>c' \<in> set (percent c). query_char c'"
      using high_digit [of c] by (simp add: percent_def query_char_def)
    then have "\<forall>c' \<in> set (if unreserved c then [c] else if c = CHR '' '' then ''+'' else percent c). query_char c'"
      by (simp add: query_char_def)
    moreover have "QueryEscape (c # s) =
        (if unreserved c then [c] else if c = CHR '' '' then ''+'' else percent c) @ QueryEscape s"
      by (simp add: QueryEscape_def)
    ultimately show ?case using Cons by (simp only: set_append ball_Un)
  qed (simp add: QueryEscape_def)
  have brackets: "set (unescape_brackets s) \<subseteq> set s \<union> {CHR ''['', CHR '']''}" for s
    by (induction s rule: unescape_brackets.induct) (auto dest: in_set_dropD)
  have pieces: "set (join ''&'' ls) \<subseteq> insert CHR ''&'' (\<Union> (set ` set ls))" for ls
  proof (induction ls)
    case (Cons l ls)
    then show ?case by (cases ls) auto
  qed simp
  show "query_char c" if "c \<in> set (restore_brackets (Values_Encode q))"
  proof (cases "query_pairs (sort_key fst q) = []")
    case True
    with that show ?thesis by (simp add: Values_Encode_def restore_brackets_def unescape_key_def)
  next
    case False
    from that have "c \<in> insert CHR ''&'' (\<Union> (set ` set (map (\<lambda>p. unescape_brackets (QueryEscape (fst p)) @ CHR ''='' #
        QueryEscape (snd p)) (query_pairs (sort_key fst q)))))"
      using pieces unfolding Values_Encode_def restored [OF False] by blast
    then show ?thesis using escaped brackets by (fastforce simp: query_char_def)
  qed
qed

text \<open>What a handler reads of the query a client sends.\<close>

lemma query_received:
  assumes "distinct (map fst q)" and "\<forall>e \<in> set q. snd e \<noteq> []" and "raw = []"
  shows "URL_Query (restore_brackets (Values_Encode
      (fold (\<lambda>(k, v) q. query_Add k v q) (query_pairs q) (fold (\<lambda>(k, v) q. query_Add k v q) (parse_pairs raw) [])))) = map_of q"
proof
  fix k
  have "parse_pairs raw = []" by (simp add: assms(3) parse_pairs_def parse_pair_def map_filter_simps)
  then have "parse_pairs (restore_brackets (Values_Encode
      (fold (\<lambda>(k, v) q. query_Add k v q) (query_pairs q) (fold (\<lambda>(k, v) q. query_Add k v q) (parse_pairs raw) []))))
      = query_pairs (sort_key fst q)"
    by (simp add: rebuild_query [OF assms(1,2)] Values_Encode_def parse_restored)
  moreover have "map_of q k \<noteq> Some []" using assms(2) map_of_SomeD [of q k "[]"] by fastforce
  ultimately show "URL_Query (restore_brackets (Values_Encode
      (fold (\<lambda>(k, v) q. query_Add k v q) (query_pairs q) (fold (\<lambda>(k, v) q. query_Add k v q) (parse_pairs raw) [])))) k = map_of q k"
    using values_of_sorted [OF assms(1), of k] by (auto simp: URL_Query_def split: option.splits)
qed

lemma list_query_keys: "distinct (map fst (list_query r)) \<and> (\<forall>e \<in> set (list_query r). snd e \<noteq> [])"
  by (auto simp: list_query_def add_optional_def parameterAddToQuery_def put_query_def split: option.split)

subsection \<open>Requests and answers\<close>

lemma prepareRequest_Inr:
  assumes "url_law U" and "ulParse U path = Inr u" and "plain_config c"
  shows "\<exists>req. prepareRequest U c ctx path meth body headers q = Inr req \<and> crMethod req = meth \<and> crBody req = body \<and>
    urRawQuery (crURL req) = restore_brackets (Values_Encode
      (fold (\<lambda>(k, v) q. query_Add k v q) (query_pairs q) (fold (\<lambda>(k, v) q. query_Add k v q) (parse_pairs (urRawQuery u)) [])))"
  using assms query_chars by (simp add: prepareRequest_def url_law_def plain_config_def Let_def)

lemma prepare_json_Inr:
  assumes "url_law (asUrl a)" and "ulParse (asUrl a) path = Inr u" and "v = Inr j" and "plain_config (asConfig a)"
  shows "\<exists>req. prepare_json a ctx path meth ty v = Inr req \<and> crBody req = Some (print_json j @ [CHR 0x0A])"
proof -
  have "prepare_body (\<lambda>b. []) KindPtr None (PbValue (Inr (print_json j)) (Inl [])) (accept_headers [''application/json''])
      = Inr (print_json j @ [CHR 0x0A], accept_headers [''application/json''])"
    by (simp add: prepare_body_def accept_headers_def setBody_def Let_def)
  with prepareRequest_Inr [OF assms(1,2,4)] assms(3) show ?thesis
    by (fastforce simp: prepare_json_def marshal_text_def Let_def)
qed

lemma payload_json_simps [simp]:
  "payload_json L proj (BResult (PDinosaur d)) = Dinosaur_MarshalJSON L d"
  "payload_json L proj (BResult (PDinosaurs l)) = DinosaurList_MarshalJSON L l"
  "payload_json L proj (BResult (PProjected pl)) = proj pl"
  "payload_json L proj (BError e) = Error_MarshalJSON L e"
  by (simp_all add: payload_json_def)

lemma written_not_empty: "written L j \<Longrightarrow> print_json j \<noteq> []"
  using print_json_start [of j] by (auto simp: written_def)

definition received :: "'s exchange \<Rightarrow> dino_payload body response \<Rightarrow> client_response" where
  "received x w =
     \<lparr>cpStatusCode = final_status w, cpStatus = exStatusText x (final_status w),
      cpContentType = (case rHeader w ''Content-Type'' of None \<Rightarrow> [] | Some t \<Rightarrow> t),
      cpBody = Inr (concat (map (payload_text (asJson (exService x)) (exProjection x)) (rBody w)))\<rparr>"

lemma call_delivers:
  assumes "delivers x handler"
    and "handler (handler_request (exContext x) (exVarID x) req) empty_response s = (Done u, w, s')"
  shows "callAPI (asConfig (exService x)) (asHttp (exService x)) req s = ((Some (received x w), None), s')"
  using assms by (simp add: callAPI_def delivers_def plain_config_def carried_def received_def)

lemma call_breaks:
  assumes "delivers x handler"
    and "handler (handler_request (exContext x) (exVarID x) req) empty_response s = (r, w, s')" and "\<forall>u. r \<noteq> Done u"
  shows "callAPI (asConfig (exService x)) (asHttp (exService x)) req s = ((None, Some (exBroken x)), s')"
  using assms by (cases r) (simp_all add: callAPI_def delivers_def plain_config_def carried_def)

text \<open>An answer with one value, read by the client.\<close>

lemma send_success:
  assumes "delivers x handler"
    and "handler (handler_request (exContext x) (exVarID x) req) empty_response s = (Done u, w, s')"
    and "rHeader w ''Content-Type'' = Some ''application/json''" and "rStatus w = Some code" and "code < 300"
    and "rBody w = [p]" and "payload_json (asJson (exService x)) (exProjection x) p = Inr j" and "print_json j \<noteq> []"
    and "js (print_json j) = (v, None)"
  shows "send (exService x) docs xml js (Inr req) s = ((v, Some (received x w), None), s')"
  using assms(3-)
  by (simp add: send_def call_delivers [OF assms(1,2)])
     (simp add: received_def final_status_def client_decode_def payload_text_def marshal_text_def)

lemma send_error:
  assumes "delivers x handler" and "json_law (asJson (exService x))"
    and "handler (handler_request (exContext x) (exVarID x) req) empty_response s = (Done u, w, s')"
    and "rHeader w ''Content-Type'' = Some ''application/json''" and "rStatus w = Some code" and "300 \<le> code"
    and "code \<in> set docs" and "rBody w = [BError e]" and "Error_MarshalJSON (asJson (exService x)) e = Inr j"
  shows "send (exService x) docs xml js (Inr req) s =
    ((None, Some (received x w), Some (OpenAPIError
       \<lparr>gaBody = print_json j, gaError = formatErrorMessage (exStatusText x code) (Some error_model_fields),
        gaModel = Some (utf8_error e)\<rparr>)), s')"
proof -
  have "print_json j \<noteq> []" using written_not_empty error_written [OF assms(9)] by blast
  with assms(4-) error_body [OF assms(2,9)] show ?thesis
    by (simp add: send_def call_delivers [OF assms(1,3)])
       (simp add: received_def final_status_def error_result_def client_decode_def payload_text_def marshal_text_def
          payload_json_def unmarshal_error_def)
qed

text \<open>An error without times can be written.\<close>

lemma entries_Inr: "(\<And>k v. (k, v) \<in> set m \<Longrightarrow> \<exists>j. v = Inr j) \<Longrightarrow> \<exists>ms. entries m = Inr ms"
proof (induction m)
  case (Cons e m)
  obtain k v where e: "e = (k, v)" by fastforce
  from Cons.IH Cons.prems obtain ms where "entries m = Inr ms" by (metis list.set_intros(2))
  moreover obtain j where "v = Inr j" using Cons.prems [of k v] e by auto
  ultimately show ?case using e by simp
qed simp

lemma service_error_written: "\<exists>j. Error_MarshalJSON L (AsOpenapiError g op e) = Inr j"
proof -
  let ?m = "sort_key fst (Error_ToMap L (AsOpenapiError g op e))"
  have "\<exists>ms. entries ?m = Inr ms"
    by (rule entries_Inr) (auto simp: Error_ToMap_def set_entries_def AsOpenapiError_def string_json_def)
  then show ?thesis by (auto simp: Error_MarshalJSON_def marshal_map_def)
qed

lemma create_run:
  assumes "rqBody rq = Inr raw" and "decode raw = Inr d" and "adId d = None" and "adSpecies d \<noteq> []"
    and "dsCreate svc (rqContext rq) (ConvertDinosaur d) s = (Done r, s')"
  shows "dinosaur_Create h decode svc rq w s = (Done (),
     (case r of
        Inl e \<Rightarrow> HandleError (heErrors h) (heOperation h) e w
      | Inr dino \<Rightarrow> writeJSONResponse 201 (Some (BResult (PDinosaur (PresentDinosaur h dino)))) w), s')"
  using assms
  by (cases r) (simp_all add: dinosaur_Create_def Handle_def create_config_def ValidateEmpty_def ValidateNotEmpty_def
      run_action_def presented_def run_try_def run_bind_def finish_def error_handler_def)

text \<open>What the call of a creation sends, and what its handler makes of it.\<close>

lemma post_sent:
  fixes x :: "'s exchange"
  defines "a \<equiv> exService x"
  assumes "json_law (asJson a)" and "url_law (asUrl a)" and "plain_config (asConfig a)"
    and "ServerURLWithContext (asConfig a) c ''DefaultAPIService.ApiRhTrexV1DinosaursPost'' = Inr base"
    and "ulParse (asUrl a) (base @ ''/api/rh-trex/v1/dinosaurs'') = Inr u"
    and "Dinosaur_MarshalJSON (asJson a) d = Inr j" and "adId d = None" and "adSpecies d \<noteq> []"
    and "dsCreate svc (exContext x) (ConvertDinosaur (utf8_dinosaur d)) s = (Done r, s')"
  obtains req where
    "DinosaursPostExecute a (Request_Dinosaur d (DinosaursPost c)) s = send_dinosaur a [400, 401, 403, 409, 500] (Inr req) s"
    "dinosaur_Create h (decode_dinosaur (asJson a)) svc (handler_request (exContext x) (exVarID x) req) empty_response s =
      (Done (), (case r of
         Inl e \<Rightarrow> HandleError (heErrors h) (heOperation h) e empty_response
       | Inr dino \<Rightarrow> writeJSONResponse 201 (Some (BResult (PDinosaur (PresentDinosaur h dino)))) empty_response), s')"
proof -
  obtain req where req: "prepare_json a c (base @ ''/api/rh-trex/v1/dinosaurs'') ''POST'' ''Dinosaur''
      (Dinosaur_MarshalJSON (asJson a) d) = Inr req" "crBody req = Some (print_json j @ [CHR 0x0A])"
    using prepare_json_Inr [OF assms(3,6,7,4)] by blast
  have given: "adId (utf8_dinosaur d) = None" "adSpecies (utf8_dinosaur d) \<noteq> []"
    using assms(8,9) by (simp_all add: utf8_dinosaur_def)
  have dec: "decode_dinosaur (asJson a) (print_json j @ [CHR 0x0A]) = Inr (utf8_dinosaur d)"
    using dinosaur_body(2) [OF assms(2,7)] by (simp add: json_space_def)
  show thesis
  proof (rule that)
    show "DinosaursPostExecute a (Request_Dinosaur d (DinosaursPost c)) s = send_dinosaur a [400, 401, 403, 409, 500] (Inr req) s"
      by (simp add: DinosaursPostExecute_def Request_Dinosaur_def DinosaursPost_def assms(5) req(1))
    show "dinosaur_Create h (decode_dinosaur (asJson a)) svc (handler_request (exContext x) (exVarID x) req) empty_response s =
        (Done (), (case r of
           Inl e \<Rightarrow> HandleError (heErrors h) (heOperation h) e empty_response
         | Inr dino \<Rightarrow> writeJSONResponse 201 (Some (BResult (PDinosaur (PresentDinosaur h dino)))) empty_response), s')"
      by (rule create_run [where decode = "decode_dinosaur (asJson a)", OF _ dec given])
         (simp_all add: handler_request_def req assms(10))
  qed
qed

text \<open>A dinosaur, or an error, that comes back.\<close>

lemma dinosaur_received:
  assumes "delivers x handler" and "json_law (asJson (exService x))"
    and "handler (handler_request (exContext x) (exVarID x) req) empty_response s
      = (Done u, writeJSONResponse code (Some (BResult (PDinosaur d))) empty_response, s')"
    and "code < 300" and "Dinosaur_MarshalJSON (asJson (exService x)) d = Inr j"
  shows "\<exists>resp. send_dinosaur (exService x) docs (Inr req) s = ((Some (utf8_dinosaur d), Some resp, None), s') \<and> cpStatusCode resp = code"
proof -
  have js: "unmarshal_pointer (asJson (exService x)) ''Dinosaur'' NewDinosaurWithDefaults
      (Dinosaur_UnmarshalJSON (asJson (exService x))) (print_json j) = (Some (utf8_dinosaur d), None)"
    using dinosaur_body(1) [OF assms(2,5), of "[]"] by (simp add: unmarshal_pointer_def)
  have "print_json j \<noteq> []" using written_not_empty dinosaur_written [OF assms(5)] by blast
  then have "send_dinosaur (exService x) docs (Inr req) s =
      ((Some (utf8_dinosaur d), Some (received x (writeJSONResponse code (Some (BResult (PDinosaur d))) empty_response)), None), s')"
    unfolding send_dinosaur_def using js assms(4,5)
    by (intro send_success [OF assms(1,3), where code = code and j = j and p = "BResult (PDinosaur d)"]) simp_all
  then show ?thesis by (auto simp: received_def final_status_def)
qed

lemma error_received:
  assumes "delivers x handler" and "json_law (asJson (exService x))"
    and "handler (handler_request (exContext x) (exVarID x) req) empty_response s
      = (Done u, HandleError g op e empty_response, s')"
    and "HttpCode e \<in> set docs" and "300 \<le> HttpCode e"
  shows "\<exists>resp err. send (exService x) docs xml js (Inr req) s = ((None, Some resp, Some (OpenAPIError err)), s') \<and>
    cpStatusCode resp = HttpCode e \<and> gaModel err = Some (utf8_error (AsOpenapiError g op e))"
proof -
  obtain j where j: "Error_MarshalJSON (asJson (exService x)) (AsOpenapiError g op e) = Inr j"
    using service_error_written by blast
  have "rHeader (HandleError g op e empty_response) ''Content-Type'' = Some ''application/json''"
    by (simp add: HandleError_def)
  with assms(4,5) j have "send (exService x) docs xml js (Inr req) s
      = ((None, Some (received x (HandleError g op e empty_response)), Some (OpenAPIError
          \<lparr>gaBody = print_json j, gaError = formatErrorMessage (exStatusText x (HttpCode e)) (Some error_model_fields),
           gaModel = Some (utf8_error (AsOpenapiError g op e))\<rparr>)), s')"
    by (intro send_error [OF assms(1,2,3)]) auto
  then show ?thesis by (auto simp: received_def final_status_def)
qed

text \<open>The arguments that the service gets from the options of a list request.\<close>

definition asked :: "list_request \<Rightarrow> list_arguments" where
  "asked r =
     (let orderBy = (case lrOrderBy r of None \<Rightarrow> [] | Some t \<Rightarrow> trim CHR '' '' t)
      in \<lparr>laPage = (case lrPage r of None \<Rightarrow> 1 | Some p \<Rightarrow> p),
          laSize = (case lrSize r of None \<Rightarrow> 100 | Some n \<Rightarrow> if n < 0 \<or> MaxListSize < n then MaxListSize else n),
          laPreloads = [], laSearch = (case lrSearch r of None \<Rightarrow> [] | Some t \<Rightarrow> trim CHR '' '' t),
          laOrderBy = (if orderBy = [] then [] else split_on CHR '','' orderBy), laFields = []\<rparr>)"

definition query_entry :: "string \<Rightarrow> string option \<Rightarrow> query" where
  "query_entry k v = (case v of None \<Rightarrow> [] | Some t \<Rightarrow> [(k, [t])])"

lemma query_entry_facts [simp]:
  "fst ` set (query_entry k v) \<subseteq> {k}"
  "map_of (query_entry k v @ q) k' = (if k = k' \<and> v \<noteq> None then Some [the v] else map_of q k')"
  "map_of (query_entry k v) k' = (if k = k' \<and> v \<noteq> None then Some [the v] else None)"
  by (auto simp: query_entry_def split: option.splits)

lemma add_optional_new:
  assumes "k \<notin> fst ` set q"
  shows "add_optional k (map_option PvString t) q = q @ query_entry k t"
    and "add_optional k (map_option PvInt i) q = q @ query_entry k (map_option itoa i)"
  using assms
  by (simp_all add: add_optional_def parameterAddToQuery_def put_query_def query_entry_def query_Add_new split: option.split)

lemma query_entry_keys: "k \<in> fst ` set (query_entry k' v) \<longleftrightarrow> k = k' \<and> v \<noteq> None"
  by (auto simp: query_entry_def split: option.splits)

lemma list_query_entries:
  "list_query r = query_entry ''page'' (map_option itoa (lrPage r)) @ query_entry ''size'' (map_option itoa (lrSize r)) @
     query_entry ''search'' (lrSearch r) @ query_entry ''orderBy'' (lrOrderBy r) @ query_entry ''fields'' (lrFields r)"
proof -
  have "add_optional ''page'' (map_option PvInt (lrPage r)) [] = query_entry ''page'' (map_option itoa (lrPage r))"
    by (subst add_optional_new) simp_all
  then show ?thesis
    unfolding list_query_def by (simp add: add_optional_new image_Un query_entry_keys)
qed

lemma list_query_values:
  "values_Get (map_of (list_query r)) ''page'' = (case lrPage r of None \<Rightarrow> [] | Some p \<Rightarrow> itoa p)"
  "values_Get (map_of (list_query r)) ''size'' = (case lrSize r of None \<Rightarrow> [] | Some n \<Rightarrow> itoa n)"
  "values_Get (map_of (list_query r)) ''search'' = (case lrSearch r of None \<Rightarrow> [] | Some t \<Rightarrow> t)"
  "values_Get (map_of (list_query r)) ''orderBy'' = (case lrOrderBy r of None \<Rightarrow> [] | Some t \<Rightarrow> t)"
  "values_Get (map_of (list_query r)) ''fields'' = (case lrFields r of None \<Rightarrow> [] | Some t \<Rightarrow> t)"
  by (simp_all add: values_Get_def list_query_entries del: map_of_append split: option.split)

lemma list_query_arguments:
  assumes "lrFields r = None" and "\<And>p. lrPage r = Some p \<Longrightarrow> wrap32 p = p" and "\<And>n. lrSize r = Some n \<Longrightarrow> wrap32 n = n"
  shows "NewListArguments (map_of (list_query r)) = asked r"
proof -
  have int32: "parse_int (itoa i) = (i, True)" if "wrap32 i = i" for i
    using wrap32_range [of i] that by (intro parse_int_itoa) (simp_all add: min_int64_def max_int64_def)
  have ne: "itoa i \<noteq> []" for i by (simp add: itoa_def)
  have "(case lrPage r of None \<Rightarrow> [] | Some p \<Rightarrow> itoa p) = [] \<longleftrightarrow> lrPage r = None" by (simp add: ne split: option.split)
  then show ?thesis
    using assms(2,3)
    by (cases "lrPage r"; cases "lrSize r")
       (auto simp: NewListArguments_def list_query_values asked_def Let_def assms(1) int32 ne MaxListSize_def split: option.splits)
qed

text \<open>The page a list request answers, and the request that the client sends for one.\<close>

definition list_page :: "http_env \<Rightarrow> paging_meta \<Rightarrow> dinosaur resource_list \<Rightarrow> api_dinosaur_list" where
  "list_page h paging rl =
     \<lparr>alKind = ''DinosaurList'', alPage = wrap32 (pmPage paging), alSize = wrap32 (pmSize paging),
      alTotal = wrap32 (pmTotal paging), alItems = map (PresentDinosaur h) (list_rows rl)\<rparr>"

lemma list_run:
  assumes "laFields (NewListArguments (rqQuery rq)) = []"
    and "gsList gen (rqContext rq) ''username'' (NewListArguments (rqQuery rq)) (PtrSlice ''Dinosaur'' []) s
       = (Done (Inr (paging, rl)), s')"
  shows "dinosaur_List h rfc ord gen rq w s = (Done (), writeJSONResponse 200 (Some (BResult (PDinosaurs (list_page h paging rl)))) w, s')"
  using assms
  by (simp add: dinosaur_List_def HandleList_def run_action_def list_config_def run_try_def run_bind_def Let_def
      finish_def list_page_def)

lemma list_sent:
  fixes x :: "'s exchange"
  defines "a \<equiv> exService x"
  assumes "url_law (asUrl a)" and "plain_config (asConfig a)"
    and "ServerURLWithContext (asConfig a) (lrContext r) ''DefaultAPIService.ApiRhTrexV1DinosaursGet'' = Inr base"
    and "ulParse (asUrl a) (base @ ''/api/rh-trex/v1/dinosaurs'') = Inr u" and "urRawQuery u = []"
  obtains req where
    "DinosaursGetExecute a r s =
       send a [401, 403, 500] (asXmlList a)
         (unmarshal_pointer (asJson a) ''DinosaurList'' (NewDinosaurList [] 0 0 0 []) (DinosaurList_UnmarshalJSON (asJson a)))
         (Inr req) s"
    "rqContext (handler_request (exContext x) (exVarID x) req) = exContext x"
    "rqQuery (handler_request (exContext x) (exVarID x) req) = map_of (list_query r)"
proof -
  obtain req where req: "prepareRequest (asUrl a) (asConfig a) (lrContext r) (base @ ''/api/rh-trex/v1/dinosaurs'') ''GET''
      None (accept_headers []) (list_query r) = Inr req" "urRawQuery (crURL req) = restore_brackets (Values_Encode
      (fold (\<lambda>(k, v) q. query_Add k v q) (query_pairs (list_query r))
        (fold (\<lambda>(k, v) q. query_Add k v q) (parse_pairs (urRawQuery u)) [])))"
    using prepareRequest_Inr [OF assms(2,5,3)] by blast
  show thesis
    by (rule that [of req])
       (simp_all add: DinosaursGetExecute_def assms(4) handler_request_def req
          query_received [OF list_query_keys [THEN conjunct1] list_query_keys [THEN conjunct2] assms(6)])
qed

section \<open>Properties\<close>



text \<open>
  C12: A list request of the client reaches the service with the page, the size, the search and the
  order that its options ask for, escaped and parsed on the way, and the client gets the page the service
  answers: its rows presented, and its paging narrowed to 32 bits, unchanged where its strings are valid
  UTF-8, and with U+FFFD for what is not.
\<close>

theorem client_list:
  assumes "json_law (asJson (exService x))" and "url_law (asUrl (exService x))"
    and "delivers x (dinosaur_List h rfc ord gen)"
    and "ServerURLWithContext (asConfig (exService x)) (lrContext r) ''DefaultAPIService.ApiRhTrexV1DinosaursGet'' = Inr base"
    and "ulParse (asUrl (exService x)) (base @ ''/api/rh-trex/v1/dinosaurs'') = Inr u" and "urRawQuery u = []"
    and "lrFields r = None" and "\<And>p. lrPage r = Some p \<Longrightarrow> wrap32 p = p" and "\<And>n. lrSize r = Some n \<Longrightarrow> wrap32 n = n"
    and "gsList gen (exContext x) ''username'' (asked r) (PtrSlice ''Dinosaur'' []) s = (Done (Inr (paging, rl)), s')"
    and "DinosaurList_MarshalJSON (asJson (exService x)) (list_page h paging rl) = Inr j"
  shows "\<exists>l resp. DinosaursGetExecute (exService x) r s = ((Some l, Some resp, None), s') \<and> cpStatusCode resp = 200 \<and>
    l = utf8_list (list_page h paging rl) \<and> (valid_list (list_page h paging rl) \<longrightarrow> l = list_page h paging rl)"
proof -
  let ?L = "asJson (exService x)" and ?p = "list_page h paging rl"
  have plain: "plain_config (asConfig (exService x))" using assms(3) by (simp add: delivers_def)
  obtain req where req: "DinosaursGetExecute (exService x) r s = send (exService x) [401, 403, 500] (asXmlList (exService x))
         (unmarshal_pointer ?L ''DinosaurList'' (NewDinosaurList [] 0 0 0 []) (DinosaurList_UnmarshalJSON ?L)) (Inr req) s"
    and rq: "rqContext (handler_request (exContext x) (exVarID x) req) = exContext x"
      "rqQuery (handler_request (exContext x) (exVarID x) req) = map_of (list_query r)"
    using list_sent [OF assms(2) plain assms(4-6), of s] by blast
  note arguments = list_query_arguments [of r, OF assms(7,8,9)]
  have run: "dinosaur_List h rfc ord gen (handler_request (exContext x) (exVarID x) req) empty_response s =
      (Done (), writeJSONResponse 200 (Some (BResult (PDinosaurs ?p))) empty_response, s')"
    using assms(10) by (intro list_run) (simp_all add: rq arguments asked_def Let_def)
  have narrow: "wrap32 (alPage ?p) = alPage ?p" "wrap32 (alSize ?p) = alSize ?p" "wrap32 (alTotal ?p) = alTotal ?p"
    using wrap32_range by (simp_all add: list_page_def wrap32_id)
  have js: "unmarshal_pointer ?L ''DinosaurList'' (NewDinosaurList [] 0 0 0 []) (DinosaurList_UnmarshalJSON ?L) (print_json j)
      = (Some (utf8_list ?p), None)"
    using dinosaur_list_body [OF assms(1,11) narrow] by (simp add: unmarshal_pointer_def)
  have "print_json j \<noteq> []" using written_not_empty list_read_back(1) [OF assms(1,11) narrow] by blast
  then have "DinosaursGetExecute (exService x) r s =
      ((Some (utf8_list ?p), Some (received x (writeJSONResponse 200 (Some (BResult (PDinosaurs ?p))) empty_response)), None), s')"
    unfolding req using js assms(11)
    by (intro send_success [OF assms(3) run, where code = 200 and j = j and p = "BResult (PDinosaurs ?p)"]) simp_all
  then show ?thesis by (auto simp: received_def final_status_def)
qed

text \<open>With fields there is no answer: the handler panics, and the client sees the connection end.\<close>

theorem client_list_fields_fails:
  assumes "url_law (asUrl (exService x))" and "delivers x (dinosaur_List h rfc ord gen)"
    and "ServerURLWithContext (asConfig (exService x)) (lrContext r) ''DefaultAPIService.ApiRhTrexV1DinosaursGet'' = Inr base"
    and "ulParse (asUrl (exService x)) (base @ ''/api/rh-trex/v1/dinosaurs'') = Inr u" and "urRawQuery u = []"
    and "lrFields r = Some f" and "trim CHR '' '' f \<noteq> []"
    and "gsList gen (exContext x) ''username'' (NewListArguments (map_of (list_query r))) (PtrSlice ''Dinosaur'' []) s
      = (Done (Inr (paging, rl)), s')"
  shows "DinosaursGetExecute (exService x) r s = ((None, None, Some (PlainError (exBroken x))), s')"
proof -
  have plain: "plain_config (asConfig (exService x))" using assms(2) by (simp add: delivers_def)
  obtain req where req: "DinosaursGetExecute (exService x) r s = send (exService x) [401, 403, 500] (asXmlList (exService x))
         (unmarshal_pointer (asJson (exService x)) ''DinosaurList'' (NewDinosaurList [] 0 0 0 [])
           (DinosaurList_UnmarshalJSON (asJson (exService x)))) (Inr req) s"
    and rq: "rqContext (handler_request (exContext x) (exVarID x) req) = exContext x"
      "rqQuery (handler_request (exContext x) (exVarID x) req) = map_of (list_query r)"
    using list_sent [OF assms(1) plain assms(3-5), of s] by blast
  let ?fs = "filter (\<lambda>f. f \<noteq> []) (map (trim CHR '' '') (split_on CHR '','' (trim CHR '' '' f)))"
  have "laFields (NewListArguments (map_of (list_query r))) = (if ''id'' \<in> set ?fs then ?fs else ?fs @ [''id''])"
    using assms(6,7) by (simp add: NewListArguments_fields list_query_values Let_def)
  moreover have "(if z \<in> set zs then zs else zs @ [z]) \<noteq> []" for z :: string and zs by auto
  ultimately have "laFields (NewListArguments (map_of (list_query r))) \<noteq> []" by (simp only: not_False_eq_True)
  with assms(8) list_fields_panics [of "handler_request (exContext x) (exVarID x) req" gen s paging rl s' h rfc ord empty_response]
  obtain msg where "dinosaur_List h rfc ord gen (handler_request (exContext x) (exVarID x) req) empty_response s
      = (Panicked msg, empty_response, s')" by (auto simp: rq)
  from call_breaks [OF assms(2) this] show ?thesis by (simp add: req send_def)
qed

text \<open>A library for times within 64 bits, URLs without scheme and host, and a transport to one handler.\<close>

definition demo_json :: json_lib where
  "demo_json =
     \<lparr>jlText = (\<lambda>ty b. ''cannot read '' @ ty), jlNumber = (\<lambda>n. True),
      jlTime = (\<lambda>s. case parse_int s of (i, ok) \<Rightarrow> if ok then Some i else None),
      jlTimeText = (\<lambda>t. if min_int64 \<le> t \<and> t \<le> max_int64 then Some (itoa t) else None)\<rparr>"

definition demo_url :: url_lib where
  "demo_url =
     \<lparr>ulParse = (\<lambda>s. Inr \<lparr>urScheme = [], urHost = [], urPath = takeWhile (\<lambda>c. c \<noteq> CHR ''?'') s,
        urRawQuery = drop 1 (dropWhile (\<lambda>c. c \<noteq> CHR ''?'') s)\<rparr>),
      ulString = (\<lambda>u. urPath u @ CHR ''?'' # urRawQuery u)\<rparr>"

definition demo_exchange ::
    "(http_request \<Rightarrow> dino_payload body response \<Rightarrow> 's \<Rightarrow> unit outcome \<times> dino_payload body response \<times> 's) \<Rightarrow> 's exchange" where
  "demo_exchange handler =
     \<lparr>exService =
        \<lparr>asJson = demo_json, asUrl = demo_url, asConfig = NewConfiguration,
         asHttp = \<lparr>hcDo = (\<lambda>req s. carried demo_json (\<lambda>l. Inr JNull) itoa ''EOF''
             (handler (handler_request background (\<lambda>u. []) req) empty_response s)),
           hcDumpRequest = (\<lambda>req. None), hcDumpResponse = (\<lambda>resp. None)\<rparr>,
         asXmlDinosaur = (\<lambda>b. (None, None)), asXmlList = (\<lambda>b. (None, None)), asXmlError = (\<lambda>b. (NewError, None))\<rparr>,
      exProjection = (\<lambda>l. Inr JNull), exStatusText = itoa, exBroken = ''EOF'', exContext = background, exVarID = (\<lambda>u. [])\<rparr>"

lemma demo_json_law: "json_law demo_json"
proof -
  have "valid_utf8 (itoa t)" for t
  proof -
    have "(of_char (digit_char d) :: nat) < 128" if "d < 10" for d using that by (simp add: of_char_digit_char)
    then have "\<forall>c \<in> set (itoa_nat n). (of_char c :: nat) < 128" for n
      by (induction n rule: itoa_nat.induct) (subst itoa_nat.simps, auto)
    then show ?thesis unfolding valid_utf8_def by (intro coerce_ascii) (auto simp: itoa_def)
  qed
  then show ?thesis by (auto simp: json_law_def demo_json_def parse_int_itoa split: if_splits)
qed

lemma demo_url_law: "url_law demo_url"
proof -
  have "takeWhile (\<lambda>c. c \<noteq> CHR ''?'') (takeWhile (\<lambda>c. c \<noteq> CHR ''?'') s @ CHR ''?'' # q) = takeWhile (\<lambda>c. c \<noteq> CHR ''?'') s"
    "dropWhile (\<lambda>c. c \<noteq> CHR ''?'') (takeWhile (\<lambda>c. c \<noteq> CHR ''?'') s @ CHR ''?'' # q) = CHR ''?'' # q" for s q
    by (induction s) auto
  then show ?thesis by (auto simp: url_law_def demo_url_def)
qed

lemma demo_delivers: "delivers (demo_exchange handler) handler"
  by (simp add: delivers_def demo_exchange_def plain_config_def NewConfiguration_def)

lemma demo_server: "ServerURLWithContext NewConfiguration None endpoint = Inr ''http://localhost:8000''"
  by (simp add: ServerURLWithContext_def NewConfiguration_def ServerConfigurations_URL_def Let_def)

lemma demo_sel [simp]:
  "asJson (exService (demo_exchange handler)) = demo_json" "asUrl (exService (demo_exchange handler)) = demo_url"
  "asConfig (exService (demo_exchange handler)) = NewConfiguration" "exContext (demo_exchange handler) = background"
  by (simp_all add: demo_exchange_def)

definition demo_list :: api_dinosaur_list where
  "demo_list =
     \<lparr>alKind = ''DinosaurList'', alPage = 1, alSize = 2, alTotal = 2,
      alItems = [(NewDinosaur [quote_char, CHR ''<'', CHR 0x0A, CHR 0xC3, CHR 0xA9])\<lparr>adCreatedAt := Some 7\<rparr>,
        NewDinosaur [CHR 0xFF]]\<rparr>"

lemma demo_list_run: "case DinosaurList_MarshalJSON demo_json demo_list of Inr j \<Rightarrow> True | Inl e \<Rightarrow> False"
  by code_simp

lemma demo_list_read:
  "map adSpecies (alItems (utf8_list demo_list)) = [[quote_char, CHR ''<'', CHR 0x0A, CHR 0xC3, CHR 0xA9], replacement]"
  by code_simp


lemma demo_create_run:
  "case dsCreate (shop_service default_lock_mode) background (ConvertDinosaur (NewDinosaur ''Stego'')) (shop_app False) of
     (Done (Inr d), A) \<Rightarrow> Species d = ''Stego'' \<and>
       (case Dinosaur_MarshalJSON demo_json (PresentDinosaur shop_http d) of Inr j \<Rightarrow> True | Inl e \<Rightarrow> False)
   | _ \<Rightarrow> False"
  by code_simp


lemma demo_page:
  "case DinosaurList_MarshalJSON demo_json (list_page shop_http \<lparr>pmPage = -1, pmSize = 2, pmTotal = 2\<rparr>
      (PtrSlice ''Dinosaur'' [shop_rex, shop_new_rex])) of Inr j \<Rightarrow> True | Inl e \<Rightarrow> False"
  by code_simp

theorem client_list_witness:
  "\<exists>l resp. DinosaursGetExecute (exService (demo_exchange (dinosaur_List shop_http itoa (\<lambda>_. []) (shop_generic [shop_rex, shop_new_rex]))))
       (Request_Search ''species = \"Trex\" & more'' (Request_Page (-1) (DinosaursGet None))) () = ((Some l, Some resp, None), ()) \<and>
     cpStatusCode resp = 200 \<and> map adSpecies (alItems l) = [''Trex'', ''Raptor'']"
proof -
  let ?x = "demo_exchange (dinosaur_List shop_http itoa (\<lambda>_. []) (shop_generic [shop_rex, shop_new_rex]))"
  let ?r = "Request_Search ''species = \"Trex\" & more'' (Request_Page (-1) (DinosaursGet None))"
  have r: "lrFields ?r = None" "lrContext ?r = None" "lrSize ?r = None" "lrPage ?r = Some (-1)"
    by (simp_all add: Request_Search_def Request_Page_def DinosaursGet_def)
  let ?p = "\<lparr>pmPage = -1, pmSize = 2, pmTotal = 2\<rparr>" and ?rl = "PtrSlice ''Dinosaur'' [shop_rex, shop_new_rex]"
  have run: "gsList (shop_generic [shop_rex, shop_new_rex]) background ''username'' (asked ?r) (PtrSlice ''Dinosaur'' []) ()
      = (Done (Inr (?p, ?rl)), ())"
    by (simp add: shop_generic_def asked_def Let_def r)
  obtain j where j: "DinosaurList_MarshalJSON demo_json (list_page shop_http ?p ?rl) = Inr j"
    using demo_page by (auto split: sum.splits)
  have srv: "ServerURLWithContext NewConfiguration (lrContext ?r) ''DefaultAPIService.ApiRhTrexV1DinosaursGet''
      = Inr ''http://localhost:8000''"
    by (simp only: r demo_server)
  have "\<exists>l resp. DinosaursGetExecute (exService ?x) ?r () = ((Some l, Some resp, None), ()) \<and> cpStatusCode resp = 200 \<and>
      l = utf8_list (list_page shop_http ?p ?rl) \<and> (valid_list (list_page shop_http ?p ?rl) \<longrightarrow> l = list_page shop_http ?p ?rl)"
    by (rule client_list [of ?x, where
          u = "\<lparr>urScheme = [], urHost = [], urPath = ''http://localhost:8000/api/rh-trex/v1/dinosaurs'', urRawQuery = []\<rparr>",
          unfolded demo_sel, OF demo_json_law demo_url_law demo_delivers srv _ _ r(1) _ _ run j])
       (simp_all add: r demo_url_def wrap32_def)
  then obtain l resp where got: "l = utf8_list (list_page shop_http ?p ?rl)"
      "DinosaursGetExecute (exService ?x) ?r () = ((Some l, Some resp, None), ())"
      "cpStatusCode resp = 200" by (elim exE conjE)
  have "coerce ''Trex'' = ''Trex''" "coerce ''Raptor'' = ''Raptor''" by code_simp+
  then have items: "map adSpecies (alItems l) = [''Trex'', ''Raptor'']"
    by (simp add: got(1) utf8_list_def utf8_dinosaur_def list_page_def shop_rex_def shop_new_rex_def PresentDinosaur_def Let_def
        del: coerce.simps)
  from got(2,3) items show ?thesis by (intro exI conjI)
qed

end
