(* ===== verification/Openapi_Accessors.thy ===== *)
theory Openapi_Accessors
  imports Openapi_Models
begin

text \<open>
  The accessors of the models in \<^verbatim>\<open>pkg/api/openapi\<close>. The receiver is a pointer, None when it
  is nil; a getter then answers the zero value, while a setter dereferences it. An accessor ending in
  \<^verbatim>\<open>Ok\<close> answers the pointer to the field, here what it points to, and whether it is set.
  The accessors of one optional field have their laws in the locale \<open>optional_field\<close>, those of a required
  one in \<open>required_field\<close>; the fields of all the models are instances.
\<close>

section \<open>A field\<close>

text \<open>What the generator writes for a field that is a pointer.\<close>

definition get_optional :: "'v \<Rightarrow> ('r \<Rightarrow> 'v option) \<Rightarrow> 'r option \<Rightarrow> 'v" where
  "get_optional zero field p =
     (case p of None \<Rightarrow> zero | Some r \<Rightarrow> (case field r of None \<Rightarrow> zero | Some v \<Rightarrow> v))"

definition get_optional_ok :: "('r \<Rightarrow> 'v option) \<Rightarrow> 'r option \<Rightarrow> 'v option \<times> bool" where
  "get_optional_ok field p =
     (case p of None \<Rightarrow> (None, False) | Some r \<Rightarrow> (case field r of None \<Rightarrow> (None, False) | Some v \<Rightarrow> (Some v, True)))"

definition has_optional :: "('r \<Rightarrow> 'v option) \<Rightarrow> 'r option \<Rightarrow> bool" where
  "has_optional field p = (case p of None \<Rightarrow> False | Some r \<Rightarrow> field r \<noteq> None)"

definition set_optional :: "('v option \<Rightarrow> 'r \<Rightarrow> 'r) \<Rightarrow> 'v \<Rightarrow> 'r option \<Rightarrow> 'r go" where
  "set_optional upd v p = (case p of None \<Rightarrow> Panic nil_deref | Some r \<Rightarrow> Ret (upd (Some v) r))"

text \<open>What it writes for one that is required.\<close>

definition get_required :: "'v \<Rightarrow> ('r \<Rightarrow> 'v) \<Rightarrow> 'r option \<Rightarrow> 'v" where
  "get_required zero field p = (case p of None \<Rightarrow> zero | Some r \<Rightarrow> field r)"

definition get_required_ok :: "('r \<Rightarrow> 'v) \<Rightarrow> 'r option \<Rightarrow> 'v option \<times> bool" where
  "get_required_ok field p = (case p of None \<Rightarrow> (None, False) | Some r \<Rightarrow> (Some (field r), True))"

definition set_required :: "('v \<Rightarrow> 'r \<Rightarrow> 'r) \<Rightarrow> 'v \<Rightarrow> 'r option \<Rightarrow> 'r go" where
  "set_required upd v p = (case p of None \<Rightarrow> Panic nil_deref | Some r \<Rightarrow> Ret (upd v r))"

locale optional_field =
  fixes field :: "'r \<Rightarrow> 'v option" and upd :: "'v option \<Rightarrow> 'r \<Rightarrow> 'r"
  assumes field_upd: "field (upd v r) = v"
begin

lemma set_then_get:
  assumes "set_optional upd v p = Ret r"
  shows "get_optional zero field (Some r) = v" and "get_optional_ok field (Some r) = (Some v, True)"
    and "has_optional field (Some r)"
  using assms
  by (cases p; auto simp: set_optional_def get_optional_def get_optional_ok_def has_optional_def field_upd)+

lemma has_iff_ok: "has_optional field p \<longleftrightarrow> snd (get_optional_ok field p)"
  by (auto simp: has_optional_def get_optional_ok_def split: option.split)

lemma get_unset: "\<not> has_optional field p \<Longrightarrow> get_optional zero field p = zero"
  by (auto simp: has_optional_def get_optional_def split: option.splits)

end

locale required_field =
  fixes field :: "'r \<Rightarrow> 'v" and upd :: "'v \<Rightarrow> 'r \<Rightarrow> 'r"
  assumes field_upd: "field (upd v r) = v"
begin

lemma set_then_get:
  assumes "set_required upd v p = Ret r"
  shows "get_required zero field (Some r) = v" and "get_required_ok field (Some r) = (Some v, True)"
  using assms by (cases p; auto simp: set_required_def get_required_def get_required_ok_def field_upd)+

end

section \<open>model\_dinosaur.go\<close>

definition Dinosaur_GetId :: "api_dinosaur option \<Rightarrow> string" where
  "Dinosaur_GetId = get_optional [] adId"

definition Dinosaur_GetIdOk :: "api_dinosaur option \<Rightarrow> string option \<times> bool" where
  "Dinosaur_GetIdOk = get_optional_ok adId"

definition Dinosaur_HasId :: "api_dinosaur option \<Rightarrow> bool" where
  "Dinosaur_HasId = has_optional adId"

definition Dinosaur_SetId :: "string \<Rightarrow> api_dinosaur option \<Rightarrow> api_dinosaur go" where
  "Dinosaur_SetId = set_optional (\<lambda>v r. r\<lparr>adId := v\<rparr>)"

interpretation Dinosaur_Id: optional_field "adId :: api_dinosaur \<Rightarrow> string option" "\<lambda>v r. r\<lparr>adId := v\<rparr>"
  by unfold_locales simp

definition Dinosaur_GetKind :: "api_dinosaur option \<Rightarrow> string" where
  "Dinosaur_GetKind = get_optional [] adKind"

definition Dinosaur_GetKindOk :: "api_dinosaur option \<Rightarrow> string option \<times> bool" where
  "Dinosaur_GetKindOk = get_optional_ok adKind"

definition Dinosaur_HasKind :: "api_dinosaur option \<Rightarrow> bool" where
  "Dinosaur_HasKind = has_optional adKind"

definition Dinosaur_SetKind :: "string \<Rightarrow> api_dinosaur option \<Rightarrow> api_dinosaur go" where
  "Dinosaur_SetKind = set_optional (\<lambda>v r. r\<lparr>adKind := v\<rparr>)"

interpretation Dinosaur_Kind: optional_field "adKind :: api_dinosaur \<Rightarrow> string option" "\<lambda>v r. r\<lparr>adKind := v\<rparr>"
  by unfold_locales simp

definition Dinosaur_GetHref :: "api_dinosaur option \<Rightarrow> string" where
  "Dinosaur_GetHref = get_optional [] adHref"

definition Dinosaur_GetHrefOk :: "api_dinosaur option \<Rightarrow> string option \<times> bool" where
  "Dinosaur_GetHrefOk = get_optional_ok adHref"

definition Dinosaur_HasHref :: "api_dinosaur option \<Rightarrow> bool" where
  "Dinosaur_HasHref = has_optional adHref"

definition Dinosaur_SetHref :: "string \<Rightarrow> api_dinosaur option \<Rightarrow> api_dinosaur go" where
  "Dinosaur_SetHref = set_optional (\<lambda>v r. r\<lparr>adHref := v\<rparr>)"

interpretation Dinosaur_Href: optional_field "adHref :: api_dinosaur \<Rightarrow> string option" "\<lambda>v r. r\<lparr>adHref := v\<rparr>"
  by unfold_locales simp

definition Dinosaur_GetCreatedAt :: "api_dinosaur option \<Rightarrow> time" where
  "Dinosaur_GetCreatedAt = get_optional 0 adCreatedAt"

definition Dinosaur_GetCreatedAtOk :: "api_dinosaur option \<Rightarrow> time option \<times> bool" where
  "Dinosaur_GetCreatedAtOk = get_optional_ok adCreatedAt"

definition Dinosaur_HasCreatedAt :: "api_dinosaur option \<Rightarrow> bool" where
  "Dinosaur_HasCreatedAt = has_optional adCreatedAt"

definition Dinosaur_SetCreatedAt :: "time \<Rightarrow> api_dinosaur option \<Rightarrow> api_dinosaur go" where
  "Dinosaur_SetCreatedAt = set_optional (\<lambda>v r. r\<lparr>adCreatedAt := v\<rparr>)"

interpretation Dinosaur_CreatedAt: optional_field "adCreatedAt :: api_dinosaur \<Rightarrow> time option" "\<lambda>v r. r\<lparr>adCreatedAt := v\<rparr>"
  by unfold_locales simp

definition Dinosaur_GetUpdatedAt :: "api_dinosaur option \<Rightarrow> time" where
  "Dinosaur_GetUpdatedAt = get_optional 0 adUpdatedAt"

definition Dinosaur_GetUpdatedAtOk :: "api_dinosaur option \<Rightarrow> time option \<times> bool" where
  "Dinosaur_GetUpdatedAtOk = get_optional_ok adUpdatedAt"

definition Dinosaur_HasUpdatedAt :: "api_dinosaur option \<Rightarrow> bool" where
  "Dinosaur_HasUpdatedAt = has_optional adUpdatedAt"

definition Dinosaur_SetUpdatedAt :: "time \<Rightarrow> api_dinosaur option \<Rightarrow> api_dinosaur go" where
  "Dinosaur_SetUpdatedAt = set_optional (\<lambda>v r. r\<lparr>adUpdatedAt := v\<rparr>)"

interpretation Dinosaur_UpdatedAt: optional_field "adUpdatedAt :: api_dinosaur \<Rightarrow> time option" "\<lambda>v r. r\<lparr>adUpdatedAt := v\<rparr>"
  by unfold_locales simp

definition Dinosaur_GetSpecies :: "api_dinosaur option \<Rightarrow> string" where
  "Dinosaur_GetSpecies = get_required [] adSpecies"

definition Dinosaur_GetSpeciesOk :: "api_dinosaur option \<Rightarrow> string option \<times> bool" where
  "Dinosaur_GetSpeciesOk = get_required_ok adSpecies"

definition Dinosaur_SetSpecies :: "string \<Rightarrow> api_dinosaur option \<Rightarrow> api_dinosaur go" where
  "Dinosaur_SetSpecies = set_required (\<lambda>v r. r\<lparr>adSpecies := v\<rparr>)"

interpretation Dinosaur_Species: required_field "adSpecies :: api_dinosaur \<Rightarrow> string" "\<lambda>v r. r\<lparr>adSpecies := v\<rparr>"
  by unfold_locales simp

section \<open>model\_dinosaur\_patch\_request.go\<close>

definition DinosaurPatchRequest_GetSpecies :: "dinosaur_patch option \<Rightarrow> string" where
  "DinosaurPatchRequest_GetSpecies = get_optional [] dpSpecies"

definition DinosaurPatchRequest_GetSpeciesOk :: "dinosaur_patch option \<Rightarrow> string option \<times> bool" where
  "DinosaurPatchRequest_GetSpeciesOk = get_optional_ok dpSpecies"

definition DinosaurPatchRequest_HasSpecies :: "dinosaur_patch option \<Rightarrow> bool" where
  "DinosaurPatchRequest_HasSpecies = has_optional dpSpecies"

definition DinosaurPatchRequest_SetSpecies :: "string \<Rightarrow> dinosaur_patch option \<Rightarrow> dinosaur_patch go" where
  "DinosaurPatchRequest_SetSpecies = set_optional (\<lambda>v r. r\<lparr>dpSpecies := v\<rparr>)"

interpretation DinosaurPatchRequest_Species: optional_field "dpSpecies :: dinosaur_patch \<Rightarrow> string option" "\<lambda>v r. r\<lparr>dpSpecies := v\<rparr>"
  by unfold_locales simp

section \<open>model\_list.go\<close>

definition List_GetKind :: "api_list option \<Rightarrow> string" where
  "List_GetKind = get_required [] alKind"

definition List_GetKindOk :: "api_list option \<Rightarrow> string option \<times> bool" where
  "List_GetKindOk = get_required_ok alKind"

definition List_SetKind :: "string \<Rightarrow> api_list option \<Rightarrow> api_list go" where
  "List_SetKind = set_required (\<lambda>v r. r\<lparr>alKind := v\<rparr>)"

interpretation List_Kind: required_field "alKind :: api_list \<Rightarrow> string" "\<lambda>v r. r\<lparr>alKind := v\<rparr>"
  by unfold_locales simp

definition List_GetPage :: "api_list option \<Rightarrow> int" where
  "List_GetPage = get_required 0 alPage"

definition List_GetPageOk :: "api_list option \<Rightarrow> int option \<times> bool" where
  "List_GetPageOk = get_required_ok alPage"

definition List_SetPage :: "int \<Rightarrow> api_list option \<Rightarrow> api_list go" where
  "List_SetPage = set_required (\<lambda>v r. r\<lparr>alPage := v\<rparr>)"

interpretation List_Page: required_field "alPage :: api_list \<Rightarrow> int" "\<lambda>v r. r\<lparr>alPage := v\<rparr>"
  by unfold_locales simp

definition List_GetSize :: "api_list option \<Rightarrow> int" where
  "List_GetSize = get_required 0 alSize"

definition List_GetSizeOk :: "api_list option \<Rightarrow> int option \<times> bool" where
  "List_GetSizeOk = get_required_ok alSize"

definition List_SetSize :: "int \<Rightarrow> api_list option \<Rightarrow> api_list go" where
  "List_SetSize = set_required (\<lambda>v r. r\<lparr>alSize := v\<rparr>)"

interpretation List_Size: required_field "alSize :: api_list \<Rightarrow> int" "\<lambda>v r. r\<lparr>alSize := v\<rparr>"
  by unfold_locales simp

definition List_GetTotal :: "api_list option \<Rightarrow> int" where
  "List_GetTotal = get_required 0 alTotal"

definition List_GetTotalOk :: "api_list option \<Rightarrow> int option \<times> bool" where
  "List_GetTotalOk = get_required_ok alTotal"

definition List_SetTotal :: "int \<Rightarrow> api_list option \<Rightarrow> api_list go" where
  "List_SetTotal = set_required (\<lambda>v r. r\<lparr>alTotal := v\<rparr>)"

interpretation List_Total: required_field "alTotal :: api_list \<Rightarrow> int" "\<lambda>v r. r\<lparr>alTotal := v\<rparr>"
  by unfold_locales simp

section \<open>model\_dinosaur\_list.go\<close>

definition DinosaurList_GetKind :: "api_dinosaur_list option \<Rightarrow> string" where
  "DinosaurList_GetKind = get_required [] alKind"

definition DinosaurList_GetKindOk :: "api_dinosaur_list option \<Rightarrow> string option \<times> bool" where
  "DinosaurList_GetKindOk = get_required_ok alKind"

definition DinosaurList_SetKind :: "string \<Rightarrow> api_dinosaur_list option \<Rightarrow> api_dinosaur_list go" where
  "DinosaurList_SetKind = set_required (\<lambda>v r. r\<lparr>alKind := v\<rparr>)"

interpretation DinosaurList_Kind: required_field "alKind :: api_dinosaur_list \<Rightarrow> string" "\<lambda>v r. r\<lparr>alKind := v\<rparr>"
  by unfold_locales simp

definition DinosaurList_GetPage :: "api_dinosaur_list option \<Rightarrow> int" where
  "DinosaurList_GetPage = get_required 0 alPage"

definition DinosaurList_GetPageOk :: "api_dinosaur_list option \<Rightarrow> int option \<times> bool" where
  "DinosaurList_GetPageOk = get_required_ok alPage"

definition DinosaurList_SetPage :: "int \<Rightarrow> api_dinosaur_list option \<Rightarrow> api_dinosaur_list go" where
  "DinosaurList_SetPage = set_required (\<lambda>v r. r\<lparr>alPage := v\<rparr>)"

interpretation DinosaurList_Page: required_field "alPage :: api_dinosaur_list \<Rightarrow> int" "\<lambda>v r. r\<lparr>alPage := v\<rparr>"
  by unfold_locales simp

definition DinosaurList_GetSize :: "api_dinosaur_list option \<Rightarrow> int" where
  "DinosaurList_GetSize = get_required 0 alSize"

definition DinosaurList_GetSizeOk :: "api_dinosaur_list option \<Rightarrow> int option \<times> bool" where
  "DinosaurList_GetSizeOk = get_required_ok alSize"

definition DinosaurList_SetSize :: "int \<Rightarrow> api_dinosaur_list option \<Rightarrow> api_dinosaur_list go" where
  "DinosaurList_SetSize = set_required (\<lambda>v r. r\<lparr>alSize := v\<rparr>)"

interpretation DinosaurList_Size: required_field "alSize :: api_dinosaur_list \<Rightarrow> int" "\<lambda>v r. r\<lparr>alSize := v\<rparr>"
  by unfold_locales simp

definition DinosaurList_GetTotal :: "api_dinosaur_list option \<Rightarrow> int" where
  "DinosaurList_GetTotal = get_required 0 alTotal"

definition DinosaurList_GetTotalOk :: "api_dinosaur_list option \<Rightarrow> int option \<times> bool" where
  "DinosaurList_GetTotalOk = get_required_ok alTotal"

definition DinosaurList_SetTotal :: "int \<Rightarrow> api_dinosaur_list option \<Rightarrow> api_dinosaur_list go" where
  "DinosaurList_SetTotal = set_required (\<lambda>v r. r\<lparr>alTotal := v\<rparr>)"

interpretation DinosaurList_Total: required_field "alTotal :: api_dinosaur_list \<Rightarrow> int" "\<lambda>v r. r\<lparr>alTotal := v\<rparr>"
  by unfold_locales simp

definition DinosaurList_GetItems :: "api_dinosaur_list option \<Rightarrow> api_dinosaur list" where
  "DinosaurList_GetItems = get_required [] alItems"

definition DinosaurList_GetItemsOk :: "api_dinosaur_list option \<Rightarrow> (api_dinosaur list) option \<times> bool" where
  "DinosaurList_GetItemsOk = get_required_ok alItems"

definition DinosaurList_SetItems :: "api_dinosaur list \<Rightarrow> api_dinosaur_list option \<Rightarrow> api_dinosaur_list go" where
  "DinosaurList_SetItems = set_required (\<lambda>v r. r\<lparr>alItems := v\<rparr>)"

interpretation DinosaurList_Items: required_field "alItems :: api_dinosaur_list \<Rightarrow> api_dinosaur list" "\<lambda>v r. r\<lparr>alItems := v\<rparr>"
  by unfold_locales simp

section \<open>model\_error.go\<close>

definition Error_GetId :: "openapi_error option \<Rightarrow> string" where
  "Error_GetId = get_optional [] oe_Id"

definition Error_GetIdOk :: "openapi_error option \<Rightarrow> string option \<times> bool" where
  "Error_GetIdOk = get_optional_ok oe_Id"

definition Error_HasId :: "openapi_error option \<Rightarrow> bool" where
  "Error_HasId = has_optional oe_Id"

definition Error_SetId :: "string \<Rightarrow> openapi_error option \<Rightarrow> openapi_error go" where
  "Error_SetId = set_optional (\<lambda>v r. r\<lparr>oe_Id := v\<rparr>)"

interpretation Error_Id: optional_field "oe_Id :: openapi_error \<Rightarrow> string option" "\<lambda>v r. r\<lparr>oe_Id := v\<rparr>"
  by unfold_locales simp

definition Error_GetKind :: "openapi_error option \<Rightarrow> string" where
  "Error_GetKind = get_optional [] oe_Kind"

definition Error_GetKindOk :: "openapi_error option \<Rightarrow> string option \<times> bool" where
  "Error_GetKindOk = get_optional_ok oe_Kind"

definition Error_HasKind :: "openapi_error option \<Rightarrow> bool" where
  "Error_HasKind = has_optional oe_Kind"

definition Error_SetKind :: "string \<Rightarrow> openapi_error option \<Rightarrow> openapi_error go" where
  "Error_SetKind = set_optional (\<lambda>v r. r\<lparr>oe_Kind := v\<rparr>)"

interpretation Error_Kind: optional_field "oe_Kind :: openapi_error \<Rightarrow> string option" "\<lambda>v r. r\<lparr>oe_Kind := v\<rparr>"
  by unfold_locales simp

definition Error_GetHref :: "openapi_error option \<Rightarrow> string" where
  "Error_GetHref = get_optional [] oe_Href"

definition Error_GetHrefOk :: "openapi_error option \<Rightarrow> string option \<times> bool" where
  "Error_GetHrefOk = get_optional_ok oe_Href"

definition Error_HasHref :: "openapi_error option \<Rightarrow> bool" where
  "Error_HasHref = has_optional oe_Href"

definition Error_SetHref :: "string \<Rightarrow> openapi_error option \<Rightarrow> openapi_error go" where
  "Error_SetHref = set_optional (\<lambda>v r. r\<lparr>oe_Href := v\<rparr>)"

interpretation Error_Href: optional_field "oe_Href :: openapi_error \<Rightarrow> string option" "\<lambda>v r. r\<lparr>oe_Href := v\<rparr>"
  by unfold_locales simp

definition Error_GetCreatedAt :: "openapi_error option \<Rightarrow> time" where
  "Error_GetCreatedAt = get_optional 0 oe_CreatedAt"

definition Error_GetCreatedAtOk :: "openapi_error option \<Rightarrow> time option \<times> bool" where
  "Error_GetCreatedAtOk = get_optional_ok oe_CreatedAt"

definition Error_HasCreatedAt :: "openapi_error option \<Rightarrow> bool" where
  "Error_HasCreatedAt = has_optional oe_CreatedAt"

definition Error_SetCreatedAt :: "time \<Rightarrow> openapi_error option \<Rightarrow> openapi_error go" where
  "Error_SetCreatedAt = set_optional (\<lambda>v r. r\<lparr>oe_CreatedAt := v\<rparr>)"

interpretation Error_CreatedAt: optional_field "oe_CreatedAt :: openapi_error \<Rightarrow> time option" "\<lambda>v r. r\<lparr>oe_CreatedAt := v\<rparr>"
  by unfold_locales simp

definition Error_GetUpdatedAt :: "openapi_error option \<Rightarrow> time" where
  "Error_GetUpdatedAt = get_optional 0 oe_UpdatedAt"

definition Error_GetUpdatedAtOk :: "openapi_error option \<Rightarrow> time option \<times> bool" where
  "Error_GetUpdatedAtOk = get_optional_ok oe_UpdatedAt"

definition Error_HasUpdatedAt :: "openapi_error option \<Rightarrow> bool" where
  "Error_HasUpdatedAt = has_optional oe_UpdatedAt"

definition Error_SetUpdatedAt :: "time \<Rightarrow> openapi_error option \<Rightarrow> openapi_error go" where
  "Error_SetUpdatedAt = set_optional (\<lambda>v r. r\<lparr>oe_UpdatedAt := v\<rparr>)"

interpretation Error_UpdatedAt: optional_field "oe_UpdatedAt :: openapi_error \<Rightarrow> time option" "\<lambda>v r. r\<lparr>oe_UpdatedAt := v\<rparr>"
  by unfold_locales simp

definition Error_GetCode :: "openapi_error option \<Rightarrow> string" where
  "Error_GetCode = get_optional [] oe_Code"

definition Error_GetCodeOk :: "openapi_error option \<Rightarrow> string option \<times> bool" where
  "Error_GetCodeOk = get_optional_ok oe_Code"

definition Error_HasCode :: "openapi_error option \<Rightarrow> bool" where
  "Error_HasCode = has_optional oe_Code"

definition Error_SetCode :: "string \<Rightarrow> openapi_error option \<Rightarrow> openapi_error go" where
  "Error_SetCode = set_optional (\<lambda>v r. r\<lparr>oe_Code := v\<rparr>)"

interpretation Error_Code: optional_field "oe_Code :: openapi_error \<Rightarrow> string option" "\<lambda>v r. r\<lparr>oe_Code := v\<rparr>"
  by unfold_locales simp

definition Error_GetReason :: "openapi_error option \<Rightarrow> string" where
  "Error_GetReason = get_optional [] oe_Reason"

definition Error_GetReasonOk :: "openapi_error option \<Rightarrow> string option \<times> bool" where
  "Error_GetReasonOk = get_optional_ok oe_Reason"

definition Error_HasReason :: "openapi_error option \<Rightarrow> bool" where
  "Error_HasReason = has_optional oe_Reason"

definition Error_SetReason :: "string \<Rightarrow> openapi_error option \<Rightarrow> openapi_error go" where
  "Error_SetReason = set_optional (\<lambda>v r. r\<lparr>oe_Reason := v\<rparr>)"

interpretation Error_Reason: optional_field "oe_Reason :: openapi_error \<Rightarrow> string option" "\<lambda>v r. r\<lparr>oe_Reason := v\<rparr>"
  by unfold_locales simp

definition Error_GetOperationId :: "openapi_error option \<Rightarrow> string" where
  "Error_GetOperationId = get_optional [] oe_OperationId"

definition Error_GetOperationIdOk :: "openapi_error option \<Rightarrow> string option \<times> bool" where
  "Error_GetOperationIdOk = get_optional_ok oe_OperationId"

definition Error_HasOperationId :: "openapi_error option \<Rightarrow> bool" where
  "Error_HasOperationId = has_optional oe_OperationId"

definition Error_SetOperationId :: "string \<Rightarrow> openapi_error option \<Rightarrow> openapi_error go" where
  "Error_SetOperationId = set_optional (\<lambda>v r. r\<lparr>oe_OperationId := v\<rparr>)"

interpretation Error_OperationId: optional_field "oe_OperationId :: openapi_error \<Rightarrow> string option" "\<lambda>v r. r\<lparr>oe_OperationId := v\<rparr>"
  by unfold_locales simp

section \<open>model\_object\_reference.go\<close>

definition ObjectReference_GetId :: "object_reference option \<Rightarrow> string" where
  "ObjectReference_GetId = get_optional [] orId"

definition ObjectReference_GetIdOk :: "object_reference option \<Rightarrow> string option \<times> bool" where
  "ObjectReference_GetIdOk = get_optional_ok orId"

definition ObjectReference_HasId :: "object_reference option \<Rightarrow> bool" where
  "ObjectReference_HasId = has_optional orId"

definition ObjectReference_SetId :: "string \<Rightarrow> object_reference option \<Rightarrow> object_reference go" where
  "ObjectReference_SetId = set_optional (\<lambda>v r. r\<lparr>orId := v\<rparr>)"

interpretation ObjectReference_Id: optional_field "orId :: object_reference \<Rightarrow> string option" "\<lambda>v r. r\<lparr>orId := v\<rparr>"
  by unfold_locales simp

definition ObjectReference_GetKind :: "object_reference option \<Rightarrow> string" where
  "ObjectReference_GetKind = get_optional [] orKind"

definition ObjectReference_GetKindOk :: "object_reference option \<Rightarrow> string option \<times> bool" where
  "ObjectReference_GetKindOk = get_optional_ok orKind"

definition ObjectReference_HasKind :: "object_reference option \<Rightarrow> bool" where
  "ObjectReference_HasKind = has_optional orKind"

definition ObjectReference_SetKind :: "string \<Rightarrow> object_reference option \<Rightarrow> object_reference go" where
  "ObjectReference_SetKind = set_optional (\<lambda>v r. r\<lparr>orKind := v\<rparr>)"

interpretation ObjectReference_Kind: optional_field "orKind :: object_reference \<Rightarrow> string option" "\<lambda>v r. r\<lparr>orKind := v\<rparr>"
  by unfold_locales simp

definition ObjectReference_GetHref :: "object_reference option \<Rightarrow> string" where
  "ObjectReference_GetHref = get_optional [] orHref"

definition ObjectReference_GetHrefOk :: "object_reference option \<Rightarrow> string option \<times> bool" where
  "ObjectReference_GetHrefOk = get_optional_ok orHref"

definition ObjectReference_HasHref :: "object_reference option \<Rightarrow> bool" where
  "ObjectReference_HasHref = has_optional orHref"

definition ObjectReference_SetHref :: "string \<Rightarrow> object_reference option \<Rightarrow> object_reference go" where
  "ObjectReference_SetHref = set_optional (\<lambda>v r. r\<lparr>orHref := v\<rparr>)"

interpretation ObjectReference_Href: optional_field "orHref :: object_reference \<Rightarrow> string option" "\<lambda>v r. r\<lparr>orHref := v\<rparr>"
  by unfold_locales simp

definition ObjectReference_GetCreatedAt :: "object_reference option \<Rightarrow> time" where
  "ObjectReference_GetCreatedAt = get_optional 0 orCreatedAt"

definition ObjectReference_GetCreatedAtOk :: "object_reference option \<Rightarrow> time option \<times> bool" where
  "ObjectReference_GetCreatedAtOk = get_optional_ok orCreatedAt"

definition ObjectReference_HasCreatedAt :: "object_reference option \<Rightarrow> bool" where
  "ObjectReference_HasCreatedAt = has_optional orCreatedAt"

definition ObjectReference_SetCreatedAt :: "time \<Rightarrow> object_reference option \<Rightarrow> object_reference go" where
  "ObjectReference_SetCreatedAt = set_optional (\<lambda>v r. r\<lparr>orCreatedAt := v\<rparr>)"

interpretation ObjectReference_CreatedAt: optional_field "orCreatedAt :: object_reference \<Rightarrow> time option" "\<lambda>v r. r\<lparr>orCreatedAt := v\<rparr>"
  by unfold_locales simp

definition ObjectReference_GetUpdatedAt :: "object_reference option \<Rightarrow> time" where
  "ObjectReference_GetUpdatedAt = get_optional 0 orUpdatedAt"

definition ObjectReference_GetUpdatedAtOk :: "object_reference option \<Rightarrow> time option \<times> bool" where
  "ObjectReference_GetUpdatedAtOk = get_optional_ok orUpdatedAt"

definition ObjectReference_HasUpdatedAt :: "object_reference option \<Rightarrow> bool" where
  "ObjectReference_HasUpdatedAt = has_optional orUpdatedAt"

definition ObjectReference_SetUpdatedAt :: "time \<Rightarrow> object_reference option \<Rightarrow> object_reference go" where
  "ObjectReference_SetUpdatedAt = set_optional (\<lambda>v r. r\<lparr>orUpdatedAt := v\<rparr>)"

interpretation ObjectReference_UpdatedAt: optional_field "orUpdatedAt :: object_reference \<Rightarrow> time option" "\<lambda>v r. r\<lparr>orUpdatedAt := v\<rparr>"
  by unfold_locales simp

text \<open>A dinosaur that was given an identifier has it.\<close>

lemmas Dinosaur_id_set = Dinosaur_Id.set_then_get
  [folded Dinosaur_SetId_def Dinosaur_GetIdOk_def Dinosaur_HasId_def]

end
