(* ===== verification/Spec2Isabelle.thy ===== *)
theory Spec2Isabelle
  imports Lock_Protocol Generic_Dao App_System Generator Api_Server Container_Factory Client_Server Openapi_Accessors
begin

text \<open>
  TRex is a Go service with one resource, the dinosaur, kept as the template of others, and with the
  generator that writes such a resource. A request passes the middleware of its route (operation id,
  request log, metrics, transaction, authentication), reaches a handler that validates it and runs an
  action of a service; the service takes an advisory lock in PostgreSQL where it changes a row, uses a
  DAO over GORM, and records an event. A trigger notifies the controllers of the event; one of the
  replicas handles it under the event's advisory lock and marks it reconciled. The environments put
  these parts together from a configuration, and the commands start the servers.

  \<^bold>\<open>Conventions.\<close> A function that may panic is a value of \<open>go\<close> or, when it changes a state, a
  procedure of \<open>Go_Proc\<close>, whose outcome is \<open>Done\<close>, \<open>Panicked\<close> or \<open>Blocked\<close> and whose
  state survives a panic; Go's \<^verbatim>\<open>defer\<close> is \<open>run_defer\<close>. An error result is the left of a
  sum or an option. Structs are records, a pointer that may be nil an option, an integer that
  may overflow is wrapped to 64 bits by \<open>wrap64\<close> (the hash of a lock is a 32-bit word), Go's ranging
  over a map takes its order from a parameter. Calls of \<^verbatim>\<open>glog\<close> appear where their text
  matters. All loops of the code are structural recursions here, except the walks over a
  search tree, which recurse on its size, the listener's rounds, which run over the list of what the
  database sends, and the waiting of the test factory, whose number of attempts is what the list of
  answers allows and whose outcome is \<open>Blocked\<close> when it never gets one. Only the parser of JSON has a
  bound, on the depth of its recursion, taken from the length of the text; \<open>parse_json_bound\<close> shows that
  it suffices.

  \<^bold>\<open>The theories\<close>, from the bottom up:
    \<^item> \<open>Go_Prelude\<close>, \<open>Go_Proc\<close>: the language: strings, formatting, 64-bit integers, panics, lists
      with keys; procedures, their composition, what a procedure keeps (\<open>keeps\<close>).
    \<^item> \<open>Service_Errors\<close>, \<open>Api_Types\<close>: \<^verbatim>\<open>pkg/errors\<close>, \<^verbatim>\<open>pkg/api\<close>, the
      presenters and \<^verbatim>\<open>pkg/util\<close>.
    \<^item> \<open>Slice_Filter\<close>: the projection of a list on the requested fields
      (\<^verbatim>\<open>pkg/api/presenters/slice_filter.go\<close>).
    \<^item> \<open>Http_Handlers\<close>: \<^verbatim>\<open>pkg/handlers\<close>: the four shapes of a handler.
    \<^item> \<open>Sql_Helpers\<close>, \<open>List_Service\<close>, \<open>Generic_Dao\<close>: lists: the arguments, the search language and
      its translation to SQL, ordering, paging, and the DAO (\<^verbatim>\<open>pkg/db/sql_helpers.go\<close>,
      \<^verbatim>\<open>pkg/services\<close>, \<^verbatim>\<open>pkg/dao\<close>).
    \<^item> \<open>Advisory_Locks\<close>, \<open>Lock_Protocol\<close>: \<^verbatim>\<open>pkg/db/advisory_locks.go\<close> as functions, and its
      callers interleaved in any order as the step relation \<open>proto_step\<close>.
    \<^item> \<open>Transactions\<close>: the transaction of a request and its middleware (\<^verbatim>\<open>pkg/db\<close>).
    \<^item> \<open>Events\<close>: the event DAO and service.
    \<^item> \<open>Dinosaurs\<close>, \<open>Dinosaur_Env\<close>, \<open>Dinosaur_Service\<close>, \<open>Dinosaur_Handlers\<close>:
      \<^verbatim>\<open>plugins/dinosaurs\<close>: the model and the DAO, the interfaces the service is written
      against, the service with its three locking modes, the handlers.
    \<^item> \<open>Go_Json\<close>, \<open>Net_Url\<close>, \<open>Openapi_Models\<close>, \<open>Openapi_Accessors\<close>, \<open>Openapi_Client\<close>: what is used
      of \<^verbatim>\<open>encoding/json\<close> and \<^verbatim>\<open>net/url\<close>, and on it the models of
      \<^verbatim>\<open>pkg/api/openapi\<close>, their JSON and their accessors, and the generated client.
    \<^item> \<open>Client_Server\<close>: the client against the handlers, with what \<^verbatim>\<open>net/http\<close> carries.
    \<^item> \<open>Kind_Controllers\<close>, \<open>App_System\<close>: \<^verbatim>\<open>pkg/controllers\<close> and the listener; calls of the
      service and handled events in any order as the step relation \<open>app_step\<close>.
    \<^item> \<open>App_Config\<close>, \<open>Trex_Config\<close>, \<open>Session_Factory\<close>, \<open>Container_Factory\<close>, \<open>Environments\<close>:
      \<^verbatim>\<open>pkg/config\<close>, \<^verbatim>\<open>pkg/trex\<close>, the session factories and migrations of
      \<^verbatim>\<open>pkg/db\<close>, \<^verbatim>\<open>pkg/environments\<close> and \<^verbatim>\<open>pkg/registry\<close>.
    \<^item> \<open>Request_Logging\<close>, \<open>Auth\<close>, \<open>Http_Servers\<close>, \<open>Api_Server\<close>: \<^verbatim>\<open>pkg/logger\<close>,
      \<^verbatim>\<open>pkg/auth\<close>, \<^verbatim>\<open>pkg/client/ocm\<close>, \<^verbatim>\<open>pkg/server\<close> and the
      commands, up to the table of routes and the running of one.
    \<^item> \<open>Generator\<close>: \<^verbatim>\<open>scripts/generator.go\<close>.

  \<^bold>\<open>Parameters and laws.\<close> What is not in the repository is an argument: PostgreSQL's advisory locks
  (\<open>pg_lib\<close>), GORM on a table (\<open>gorm_table\<close>), \<^verbatim>\<open>database/sql\<close> (\<open>sql_lib\<close>,
  \<open>sql_driver\<close>), the parser of the search language (\<open>tsl_lib\<close>), the OCM and Sentry SDKs, containers,
  the file system, the clock and the supply of identifiers. Hypotheses state what their documentation
  promises (\<open>pg_laws\<close>, \<open>table_law\<close>, \<open>table_frame\<close>, \<open>exec_law\<close>, \<open>container_law\<close>, \<open>json_law\<close>,
  \<open>url_law\<close>, \<open>delivers\<close> and others), and
  each property that needs one has a witness with a concrete instance. The interfaces inside the
  program (lock factory, DAO, event service, services) are locales, interpreted on the models of the
  SQL implementations.

  \<^bold>\<open>What is shown.\<close> For the locks: mutual exclusion under any interleaving, refinement of an abstract
  mutex, exactness of the map of locks. For the search: every statement sent to the database only
  contains permitted columns and declared joins. For the service: the effect of each operation on the
  rows and the events, on every branch, and the locks it returns. For the system of service and
  controllers: its invariant over all histories. For a request: the statuses each handler can answer,
  that a request without a token does not reach a handler, that its transaction is resolved once. For
  the client: that a creation and a list pass through the escaping, the encoding and the decoding on
  both sides unchanged, so that the client gets what the service did. For
  the configuration, the environments and the factories: what initialization establishes. For the
  generator: termination, the files it writes, and the inverses of its naming and parsing.

  \<^bold>\<open>Not modelled.\<close> Of the generated client the Nullable wrappers of the models and the forms
  and files that no operation has; the generated data in \<^verbatim>\<open>data/generated\<close>; build information and identifiers
  (\<^verbatim>\<open>version.go\<close>, \<^verbatim>\<open>resource_id.go\<close>), which are calls of the runtime and of a
  library; the example program in \<^verbatim>\<open>cmd/trex\<close> and the project template, which only call
  what is modelled; the helpers of the integration tests; the cobra commands themselves; the matching
  of gorilla/mux, stopping a server, and the registration of collectors with Prometheus.
\<close>

end
